(* ===== verification/Prelude.thy ===== *)
theory Prelude
  imports Main "HOL-Library.Sublist" "HOL-Library.Char_ord" "HOL-Library.List_Lexorder"
    "HOL-Library.Product_Lexorder" "HOL-Library.Multiset"
begin

text \<open>
  Shared vocabulary of the development: the Python values that the scripts of the repository
  manipulate (strings, insertion-ordered dictionaries, finite floats, exceptions), the string
  and path operations they call, and the generic lemmas on them.

  Strings are lists of characters (code points below 256).  An exception is the left summand
  of a \<open>result\<close>; a Python function that can raise returns such a sum.
\<close>

section \<open>Collections of simplification rules\<close>

named_theorems pystr_simps \<open>evaluation rules of the Python string operations\<close>
named_theorems result_simps \<open>evaluation rules of the exception monad\<close>

section \<open>Exceptions\<close>

datatype py_error =
    IndexError
  | KeyError
  | ValueError
  | TypeError
  | AttributeError
  | AssertionError
  | UnboundLocalError
  | NameError
  | NotImplementedError
  | FileNotFoundError
  | IsADirectoryError
  | FileExistsError
  | RuntimeError
  | CalledProcessError int
  | PlainException string
  | WafError string
  | SystemExit int
  | Unsupported

type_synonym 'a result = "py_error + 'a"

definition bind_result :: "'a result \<Rightarrow> ('a \<Rightarrow> 'b result) \<Rightarrow> 'b result" where
  "bind_result m f = (case m of Inl e \<Rightarrow> Inl e | Inr x \<Rightarrow> f x)"

definition map_result :: "('a \<Rightarrow> 'b) \<Rightarrow> 'a result \<Rightarrow> 'b result" where
  "map_result f m = (case m of Inl e \<Rightarrow> Inl e | Inr x \<Rightarrow> Inr (f x))"

fun mapM_result :: "('a \<Rightarrow> 'b result) \<Rightarrow> 'a list \<Rightarrow> 'b list result" where
  "mapM_result f [] = Inr []"
| "mapM_result f (x # xs) =
     bind_result (f x) (\<lambda>y. bind_result (mapM_result f xs) (\<lambda>ys. Inr (y # ys)))"

fun foldM_result :: "('b \<Rightarrow> 'a \<Rightarrow> 'b result) \<Rightarrow> 'b \<Rightarrow> 'a list \<Rightarrow> 'b result" where
  "foldM_result f s [] = Inr s"
| "foldM_result f s (x # xs) = bind_result (f s x) (\<lambda>s'. foldM_result f s' xs)"

lemma bind_result_simps [simp, result_simps]:
  "bind_result (Inl e) f = Inl e"
  "bind_result (Inr x) f = f x"
  by (simp_all add: bind_result_def)

lemma map_result_simps [simp, result_simps]:
  "map_result f (Inl e) = Inl e"
  "map_result f (Inr x) = Inr (f x)"
  by (simp_all add: map_result_def)

lemma bind_result_eq_Inr [simp]:
  "bind_result m f = Inr y \<longleftrightarrow> (\<exists>x. m = Inr x \<and> f x = Inr y)"
  by (cases m) auto

lemma bind_resultE:
  assumes "bind_result m f = Inr y"
  obtains x where "m = Inr x" "f x = Inr y"
  using assms by auto

lemma bind_result_eq_Inl:
  "bind_result m f = Inl e \<longleftrightarrow> m = Inl e \<or> (\<exists>x. m = Inr x \<and> f x = Inl e)"
  by (cases m) auto

lemma map_result_eq_Inr [simp]:
  "map_result f m = Inr y \<longleftrightarrow> (\<exists>x. m = Inr x \<and> y = f x)"
  by (cases m) auto

lemma bind_result_assoc:
  "bind_result (bind_result m f) g = bind_result m (\<lambda>x. bind_result (f x) g)"
  by (cases m) auto

lemma mapM_result_Inr:
  assumes "\<And>x. x \<in> set xs \<Longrightarrow> f x = Inr (g x)"
  shows "mapM_result f xs = Inr (map g xs)"
  using assms by (induction xs) auto

lemma mapM_result_length: "mapM_result f xs = Inr ys \<Longrightarrow> length ys = length xs"
  by (induction xs arbitrary: ys) auto

lemma foldM_result_append:
  "foldM_result f s (xs @ ys) = bind_result (foldM_result f s xs) (\<lambda>s'. foldM_result f s' ys)"
  by (induction xs arbitrary: s) (auto simp: bind_result_assoc)

lemma foldM_result_invariant:
  assumes "foldM_result f s xs = Inr t" and "I s"
    and "\<And>s x s'. x \<in> set xs \<Longrightarrow> I s \<Longrightarrow> f s x = Inr s' \<Longrightarrow> I s'"
  shows "I t"
  using assms by (induction xs arbitrary: s) auto

section \<open>Python strings\<close>

definition nl :: string where "nl = [CHR 0x0A]"

definition dquote :: string where "dquote = [CHR 0x22]"

definition is_space :: "char \<Rightarrow> bool" where
  "is_space c \<longleftrightarrow> c \<in> set [CHR 0x20, CHR 0x09, CHR 0x0A, CHR 0x0B, CHR 0x0C, CHR 0x0D,
                            CHR 0x1C, CHR 0x1D, CHR 0x1E, CHR 0x1F, CHR 0x85, CHR 0xA0]"

definition startswith :: "string \<Rightarrow> string \<Rightarrow> bool" where
  "startswith s p = prefix p s"

definition endswith :: "string \<Rightarrow> string \<Rightarrow> bool" where
  "endswith s p = prefix (rev p) (rev s)"

text \<open>\<open>s.find(p)\<close>, with \<open>None\<close> for Python's \<open>-1\<close>.\<close>

fun find_str :: "string \<Rightarrow> string \<Rightarrow> nat option" where
  "find_str p [] = (if p = [] then Some 0 else None)"
| "find_str p (x # xs) =
     (if prefix p (x # xs) then Some 0 else map_option Suc (find_str p xs))"

definition contains :: "string \<Rightarrow> string \<Rightarrow> bool" where
  "contains s p \<longleftrightarrow> find_str p s \<noteq> None"

definition lstrip :: "string \<Rightarrow> string" where
  "lstrip s = dropWhile is_space s"

definition rstrip :: "string \<Rightarrow> string" where
  "rstrip s = rev (dropWhile is_space (rev s))"

definition strip :: "string \<Rightarrow> string" where
  "strip s = rstrip (lstrip s)"

definition rstrip_char :: "char \<Rightarrow> string \<Rightarrow> string" where
  "rstrip_char c s = rev (dropWhile (\<lambda>x. x = c) (rev s))"

text \<open>\<open>s.split(c)\<close> for a separator of one character.\<close>

fun split_char :: "char \<Rightarrow> string \<Rightarrow> string list" where
  "split_char c [] = [[]]"
| "split_char c (x # xs) =
     (if x = c then [] # split_char c xs
      else (case split_char c xs of [] \<Rightarrow> [[x]] | y # ys \<Rightarrow> (x # y) # ys))"

text \<open>\<open>s.split(c, 1)\<close>: one part, or the two parts around the first separator.\<close>

definition split_once :: "char \<Rightarrow> string \<Rightarrow> string list" where
  "split_once c s =
     (if c \<in> set s then [takeWhile (\<lambda>x. x \<noteq> c) s, tl (dropWhile (\<lambda>x. x \<noteq> c) s)] else [s])"

text \<open>\<open>s.split(sep)\<close> and \<open>s.replace(old, new)\<close> for a non-empty separator of any length;
  the counter skips the rest of a matched occurrence.\<close>

fun split_str_aux :: "string \<Rightarrow> nat \<Rightarrow> string \<Rightarrow> string list" where
  "split_str_aux sep k [] = [[]]"
| "split_str_aux sep (Suc k) (x # xs) = split_str_aux sep k xs"
| "split_str_aux sep 0 (x # xs) =
     (if prefix sep (x # xs) then [] # split_str_aux sep (length sep - 1) xs
      else (case split_str_aux sep 0 xs of [] \<Rightarrow> [[x]] | y # ys \<Rightarrow> (x # y) # ys))"

definition split_str :: "string \<Rightarrow> string \<Rightarrow> string list" where
  "split_str sep s = split_str_aux sep 0 s"

fun replace_aux :: "string \<Rightarrow> string \<Rightarrow> nat \<Rightarrow> string \<Rightarrow> string" where
  "replace_aux old new k [] = []"
| "replace_aux old new (Suc k) (x # xs) = replace_aux old new k xs"
| "replace_aux old new 0 (x # xs) =
     (if prefix old (x # xs) then new @ replace_aux old new (length old - 1) xs
      else x # replace_aux old new 0 xs)"

definition replace_str :: "string \<Rightarrow> string \<Rightarrow> string \<Rightarrow> string" where
  "replace_str old new s = replace_aux old new 0 s"

fun join_str :: "string \<Rightarrow> string list \<Rightarrow> string" where
  "join_str sep [] = []"
| "join_str sep [x] = x"
| "join_str sep (x # y # zs) = x @ sep @ join_str sep (y # zs)"

definition upper_char :: "char \<Rightarrow> char" where
  "upper_char c =
     (if CHR ''a'' \<le> c \<and> c \<le> CHR ''z'' then char_of ((of_char c :: nat) - 32) else c)"

definition lower_char :: "char \<Rightarrow> char" where
  "lower_char c =
     (if CHR ''A'' \<le> c \<and> c \<le> CHR ''Z'' then char_of ((of_char c :: nat) + 32) else c)"

definition upper :: "string \<Rightarrow> string" where "upper = map upper_char"

definition lower :: "string \<Rightarrow> string" where "lower = map lower_char"

text \<open>Iteration over a text file: each line with its newline, a last line without one.\<close>

fun lines_of :: "string \<Rightarrow> string list" where
  "lines_of [] = []"
| "lines_of (x # xs) =
     (if x = CHR 0x0A then [x] # lines_of xs
      else (case lines_of xs of [] \<Rightarrow> [[x]] | y # ys \<Rightarrow> (x # y) # ys))"

section \<open>Decimal numerals\<close>

definition digit_char :: "nat \<Rightarrow> char" where
  "digit_char d = char_of (48 + d)"

definition is_digit :: "char \<Rightarrow> bool" where
  "is_digit c \<longleftrightarrow> CHR ''0'' \<le> c \<and> c \<le> CHR ''9''"

definition digit_val :: "char \<Rightarrow> nat" where
  "digit_val c = of_char c - 48"

fun show_nat :: "nat \<Rightarrow> string" where
  "show_nat n = (if n < 10 then [digit_char n] else show_nat (n div 10) @ [digit_char (n mod 10)])"

declare show_nat.simps [simp del]

definition show_int :: "int \<Rightarrow> string" where
  "show_int i = (if i < 0 then CHR ''-'' # show_nat (nat (- i)) else show_nat (nat i))"

definition read_nat :: "string \<Rightarrow> nat" where
  "read_nat = foldl (\<lambda>n c. 10 * n + digit_val c) 0"

text \<open>\<open>int(s)\<close>: a sign, and digits with single underscores between them.\<close>

fun int_digits :: "bool \<Rightarrow> string \<Rightarrow> bool" where
  "int_digits after_digit [] = after_digit"
| "int_digits after_digit (c # cs) =
     (if is_digit c then int_digits True cs
      else c = CHR ''_'' \<and> after_digit \<and> int_digits False cs)"

definition py_int :: "string \<Rightarrow> int result" where
  "py_int s =
     (let t = strip s;
          u = (if t \<noteq> [] \<and> hd t \<in> {CHR ''+'', CHR ''-''} then tl t else t);
          n = int (read_nat (filter is_digit u))
      in if int_digits False u then Inr (if t \<noteq> [] \<and> hd t = CHR ''-'' then - n else n) else Inl ValueError)"

text \<open>A finite Python float is a dyadic rational: \<open>Dyadic m k\<close> is \<open>m / 2 ^ k\<close>.\<close>

datatype pyfloat = Dyadic int nat

text \<open>\<open>'%.<d>f' % x\<close>: the decimal with \<open>d\<close> fractional digits nearest to \<open>x\<close>, ties to even.
  The sign is kept, as C's \<open>printf\<close> keeps it, also for a value that rounds to zero.\<close>

definition scaled_half_even :: "nat \<Rightarrow> nat \<Rightarrow> nat \<Rightarrow> nat" where
  "scaled_half_even d m k =
     (let n = m * 10 ^ d; p = 2 ^ k; q = n div p; r = n mod p
      in if 2 * r < p then q else if 2 * r > p then q + 1 else if even q then q else q + 1)"

definition pad_left :: "nat \<Rightarrow> string \<Rightarrow> string" where
  "pad_left n s = replicate (n - length s) (CHR ''0'') @ s"

fun fmt_fixed :: "nat \<Rightarrow> pyfloat \<Rightarrow> string" where
  "fmt_fixed d (Dyadic m k) =
     (let q = scaled_half_even d (nat \<bar>m\<bar>) k;
          sign = (if m < 0 then ''-'' else []);
          whole = show_nat (q div 10 ^ d)
      in if d = 0 then sign @ whole
         else sign @ whole @ ''.'' @ pad_left d (show_nat (q mod 10 ^ d)))"

section \<open>POSIX paths\<close>

text \<open>\<open>os.path.join\<close> of two components and of several.\<close>

definition path_join :: "string \<Rightarrow> string \<Rightarrow> string" where
  "path_join a b =
     (if startswith b ''/'' then b
      else if a = [] \<or> endswith a ''/'' then a @ b
      else a @ ''/'' @ b)"

definition path_joins :: "string \<Rightarrow> string list \<Rightarrow> string" where
  "path_joins a bs = foldl path_join a bs"

text \<open>\<open>os.path.basename\<close>: what follows the last slash.  \<open>os.path.dirname\<close>: what precedes it,
  without trailing slashes unless it is slashes only.\<close>

definition basename :: "string \<Rightarrow> string" where
  "basename p = rev (takeWhile (\<lambda>c. c \<noteq> CHR ''/'') (rev p))"

definition dirname :: "string \<Rightarrow> string" where
  "dirname p =
     (let head = rev (dropWhile (\<lambda>c. c \<noteq> CHR ''/'') (rev p))
      in if head \<noteq> [] \<and> set head \<noteq> {CHR ''/''} then rstrip_char (CHR ''/'') head else head)"

definition path_split :: "string \<Rightarrow> string \<times> string" where
  "path_split p = (dirname p, basename p)"

text \<open>The root of \<open>os.path.splitext\<close>; leading dots of the name are no extension.\<close>

definition splitext_root :: "string \<Rightarrow> string" where
  "splitext_root p =
     (let name = basename p; ext = takeWhile (\<lambda>c. c \<noteq> CHR ''.'') (rev name);
          stem = take (length name - length ext - 1) name
      in if CHR ''.'' \<in> set name \<and> list_ex (\<lambda>c. c \<noteq> CHR ''.'') stem then take (length p - length ext - 1) p else p)"

text \<open>\<open>os.path.normpath\<close> and \<open>os.path.abspath\<close>.  Exactly two leading slashes are kept.\<close>

fun norm_comps :: "bool \<Rightarrow> string list \<Rightarrow> string list \<Rightarrow> string list" where
  "norm_comps rooted acc [] = rev acc"
| "norm_comps rooted acc (c # cs) =
     (if c = [] \<or> c = ''.'' then norm_comps rooted acc cs
      else if c \<noteq> ''..'' \<or> (\<not> rooted \<and> acc = []) \<or> (acc \<noteq> [] \<and> hd acc = ''..'')
      then norm_comps rooted (c # acc) cs
      else norm_comps rooted (tl acc) cs)"

definition normpath :: "string \<Rightarrow> string" where
  "normpath p =
     (if p = [] then ''.''
      else let lead = (if startswith p ''//'' \<and> \<not> startswith p ''///'' then ''//''
                       else if startswith p ''/'' then ''/'' else []);
               q = lead @ join_str ''/'' (norm_comps (lead \<noteq> []) [] (split_char (CHR ''/'') p))
           in if q = [] then ''.'' else q)"

definition abspath :: "string \<Rightarrow> string \<Rightarrow> string" where
  "abspath cwd p = normpath (path_join cwd p)"

section \<open>Files\<close>

text \<open>The part of the file system a script reads: a path is absent, a file with its text
  (newlines already translated, as Python's text mode does), or a directory.\<close>

datatype fnode = FileNode string | DirNode

type_synonym fs = "string \<Rightarrow> fnode option"

definition path_exists :: "fs \<Rightarrow> string \<Rightarrow> bool" where
  "path_exists fs p \<longleftrightarrow> fs p \<noteq> None"

definition read_file :: "fs \<Rightarrow> string \<Rightarrow> string result" where
  "read_file fs p = (case fs p of
       None \<Rightarrow> Inl FileNotFoundError
     | Some DirNode \<Rightarrow> Inl IsADirectoryError
     | Some (FileNode s) \<Rightarrow> Inr s)"

definition write_text :: "string \<Rightarrow> string \<Rightarrow> fs \<Rightarrow> fs result" where
  "write_text p text fs = (if fs p = Some DirNode then Inl IsADirectoryError else Inr (fs(p \<mapsto> FileNode text)))"

section \<open>Dictionaries\<close>

text \<open>A Python dictionary keeps its insertion order: an association list whose update
  overwrites in place and otherwise appends.\<close>

type_synonym ('k, 'v) dict = "('k \<times> 'v) list"

fun dict_set :: "'k \<Rightarrow> 'v \<Rightarrow> ('k, 'v) dict \<Rightarrow> ('k, 'v) dict" where
  "dict_set k v [] = [(k, v)]"
| "dict_set k v ((k', v') # d) = (if k' = k then (k, v) # d else (k', v') # dict_set k v d)"

definition dict_get :: "('k, 'v) dict \<Rightarrow> 'k \<Rightarrow> 'v option" where
  "dict_get d k = map_of d k"

definition dict_getitem :: "('k, 'v) dict \<Rightarrow> 'k \<Rightarrow> 'v result" where
  "dict_getitem d k = (case dict_get d k of None \<Rightarrow> Inl KeyError | Some v \<Rightarrow> Inr v)"

definition dict_has :: "('k, 'v) dict \<Rightarrow> 'k \<Rightarrow> bool" where
  "dict_has d k \<longleftrightarrow> dict_get d k \<noteq> None"

definition dict_update :: "('k, 'v) dict \<Rightarrow> ('k, 'v) dict \<Rightarrow> ('k, 'v) dict" where
  "dict_update d e = foldl (\<lambda>acc kv. dict_set (fst kv) (snd kv) acc) d e"

definition dict_del :: "'k \<Rightarrow> ('k, 'v) dict \<Rightarrow> ('k, 'v) dict" where
  "dict_del k d = filter (\<lambda>kv. fst kv \<noteq> k) d"

definition dict_ok :: "('k, 'v) dict \<Rightarrow> bool" where
  "dict_ok d \<longleftrightarrow> distinct (map fst d)"

section \<open>Lemmas on strings\<close>

lemma startswith_append [simp, pystr_simps]: "startswith (p @ s) p"
  by (simp add: startswith_def)

lemma startswith_Nil [simp, pystr_simps]: "startswith s []"
  by (simp add: startswith_def)

lemma startswith_iff: "startswith s p \<longleftrightarrow> (\<exists>t. s = p @ t)"
  by (auto simp: startswith_def prefix_def)

lemma startswith_Cons_Cons [simp]: "startswith (x # xs) (y # ys) \<longleftrightarrow> x = y \<and> startswith xs ys"
  by (auto simp: startswith_def)

lemma startswith_Nil_Cons [simp]: "\<not> startswith [] (y # ys)"
  by (simp add: startswith_def)

lemma find_str_Some_iff:
  "find_str p s \<noteq> None \<longleftrightarrow> (\<exists>u v. s = u @ p @ v)"
proof (induction s)
  case Nil
  then show ?case by simp
next
  case (Cons x s)
  show ?case
  proof
    assume "find_str p (x # s) \<noteq> None"
    then consider "prefix p (x # s)" | "find_str p s \<noteq> None" by (auto split: if_splits)
    then show "\<exists>u v. x # s = u @ p @ v"
    proof cases
      case 1
      then show ?thesis by (metis append_Nil prefixE)
    next
      case 2
      with Cons.IH obtain u v where "s = u @ p @ v" by auto
      then have "x # s = (x # u) @ p @ v" by simp
      then show ?thesis by blast
    qed
  next
    assume "\<exists>u v. x # s = u @ p @ v"
    then obtain u v where uv: "x # s = u @ p @ v" by blast
    show "find_str p (x # s) \<noteq> None"
    proof (cases u)
      case Nil
      with uv have "prefix p (x # s)" by simp
      then show ?thesis by simp
    next
      case (Cons y u')
      with uv have "s = u' @ p @ v" by simp
      with Cons.IH have "find_str p s \<noteq> None" by blast
      then show ?thesis by auto
    qed
  qed
qed

lemma contains_iff: "contains s p \<longleftrightarrow> (\<exists>u v. s = u @ p @ v)"
  unfolding contains_def by (rule find_str_Some_iff)

lemma contains_self [simp]: "contains (u @ p @ v) p"
  by (auto simp: contains_iff)

lemma contains_char: "contains s [c] \<longleftrightarrow> c \<in> set s"
  by (auto simp: contains_iff in_set_conv_decomp)

lemma contains_sep:
  assumes "c \<notin> set p"
  shows "contains (u @ c # v) p \<longleftrightarrow> contains u p \<or> contains v p"
proof
  assume "contains (u @ c # v) p"
  then obtain x y where eq: "u @ c # v = x @ p @ y" by (auto simp: contains_iff)
  show "contains u p \<or> contains v p"
  proof (cases "length x + length p \<le> length u")
    case True
    have "take (length x + length p) (u @ c # v) = x @ p"
      using arg_cong [OF eq, of "take (length x + length p)"] by simp
    with True have "u = (x @ p) @ drop (length x + length p) u"
      by (metis append_take_drop_id append_eq_conv_conj diff_is_0_eq take0 take_append append_Nil2)
    then have "contains u p" by (metis append_assoc contains_self)
    then show ?thesis ..
  next
    case False
    have "\<not> length x \<le> length u"
    proof
      assume "length x \<le> length u"
      with False have "(u @ c # v) ! length u = p ! (length u - length x)"
        and "length u - length x < length p"
        by (auto simp: eq nth_append)
      then have "c \<in> set p" by (metis nth_append_length nth_mem)
      with assms show False by simp
    qed
    then have "drop (Suc (length u)) (u @ c # v) = drop (Suc (length u)) x @ p @ y"
      by (simp add: eq)
    then have "v = drop (Suc (length u)) x @ p @ y" by simp
    then have "contains v p" by (metis contains_self)
    then show ?thesis ..
  qed
next
  assume "contains u p \<or> contains v p"
  then show "contains (u @ c # v) p"
    unfolding contains_iff by (metis append.assoc append_Cons)
qed

lemma contains_Cons_sep: "c \<notin> set p \<Longrightarrow> p \<noteq> [] \<Longrightarrow> contains (c # v) p \<longleftrightarrow> contains v p"
  using contains_sep [of c p "[]" v] by (auto simp: contains_iff)

lemma contains_Nil: "contains [] p \<longleftrightarrow> p = []"
  by (auto simp: contains_iff)

lemma split_char_nonempty [simp]: "split_char c s \<noteq> []"
  by (cases s) (auto split: list.splits)

lemma split_char_join: "join_str [c] (split_char c s) = s"
proof (induction s)
  case Nil
  then show ?case by simp
next
  case (Cons x s)
  obtain y ys where "split_char c s = y # ys" by (cases "split_char c s") auto
  with Cons show ?case by (cases ys) auto
qed

lemma split_char_parts: "p \<in> set (split_char c s) \<Longrightarrow> c \<notin> set p"
  by (induction s arbitrary: p) (auto split: list.splits if_splits)

lemma split_char_no_sep: "c \<notin> set s \<Longrightarrow> split_char c s = [s]"
  by (induction s) auto

lemma split_char_append:
  "c \<notin> set p \<Longrightarrow> split_char c (p @ c # s) = p # split_char c s"
  by (induction p) auto

lemma split_char_join_parts:
  assumes "ps \<noteq> []" and "\<And>p. p \<in> set ps \<Longrightarrow> c \<notin> set p"
  shows "split_char c (join_str [c] ps) = ps"
  using assms
proof (induction ps rule: induct_list012)
  case (3 x y zs)
  then show ?case by (simp add: split_char_append)
qed (auto simp: split_char_no_sep)

lemma split_once_no_sep [simp]: "c \<notin> set s \<Longrightarrow> split_once c s = [s]"
  by (simp add: split_once_def)

lemma split_once_append [simp]:
  "c \<notin> set p \<Longrightarrow> split_once c (p @ c # s) = [p, s]"
proof -
  assume p: "c \<notin> set p"
  then have "takeWhile (\<lambda>x. x \<noteq> c) (p @ c # s) = p"
    by (subst takeWhile_append2) auto
  moreover from p have "dropWhile (\<lambda>x. x \<noteq> c) (p @ c # s) = c # s"
    by (subst dropWhile_append2) auto
  ultimately show ?thesis by (simp add: split_once_def)
qed

lemma split_once_join: "join_str [c] (split_once c s) = s"
proof (cases "c \<in> set s")
  case True
  then obtain p r where "s = p @ c # r" "c \<notin> set p" by (meson split_list_first)
  then show ?thesis by simp
qed simp

lemma join_str_append:
  "xs \<noteq> [] \<Longrightarrow> ys \<noteq> [] \<Longrightarrow> join_str sep (xs @ ys) = join_str sep xs @ sep @ join_str sep ys"
proof (induction xs rule: induct_list012)
  case (2 x)
  then show ?case by (cases ys) auto
qed auto

lemma dropWhile_hd_false: "xs = [] \<or> \<not> P (hd xs) \<Longrightarrow> dropWhile P xs = xs"
  by (cases xs) auto

lemma strip_id:
  assumes "s = [] \<or> (\<not> is_space (hd s) \<and> \<not> is_space (last s))"
  shows "strip s = s"
  using assms
  by (cases "s = []") (auto simp: strip_def lstrip_def rstrip_def dropWhile_hd_false hd_rev)

lemma lstrip_append_spaces: "list_all is_space u \<Longrightarrow> lstrip (u @ s) = lstrip s"
  unfolding lstrip_def by (subst dropWhile_append2) (auto simp: list_all_iff)

lemma rstrip_append_spaces: "list_all is_space u \<Longrightarrow> rstrip (s @ u) = rstrip s"
  unfolding rstrip_def by (simp, subst dropWhile_append2) (auto simp: list_all_iff)

lemma strip_surrounded:
  assumes "list_all is_space u" "list_all is_space v" "s \<noteq> []"
    "\<not> is_space (hd s)" "\<not> is_space (last s)"
  shows "strip (u @ s @ v) = s"
proof -
  have "lstrip (u @ s @ v) = s @ v"
    using assms by (simp add: lstrip_append_spaces) (simp add: lstrip_def dropWhile_hd_false)
  then show ?thesis
    using assms by (simp add: strip_def rstrip_append_spaces)
      (simp add: rstrip_def dropWhile_hd_false hd_rev)
qed

lemma concat_lines_of: "concat (lines_of s) = s"
  by (induction s) (auto split: list.splits)

lemma lines_of_nonempty: "s \<noteq> [] \<Longrightarrow> lines_of s \<noteq> []"
  by (cases s) (auto split: list.splits)

lemma lines_of_append_line:
  "CHR 0x0A \<notin> set l \<Longrightarrow> lines_of (l @ CHR 0x0A # s) = (l @ [CHR 0x0A]) # lines_of s"
  by (induction l) auto

lemma lines_of_concat:
  "(\<And>l. l \<in> set ls \<Longrightarrow> CHR 0x0A \<notin> set l) \<Longrightarrow>
   lines_of (concat (map (\<lambda>l. l @ [CHR 0x0A]) ls)) = map (\<lambda>l. l @ [CHR 0x0A]) ls"
  by (induction ls) (auto simp: lines_of_append_line)

section \<open>Lemmas on numerals\<close>

lemma digit_char_digit: "d < 10 \<Longrightarrow> is_digit (digit_char d)"
  by (simp add: is_digit_def digit_char_def less_eq_char_def)

lemma digit_val_char [simp]: "d < 10 \<Longrightarrow> digit_val (digit_char d) = d"
  by (simp add: digit_val_def digit_char_def)

lemma show_nat_digits: "\<forall>c \<in> set (show_nat n). is_digit c"
proof (induction n rule: show_nat.induct)
  case (1 n)
  then show ?case
    by (subst show_nat.simps) (auto simp: digit_char_digit)
qed

lemma show_nat_nonempty [simp]: "show_nat n \<noteq> []"
  by (subst show_nat.simps) simp

lemma read_nat_snoc: "read_nat (s @ [c]) = 10 * read_nat s + digit_val c"
  by (simp add: read_nat_def)

lemma read_show_nat [simp]: "read_nat (show_nat n) = n"
proof (induction n rule: show_nat.induct)
  case (1 n)
  show ?case
  proof (cases "n < 10")
    case True
    then show ?thesis by (subst show_nat.simps) (simp add: read_nat_def)
  next
    case False
    with 1 show ?thesis by (subst show_nat.simps) (simp add: read_nat_snoc)
  qed
qed

lemma show_nat_inj: "show_nat m = show_nat n \<longleftrightarrow> m = n"
  by (metis read_show_nat)

section \<open>Lemmas on paths\<close>

lemma basename_append_slash: "CHR ''/'' \<notin> set b \<Longrightarrow> basename (a @ CHR ''/'' # b) = b"
  unfolding basename_def by (simp, subst takeWhile_append2) auto

lemma basename_no_slash: "CHR ''/'' \<notin> set (basename p)"
  unfolding basename_def by (auto dest: set_takeWhileD)

lemma basename_id: "CHR ''/'' \<notin> set b \<Longrightarrow> basename b = b"
  unfolding basename_def by (subst takeWhile_eq_all_conv[THEN iffD2]) auto

lemma endswith_slash_iff: "endswith a ''/'' \<longleftrightarrow> a \<noteq> [] \<and> last a = CHR ''/''"
proof (cases a rule: rev_cases)
  case (snoc ys y)
  then show ?thesis by (auto simp: endswith_def)
qed (simp add: endswith_def)

lemma basename_path_join:
  assumes "CHR ''/'' \<notin> set b"
  shows "basename (path_join a b) = b"
proof -
  have nb: "\<not> startswith b ''/''" using assms by (auto simp: startswith_iff)
  show ?thesis
  proof (cases "a = [] \<or> endswith a ''/''")
    case True
    show ?thesis
    proof (cases "a = []")
      case True
      then show ?thesis using nb assms by (simp add: path_join_def basename_id)
    next
      case False
      with True obtain a' where "a = a' @ ''/''"
        by (metis append_butlast_last_id endswith_slash_iff)
      with True nb assms show ?thesis
        by (simp add: path_join_def basename_append_slash)
    qed
  next
    case False
    then show ?thesis using nb assms by (simp add: path_join_def basename_append_slash)
  qed
qed

section \<open>Lemmas on dictionaries\<close>

lemma dict_get_set [simp]:
  "dict_get (dict_set k v d) k' = (if k' = k then Some v else dict_get d k')"
  by (induction d) (auto simp: dict_get_def)

lemma dict_set_keys: "map fst (dict_set k v d) =
    (if k \<in> set (map fst d) then map fst d else map fst d @ [k])"
  by (induction d) (auto simp: rev_image_eqI)

lemma dict_ok_set [simp]: "dict_ok d \<Longrightarrow> dict_ok (dict_set k v d)"
  by (auto simp: dict_ok_def dict_set_keys simp del: map_append)

lemma dict_get_None_iff: "dict_get d k = None \<longleftrightarrow> k \<notin> fst ` set d"
  by (simp add: dict_get_def map_of_eq_None_iff)

lemma dict_update_Nil [simp]: "dict_update d [] = d"
  by (simp add: dict_update_def)

lemma dict_update_Cons [simp]:
  "dict_update d (kv # e) = dict_update (dict_set (fst kv) (snd kv) d) e"
  by (simp add: dict_update_def)

lemma dict_ok_update: "dict_ok d \<Longrightarrow> dict_ok (dict_update d e)"
  by (induction e arbitrary: d) auto

lemma dict_get_update:
  assumes "dict_ok e"
  shows "dict_get (dict_update d e) k = (case dict_get e k of None \<Rightarrow> dict_get d k | Some v \<Rightarrow> Some v)"
  using assms
proof (induction e arbitrary: d)
  case Nil
  then show ?case by (simp add: dict_get_def)
next
  case (Cons kv e)
  obtain k' v' where kv: "kv = (k', v')" by (cases kv)
  from Cons.prems have ok: "dict_ok e" and fresh: "dict_get e k' = None"
    by (auto simp: dict_ok_def dict_get_None_iff kv image_iff)
  show ?case
    using Cons.IH [OF ok] fresh dict_get_set [of k' v' d k]
    by (auto simp: kv dict_get_def simp del: dict_get_set split: option.splits)
qed

text \<open>The interface the clients of a dictionary rely on.\<close>

locale mapping_store =
  fixes store_get :: "'m \<Rightarrow> 'k \<Rightarrow> 'v option"
    and store_set :: "'k \<Rightarrow> 'v \<Rightarrow> 'm \<Rightarrow> 'm"
    and store_ok :: "'m \<Rightarrow> bool"
  assumes get_set: "store_get (store_set k v m) k' = (if k' = k then Some v else store_get m k')"
    and ok_set: "store_ok m \<Longrightarrow> store_ok (store_set k v m)"
begin

definition set_all :: "('k \<times> 'v) list \<Rightarrow> 'm \<Rightarrow> 'm" where
  "set_all kvs m = foldl (\<lambda>acc kv. store_set (fst kv) (snd kv) acc) m kvs"

lemma ok_set_all: "store_ok m \<Longrightarrow> store_ok (set_all kvs m)"
  by (induction kvs arbitrary: m) (auto simp: set_all_def ok_set)

lemma get_set_all_other:
  "k \<notin> fst ` set kvs \<Longrightarrow> store_get (set_all kvs m) k = store_get m k"
  by (induction kvs arbitrary: m) (auto simp: set_all_def get_set)

lemma set_set_commute:
  "k \<noteq> k' \<Longrightarrow> store_get (store_set k v (store_set k' v' m)) =
               store_get (store_set k' v' (store_set k v m))"
  by (rule ext) (simp add: get_set)

end

interpretation pydict: mapping_store dict_get dict_set dict_ok
  by unfold_locales auto

section \<open>Texts that are read back\<close>

text \<open>What a writer and a reader promise each other: the reader gives the meaning of every value that
  can be written.  The writers of the repository are interpreted with their readers below: printed
  lists, words, command lines and patch sets.\<close>

locale codec =
  fixes render :: "'a \<Rightarrow> 'b" and parse :: "'b \<Rightarrow> 'c result" and meaning :: "'a \<Rightarrow> 'c" and ok :: "'a \<Rightarrow> bool"
  assumes parse_render: "ok x \<Longrightarrow> parse (render x) = Inr (meaning x)"
begin

text \<open>Values with different meanings are written differently.\<close>

lemma render_determines: "ok x \<Longrightarrow> ok y \<Longrightarrow> render x = render y \<Longrightarrow> meaning x = meaning y"
  using parse_render [of x] parse_render [of y] by simp

lemma mapM_parse_render: "list_all ok xs \<Longrightarrow> mapM_result parse (map render xs) = Inr (map meaning xs)"
  by (induction xs) (simp_all add: parse_render)

end

end
