(* ===== verification/Py_Literal.thy ===== *)
theory Py_Literal
  imports Prelude
begin

text \<open>
  The fragment of Python expressions that the scripts of the repository pass to
  \<open>eval\<close>: string, boolean, number and \<open>None\<close> literals, lists and tuples of them, names
  of configuration variables, dictionaries, and one equality test between two of these (the run conditions
  of \<open>examples-to-run.py\<close>).  An expression outside the fragment evaluates to the error
  \<open>Unsupported\<close>.  \<open>py_repr\<close> is the other direction, Python's \<open>repr\<close>, for the same values.
\<close>

section \<open>Values and printing\<close>

datatype pyval =
    VNone
  | VBool bool
  | VInt int
  | VStr string
  | VList "pyval list"
  | VTuple "pyval list"
  | VDict "(pyval \<times> pyval) list"

text \<open>A string whose \<open>repr\<close> is the string between single quotes: printable ASCII without
  quote or backslash.\<close>

definition plain_char :: "char \<Rightarrow> bool" where
  "plain_char c \<longleftrightarrow> CHR 0x20 \<le> c \<and> c \<le> CHR 0x7E \<and> c \<noteq> CHR 0x27 \<and> c \<noteq> CHR 0x5C"

definition plain :: "string \<Rightarrow> bool" where
  "plain s \<longleftrightarrow> list_all plain_char s"

definition repr_str :: "string \<Rightarrow> string" where
  "repr_str s = CHR 0x27 # s @ [CHR 0x27]"

text \<open>\<open>str(l)\<close> of a list of plain strings.\<close>

definition repr_str_list :: "string list \<Rightarrow> string" where
  "repr_str_list xs = ''['' @ join_str '', '' (map repr_str xs) @ '']''"

section \<open>Tokens\<close>

datatype bracket = BTop | BList | BParen | BDict

datatype tok =
    TVal pyval
  | TName string
  | TOpen bracket
  | TClose bracket
  | TComma
  | TColon
  | TEq

definition is_ident_start :: "char \<Rightarrow> bool" where
  "is_ident_start c \<longleftrightarrow>
     (CHR ''a'' \<le> c \<and> c \<le> CHR ''z'') \<or> (CHR ''A'' \<le> c \<and> c \<le> CHR ''Z'') \<or> c = CHR ''_''"

definition is_ident_char :: "char \<Rightarrow> bool" where
  "is_ident_char c \<longleftrightarrow> is_ident_start c \<or> is_digit c"

definition name_tok :: "string \<Rightarrow> tok" where
  "name_tok s =
     (if s = ''True'' then TVal (VBool True)
      else if s = ''False'' then TVal (VBool False)
      else if s = ''None'' then TVal VNone
      else TName s)"

text \<open>The lexer is a character machine: between tokens, inside a string delimited by a quote,
  inside a name, inside a number, or after the first sign of an equality.  The number is the
  bracket depth: a line break separates tokens inside brackets only.\<close>

datatype lex_state =
    LNone
  | LStr char string
  | LName string
  | LNum string
  | LEq

definition lex_flush :: "lex_state \<Rightarrow> tok list" where
  "lex_flush st = (case st of
       LName s \<Rightarrow> [name_tok s]
     | LNum s \<Rightarrow> [TVal (VInt (int (read_nat s)))]
     | _ \<Rightarrow> [])"

text \<open>A character read between tokens: the tokens it completes, the next state, the depth.\<close>

definition lex_start :: "nat \<Rightarrow> char \<Rightarrow> (tok list \<times> lex_state \<times> nat) option" where
  "lex_start d c =
     (if c = CHR 0x27 \<or> c = CHR 0x22 then Some ([], LStr c [], d)
      else if c = CHR ''['' then Some ([TOpen BList], LNone, Suc d)
      else if c = CHR ''('' then Some ([TOpen BParen], LNone, Suc d)
      else if c = CHR '']'' then Some ([TClose BList], LNone, d - 1)
      else if c = CHR '')'' then Some ([TClose BParen], LNone, d - 1)
      else if c = CHR ''{'' then Some ([TOpen BDict], LNone, Suc d)
      else if c = CHR ''}'' then Some ([TClose BDict], LNone, d - 1)
      else if c = CHR '','' then Some ([TComma], LNone, d)
      else if c = CHR '':'' then Some ([TColon], LNone, d)
      else if c = CHR ''='' then Some ([], LEq, d)
      else if c = CHR 0x20 \<or> c = CHR 0x09 \<or> c = CHR 0x0C then Some ([], LNone, d)
      else if c = CHR 0x0A \<and> 0 < d then Some ([], LNone, d)
      else if is_digit c then Some ([], LNum [c], d)
      else if is_ident_start c then Some ([], LName [c], d)
      else None)"

fun lex_step :: "lex_state \<Rightarrow> nat \<Rightarrow> char \<Rightarrow> (tok list \<times> lex_state \<times> nat) option" where
  "lex_step LNone d c = lex_start d c"
| "lex_step (LStr q s) d c =
     (if c = q then Some ([TVal (VStr s)], LNone, d)
      else if c = CHR 0x5C \<or> c = CHR 0x0A then None
      else Some ([], LStr q (s @ [c]), d))"
| "lex_step (LName s) d c =
     (if is_ident_char c then Some ([], LName (s @ [c]), d)
      else if c = CHR 0x27 \<or> c = CHR 0x22 then None
      else map_option (\<lambda>(ts, st, d'). (lex_flush (LName s) @ ts, st, d')) (lex_start d c))"
| "lex_step (LNum s) d c =
     (if is_digit c then Some ([], LNum (s @ [c]), d)
      else if is_ident_char c then None
      else map_option (\<lambda>(ts, st, d'). (lex_flush (LNum s) @ ts, st, d')) (lex_start d c))"
| "lex_step LEq d c = (if c = CHR ''='' then Some ([TEq], LNone, d) else None)"

fun lex_chars :: "lex_state \<Rightarrow> nat \<Rightarrow> string \<Rightarrow> tok list option" where
  "lex_chars st d [] = (case st of LStr _ _ \<Rightarrow> None | LEq \<Rightarrow> None | _ \<Rightarrow> Some (lex_flush st))"
| "lex_chars st d (c # cs) =
     (case lex_step st d c of
        None \<Rightarrow> None
      | Some (ts, st', d') \<Rightarrow> map_option (\<lambda>us. ts @ us) (lex_chars st' d' cs))"

section \<open>Displays\<close>

text \<open>A frame is an open bracket with the items read so far, whether an item was just read, and
  whether a comma was seen.  The items of a dictionary are its keys and values in turn.\<close>

record frame =
  f_kind :: bracket
  f_items :: "pyval list"
  f_after :: bool
  f_comma :: bool

definition open_frame :: "bracket \<Rightarrow> frame" where
  "open_frame b = \<lparr>f_kind = b, f_items = [], f_after = False, f_comma = False\<rparr>"

fun push_item :: "pyval \<Rightarrow> frame list \<Rightarrow> frame list option" where
  "push_item v [] = None"
| "push_item v (f # fs) =
     (if f_after f then None
      else Some (f\<lparr>f_items := f_items f @ [v], f_after := True\<rparr> # fs))"

fun pair_up :: "'a list \<Rightarrow> ('a \<times> 'a) list" where
  "pair_up (k # v # xs) = (k, v) # pair_up xs"
| "pair_up _ = []"

definition close_value :: "frame \<Rightarrow> pyval" where
  "close_value f =
     (if f_kind f = BList then VList (f_items f)
      else if f_kind f = BDict then VDict (pair_up (f_items f))
      else if length (f_items f) = 1 \<and> \<not> f_comma f then hd (f_items f)
      else VTuple (f_items f))"

fun parse_tok :: "(string \<Rightarrow> pyval option) \<Rightarrow> tok \<Rightarrow> frame list \<Rightarrow> frame list option" where
  "parse_tok env (TVal v) fs = push_item v fs"
| "parse_tok env (TName n) fs = (case env n of None \<Rightarrow> None | Some v \<Rightarrow> push_item v fs)"
| "parse_tok env (TOpen b) fs =
     (case fs of [] \<Rightarrow> None
      | f # _ \<Rightarrow> if f_after f then None else Some (open_frame b # fs))"
| "parse_tok env (TClose b) fs =
     (case fs of [] \<Rightarrow> None
      | f # fs' \<Rightarrow> if f_kind f = b \<and> (b = BDict \<longrightarrow> even (length (f_items f)))
                   then push_item (close_value f) fs' else None)"
| "parse_tok env TComma fs =
     (case fs of [] \<Rightarrow> None
      | f # fs' \<Rightarrow> if f_after f \<and> f_kind f \<noteq> BTop \<and> (f_kind f = BDict \<longrightarrow> even (length (f_items f)))
                   then Some (f\<lparr>f_after := False, f_comma := True\<rparr> # fs') else None)"
| "parse_tok env TColon fs =
     (case fs of [] \<Rightarrow> None
      | f # fs' \<Rightarrow> if f_after f \<and> f_kind f = BDict \<and> odd (length (f_items f))
                   then Some (f\<lparr>f_after := False\<rparr> # fs') else None)"
| "parse_tok env TEq fs = None"

fun parse_toks :: "(string \<Rightarrow> pyval option) \<Rightarrow> tok list \<Rightarrow> frame list \<Rightarrow> frame list option" where
  "parse_toks env [] fs = Some fs"
| "parse_toks env (t # ts) fs =
     (case parse_tok env t fs of None \<Rightarrow> None | Some fs' \<Rightarrow> parse_toks env ts fs')"

definition parse_display :: "(string \<Rightarrow> pyval option) \<Rightarrow> tok list \<Rightarrow> pyval option" where
  "parse_display env ts =
     (case parse_toks env ts [open_frame BTop] of
        Some [f] \<Rightarrow> if f_kind f = BTop \<and> length (f_items f) = 1 then Some (hd (f_items f)) else None
      | _ \<Rightarrow> None)"

text \<open>Python's \<open>==\<close>: a boolean equals the number 0 or 1, and sequences compare item by item.
  Dictionaries, which no run condition mentions, compare as their lists of pairs.\<close>

fun int_view :: "pyval \<Rightarrow> int option" where
  "int_view (VBool b) = Some (if b then 1 else 0)"
| "int_view (VInt i) = Some i"
| "int_view _ = None"

fun py_eq :: "pyval \<Rightarrow> pyval \<Rightarrow> bool" and py_eqs :: "pyval list \<Rightarrow> pyval list \<Rightarrow> bool" where
  "py_eq (VList xs) (VList ys) = py_eqs xs ys"
| "py_eq (VTuple xs) (VTuple ys) = py_eqs xs ys"
| "py_eq x y = (case (int_view x, int_view y) of (Some i, Some j) \<Rightarrow> i = j | _ \<Rightarrow> x = y)"
| "py_eqs [] [] = True"
| "py_eqs (x # xs) (y # ys) = (py_eq x y \<and> py_eqs xs ys)"
| "py_eqs _ _ = False"

text \<open>Python's truth value.\<close>

fun truthy :: "pyval \<Rightarrow> bool" where
  "truthy VNone = False"
| "truthy (VBool b) = b"
| "truthy (VInt i) = (i \<noteq> 0)"
| "truthy (VStr s) = (s \<noteq> [])"
| "truthy (VList xs) = (xs \<noteq> [])"
| "truthy (VTuple xs) = (xs \<noteq> [])"
| "truthy (VDict kvs) = (kvs \<noteq> [])"

text \<open>\<open>eval(s)\<close> where the names of the configuration are the global variables.\<close>

definition py_eval :: "(string \<Rightarrow> pyval option) \<Rightarrow> string \<Rightarrow> pyval result" where
  "py_eval env s =
     (case lex_chars LNone 0 s of
        None \<Rightarrow> Inl Unsupported
      | Some ts \<Rightarrow>
          let left = takeWhile (\<lambda>t. t \<noteq> TEq) ts; right = dropWhile (\<lambda>t. t \<noteq> TEq) ts
          in (case right of
                [] \<Rightarrow> (case parse_display env ts of None \<Rightarrow> Inl Unsupported | Some v \<Rightarrow> Inr v)
              | _ # right' \<Rightarrow>
                  (case (parse_display env left, parse_display env right') of
                     (Some u, Some v) \<Rightarrow> Inr (VBool (py_eq u v))
                   | _ \<Rightarrow> Inl Unsupported)))"

text \<open>A Python value used as a sequence of strings: a list or tuple of strings, or a string as the
  sequence of its characters.  Other items are outside the model.\<close>

fun str_of :: "pyval \<Rightarrow> string result" where
  "str_of (VStr s) = Inr s"
| "str_of _ = Inl Unsupported"

fun items_of :: "pyval \<Rightarrow> pyval list result" where
  "items_of (VList xs) = Inr xs"
| "items_of (VTuple xs) = Inr xs"
| "items_of (VStr s) = Inr (map (\<lambda>c. VStr [c]) s)"
| "items_of (VDict kvs) = Inr (map fst kvs)"
| "items_of _ = Inl TypeError"

definition str_items :: "pyval \<Rightarrow> string list result" where
  "str_items v = bind_result (items_of v) (mapM_result str_of)"

lemma str_items_strings: "str_items (VList (map VStr xs)) = Inr xs"
  by (induction xs) (simp_all add: str_items_def)

text \<open>\<open>str(v)\<close>, and \<open>repr(v)\<close> for a string: the quote is single unless the string contains a
  single and no double quote; quotes, backslashes and unprintable characters are escaped.\<close>

definition hex_digit :: "nat \<Rightarrow> char" where
  "hex_digit d = (if d < 10 then digit_char d else char_of (87 + d))"

definition escape_char :: "char \<Rightarrow> char \<Rightarrow> string" where
  "escape_char q c =
     (if c = CHR 0x5C \<or> c = q then [CHR 0x5C, c]
      else if c = CHR 0x0A then [CHR 0x5C, CHR ''n'']
      else if c = CHR 0x0D then [CHR 0x5C, CHR ''r'']
      else if c = CHR 0x09 then [CHR 0x5C, CHR ''t'']
      else if CHR 0x20 \<le> c \<and> c \<le> CHR 0x7E \<or> CHR 0xA1 \<le> c \<and> c \<noteq> CHR 0xAD then [c]
      else [CHR 0x5C, CHR ''x'', hex_digit (of_char c div 16), hex_digit (of_char c mod 16)])"

definition py_repr_str :: "string \<Rightarrow> string" where
  "py_repr_str s =
     (let q = (if CHR 0x27 \<in> set s \<and> CHR 0x22 \<notin> set s then CHR 0x22 else CHR 0x27)
      in q # concat (map (escape_char q) s) @ [q])"

fun py_repr :: "pyval \<Rightarrow> string" where
  "py_repr VNone = ''None''"
| "py_repr (VBool b) = (if b then ''True'' else ''False'')"
| "py_repr (VInt i) = show_int i"
| "py_repr (VStr s) = py_repr_str s"
| "py_repr (VList xs) = ''['' @ join_str '', '' (map py_repr xs) @ '']''"
| "py_repr (VTuple xs) = (case xs of
       [x] \<Rightarrow> ''('' @ py_repr x @ '',)''
     | _ \<Rightarrow> ''('' @ join_str '', '' (map py_repr xs) @ '')'')"
| "py_repr (VDict kvs) = ''{'' @ join_str '', '' (map (\<lambda>kv. py_repr (fst kv) @ '': '' @ py_repr (snd kv)) kvs) @ ''}''"

definition py_str :: "pyval \<Rightarrow> string" where
  "py_str v = (case v of VStr s \<Rightarrow> s | _ \<Rightarrow> py_repr v)"

section \<open>Reading back a printed list\<close>

lemma append_fun_simps [simp]: "(@) [] = (\<lambda>ys. ys)" "(@) [t] = (#) t"
  by (auto intro: ext)

lemma plain_charD:
  assumes "plain_char c"
  shows "c \<noteq> CHR 0x27" "c \<noteq> CHR 0x5C" "c \<noteq> CHR 0x0A"
proof -
  from assms have "CHR 0x20 \<le> c" "c \<noteq> CHR 0x27" "c \<noteq> CHR 0x5C"
    by (simp_all add: plain_char_def)
  then show "c \<noteq> CHR 0x27" "c \<noteq> CHR 0x5C" "c \<noteq> CHR 0x0A"
    by (auto simp: less_eq_char_def)
qed

lemma lex_plain_string:
  "plain s \<Longrightarrow> lex_chars (LStr (CHR 0x27) acc) d (s @ CHR 0x27 # cs) =
     map_option (\<lambda>us. TVal (VStr (acc @ s)) # us) (lex_chars LNone d cs)"
proof (induction s arbitrary: acc)
  case Nil
  then show ?case by simp
next
  case (Cons c s)
  then have "plain_char c" "plain s" by (simp_all add: plain_def)
  with plain_charD [OF this(1)] Cons.IH show ?case
    by (auto simp: option.map_ident)
qed

lemma lex_repr_str:
  "plain s \<Longrightarrow> lex_chars LNone d (repr_str s @ cs) =
     map_option (\<lambda>us. TVal (VStr s) # us) (lex_chars LNone d cs)"
  by (simp add: repr_str_def lex_plain_string lex_start_def option.map_ident)

definition comma_toks :: "string list \<Rightarrow> tok list" where
  "comma_toks xs = concat (map (\<lambda>x. [TComma, TVal (VStr x)]) xs)"

fun list_toks :: "string list \<Rightarrow> tok list" where
  "list_toks [] = []"
| "list_toks (x # xs) = TVal (VStr x) # comma_toks xs"

lemma lex_join_repr:
  assumes "\<And>x. x \<in> set xs \<Longrightarrow> plain x"
  shows "lex_chars LNone d (join_str '', '' (map repr_str xs) @ cs) =
     map_option (\<lambda>us. list_toks xs @ us) (lex_chars LNone d cs)"
  using assms
proof (induction xs rule: induct_list012)
  case (3 x y zs)
  then have IH: "lex_chars LNone d (join_str '', '' (map repr_str (y # zs)) @ cs) =
      map_option (\<lambda>us. list_toks (y # zs) @ us) (lex_chars LNone d cs)" by simp
  have "lex_chars LNone d (join_str '', '' (map repr_str (x # y # zs)) @ cs) =
      lex_chars LNone d (repr_str x @ '', '' @ join_str '', '' (map repr_str (y # zs)) @ cs)"
    by simp
  also have "\<dots> = map_option (\<lambda>us. TVal (VStr x) # us)
      (lex_chars LNone d ('', '' @ join_str '', '' (map repr_str (y # zs)) @ cs))"
    using 3 by (subst lex_repr_str) auto
  also have "\<dots> = map_option (\<lambda>us. TVal (VStr x) # TComma # us)
      (lex_chars LNone d (join_str '', '' (map repr_str (y # zs)) @ cs))"
    by (simp add: lex_start_def option.map_comp o_def option.map_ident)
  finally show ?case
    unfolding IH by (simp add: option.map_comp o_def comma_toks_def)
qed (auto simp: lex_repr_str comma_toks_def option.map_ident)

lemma parse_comma_toks:
  assumes "f_after f" "f_kind f = BList"
  shows "\<exists>g. parse_toks env (comma_toks xs @ ts) (f # fs) = parse_toks env ts (g # fs)
           \<and> f_items g = f_items f @ map VStr xs \<and> f_kind g = BList"
  using assms
proof (induction xs arbitrary: f)
  case Nil
  then show ?case by (auto simp: comma_toks_def)
next
  case (Cons x xs)
  let ?f = "f\<lparr>f_comma := True, f_items := f_items f @ [VStr x], f_after := True\<rparr>"
  from Cons.IH [of ?f] Cons.prems obtain g where
    "parse_toks env (comma_toks xs @ ts) (?f # fs) = parse_toks env ts (g # fs)"
    "f_items g = f_items ?f @ map VStr xs" "f_kind g = BList" by auto
  moreover have "parse_toks env (comma_toks (x # xs) @ ts) (f # fs) =
      parse_toks env (comma_toks xs @ ts) (?f # fs)"
    using Cons.prems by (simp add: comma_toks_def)
  ultimately show ?case by auto
qed

lemma parse_list_toks:
  "\<exists>g. parse_toks env (list_toks xs @ ts) (open_frame BList # fs) = parse_toks env ts (g # fs)
     \<and> f_items g = map VStr xs \<and> f_kind g = BList"
proof (cases xs)
  case Nil
  then show ?thesis by (auto simp: open_frame_def)
next
  case (Cons x xs')
  let ?f = "(open_frame BList)\<lparr>f_items := [VStr x], f_after := True\<rparr>"
  from parse_comma_toks [of ?f env xs' ts fs] obtain g where
    "parse_toks env (comma_toks xs' @ ts) (?f # fs) = parse_toks env ts (g # fs)"
    "f_items g = [VStr x] @ map VStr xs'" "f_kind g = BList"
    by (auto simp: open_frame_def)
  with Cons show ?thesis by (auto simp: open_frame_def)
qed

lemma parse_display_list:
  "parse_display env (TOpen BList # list_toks xs @ [TClose BList]) = Some (VList (map VStr xs))"
proof -
  obtain g where
    "parse_toks env (list_toks xs @ [TClose BList]) [open_frame BList, open_frame BTop] =
       parse_toks env [TClose BList] [g, open_frame BTop]"
    "f_items g = map VStr xs" "f_kind g = BList"
    using parse_list_toks by blast
  then show ?thesis
    by (simp add: parse_display_def open_frame_def close_value_def)
qed

lemma lex_repr_str_list:
  assumes "\<And>x. x \<in> set xs \<Longrightarrow> plain x"
  shows "lex_chars LNone 0 (repr_str_list xs) = Some (TOpen BList # list_toks xs @ [TClose BList])"
proof -
  have "lex_chars LNone 0 (repr_str_list xs) =
      map_option (\<lambda>us. TOpen BList # us) (lex_chars LNone 1 (join_str '', '' (map repr_str xs) @ '']''))"
    by (simp add: repr_str_list_def lex_start_def)
  also have "\<dots> = Some (TOpen BList # list_toks xs @ [TClose BList])"
    using lex_join_repr [OF assms, where d = 1 and cs = "'']''"]
    by (simp add: lex_start_def lex_flush_def)
  finally show ?thesis .
qed

lemma list_toks_no_eq: "TEq \<notin> set (TOpen BList # list_toks xs @ [TClose BList])"
  by (cases xs) (auto simp: comma_toks_def)

lemma py_eval_repr_str_list:
  assumes "\<And>x. x \<in> set xs \<Longrightarrow> plain x"
  shows "py_eval env (repr_str_list xs) = Inr (VList (map VStr xs))"
proof -
  let ?ts = "TOpen BList # list_toks xs @ [TClose BList]"
  have "dropWhile (\<lambda>t. t \<noteq> TEq) ?ts = []"
    using list_toks_no_eq [of xs] by (simp only: dropWhile_eq_Nil_conv) blast
  then show ?thesis
    using lex_repr_str_list [OF assms] parse_display_list [of env xs]
    by (simp add: py_eval_def)
qed

interpretation printed_list: codec repr_str_list "py_eval env" "\<lambda>xs. VList (map VStr xs)" "list_all plain"
  by unfold_locales (simp add: list_all_iff py_eval_repr_str_list)

end
