(* ===== verification/Bind_Tables.thy ===== *)
theory Bind_Tables
  imports Py_Literal
begin

text \<open>
  The tables of annotations of the binding generators, \<open>type_annotations\<close> in
  \<open>src/bindings/python/genbinds.py\<close> and \<open>src/bindings/python/ns3modulescan.py\<close>.  A dictionary display with a
  repeated key keeps the place of the first and the value of the last entry, which is what
  \<open>dict_update []\<close> computes.
\<close>

datatype ann_value = ANone | ATrue | AStr string | AParams "(string, (string, string) dict) dict"

type_synonym annotations = "(string, ann_value) dict"

type_synonym annotation_table = "(string, annotations) dict"

definition genbinds_annotations :: annotation_table where
  "genbinds_annotations = dict_update []
     [
      (''::ns3::AttributeChecker'',
        [(''automatic_type_narrowing'', AStr ''true''), (''allow_subclassing'', AStr ''false'')]),
      (''::ns3::AttributeValue'',
        [(''automatic_type_narrowing'', AStr ''true''), (''allow_subclassing'', AStr ''false'')]),
      (''::ns3::CommandLine'',
        [(''allow_subclassing'', AStr ''true'')]),
      (''::ns3::NscTcpL4Protocol'',
        [(''ignore'', AStr ''true'')]),
      (''ns3::RandomVariable::RandomVariable(ns3::RandomVariableBase const & variable) [constructor]'',
        [(''ignore'', ANone)]),
      (''ns3::RandomVariableBase * ns3::RandomVariable::Peek() const [member function]'',
        [(''ignore'', ANone)]),
      (''void ns3::RandomVariable::GetSeed(uint32_t * seed) const [member function]'',
        [(''params'', AParams [(''seed'', [(''direction'', ''out''), (''array_length'', ''6'')])])]),
      (''bool ns3::TypeId::LookupAttributeByName(std::string name, ns3::TypeId::AttributeInformation * info) const [member function]'',
        [(''params'', AParams [(''info'', [(''transfer_ownership'', ''false'')])])]),
      (''static bool ns3::TypeId::LookupByNameFailSafe(std::string name, ns3::TypeId * tid) [member function]'',
        [(''ignore'', ANone)]),
      (''bool ns3::TraceSourceAccessor::ConnectWithoutContext(ns3::ObjectBase * obj, ns3::CallbackBase const & cb) const [member function]'',
        [(''params'', AParams [(''obj'', [(''transfer_ownership'', ''false'')])])]),
      (''bool ns3::TraceSourceAccessor::Connect(ns3::ObjectBase * obj, std::string context, ns3::CallbackBase const & cb) const [member function]'',
        [(''params'', AParams [(''obj'', [(''transfer_ownership'', ''false'')])])]),
      (''bool ns3::TraceSourceAccessor::DisconnectWithoutContext(ns3::ObjectBase * obj, ns3::CallbackBase const & cb) const [member function]'',
        [(''params'', AParams [(''obj'', [(''transfer_ownership'', ''false'')])])]),
      (''bool ns3::TraceSourceAccessor::Disconnect(ns3::ObjectBase * obj, std::string context, ns3::CallbackBase const & cb) const [member function]'',
        [(''params'', AParams [(''obj'', [(''transfer_ownership'', ''false'')])])]),
      (''bool ns3::AttributeAccessor::Set(ns3::ObjectBase * object, ns3::AttributeValue const & value) const [member function]'',
        [(''params'', AParams [(''object'', [(''transfer_ownership'', ''false'')])])]),
      (''ns3::EmpiricalVariable::EmpiricalVariable(ns3::RandomVariableBase const & variable) [constructor]'',
        [(''ignore'', ANone)]),
      (''static ns3::AttributeList * ns3::AttributeList::GetGlobal() [member function]'',
        [(''caller_owns_return'', AStr ''false'')]),
      (''void ns3::CommandLine::Parse(int argc, char * * argv) const [member function]'',
        [(''ignore'', ANone)]),
      (''extern void ns3::PythonCompleteConstruct(ns3::Ptr<ns3::Object> object, ns3::TypeId typeId, ns3::AttributeList const & attributes) [free function]'',
        [(''ignore'', ANone)]),
      (''ns3::Ptr<ns3::Ipv4RoutingProtocol> ns3::Ipv4ListRouting::GetRoutingProtocol(uint32_t index, int16_t & priority) const [member function]'',
        [(''params'', AParams [(''priority'', [(''direction'', ''out'')])])]),
      (''ns3::Ipv4RoutingTableEntry * ns3::GlobalRouter::GetInjectedRoute(uint32_t i) [member function]'',
        [(''params'', AParams [(''return'', [(''caller_owns_return'', ''false'')])])]),
      (''ns3::Ipv4RoutingTableEntry * ns3::Ipv4GlobalRouting::GetRoute(uint32_t i) const [member function]'',
        [(''params'', AParams [(''return'', [(''caller_owns_return'', ''false'')])])]),
      (''::ns3::TestCase'',
        [(''ignore'', AStr ''true'')]),
      (''::ns3::TestRunner'',
        [(''ignore'', AStr ''true'')]),
      (''::ns3::TestSuite'',
        [(''ignore'', AStr ''true'')]),
      (''::ns3::Ptr'',
        [(''import_from_module'', AStr ''ns.core'')]),
      (''::ns3::ProcStatus::ProcStatus(int n, int e, int p, int64_t ns, int64_t ne, long rs, long re, double nd, long rd, std::string cmd)  [constructor]'',
        [(''ignore'', ANone)]),
      (''::DceApplication::SetEnvironment (std::vector<std::pair<std::string,std::string>> envs)  [member function]'',
        [(''params'', AParams [(''envs'', [(''direction'', ''in'')])])]),
      (''::ns3::Object'',
        [(''import_from_module'', AStr ''ns.core'')]),
      (''::ns3::AttributeValue'',
        [(''import_from_module'', AStr ''ns.core'')]),
      (''::ns3::Node'',
        [(''import_from_module'', AStr ''ns.network'')]),
      (''::ns3::NodeContainer'',
        [(''import_from_module'', AStr ''ns.network'')]),
      (''::ns3::Ipv4Address'',
        [(''import_from_module'', AStr ''ns.network'')]),
      (''::ns3::Ipv4Mask'',
        [(''import_from_module'', AStr ''ns.network'')]),
      (''::ns3::Address'',
        [(''import_from_module'', AStr ''ns.network'')]),
      (''::ns3::Application'',
        [(''import_from_module'', AStr ''ns.network'')]),
      (''::ns3::ApplicationContainer'',
        [(''import_from_module'', AStr ''ns.network'')]),
      (''::ns3::EmptyAttributeValue'',
        [(''ignore'', AStr ''true'')]),
      (''::ns3::Ipv4AddressHash'',
        [(''ignore'', AStr ''true'')]),
      (''::ns3::Ipv6AddressHash'',
        [(''ignore'', AStr ''true'')]),
      (''::ns3::Ipv4StaticRoutingHelper'',
        [(''import_from_module'', AStr ''ns.network'')]),
      (''::ns3::Ipv4RoutingProtocol'',
        [(''import_from_module'', AStr ''ns.network'')]),
      (''void ns3::DceApplicationHelper::InstallInNode(Ptr<Node> node) [member function]'',
        [(''params'', AParams [(''node'', [(''direction'', ''in'')])])])
     ]"

definition modulescan_annotations :: annotation_table where
  "modulescan_annotations = dict_update []
     [
      (''::ns3::AttributeChecker'',
        [(''automatic_type_narrowing'', AStr ''true''), (''allow_subclassing'', AStr ''false'')]),
      (''::ns3::AttributeValue'',
        [(''automatic_type_narrowing'', AStr ''true''), (''allow_subclassing'', AStr ''false'')]),
      (''::ns3::CommandLine'',
        [(''allow_subclassing'', AStr ''true'')]),
      (''::ns3::NscTcpL4Protocol'',
        [(''ignore'', AStr ''true'')]),
      (''ns3::RandomVariable::RandomVariable(ns3::RandomVariableBase const & variable) [constructor]'',
        [(''ignore'', ANone)]),
      (''ns3::RandomVariableBase * ns3::RandomVariable::Peek() const [member function]'',
        [(''ignore'', ANone)]),
      (''void ns3::RandomVariable::GetSeed(uint32_t * seed) const [member function]'',
        [(''params'', AParams [(''seed'', [(''direction'', ''out''), (''array_length'', ''6'')])])]),
      (''bool ns3::TypeId::LookupAttributeByName(std::string name, ns3::TypeId::AttributeInformation * info) const [member function]'',
        [(''params'', AParams [(''info'', [(''transfer_ownership'', ''false'')])])]),
      (''static bool ns3::TypeId::LookupByNameFailSafe(std::string name, ns3::TypeId * tid) [member function]'',
        [(''ignore'', ANone)]),
      (''bool ns3::TraceSourceAccessor::ConnectWithoutContext(ns3::ObjectBase * obj, ns3::CallbackBase const & cb) const [member function]'',
        [(''params'', AParams [(''obj'', [(''transfer_ownership'', ''false'')])])]),
      (''bool ns3::TraceSourceAccessor::Connect(ns3::ObjectBase * obj, std::string context, ns3::CallbackBase const & cb) const [member function]'',
        [(''params'', AParams [(''obj'', [(''transfer_ownership'', ''false'')])])]),
      (''bool ns3::TraceSourceAccessor::DisconnectWithoutContext(ns3::ObjectBase * obj, ns3::CallbackBase const & cb) const [member function]'',
        [(''params'', AParams [(''obj'', [(''transfer_ownership'', ''false'')])])]),
      (''bool ns3::TraceSourceAccessor::Disconnect(ns3::ObjectBase * obj, std::string context, ns3::CallbackBase const & cb) const [member function]'',
        [(''params'', AParams [(''obj'', [(''transfer_ownership'', ''false'')])])]),
      (''bool ns3::AttributeAccessor::Set(ns3::ObjectBase * object, ns3::AttributeValue const & value) const [member function]'',
        [(''params'', AParams [(''object'', [(''transfer_ownership'', ''false'')])])]),
      (''ns3::EmpiricalVariable::EmpiricalVariable(ns3::RandomVariableBase const & variable) [constructor]'',
        [(''ignore'', ANone)]),
      (''static ns3::AttributeList * ns3::AttributeList::GetGlobal() [member function]'',
        [(''caller_owns_return'', AStr ''false'')]),
      (''void ns3::CommandLine::Parse(int argc, char * * argv) const [member function]'',
        [(''ignore'', ANone)]),
      (''extern void ns3::PythonCompleteConstruct(ns3::Ptr<ns3::Object> object, ns3::TypeId typeId, ns3::AttributeList const & attributes) [free function]'',
        [(''ignore'', ANone)]),
      (''ns3::Ptr<ns3::Ipv4RoutingProtocol> ns3::Ipv4ListRouting::GetRoutingProtocol(uint32_t index, int16_t & priority) const [member function]'',
        [(''params'', AParams [(''priority'', [(''direction'', ''out'')])])]),
      (''ns3::Ipv4RoutingTableEntry * ns3::GlobalRouter::GetInjectedRoute(uint32_t i) [member function]'',
        [(''params'', AParams [(''return'', [(''caller_owns_return'', ''false'')])])]),
      (''ns3::Ipv4RoutingTableEntry * ns3::Ipv4GlobalRouting::GetRoute(uint32_t i) const [member function]'',
        [(''params'', AParams [(''return'', [(''caller_owns_return'', ''false'')])])]),
      (''::ns3::TestCase'',
        [(''ignore'', AStr ''true'')]),
      (''::ns3::TestRunner'',
        [(''ignore'', AStr ''true'')]),
      (''::ns3::TestSuite'',
        [(''ignore'', AStr ''true'')])
     ]"

end
