(* ===== verification/Posix_Paths.thy ===== *)
theory Posix_Paths
  imports Prelude
begin

text \<open>
  Absolute POSIX paths as lists of components: \<open>abs_of\<close> builds the path, and the path functions of
  the prelude are evaluated on it.
\<close>

section \<open>Normalized absolute paths\<close>

text \<open>A component of a normalized path, and the absolute path with given components.\<close>

definition proper_part :: "string \<Rightarrow> bool" where
  "proper_part c \<longleftrightarrow> c \<noteq> [] \<and> c \<noteq> ''.'' \<and> c \<noteq> ''..'' \<and> CHR ''/'' \<notin> set c"

definition abs_of :: "string list \<Rightarrow> string" where
  "abs_of cs = ''/'' @ join_str ''/'' cs"

lemma split_abs_of:
  assumes "list_all proper_part cs"
  shows "split_char (CHR ''/'') (abs_of cs) = [] # (if cs = [] then [[]] else cs)"
proof (cases "cs = []")
  case True
  then show ?thesis by (simp add: abs_of_def)
next
  case False
  have "split_char (CHR ''/'') (join_str ''/'' cs) = cs"
    using assms False by (intro split_char_join_parts) (auto simp: list_all_iff proper_part_def)
  then show ?thesis using False by (simp add: abs_of_def)
qed

lemma norm_comps_proper:
  "list_all proper_part cs \<Longrightarrow> norm_comps True acc (cs @ ds) = norm_comps True (rev cs @ acc) ds"
  by (induction cs arbitrary: acc) (auto simp: proper_part_def)

lemma norm_comps_up:
  "list_all proper_part acc \<Longrightarrow> k \<le> length acc \<Longrightarrow>
   norm_comps True acc (replicate k ''..'' @ ds) = norm_comps True (drop k acc) ds"
proof (induction k arbitrary: acc)
  case (Suc k)
  then obtain a acc' where "acc = a # acc'" by (cases acc) auto
  with Suc show ?case by (auto simp: proper_part_def)
qed simp

lemma norm_comps_rev: "list_all proper_part cs \<Longrightarrow> norm_comps True acc cs = rev acc @ cs"
  using norm_comps_proper [of cs acc "[]"] by simp

lemma abs_of_lead:
  assumes "list_all proper_part cs"
  shows "\<not> startswith (abs_of cs) ''//''" "startswith (abs_of cs) ''/''"
proof -
  show "startswith (abs_of cs) ''/''" by (simp add: abs_of_def)
  show "\<not> startswith (abs_of cs) ''//''"
  proof (cases cs)
    case (Cons c ds)
    with assms have c: "c \<noteq> []" "hd c \<noteq> CHR ''/''" by (auto simp: proper_part_def dest: hd_in_set)
    then obtain x xs where "c = x # xs" "x \<noteq> CHR ''/''" by (cases c) auto
    with Cons show ?thesis by (cases ds) (auto simp: abs_of_def)
  qed (simp add: abs_of_def)
qed

lemma normpath_rooted:
  assumes "startswith p ''/''" "\<not> startswith p ''//''" "norm_comps True [] (split_char (CHR ''/'') p) = cs"
  shows "normpath p = abs_of cs"
  using assms by (auto simp: normpath_def Let_def abs_of_def)

lemma abspath_abs_of:
  assumes "list_all proper_part cs"
  shows "abspath cwd (abs_of cs) = abs_of cs"
proof -
  have "norm_comps True [] (split_char (CHR ''/'') (abs_of cs)) = cs"
    using norm_comps_rev [OF assms, of "[]"] by (simp add: split_abs_of [OF assms])
  then have "normpath (abs_of cs) = abs_of cs" using normpath_rooted abs_of_lead [OF assms] by blast
  then show ?thesis using abs_of_lead(2) [OF assms] by (simp add: abspath_def path_join_def)
qed

lemma endswith_slash_part: "proper_part c \<or> c = ''..'' \<Longrightarrow> \<not> endswith c ''/''"
  unfolding endswith_slash_iff proper_part_def by (elim disjE) (metis last_in_set, simp)

lemma startswith_slash_part: "proper_part c \<or> c = ''..'' \<Longrightarrow> \<not> startswith c ''/''"
  by (cases c) (auto simp: proper_part_def)

lemma path_joins_parts:
  assumes "c \<noteq> []" "\<not> endswith c ''/''" "list_all (\<lambda>d. proper_part d \<or> d = ''..'') ds"
  shows "path_joins c ds = join_str ''/'' (c # ds)"
  using assms
proof (induction ds arbitrary: c)
  case Nil
  then show ?case by (simp add: path_joins_def)
next
  case (Cons d ds)
  then have d: "proper_part d \<or> d = ''..''" "d \<noteq> []" by (auto simp: proper_part_def)
  have pj: "path_join c d = c @ ''/'' @ d"
    using Cons.prems startswith_slash_part [OF d(1)] by (simp add: path_join_def)
  have ne: "\<not> endswith (c @ ''/'' @ d) ''/''"
    using endswith_slash_part [OF d(1)] d(2) by (simp add: endswith_slash_iff)
  have "path_joins c (d # ds) = path_joins (c @ ''/'' @ d) ds" by (simp add: path_joins_def pj)
  also have "\<dots> = join_str ''/'' ((c @ ''/'' @ d) # ds)"
    using Cons.IH [OF _ ne] Cons.prems(3) by simp
  also have "\<dots> = join_str ''/'' (c # d # ds)" by (cases ds) simp_all
  finally show ?case .
qed

lemma abs_of_last:
  assumes "list_all proper_part ss" "ss \<noteq> []"
  shows "\<not> endswith (abs_of ss) ''/''"
proof -
  obtain l where l: "l \<in> set ss" "last ss = l" using assms(2) by (metis last_in_set)
  have "join_str ''/'' ss \<noteq> [] \<and> last (join_str ''/'' ss) = last (last ss)"
    using assms
    by (induction ss rule: induct_list012) (auto simp: proper_part_def split: list.splits)
  moreover have "last l \<noteq> CHR ''/''"
  proof -
    have "proper_part l" using l(1) assms(1) by (simp add: list_all_iff)
    then show ?thesis using endswith_slash_part [of l] by (simp add: endswith_slash_iff proper_part_def)
  qed
  ultimately show ?thesis using l(2) by (simp add: endswith_slash_iff abs_of_def)
qed

lemma abs_of_snoc: "abs_of (cs @ [c]) = (if cs = [] then [] else abs_of cs) @ CHR ''/'' # c"
proof -
  have "join_str sep (xs @ [c]) = (if xs = [] then c else join_str sep xs @ sep @ c)" for sep xs
    by (induction sep xs rule: join_str.induct) auto
  then show ?thesis by (auto simp: abs_of_def)
qed

section \<open>Splitting a path\<close>

text \<open>\<open>os.path.join(*l)\<close>.\<close>

definition join_all :: "string list \<Rightarrow> string result" where
  "join_all l = (case l of [] \<Rightarrow> Inl TypeError | a # bs \<Rightarrow> Inr (path_joins a bs))"

lemma path_split_abs_of:
  assumes "list_all proper_part (cs @ [c])"
  shows "path_split (abs_of (cs @ [c])) = (abs_of cs, c)"
proof -
  have c: "CHR ''/'' \<notin> set c" using assms by (simp add: proper_part_def)
  then have head: "rev (dropWhile (\<lambda>d. d \<noteq> CHR ''/'') (rev (x @ CHR ''/'' # c))) = x @ [CHR ''/'']" for x
  proof -
    have "dropWhile (\<lambda>d. d \<noteq> CHR ''/'') (rev c @ CHR ''/'' # rev x) = CHR ''/'' # rev x"
      using c by (subst dropWhile_append2) auto
    then show ?thesis by simp
  qed
  have "dirname (abs_of (cs @ [c])) = abs_of cs"
  proof (cases "cs = []")
    case True
    then show ?thesis using head [of "[]"] by (simp add: dirname_def Let_def abs_of_snoc) (simp add: abs_of_def)
  next
    case False
    have "\<not> endswith (abs_of cs) ''/''" using abs_of_last False assms by simp
    then have l: "abs_of cs \<noteq> []" "last (abs_of cs) \<noteq> CHR ''/''" by (auto simp: endswith_slash_iff abs_of_def)
    then obtain xs x where ab: "abs_of cs = xs @ [x]" "x \<noteq> CHR ''/''" by (cases "abs_of cs" rule: rev_cases) auto
    show ?thesis using head [of "abs_of cs"] False
      by (simp add: dirname_def Let_def abs_of_snoc) (auto simp: ab rstrip_char_def)
  qed
  moreover have "basename (abs_of (cs @ [c])) = c"
    using basename_append_slash [OF c] by (simp add: abs_of_snoc)
  ultimately show ?thesis by (simp add: path_split_def)
qed

lemma path_split_root: "path_split (abs_of []) = (abs_of [], [])"
  by code_simp

lemma join_all_parts:
  assumes "list_all proper_part cs" "cs \<noteq> []"
  shows "join_all cs = Inr (join_str ''/'' cs)"
proof -
  obtain c ds where cs: "cs = c # ds" using assms(2) by (cases cs) auto
  with assms(1) have "c \<noteq> []" "\<not> endswith c ''/''" "list_all (\<lambda>d. proper_part d \<or> d = ''..'') ds"
    using endswith_slash_part [of c] by (auto simp: proper_part_def list_all_iff)
  then show ?thesis by (simp add: join_all_def cs path_joins_parts)
qed

end
