(* ===== verification/Bind_Scan.thy ===== *)
theory Bind_Scan
  imports Bind_Tables Posix_Paths
begin

text \<open>
  The scanners of the Python bindings: \<open>src/bindings/python/genbinds.py\<close> (Python 2),
  \<open>src/bindings/python/ns3modulescan.py\<close> and \<open>src/bindings/python/ns3modulescan-modular.py\<close> (Python 3).  For each
  declaration that pygccxml finds, pybindgen calls a hook that fills two dictionaries of
  annotations, those of the declaration and those of its parameters; the hook reads its table of
  annotations, and changes it.

  A declaration is a record of the attributes that the hooks read.  The functions of pygccxml and
  pybindgen on names of templates are the record \<open>templates\<close>.
\<close>

section \<open>Declarations\<close>

datatype decl_kind = KMember | KFree | KConstructor | KOtherCall | KClass | KEnum | KOther

record decl =
  d_kind :: decl_kind
  d_name :: string
  d_parent :: string
  d_str :: string
  d_decl_string :: string
  d_demangled :: string
  d_file :: string
  d_defaults :: "string option list"

record templates =
  t_args :: "string \<Rightarrow> string list"
  t_is_instantiation :: "string \<Rightarrow> bool"
  t_parameters :: "string \<Rightarrow> string list"
  t_find_file :: "string \<Rightarrow> string option"

record hook =
  hk_table :: annotation_table
  hk_global :: annotations
  hk_params :: "(string, (string, string) dict) dict"
  hk_defaults :: "string option list"

definition is_calldef :: "decl \<Rightarrow> bool" where
  "is_calldef d \<longleftrightarrow> d_kind d \<in> {KMember, KFree, KConstructor, KOtherCall}"

section \<open>The path of a header\<close>

text \<open>\<open>get_ns3_relative_path\<close> of \<open>ns3modulescan.py\<close>: the components after the last \<open>ns3\<close>.  \<open>None\<close> is a call
  that does not return.\<close>

partial_function (option) relative_path_loop :: "string \<Rightarrow> string list \<Rightarrow> string result option" where
  "relative_path_loop head l =
     (if head = [] then Some (Inl AssertionError)
      else if snd (path_split head) = ''ns3'' then Some (join_all l)
      else relative_path_loop (fst (path_split head)) (snd (path_split head) # l))"

definition get_ns3_relative_path :: "string \<Rightarrow> string result option" where
  "get_ns3_relative_path path = relative_path_loop path []"

text \<open>The version of \<open>ns3modulescan-modular.py\<close>, which stops at the root.\<close>

function modular_path_loop :: "string \<Rightarrow> string list \<Rightarrow> string result" where
  "modular_path_loop head l =
     (if head = [] then Inl AssertionError
      else if fst (path_split head) = head then Inl ValueError
      else if snd (path_split head) = ''ns3'' then join_all l
      else modular_path_loop (fst (path_split head)) (snd (path_split head) # l))"
  by pat_completeness auto

lemma dirname_shorter: "dirname p \<noteq> p \<Longrightarrow> length (dirname p) < length p"
proof -
  assume "dirname p \<noteq> p"
  let ?h = "rev (dropWhile (\<lambda>c. c \<noteq> CHR ''/'') (rev p))"
  have strip_eq: "rstrip_char (CHR ''/'') h = h \<or> length (rstrip_char (CHR ''/'') h) < length h" for h
  proof (cases "dropWhile (\<lambda>x. x = CHR ''/'') (rev h) = rev h")
    case True
    then show ?thesis by (simp add: rstrip_char_def)
  next
    case False
    have "length (dropWhile (\<lambda>x. x = CHR ''/'') (rev h)) < length (rev h)"
      using False by (cases "rev h") (auto simp: less_Suc_eq_le length_dropWhile_le split: if_splits)
    then show ?thesis by (simp add: rstrip_char_def)
  qed
  have "?h = p \<or> length ?h < length p"
  proof (cases "dropWhile (\<lambda>c. c \<noteq> CHR ''/'') (rev p) = rev p")
    case False
    have "length (dropWhile (\<lambda>c. c \<noteq> CHR ''/'') (rev p)) < length (rev p)"
      using False by (cases "rev p") (auto simp: less_Suc_eq_le length_dropWhile_le split: if_splits)
    then show ?thesis by simp
  qed simp
  moreover have "dirname p = ?h \<or> dirname p = rstrip_char (CHR ''/'') ?h"
    unfolding dirname_def Let_def by (rule if_split [THEN iffD2]) blast
  moreover have "length q < length p"
    if "h = p \<or> length h < length p" "r = h \<or> length r < length h" "q = h \<or> q = r" "q \<noteq> p" for h r q :: string
    using that by auto
  ultimately show ?thesis using strip_eq [of ?h] \<open>dirname p \<noteq> p\<close> by blast
qed

termination modular_path_loop
  by (relation "measure (\<lambda>(head, l). length head)") (simp_all add: path_split_def dirname_shorter)

declare modular_path_loop.simps [simp del]

definition modular_relative_path :: "string \<Rightarrow> string option result" where
  "modular_relative_path path = (if path = [] then Inr None else map_result Some (modular_path_loop path []))"

section \<open>Parts that the hooks share\<close>

text \<open>\<open>GetObject\<close>, \<open>Schedule*\<close> and \<open>Run\<close>; the string is where the template arguments are read from.\<close>

definition special_methods :: "templates \<Rightarrow> string \<Rightarrow> decl \<Rightarrow> annotations \<Rightarrow> annotations" where
  "special_methods ts templ d g =
     (let g1 = (if d_kind d = KMember \<and> d_parent d = ''Object'' \<and> d_name d = ''GetObject'' \<and>
                   t_args ts templ = [''ns3::Object'']
                then dict_set ''template_instance_names'' (AStr ''ns3::Object=>GetObject'') g else g);
          g2 = (if d_kind d = KMember \<and> d_parent d = ''Simulator'' \<and> startswith (d_name d) ''Schedule''
                then dict_set ''ignore'' ANone g1 else g1)
      in if d_kind d = KMember \<and> d_parent d = ''Simulator'' \<and> d_name d = ''Run''
         then dict_set ''ignore'' ATrue g2 else g2)"

definition fixed_default :: "string option \<Rightarrow> string option" where
  "fixed_default v =
     (if v = Some ''ns3::MilliSeconds( )'' then Some ''ns3::MilliSeconds(0)''
      else if v = Some ''ns3::Seconds( )'' then Some ''ns3::Seconds(0)'' else v)"

definition fixed_defaults :: "decl \<Rightarrow> string option list" where
  "fixed_defaults d = (if is_calldef d then map fixed_default (d_defaults d) else d_defaults d)"

text \<open>The families of classes after which the hook returns.\<close>

definition class_family :: "string \<Rightarrow> annotations \<Rightarrow> annotations option" where
  "class_family decl_string g =
     (if startswith decl_string ''::ns3::SimpleRefCount<''
      then Some (dict_update g [(''incref_method'', AStr ''Ref''), (''decref_method'', AStr ''Unref''),
             (''peekref_method'', AStr ''GetReferenceCount''), (''automatic_type_narrowing'', AStr ''true'')])
      else if startswith decl_string ''::ns3::Callback<'' then Some (dict_set ''ignore'' ANone g)
      else if startswith decl_string ''::ns3::TracedCallback<'' then Some (dict_set ''ignore'' ANone g)
      else if startswith decl_string ''::ns3::Ptr<'' then Some (dict_set ''ignore'' ANone g)
      else None)"

definition class_table :: "annotation_table \<Rightarrow> string \<Rightarrow> annotations \<Rightarrow> annotations" where
  "class_table table decl_string g =
     (case dict_get table decl_string of Some a \<Rightarrow> dict_update g a | None \<Rightarrow> g)"

definition class_annotations :: "annotation_table \<Rightarrow> string \<Rightarrow> annotations \<Rightarrow> annotations" where
  "class_annotations table decl_string g =
     (case class_family decl_string g of Some g' \<Rightarrow> g' | None \<Rightarrow> class_table table decl_string g)"

text \<open>The entry of a callable.  Its \<open>params\<close> go to the parameters and are deleted from the entry, while
  the loop runs over the entry: over a snapshot of it in Python 2 and where the code makes a list,
  and else with \<open>RuntimeError\<close> at the next step of the loop.\<close>

definition callable_table :: "bool \<Rightarrow> decl \<Rightarrow> hook \<Rightarrow> hook result" where
  "callable_table snapshot d hk =
     (if d_kind d \<notin> {KFree, KMember, KConstructor} then Inr hk
      else case dict_get (hk_table hk) (d_str d) of
        None \<Rightarrow> Inr hk
      | Some a \<Rightarrow>
          (case dict_get a ''params'' of
             None \<Rightarrow> Inr (hk\<lparr>hk_global := dict_update (hk_global hk) a\<rparr>)
           | Some (AParams ps) \<Rightarrow>
               if snapshot
               then Inr (hk\<lparr>hk_params := dict_update (hk_params hk) ps,
                            hk_table := dict_set (d_str d) (dict_del ''params'' a) (hk_table hk),
                            hk_global := dict_update (hk_global hk) (dict_del ''params'' a)\<rparr>)
               else Inl RuntimeError
           | Some _ \<Rightarrow> Inl TypeError))"

text \<open>The hook of \<open>genbinds.py\<close> and \<open>ns3modulescan.py\<close> after the comment.\<close>

definition scan_hook :: "bool \<Rightarrow> templates \<Rightarrow> decl \<Rightarrow> hook \<Rightarrow> hook result" where
  "scan_hook snapshot ts d hk =
     (let hk1 = hk\<lparr>hk_global := special_methods ts (d_demangled d) d (hk_global hk), hk_defaults := fixed_defaults d\<rparr>
      in if d_kind d = KClass
         then Inr (hk1\<lparr>hk_global := class_annotations (hk_table hk1) (d_decl_string d) (hk_global hk1)\<rparr>)
         else if d_kind d = KFree \<and> d_name d = ''PeekPointer''
         then Inr (hk1\<lparr>hk_global := dict_set ''ignore'' ANone (hk_global hk1)\<rparr>)
         else callable_table snapshot d hk1)"

definition comment :: "string \<Rightarrow> decl \<Rightarrow> hook \<Rightarrow> hook" where
  "comment where_text d hk = hk\<lparr>hk_global := dict_set ''pygen_comment'' (AStr (where_text @ '': '' @ d_str d)) (hk_global hk)\<rparr>"

section \<open>genbinds.py\<close>

definition includes_dce :: "string list" where
  "includes_dce = [''ccn-client-helper.h'']"

definition DCE_INCLUDE_PATH :: string where
  "DCE_INCLUDE_PATH = ''.''"

definition genbinds_pre_scan_hook :: "templates \<Rightarrow> decl \<Rightarrow> hook \<Rightarrow> hook result" where
  "genbinds_pre_scan_hook ts d hk =
     scan_hook True ts d (comment (DCE_INCLUDE_PATH @ ''/'' @ d_file d) d hk)"

text \<open>What \<open>dcepy_module_gen\<close> asks of pybindgen.  Its assignment to \<open>DCE_INCLUDE_PATH\<close> is to a local variable,
  and the branch that writes C++ is never taken.\<close>

record scan_request =
  sr_module :: string
  sr_anonymous_containers :: bool
  sr_include_paths :: "string list"
  sr_cflags :: string
  sr_headers :: "string list"
  sr_whitelist :: "string list"
  sr_includes :: "string list"
  sr_output :: string

text \<open>\<open>make_dir\<close> is what \<open>os.makedirs\<close> does with the path: nothing to report, or an error.\<close>

definition dcepy_module_gen ::
    "(string \<Rightarrow> py_error option) \<Rightarrow> fs \<Rightarrow> string \<Rightarrow> string \<Rightarrow> string \<Rightarrow> scan_request result" where
  "dcepy_module_gen make_dir fs binddir ns3path dcepath =
     (let bldpath = ''bindings/python''; ref_header_dir = binddir @ ''/refh'';
          request = \<lparr>sr_module = ''dce'', sr_anonymous_containers = True,
            sr_include_paths = [ref_header_dir, ns3path],
            sr_cflags = ''--gccxml-cxxflags '' @ dquote @ '' -DPYTHON_SCAN'' @ dquote,
            sr_headers = map (\<lambda>hf. ref_header_dir @ ''/'' @ hf) includes_dce,
            sr_whitelist = [ref_header_dir],
            sr_includes = map (\<lambda>h. dquote @ h @ dquote) [''ns3/dce-module.h'', ''ns3/dce-manager-helper.h'',
              ''ns3/dce-application.h'', ''ns3/ipv4-dce-routing-helper.h''],
            sr_output = bldpath @ ''/temp_dce_bindings.py''\<rparr>
      in case make_dir bldpath of
           None \<Rightarrow> Inr request
         | Some e \<Rightarrow> if e = FileExistsError \<and> fs bldpath = Some DirNode then Inr request else Inl e)"

section \<open>ns3modulescan.py\<close>

definition modulescan_pre_scan_hook :: "templates \<Rightarrow> decl \<Rightarrow> hook \<Rightarrow> hook result option" where
  "modulescan_pre_scan_hook ts d hk =
     (case get_ns3_relative_path (d_file d) of
        None \<Rightarrow> None
      | Some (Inl e) \<Rightarrow> Some (Inl e)
      | Some (Inr ns3_header) \<Rightarrow> Some (scan_hook False ts d (comment ns3_header d hk)))"

text \<open>\<open>scan_callback_classes\<close>: the text of \<open>callbacks_list.py\<close>, from the names and declaration strings of the
  classes of the module.\<close>

fun callback_lines :: "templates \<Rightarrow> (string \<times> string) list \<Rightarrow> string result" where
  "callback_lines ts [] = Inr []"
| "callback_lines ts ((name, decl_string) # cs) =
     (if \<not> startswith name ''Callback<'' then callback_lines ts cs
      else if \<not> t_is_instantiation ts decl_string then Inl AssertionError
      else map_result (\<lambda>r. ''    '' @ py_repr (VList (map VStr (t_parameters ts decl_string))) @ '','' @ nl @ r)
             (callback_lines ts cs))"

definition scan_callback_classes :: "templates \<Rightarrow> (string \<times> string) list \<Rightarrow> string result" where
  "scan_callback_classes ts cs =
     map_result (\<lambda>r. ''callback_classes = ['' @ nl @ r @ '']'' @ nl) (callback_lines ts cs)"

text \<open>The classifier of sections.\<close>

record classifier =
  headers_map :: "(string, string) dict"
  section_precendences :: "(string, int) dict"

definition classify :: "classifier \<Rightarrow> decl \<Rightarrow> string" where
  "classify c d = (case dict_get (headers_map c) (basename (d_file d)) of Some s \<Rightarrow> s | None \<Rightarrow> ''__main__'')"

definition get_section_precedence :: "classifier \<Rightarrow> string \<Rightarrow> int result" where
  "get_section_precedence c section_name =
     (if section_name = ''__main__'' then Inr (- 1) else dict_getitem (section_precendences c) section_name)"

section \<open>ns3modulescan-modular.py\<close>

definition dashes_to_underscores :: "string \<Rightarrow> string" where
  "dashes_to_underscores = map (\<lambda>c. if c = CHR ''-'' then CHR ''_'' else c)"

text \<open>The modules of the template parameters whose declarations have a header of ns-3.  A header
  without name is looked up as \<open>None\<close>, which is no key.\<close>

fun parameter_modules :: "templates \<Rightarrow> (string, string) dict \<Rightarrow> string list \<Rightarrow> string list result" where
  "parameter_modules ts headers [] = Inr []"
| "parameter_modules ts headers (p # ps) =
     (case t_find_file ts p of
        None \<Rightarrow> parameter_modules ts headers ps
      | Some f \<Rightarrow>
          (case modular_relative_path f of
             Inl ValueError \<Rightarrow> parameter_modules ts headers ps
           | Inl e \<Rightarrow> Inl e
           | Inr None \<Rightarrow> Inl KeyError
           | Inr (Some h) \<Rightarrow>
               bind_result (dict_getitem headers h) (\<lambda>m.
               map_result (\<lambda>ms. m # ms) (parameter_modules ts headers ps))))"

text \<open>The module a class belongs to: that of the header, unless a template parameter is of the module
  that is scanned.\<close>

definition class_module :: "templates \<Rightarrow> (string, string) dict \<Rightarrow> string \<Rightarrow> decl \<Rightarrow> string \<Rightarrow> string result" where
  "class_module ts headers module d definition_module =
     (if t_is_instantiation ts (d_decl_string d)
      then map_result (\<lambda>ms. if module \<in> set ms then module else definition_module)
             (parameter_modules ts headers (t_parameters ts (d_name d)))
      else Inr definition_module)"

definition modular_body ::
    "templates \<Rightarrow> (string, string) dict \<Rightarrow> string \<Rightarrow> decl \<Rightarrow> string \<Rightarrow> hook \<Rightarrow> hook result" where
  "modular_body ts headers module d definition_module hk =
     (if d_kind d = KClass
      then map_result (\<lambda>m.
             let g = (if m \<noteq> module
                      then dict_set ''import_from_module'' (AStr (''ns.'' @ dashes_to_underscores m)) (hk_global hk)
                      else hk_global hk)
             in hk\<lparr>hk_global := class_annotations (hk_table hk) (d_decl_string d) g\<rparr>)
             (class_module ts headers module d definition_module)
      else if d_kind d = KEnum
      then Inr (if definition_module \<noteq> module
                then hk\<lparr>hk_global := dict_set ''import_from_module'' (AStr (''ns.'' @ definition_module)) (hk_global hk)\<rparr>
                else hk)
      else if d_kind d = KFree \<and> (definition_module \<noteq> module \<or> d_name d = ''PeekPointer'')
      then Inr (hk\<lparr>hk_global := dict_set ''ignore'' ANone (hk_global hk)\<rparr>)
      else callable_table True d hk)"

definition modular_hook ::
    "templates \<Rightarrow> (string, string) dict \<Rightarrow> string \<Rightarrow> decl \<Rightarrow> hook \<Rightarrow> hook result" where
  "modular_hook ts headers module d hk =
     (case modular_relative_path (d_file d) of
        Inl ValueError \<Rightarrow> Inr hk
      | Inl e \<Rightarrow> Inl e
      | Inr None \<Rightarrow> Inr hk
      | Inr (Some ns3_header) \<Rightarrow>
          if ns3_header = [] then Inr hk
          else bind_result (dict_getitem headers ns3_header) (\<lambda>definition_module.
            let hk1 = comment (ns3_header @ '' (module '' @ py_repr_str definition_module @ '')'') d hk;
                hk2 = hk1\<lparr>hk_global := special_methods ts (d_str d) d (hk_global hk1), hk_defaults := fixed_defaults d\<rparr>
            in modular_body ts headers module d definition_module hk2))"

text \<open>The scan of a module: the files that are written and removed, and what is asked of pybindgen.\<close>

record modular_scan =
  ms_module :: string
  ms_include_paths :: "string list"
  ms_cflags :: string
  ms_scan_header :: string
  ms_output :: string
  ms_callbacks_file :: string
  ms_output_mode :: int

definition modular_module_scan :: "fs \<Rightarrow> string \<Rightarrow> string \<Rightarrow> string \<Rightarrow> string \<Rightarrow> modular_scan" where
  "modular_module_scan fs top_builddir module_name output_file_name cflags =
     (let scan_header = path_join (dirname output_file_name) ''scan-header.h'';
          paths = [top_builddir, top_builddir @ ''/../../../build/include/ns3-dev'']
      in \<lparr>ms_module = ''ns.'' @ dashes_to_underscores module_name, ms_include_paths = paths,
          ms_cflags = ''-std=c++14 '' @ cflags,
          ms_scan_header = (if path_exists fs scan_header then scan_header
             else path_joins top_builddir [''include'', ''ns3'', module_name @ ''-module.h'']),
          ms_output = output_file_name,
          ms_callbacks_file = path_join (dirname output_file_name) ''callbacks_list.py'',
          ms_output_mode = 0x100\<rparr>)"

text \<open>The script: its five arguments, of which the third is a Python dictionary.\<close>

definition headers_of :: "pyval \<Rightarrow> (string, string) dict result" where
  "headers_of v = (case v of
       VDict kvs \<Rightarrow> map_result (dict_update []) (mapM_result (\<lambda>(k, v).
         case (k, v) of (VStr a, VStr b) \<Rightarrow> Inr (a, b) | _ \<Rightarrow> Inl Unsupported) kvs)
     | _ \<Rightarrow> Inl Unsupported)"

definition modular_main :: "fs \<Rightarrow> string list \<Rightarrow> (modular_scan \<times> (string, string) dict) result" where
  "modular_main fs argv =
     (case argv of
        [_, a1, a2, a3, a4, a5] \<Rightarrow>
          bind_result (py_eval (\<lambda>_. None) a3) (\<lambda>v.
          map_result (\<lambda>headers. (modular_module_scan fs a1 a2 a4 a5, headers)) (headers_of v))
      | _ \<Rightarrow> Inl (SystemExit 1))"

text \<open>How \<open>ns3modulegen-modular.py\<close> reads \<open>callbacks_list.py\<close> again, by importing it; no file is
  an empty list.  Other texts than one assignment are not evaluated.\<close>

definition import_callbacks :: "string option \<Rightarrow> string list list result" where
  "import_callbacks file = (case file of
       None \<Rightarrow> Inr []
     | Some text \<Rightarrow>
         if startswith text ''callback_classes = ''
         then bind_result (py_eval (\<lambda>_. None) (rstrip (drop (length ''callback_classes = '') text))) (\<lambda>v.
              bind_result (items_of v) (mapM_result str_items))
         else Inl Unsupported)"

section \<open>Paths below a directory called ns3\<close>

lemma abs_of_snoc_ne: "abs_of (cs @ [c]) \<noteq> []" "proper_part c \<Longrightarrow> abs_of cs \<noteq> abs_of (cs @ [c])"
  by (simp_all add: abs_of_snoc) (auto simp: abs_of_def proper_part_def)

lemma modular_step:
  assumes "list_all proper_part (cs @ [c])"
  shows "modular_path_loop (abs_of (cs @ [c])) l =
    (if c = ''ns3'' then join_all l else modular_path_loop (abs_of cs) (c # l))"
proof -
  have "proper_part c" using assms by simp
  then show ?thesis using abs_of_snoc_ne [where cs = cs and c = c]
    by (subst modular_path_loop.simps) (simp only: path_split_abs_of [OF assms] fst_conv snd_conv if_False)
qed

lemma relative_step:
  assumes "list_all proper_part (cs @ [c])"
  shows "relative_path_loop (abs_of (cs @ [c])) l =
    (if c = ''ns3'' then Some (join_all l) else relative_path_loop (abs_of cs) (c # l))"
  using abs_of_snoc_ne(1) [where cs = cs and c = c]
  by (subst relative_path_loop.simps) (simp only: path_split_abs_of [OF assms] fst_conv snd_conv if_False)

lemma modular_loop_without:
  "list_all proper_part cs \<Longrightarrow> ''ns3'' \<notin> set cs \<Longrightarrow> modular_path_loop (abs_of cs) l = Inl ValueError"
proof (induction cs arbitrary: l rule: rev_induct)
  case Nil
  then show ?case by (subst modular_path_loop.simps) (simp add: path_split_root, simp add: abs_of_def)
next
  case (snoc c cs)
  then have "c \<noteq> ''ns3''" "modular_path_loop (abs_of cs) (c # l) = Inl ValueError" by auto
  then show ?case by (simp only: modular_step [OF snoc.prems(1)] if_False)
qed

lemma modular_loop_below:
  "list_all proper_part (us @ ''ns3'' # vs) \<Longrightarrow> ''ns3'' \<notin> set vs \<Longrightarrow>
   modular_path_loop (abs_of (us @ ''ns3'' # vs)) l = join_all (vs @ l)"
proof (induction vs arbitrary: l rule: rev_induct)
  case Nil
  then show ?case using modular_step [of us "''ns3''"] by simp
next
  case (snoc c vs)
  then have "c \<noteq> ''ns3''" "modular_path_loop (abs_of (us @ ''ns3'' # vs)) (c # l) = join_all (vs @ c # l)" by auto
  then show ?case using modular_step [of "us @ ''ns3'' # vs" c l] snoc.prems(1) by simp
qed

text \<open>At the root the unguarded loop goes on for ever.\<close>

lemma loop_root: "relative_path_loop ''/'' l = None"
proof (rule ccontr)
  assume "relative_path_loop ''/'' l \<noteq> None"
  then obtain r where r: "relative_path_loop ''/'' l = Some r" by auto
  have sp: "path_split ''/'' = (''/'', [])" by code_simp
  have "''/'' \<noteq> (''/'' :: string)"
  proof (rule relative_path_loop.raw_induct [where P = "\<lambda>head l r. head \<noteq> ''/''", OF _ r])
    fix f head l r
    assume IH: "\<And>head l r. f head l = Some r \<Longrightarrow> head \<noteq> ''/''"
      and eq: "(if head = [] then Some (Inl AssertionError)
        else if snd (path_split head) = ''ns3'' then Some (join_all l)
        else f (fst (path_split head)) (snd (path_split head) # l)) = Some r"
    show "head \<noteq> ''/''"
    proof
      assume "head = ''/''"
      with eq have "f ''/'' ([] # l) = Some r" by (simp add: sp)
      then show False using IH by blast
    qed
  qed
  then show False by simp
qed

lemma loop_without:
  "list_all proper_part cs \<Longrightarrow> ''ns3'' \<notin> set cs \<Longrightarrow> relative_path_loop (abs_of cs) l = None"
proof (induction cs arbitrary: l rule: rev_induct)
  case Nil
  then show ?case using loop_root by (simp add: abs_of_def)
next
  case (snoc c cs)
  then have "c \<noteq> ''ns3''" "relative_path_loop (abs_of cs) (c # l) = None" by auto
  then show ?case by (simp only: relative_step [OF snoc.prems(1)] if_False)
qed

lemma loop_below:
  "list_all proper_part (us @ ''ns3'' # vs) \<Longrightarrow> ''ns3'' \<notin> set vs \<Longrightarrow>
   relative_path_loop (abs_of (us @ ''ns3'' # vs)) l = Some (join_all (vs @ l))"
proof (induction vs arbitrary: l rule: rev_induct)
  case Nil
  then show ?case using relative_step [of us "''ns3''"] by simp
next
  case (snoc c vs)
  then have "c \<noteq> ''ns3''" "relative_path_loop (abs_of (us @ ''ns3'' # vs)) (c # l) = Some (join_all (vs @ c # l))" by auto
  then show ?case using relative_step [of "us @ ''ns3'' # vs" c l] snoc.prems(1) by simp
qed

section \<open>The list of callbacks is read back\<close>

lemma repr_plain:
  assumes "plain s"
  shows "py_repr_str s = repr_str s"
proof -
  have "escape_char (CHR 0x27) c = [c]" if "plain_char c" for c
    using that plain_charD [OF that] by (auto simp: escape_char_def plain_char_def)
  moreover have "CHR 0x27 \<notin> set s" using assms plain_charD by (auto simp: plain_def list_all_iff)
  ultimately have "concat (map (escape_char (CHR 0x27)) s) = s"
    using assms by (induction s) (auto simp: plain_def)
  then show ?thesis using \<open>CHR 0x27 \<notin> set s\<close> by (simp add: py_repr_str_def repr_str_def Let_def)
qed

lemma repr_plain_list: "list_all plain xs \<Longrightarrow> py_repr (VList (map VStr xs)) = repr_str_list xs"
proof -
  assume "list_all plain xs"
  then have "map py_repr (map VStr xs) = map repr_str xs" by (induction xs) (simp_all add: repr_plain)
  then show ?thesis by (simp only: py_repr.simps repr_str_list_def)
qed

definition rows_text :: "string list list \<Rightarrow> string" where
  "rows_text xss = concat (map (\<lambda>xs. ''    '' @ repr_str_list xs @ '','' @ nl) xss)"

definition rows_toks :: "string list list \<Rightarrow> tok list" where
  "rows_toks xss = concat (map (\<lambda>xs. TOpen BList # list_toks xs @ [TClose BList, TComma]) xss)"

lemma lex_repr_list:
  assumes "list_all plain xs"
  shows "lex_chars LNone d (repr_str_list xs @ cs) =
    map_option (\<lambda>us. TOpen BList # list_toks xs @ TClose BList # us) (lex_chars LNone d cs)"
proof -
  have "lex_chars LNone d (repr_str_list xs @ cs) =
      map_option (\<lambda>us. TOpen BList # us) (lex_chars LNone (Suc d) (join_str '', '' (map repr_str xs) @ '']'' @ cs))"
    by (simp add: repr_str_list_def lex_start_def)
  also have "\<dots> = map_option (\<lambda>us. TOpen BList # list_toks xs @ TClose BList # us) (lex_chars LNone d cs)"
    using lex_join_repr [where xs = xs and d = "Suc d" and cs = "'']'' @ cs"] assms
    by (simp add: list_all_iff lex_start_def option.map_comp comp_def)
  finally show ?thesis .
qed

lemma lex_rows:
  "\<forall>xs \<in> set xss. list_all plain xs \<Longrightarrow> 0 < d \<Longrightarrow>
   lex_chars LNone d (rows_text xss @ cs) = map_option (\<lambda>us. rows_toks xss @ us) (lex_chars LNone d cs)"
proof (induction xss)
  case Nil
  then show ?case by (simp add: rows_text_def rows_toks_def option.map_ident)
next
  case (Cons xs xss)
  have "lex_chars LNone d (rows_text (xs # xss) @ cs) =
      lex_chars LNone d (repr_str_list xs @ '','' @ nl @ rows_text xss @ cs)"
    by (simp add: rows_text_def lex_start_def option.map_ident)
  also have "\<dots> = map_option (\<lambda>us. TOpen BList # list_toks xs @ TClose BList # us)
      (lex_chars LNone d ('','' @ nl @ rows_text xss @ cs))"
    using Cons.prems by (intro lex_repr_list) simp
  also have "\<dots> = map_option (\<lambda>us. TOpen BList # list_toks xs @ TClose BList # TComma # us)
      (lex_chars LNone d (rows_text xss @ cs))"
    using Cons.prems(2) by (simp add: lex_start_def nl_def option.map_comp comp_def option.map_ident)
  finally show ?case using Cons by (simp add: rows_toks_def option.map_comp comp_def)
qed

lemma parse_rows:
  assumes "\<not> f_after f" "f_kind f = BList"
  shows "\<exists>g. parse_toks env (rows_toks xss @ ts) (f # fs) = parse_toks env ts (g # fs) \<and>
    f_items g = f_items f @ map (\<lambda>xs. VList (map VStr xs)) xss \<and> f_kind g = BList \<and> \<not> f_after g"
  using assms
proof (induction xss arbitrary: f)
  case Nil
  then show ?case by (intro exI [of _ f]) (simp add: rows_toks_def)
next
  case (Cons xs xss)
  obtain g where g: "parse_toks env (list_toks xs @ TClose BList # TComma # rows_toks xss @ ts)
      (open_frame BList # f # fs) = parse_toks env (TClose BList # TComma # rows_toks xss @ ts) (g # f # fs)"
    "f_items g = map VStr xs" "f_kind g = BList"
    using parse_list_toks [of env xs "TClose BList # TComma # rows_toks xss @ ts" "f # fs"] by blast
  let ?f = "f\<lparr>f_items := f_items f @ [VList (map VStr xs)], f_after := False, f_comma := True\<rparr>"
  have "parse_toks env (rows_toks (xs # xss) @ ts) (f # fs) = parse_toks env (rows_toks xss @ ts) (?f # fs)"
    using g Cons.prems by (simp add: rows_toks_def close_value_def)
  moreover from Cons.IH [of ?f] Cons.prems obtain h where
    "parse_toks env (rows_toks xss @ ts) (?f # fs) = parse_toks env ts (h # fs)"
    "f_items h = f_items ?f @ map (\<lambda>xs. VList (map VStr xs)) xss" "f_kind h = BList" "\<not> f_after h" by auto
  ultimately show ?case by (intro exI [of _ h]) simp
qed

lemma rows_no_eq: "TEq \<notin> set (TOpen BList # rows_toks xss @ [TClose BList])"
proof -
  have "TEq \<notin> set (list_toks xs)" for xs by (cases xs) (auto simp: comma_toks_def)
  then show ?thesis by (auto simp: rows_toks_def)
qed

lemma eval_rows:
  assumes "\<forall>xs \<in> set xss. list_all plain xs"
  shows "py_eval env (''['' @ nl @ rows_text xss @ '']'') = Inr (VList (map (\<lambda>xs. VList (map VStr xs)) xss))"
proof -
  let ?ts = "TOpen BList # rows_toks xss @ [TClose BList]"
  have "lex_chars LNone 0 (''['' @ nl @ rows_text xss @ '']'') =
      map_option (\<lambda>us. TOpen BList # us) (lex_chars LNone 1 (rows_text xss @ '']''))"
    by (simp add: lex_start_def nl_def option.map_ident)
  also have "\<dots> = Some ?ts"
    using lex_rows [OF assms, of 1 "'']''"] by (simp add: lex_start_def lex_flush_def)
  finally have l: "lex_chars LNone 0 (''['' @ nl @ rows_text xss @ '']'') = Some ?ts" .
  obtain g where g: "parse_toks env (rows_toks xss @ [TClose BList]) [open_frame BList, open_frame BTop] =
      parse_toks env [TClose BList] [g, open_frame BTop]"
    "f_items g = map (\<lambda>xs. VList (map VStr xs)) xss" "f_kind g = BList"
    using parse_rows [of "open_frame BList" env xss "[TClose BList]" "[open_frame BTop]"]
    by (auto simp: open_frame_def)
  then have p: "parse_display env ?ts = Some (VList (map (\<lambda>xs. VList (map VStr xs)) xss))"
    by (simp add: parse_display_def open_frame_def close_value_def)
  have "dropWhile (\<lambda>t. t \<noteq> TEq) ?ts = []"
    using rows_no_eq [of xss] by (simp only: dropWhile_eq_Nil_conv) blast
  then show ?thesis unfolding py_eval_def l using p by simp
qed

lemma items_rows: "mapM_result str_items (map (\<lambda>xs. VList (map VStr xs)) xss) = Inr xss"
  by (induction xss) (simp_all add: str_items_strings)

definition callback_rows :: "templates \<Rightarrow> (string \<times> string) list \<Rightarrow> string list list" where
  "callback_rows ts cs = map (\<lambda>c. t_parameters ts (snd c)) (filter (\<lambda>c. startswith (fst c) ''Callback<'') cs)"

lemma callback_lines_rows:
  "\<forall>c \<in> set cs. startswith (fst c) ''Callback<'' \<longrightarrow> t_is_instantiation ts (snd c) \<and> list_all plain (t_parameters ts (snd c)) \<Longrightarrow>
   callback_lines ts cs = Inr (rows_text (callback_rows ts cs))"
  by (induction ts cs rule: callback_lines.induct)
     (auto simp: callback_rows_def rows_text_def repr_plain_list simp del: py_repr.simps)

interpretation callbacks: codec "\<lambda>xss. ''callback_classes = ['' @ nl @ rows_text xss @ '']'' @ nl"
  "\<lambda>text. import_callbacks (Some text)" "\<lambda>xss. xss" "\<lambda>xss. \<forall>xs \<in> set xss. list_all plain xs"
proof
  fix xss :: "string list list"
  assume p: "\<forall>xs \<in> set xss. list_all plain xs"
  have "rstrip (''['' @ nl @ rows_text xss @ '']'' @ nl) = ''['' @ nl @ rows_text xss @ '']''"
    by (simp add: rstrip_def nl_def is_space_def)
  then show "import_callbacks (Some (''callback_classes = ['' @ nl @ rows_text xss @ '']'' @ nl)) = Inr xss"
    using eval_rows [OF p] items_rows by (simp add: import_callbacks_def)
qed

section \<open>What the hooks do to their tables\<close>

lemma dict_get_update_other: "k \<notin> fst ` set e \<Longrightarrow> dict_get (dict_update g e) k = dict_get g k"
  by (induction e arbitrary: g) auto

lemma dict_get_del: "dict_get (dict_del k d) k' = (if k' = k then None else dict_get d k')"
  by (induction d) (auto simp: dict_del_def dict_get_def)

text \<open>A callable that the hook looks up in its table.\<close>

definition looked_up :: "decl \<Rightarrow> bool" where
  "looked_up d \<longleftrightarrow> d_kind d \<in> {KMember, KConstructor} \<or> d_kind d = KFree \<and> d_name d \<noteq> ''PeekPointer''"

lemma scan_hook_looked_up:
  "looked_up d \<Longrightarrow> scan_hook b ts d hk = callable_table b d
     (hk\<lparr>hk_global := special_methods ts (d_demangled d) d (hk_global hk), hk_defaults := fixed_defaults d\<rparr>)"
  by (auto simp: scan_hook_def looked_up_def Let_def)

lemma comment_keeps [simp]:
  "hk_table (comment w d hk) = hk_table hk" "hk_params (comment w d hk) = hk_params hk"
  by (simp_all add: comment_def)

lemma callable_params:
  assumes "looked_up d" "dict_get (hk_table hk) (d_str d) = Some a" "dict_get a ''params'' = Some (AParams ps)"
  shows "\<exists>hk1. callable_table True d hk = Inr hk1 \<and> hk_params hk1 = dict_update (hk_params hk) ps \<and>
      hk_table hk1 = dict_set (d_str d) (dict_del ''params'' a) (hk_table hk)"
    and "callable_table False d hk = Inl RuntimeError"
  using assms by (auto simp: callable_table_def looked_up_def)

lemma callable_no_params:
  assumes "looked_up d" "dict_get (hk_table hk) (d_str d) = Some a" "dict_get a ''params'' = None"
  shows "\<exists>hk1. callable_table b d hk = Inr hk1 \<and> hk_params hk1 = hk_params hk \<and> hk_table hk1 = hk_table hk"
  using assms by (auto simp: callable_table_def looked_up_def)

lemma class_annotations_import:
  assumes "\<And>a. dict_get table s = Some a \<Longrightarrow> ''import_from_module'' \<notin> fst ` set a"
  shows "dict_get (class_annotations table s g) ''import_from_module'' = dict_get g ''import_from_module''"
  using assms
  by (auto simp: class_annotations_def class_family_def class_table_def dict_get_update_other split: option.splits)

lemma special_methods_import:
  "dict_get (special_methods ts t d g) ''import_from_module'' = dict_get g ''import_from_module''"
  by (simp add: special_methods_def Let_def)

lemma comment_import:
  "dict_get (hk_global (comment w d hk)) ''import_from_module'' = dict_get (hk_global hk) ''import_from_module''"
  by (simp add: comment_def)

lemma modular_hook_header:
  assumes "modular_relative_path (d_file d) = Inr (Some h)" "h \<noteq> []" "dict_get headers h = Some m"
  shows "\<exists>hk2. modular_hook ts headers module d hk = modular_body ts headers module d m hk2 \<and>
    hk_table hk2 = hk_table hk \<and>
    dict_get (hk_global hk2) ''import_from_module'' = dict_get (hk_global hk) ''import_from_module''"
  using assms
  by (simp add: modular_hook_def dict_getitem_def Let_def)
    (rule exI, rule conjI [OF refl], simp add: special_methods_import comment_import)

text \<open>The declaration of \<open>RandomVariable::GetSeed\<close>, for the examples below.\<close>

definition sample_decl :: decl where
  "sample_decl = \<lparr>d_kind = KMember, d_name = ''GetSeed'', d_parent = ''RandomVariable'',
     d_str = ''void ns3::RandomVariable::GetSeed(uint32_t * seed) const [member function]'',
     d_decl_string = [], d_demangled = [], d_file = ''/b/ns3/r.h'', d_defaults = []\<rparr>"

definition sample_templates :: templates where
  "sample_templates = \<lparr>t_args = (\<lambda>_. []), t_is_instantiation = (\<lambda>_. False), t_parameters = (\<lambda>_. []), t_find_file = (\<lambda>_. None)\<rparr>"

section \<open>Properties\<close>

text \<open>C25: the two versions of \<open>get_ns3_relative_path\<close> agree on every header below a directory
  called \<open>ns3\<close>, where both give the path from the last such directory on.  On other absolute paths
  the version for single modules raises \<open>ValueError\<close>, by which the hook knows foreign
  headers, and the older version does not return.\<close>

theorem relative_path_versions:
  assumes "list_all proper_part cs"
  shows "(\<forall>us vs. cs = us @ ''ns3'' # vs \<and> ''ns3'' \<notin> set vs \<and> vs \<noteq> [] \<longrightarrow>
      modular_relative_path (abs_of cs) = Inr (Some (join_str ''/'' vs)) \<and>
      get_ns3_relative_path (abs_of cs) = Some (Inr (join_str ''/'' vs))) \<and>
    (''ns3'' \<notin> set cs \<longrightarrow>
      modular_relative_path (abs_of cs) = Inl ValueError \<and> get_ns3_relative_path (abs_of cs) = None)"
proof (intro conjI allI impI)
  fix us vs
  assume v: "cs = us @ ''ns3'' # vs \<and> ''ns3'' \<notin> set vs \<and> vs \<noteq> []"
  then have "join_all vs = Inr (join_str ''/'' vs)" using assms by (simp add: join_all_parts)
  moreover have "abs_of cs \<noteq> []" by (simp add: abs_of_def)
  ultimately show "modular_relative_path (abs_of cs) = Inr (Some (join_str ''/'' vs))"
    "get_ns3_relative_path (abs_of cs) = Some (Inr (join_str ''/'' vs))"
    using v assms modular_loop_below [of us vs "[]"] loop_below [of us vs "[]"]
    by (simp_all add: modular_relative_path_def get_ns3_relative_path_def)
next
  assume "''ns3'' \<notin> set cs"
  moreover have "abs_of cs \<noteq> []" by (simp add: abs_of_def)
  ultimately show "modular_relative_path (abs_of cs) = Inl ValueError" "get_ns3_relative_path (abs_of cs) = None"
    using assms modular_loop_without loop_without
    by (simp_all add: modular_relative_path_def get_ns3_relative_path_def)
qed

theorem relative_path_versions_witness:
  "get_ns3_relative_path ''/b/ns3/dce/x.h'' = Some (Inr ''dce/x.h'') \<and> get_ns3_relative_path ''/usr/x.h'' = None"
proof -
  have "list_all proper_part [''b'', ''ns3'', ''dce'', ''x.h'']" "list_all proper_part [''usr'', ''x.h'']" by code_simp+
  from relative_path_versions [OF this(1), THEN conjunct1, rule_format, of "[''b'']" "[''dce'', ''x.h'']"]
    relative_path_versions [OF this(2), THEN conjunct2]
  show ?thesis by (simp add: abs_of_def)
qed

text \<open>C26: the list of callbacks that a scan writes is the list that the generator imports: one entry
  for each class \<open>Callback<..>\<close> of the module, in order, with its template parameters.\<close>

theorem callbacks_roundtrip:
  assumes "\<forall>c \<in> set cs. startswith (fst c) ''Callback<'' \<longrightarrow>
    t_is_instantiation ts (snd c) \<and> list_all plain (t_parameters ts (snd c))"
  shows "bind_result (scan_callback_classes ts cs) (\<lambda>text. import_callbacks (Some text)) =
    Inr (map (\<lambda>c. t_parameters ts (snd c)) (filter (\<lambda>c. startswith (fst c) ''Callback<'') cs))"
proof -
  have "\<forall>xs \<in> set (callback_rows ts cs). list_all plain xs" using assms by (auto simp: callback_rows_def)
  from callbacks.parse_render [OF this] show ?thesis
    by (simp add: scan_callback_classes_def callback_lines_rows [OF assms] callback_rows_def)
qed

theorem callbacks_roundtrip_witness:
  "bind_result (scan_callback_classes \<lparr>t_args = (\<lambda>_. []), t_is_instantiation = (\<lambda>_. True), t_parameters = (\<lambda>_. [''void'', ''int'']), t_find_file = (\<lambda>_. None)\<rparr>
       [(''Callback<void, int>'', ''::ns3::Callback<void, int>''), (''Node'', ''::ns3::Node'')])
     (\<lambda>text. import_callbacks (Some text)) = Inr [[''void'', ''int'']]"
proof -
  have "list_all plain [''void'', ''int'']" by code_simp
  then show ?thesis by (subst callbacks_roundtrip) simp_all
qed

text \<open>Annotations of parameters are used up.  Where the table has them for a callable, the hook of
  \<open>genbinds.py\<close> gives them to the first declaration that bears the text of the entry and deletes
  them, so that every later declaration with this text gets none; the entries of other
  declarations stay.  The same entry makes the hook of \<open>ns3modulescan.py\<close> end in \<open>RuntimeError\<close>,
  because it deletes from the dictionary it loops over.\<close>

theorem params_used_up:
  assumes "looked_up d" "dict_get (hk_table hk) (d_str d) = Some a" "dict_get a ''params'' = Some (AParams ps)"
  shows "(\<exists>hk1. genbinds_pre_scan_hook ts d hk = Inr hk1 \<and> hk_params hk1 = dict_update (hk_params hk) ps \<and>
      (\<forall>s. s \<noteq> d_str d \<longrightarrow> dict_get (hk_table hk1) s = dict_get (hk_table hk) s) \<and>
      (\<forall>e hk2. looked_up e \<and> d_str e = d_str d \<and> hk_table hk2 = hk_table hk1 \<longrightarrow>
         (\<exists>hk3. genbinds_pre_scan_hook ts e hk2 = Inr hk3 \<and> hk_params hk3 = hk_params hk2 \<and> hk_table hk3 = hk_table hk2))) \<and>
    (\<forall>h. get_ns3_relative_path (d_file d) = Some (Inr h) \<longrightarrow>
      modulescan_pre_scan_hook ts d hk = Some (Inl RuntimeError))"
proof -
  let ?hk = "(comment (DCE_INCLUDE_PATH @ ''/'' @ d_file d) d hk)"
  let ?hk' = "?hk\<lparr>hk_global := special_methods ts (d_demangled d) d (hk_global ?hk), hk_defaults := fixed_defaults d\<rparr>"
  obtain hk1 where h1: "callable_table True d ?hk' = Inr hk1" "hk_params hk1 = dict_update (hk_params hk) ps"
    "hk_table hk1 = dict_set (d_str d) (dict_del ''params'' a) (hk_table hk)"
    using callable_params(1) [of d ?hk' a ps] assms by auto
  have again: "\<exists>hk3. genbinds_pre_scan_hook ts e hk2 = Inr hk3 \<and> hk_params hk3 = hk_params hk2 \<and> hk_table hk3 = hk_table hk2"
    if "looked_up e" "d_str e = d_str d" "hk_table hk2 = hk_table hk1" for e hk2
  proof -
    let ?c = "comment (DCE_INCLUDE_PATH @ ''/'' @ d_file e) e hk2"
    have "dict_get (hk_table hk2) (d_str e) = Some (dict_del ''params'' a)" "dict_get (dict_del ''params'' a) ''params'' = None"
      using that(2,3) h1(3) by (simp_all add: dict_get_del)
    then show ?thesis
      using callable_no_params [of e "?c\<lparr>hk_global := special_methods ts (d_demangled e) e (hk_global ?c),
          hk_defaults := fixed_defaults e\<rparr>" "dict_del ''params'' a" True] that(1)
      by (simp add: genbinds_pre_scan_hook_def scan_hook_looked_up)
  qed
  have "\<exists>hk1. genbinds_pre_scan_hook ts d hk = Inr hk1 \<and> hk_params hk1 = dict_update (hk_params hk) ps \<and>
      (\<forall>s. s \<noteq> d_str d \<longrightarrow> dict_get (hk_table hk1) s = dict_get (hk_table hk) s) \<and>
      (\<forall>e hk2. looked_up e \<and> d_str e = d_str d \<and> hk_table hk2 = hk_table hk1 \<longrightarrow>
         (\<exists>hk3. genbinds_pre_scan_hook ts e hk2 = Inr hk3 \<and> hk_params hk3 = hk_params hk2 \<and> hk_table hk3 = hk_table hk2))"
    using h1 assms(1) again
    by (intro exI [of _ hk1]) (simp add: genbinds_pre_scan_hook_def scan_hook_looked_up)
  moreover have "modulescan_pre_scan_hook ts d hk = Some (Inl RuntimeError)"
    if "get_ns3_relative_path (d_file d) = Some (Inr h)" for h
    using callable_params(2) assms that by (simp add: modulescan_pre_scan_hook_def scan_hook_looked_up)
  ultimately show ?thesis by blast
qed

theorem params_used_up_witness:
  "\<exists>hk1. genbinds_pre_scan_hook sample_templates sample_decl
      \<lparr>hk_table = genbinds_annotations, hk_global = [], hk_params = [], hk_defaults = []\<rparr> = Inr hk1 \<and>
    hk_params hk1 = [(''seed'', [(''direction'', ''out''), (''array_length'', ''6'')])]"
proof -
  let ?hk = "\<lparr>hk_table = genbinds_annotations, hk_global = [], hk_params = [], hk_defaults = []\<rparr>"
  have "looked_up sample_decl" by code_simp
  moreover have "dict_get (hk_table ?hk) (d_str sample_decl) =
      Some [(''params'', AParams [(''seed'', [(''direction'', ''out''), (''array_length'', ''6'')])])]"
    by code_simp
  ultimately show ?thesis
    using params_used_up [THEN conjunct1, of sample_decl ?hk "[(''params'', AParams [(''seed'', [(''direction'', ''out''), (''array_length'', ''6'')])])]"
        "[(''seed'', [(''direction'', ''out''), (''array_length'', ''6'')])]" sample_templates]
    by (auto simp: dict_get_def)
qed



end
