(* ===== verification/Bind_Gen.thy ===== *)
theory Bind_Gen
  imports Bind_Scan
begin

text \<open>
  \<open>src/bindings/python/ns3modulegen_core_customizations.py\<close> and \<open>ns3modulegen-modular.py\<close>: the generation of the
  Python bindings.  Smart pointers are translated to plain pointers, callbacks get generated classes, some
  classes get hand-written methods, and the main function runs these steps in order.

  pybindgen is not in the repository.  What the code asks of it (types that can be wrapped, names of
  declared variables, the body of a virtual method) is the record \<open>pybindgen\<close>; what the code tells it
  is recorded as lists of declarations, lines and operations.
\<close>

section \<open>Smart pointers\<close>

text \<open>The match of \<open>(ns3::|::ns3::|)Ptr<([^>]+)>\s*$\<close>: the second group.\<close>

definition ptr_tail :: "string \<Rightarrow> string option" where
  "ptr_tail s =
     (let inner = takeWhile (\<lambda>c. c \<noteq> CHR ''>'') (drop 4 s); r = dropWhile (\<lambda>c. c \<noteq> CHR ''>'') (drop 4 s)
      in if startswith s ''Ptr<'' \<and> inner \<noteq> [] \<and> r \<noteq> [] \<and> list_all is_space (tl r) then Some inner else None)"

definition ptr_match :: "string \<Rightarrow> string option" where
  "ptr_match s =
     ptr_tail (if startswith s ''ns3::'' then drop 5 s else if startswith s ''::ns3::'' then drop 7 s else s)"

definition untransformed_type_traits :: "string \<Rightarrow> string option \<times> bool" where
  "untransformed_type_traits name =
     (case ptr_match name of
        None \<Rightarrow> (None, False)
      | Some inner \<Rightarrow>
          let name1 = strip inner;
              c1 = startswith name1 ''const ''; name2 = (if c1 then drop 6 name1 else name1);
              c2 = endswith name2 '' const''; name3 = (if c2 then take (length name2 - 6) name2 else name2);
              new_name = name3 @ '' *''
          in (Some (if startswith new_name ''::'' then drop 2 new_name else new_name), c1 \<or> c2))"

definition get_untransformed_name :: "string \<Rightarrow> string option" where
  "get_untransformed_name name = fst (untransformed_type_traits name)"

datatype handler_kind = HParameter | HReturnValue | HOther

record type_handler =
  h_kind :: handler_kind
  h_ctype :: string
  h_rest :: "string list"
  h_kwargs :: "(string, bool) dict"
  h_untransformed :: string

definition smart_ctype :: "string \<Rightarrow> bool \<Rightarrow> string" where
  "smart_ctype orig is_const =
     ''ns3::Ptr< '' @ take (length orig - 2) orig @ (if is_const then '' const >'' else '' >'')"

definition create_type_handler :: "handler_kind \<Rightarrow> string list \<Rightarrow> (string, bool) dict \<Rightarrow> type_handler result" where
  "create_type_handler kind args kwargs =
     (if kind = HOther then Inl AssertionError
      else case args of
        [] \<Rightarrow> Inl IndexError
      | ctype # rest \<Rightarrow>
          (case untransformed_type_traits ctype of
             (None, _) \<Rightarrow> Inl TypeError
           | (Some orig, is_const) \<Rightarrow> Inr \<lparr>h_kind = kind, h_ctype = smart_ctype orig is_const, h_rest = rest,
               h_kwargs = dict_set (if kind = HParameter then ''transfer_ownership'' else ''caller_owns_return'') False kwargs,
               h_untransformed = orig\<rparr>))"

definition untransform :: "type_handler \<Rightarrow> string \<Rightarrow> string" where
  "untransform h expression = ''const_cast<'' @ h_untransformed h @ ''> (ns3::PeekPointer ('' @ expression @ ''))''"

definition transform :: "type_handler \<Rightarrow> string \<Rightarrow> string result" where
  "transform h expression =
     (if h_untransformed h = [] then Inl IndexError
      else if last (h_untransformed h) \<noteq> CHR ''*'' then Inl AssertionError
      else Inr (''ns3::Ptr< '' @ butlast (h_untransformed h) @ '' > ('' @ expression @ '')''))"

section \<open>The library\<close>

text \<open>\<open>b_type\<close> prints a parsed type and says whether it is const; \<open>b_return\<close> and \<open>b_param\<close> say whether a type can be wrapped, and for a
  parameter whether its class has a helper class that cannot be constructed; \<open>b_name\<close> is the name given to a declared
  variable; \<open>b_method\<close> is the body of the proxy of a callback.\<close>

datatype param_answer = Unknown_type | Known_type bool

record pybindgen =
  b_type :: "string \<Rightarrow> string \<times> bool"
  b_return :: "string \<Rightarrow> bool \<Rightarrow> bool"
  b_param :: "string \<Rightarrow> bool \<Rightarrow> param_answer"
  b_name :: "string \<Rightarrow> string"
  b_method :: "string \<times> bool \<Rightarrow> (string \<times> string \<times> bool) list \<Rightarrow> string"

datatype code_line = Line string | Check string "string option"

record wrapper =
  w_declarations :: "(string \<times> string \<times> string option) list"
  w_parse :: "(string \<times> string list \<times> string \<times> bool) list"
  w_before :: "code_line list"
  w_cleanup :: "string list"
  w_call :: "string list"

definition empty_wrapper :: wrapper where
  "empty_wrapper = \<lparr>w_declarations = [], w_parse = [], w_before = [], w_cleanup = [], w_call = []\<rparr>"

definition declare_variable :: "string \<Rightarrow> string \<Rightarrow> string option \<Rightarrow> wrapper \<Rightarrow> wrapper" where
  "declare_variable ty name init w = w\<lparr>w_declarations := w_declarations w @ [(ty, name, init)]\<rparr>"

definition write_code :: "string \<Rightarrow> wrapper \<Rightarrow> wrapper" where
  "write_code line w = w\<lparr>w_before := w_before w @ [Line line]\<rparr>"

definition error_check :: "string \<Rightarrow> string option \<Rightarrow> wrapper \<Rightarrow> wrapper" where
  "error_check test failure w = w\<lparr>w_before := w_before w @ [Check test failure]\<rparr>"

definition add_parse :: "string \<Rightarrow> string list \<Rightarrow> string \<Rightarrow> bool \<Rightarrow> wrapper \<Rightarrow> wrapper" where
  "add_parse template values name opt w = w\<lparr>w_parse := w_parse w @ [(template, values, name, opt)]\<rparr>"

definition add_call :: "string \<Rightarrow> wrapper \<Rightarrow> wrapper" where
  "add_call e w = w\<lparr>w_call := w_call w @ [e]\<rparr>"

definition add_cleanup :: "string \<Rightarrow> wrapper \<Rightarrow> wrapper" where
  "add_cleanup line w = w\<lparr>w_cleanup := w_cleanup w @ [line]\<rparr>"

section \<open>Callbacks\<close>

text \<open>\<open>CallbackImplProxyMethod.generate_python_call\<close>, given the parameters that the tuple is built from.\<close>

definition generate_python_call :: "pybindgen \<Rightarrow> string list \<Rightarrow> wrapper \<Rightarrow> wrapper result" where
  "generate_python_call b build_params w =
     (case build_params of
        [] \<Rightarrow> Inl IndexError
      | [] # ps \<Rightarrow> Inl IndexError
      | p # ps \<Rightarrow>
          let p = (if hd p = CHR 0x22 then ''(char *) '' @ p else p); args = b_name b ''args''
          in Inr (add_cleanup ''Py_DECREF(py_retval);''
                 (error_check ''py_retval == NULL'' None
                 (write_code (''py_retval = PyObject_CallObject(m_callback, '' @ args @ '');'')
                 (add_cleanup (''Py_DECREF('' @ args @ '');'')
                 (write_code (args @ '' = Py_BuildValue('' @ join_str '', '' (p # ps) @ '');'')
                 (declare_variable ''PyObject*'' ''args'' None w)))))))"

definition callback_name :: "string list \<Rightarrow> string" where
  "callback_name params = ''ns3::Callback< '' @ join_str '', '' params @ '' >''"

definition impl_name :: "nat \<Rightarrow> string" where
  "impl_name i = ''PythonCallbackImpl'' @ show_nat i"

record callback_handler =
  k_ctype :: string
  k_impl :: string
  k_args :: "string list"
  k_disabled :: bool

definition register_callback_classes :: "string list list \<Rightarrow> callback_handler list" where
  "register_callback_classes callbacks =
     map (\<lambda>(i, params). \<lparr>k_ctype = callback_name params, k_impl = impl_name i, k_args = params, k_disabled = False\<rparr>)
       (zip [0..<length callbacks] callbacks)"

definition not_callable :: "string \<Rightarrow> string" where
  "not_callable name = ''PyErr_SetString(PyExc_TypeError, '' @ dquote @ ''parameter '' @ [CHR 0x27] @ name @ [CHR 0x27] @
     '' must be callbale'' @ dquote @ '');''"

definition callback_type :: "callback_handler \<Rightarrow> string" where
  "callback_type h = ''ns3::Callback<'' @ join_str '', '' (k_args h) @ ''>''"

text \<open>\<open>convert_python_to_c\<close> of a callback parameter, with and without a default value.\<close>

definition convert_callback :: "pybindgen \<Rightarrow> callback_handler \<Rightarrow> string \<Rightarrow> string option \<Rightarrow> wrapper \<Rightarrow> wrapper result" where
  "convert_callback b h name default_value w =
     (if k_disabled h then Inl (PlainException ''wrapper could not be generated'')
      else let py = b_name b name; check = error_check (''!PyCallable_Check('' @ py @ '')'') (Some (not_callable name))
      in case default_value of
        None \<Rightarrow>
          let impl = b_name b (name @ ''_cb_impl'')
          in Inr (add_call (callback_type h @ '' ('' @ impl @ '')'')
                 (write_code (impl @ '' = ns3::Create<'' @ k_impl h @ ''> ('' @ py @ '');'')
                 (declare_variable (''ns3::Ptr<'' @ k_impl h @ ''>'') (name @ ''_cb_impl'') None
                 (check (add_parse ''O'' [''&'' @ py] name False (declare_variable ''PyObject*'' name None w))))))
      | Some dflt \<Rightarrow>
          let val = b_name b (name @ ''_value'')
          in Inr (add_call val (write_code ''}''
                 (write_code (val @ '' = '' @ callback_type h @ '' (ns3::Create<'' @ k_impl h @ ''> ('' @ py @ ''));'')
                 (check (write_code (''if ('' @ py @ '') {'')
                 (declare_variable (callback_type h) (name @ ''_value'') (Some dflt)
                 (add_parse ''O'' [''&'' @ py] name True (declare_variable ''PyObject*'' name (Some ''NULL'') w)))))))))"

text \<open>The text of the class that implements a callback.\<close>

definition callback_class_text :: "string \<Rightarrow> string list \<Rightarrow> string" where
  "callback_class_text cls params = join_str nl
     [[], ''class '' @ cls @ '' : public ns3::CallbackImpl<'' @ join_str '', '' params @ ''>'', ''{'', ''public:'',
      ''    PyObject *m_callback;'', ''    '' @ cls @ ''(PyObject *callback)'', ''    {'', ''        Py_INCREF(callback);'',
      ''        m_callback = callback;'', ''    }'', ''    virtual ~'' @ cls @ ''()'', ''    {'',
      ''        PyGILState_STATE __py_gil_state;'',
      ''        __py_gil_state = (PyEval_ThreadsInitialized() ? PyGILState_Ensure() : (PyGILState_STATE) 0);'',
      ''        Py_DECREF(m_callback);'', ''        m_callback = NULL;'', ''        PyGILState_Release(__py_gil_state);'', ''    }'', [],
      ''    virtual bool IsEqual(ns3::Ptr<const ns3::CallbackImplBase> other_base) const'', ''    {'',
      ''        const '' @ cls @ '' *other = dynamic_cast<const '' @ cls @ ''*> (ns3::PeekPointer (other_base));'',
      ''        if (other != NULL)'', ''            return (other->m_callback == m_callback);'', ''        else'',
      ''            return false;'', ''    }'', [], []]"

definition callback_parameters :: "string list \<Rightarrow> string list" where
  "callback_parameters params = filter (\<lambda>a. a \<noteq> ''ns3::empty'') (tl params)"

text \<open>The wrapped parameters with their names, or \<open>None\<close> when one of them cannot be wrapped; the second component lists the
  parameters whose helper class is given up.\<close>

definition callback_arguments :: "pybindgen \<Rightarrow> string list \<Rightarrow> (string \<times> string \<times> bool) list option \<times> string list" where
  "callback_arguments b params =
     (let args = map (\<lambda>(i, ty). (''arg'' @ show_nat (i + 1), b_type b ty)) (zip [0..<length params] params);
          answers = map (\<lambda>(name, ty, const). b_param b ty const) args
      in (if list_ex (\<lambda>a. a = Unknown_type) answers then None else Some (map (\<lambda>(name, ty, const). (ty, name, const)) args),
          map (\<lambda>((name, ty, const), a). ty) (filter (\<lambda>(x, a). a = Known_type True) (zip args answers))))"

record generated =
  e_output :: "(string \<times> string) list"
  e_disabled :: "string list"
  e_warnings :: nat
  e_no_helper :: "string list"

definition generate_callback :: "pybindgen \<Rightarrow> nat \<Rightarrow> string list \<Rightarrow> generated \<Rightarrow> generated result" where
  "generate_callback b i params g =
     (case params of
        [] \<Rightarrow> Inl IndexError
      | ret # _ \<Rightarrow>
          if \<not> b_return b (fst (b_type b ret)) (snd (b_type b ret)) then Inr (g\<lparr>e_warnings := e_warnings g + 1\<rparr>)
          else
            let (args, no_helper) = callback_arguments b (callback_parameters params); g = g\<lparr>e_no_helper := e_no_helper g @ no_helper\<rparr>
            in case args of
                 None \<Rightarrow> Inr (g\<lparr>e_disabled := e_disabled g @ [callback_name params], e_warnings := e_warnings g +
                   length (filter (\<lambda>ty. b_param b (fst (b_type b ty)) (snd (b_type b ty)) = Unknown_type) (callback_parameters params))\<rparr>)
               | Some args \<Rightarrow> Inr (g\<lparr>e_output := e_output g @
                   [(impl_name i, callback_class_text (impl_name i) params @ b_method b (b_type b ret) args @ ''};'' @ nl)]\<rparr>))"

definition generate_callback_classes :: "pybindgen \<Rightarrow> string list list \<Rightarrow> generated result" where
  "generate_callback_classes b callbacks =
     foldM_result (\<lambda>g (i, params). generate_callback b i params g)
       \<lparr>e_output = [], e_disabled = [], e_warnings = 0, e_no_helper = []\<rparr> (zip [0..<length callbacks] callbacks)"

section \<open>Customizations of the module\<close>

text \<open>What is told to the module, in order.  Classes are looked up by name; a missing one is a \<open>KeyError\<close>.\<close>

datatype module_op =
    Custom_method string string string "string list"
  | Add_method string string
  | Helper_hook string
  | Creation_function string
  | Post_creation_function string
  | Add_include string
  | Add_class string "string option" "string option"
  | Cannot_be_constructed string string
  | Add_enum string string "(string \<times> string) list"
  | Add_constructor string "(string \<times> string \<times> string option) list"
  | After_init string
  | Body string
  | Header string
  | Slot string string string
  | Remove_class string

definition find_class :: "string list \<Rightarrow> string \<Rightarrow> string result" where
  "find_class classes name = (if name \<in> set classes then Inr name else Inl KeyError)"

definition static_flags :: "string list" where
  "static_flags = [''METH_VARARGS'', ''METH_KEYWORDS'', ''METH_STATIC'']"

definition Simulator_customizations :: "string list \<Rightarrow> module_op list result" where
  "Simulator_customizations classes =
     map_result (\<lambda>c. map (\<lambda>m. Custom_method c m (''_wrap_Simulator_'' @ m) static_flags)
       [''Schedule'', ''ScheduleNow'', ''ScheduleDestroy'', ''Run'']) (find_class classes ''ns3::Simulator'')"

text \<open>\<open>ArgvParam\<close> is not defined in the file.\<close>

definition CommandLine_customizations :: "string list \<Rightarrow> module_op list result" where
  "CommandLine_customizations classes = bind_result (find_class classes ''ns3::CommandLine'') (\<lambda>_. Inl NameError)"

definition TypeId_customizations :: "string list \<Rightarrow> module_op list result" where
  "TypeId_customizations classes =
     map_result (\<lambda>c. [Custom_method c ''LookupByNameFailSafe'' ''_wrap_TypeId_LookupByNameFailSafe'' static_flags])
       (find_class classes ''ns3::TypeId'')"

definition Object_customizations :: "string list \<Rightarrow> module_op list" where
  "Object_customizations classes =
     (case find_class classes ''ns3::Object'' of
        Inl _ \<Rightarrow> []
      | Inr c \<Rightarrow> [Helper_hook c, Creation_function c, Post_creation_function c])"

text \<open>The three functions that it installs.  The message for a class that cannot be constructed has two conversions for one
  value.\<close>

definition helper_class_hook :: "string \<Rightarrow> string \<Rightarrow> string \<times> string" where
  "helper_class_hook helper_name class_full_name =
     (join_str nl [[], ''static ns3::TypeId GetTypeId (void)'', ''{'',
        ''  static ns3::TypeId tid = ns3::TypeId ('' @ dquote @ helper_name @ dquote @ '')'',
        ''    .SetParent< '' @ class_full_name @ '' > ()'', ''    ;'', ''  return tid;'', ''}''],
      ''NS_OBJECT_ENSURE_REGISTERED ('' @ helper_name @ '');'')"

record cpp_class =
  p_full_name :: string
  p_cannot_be_constructed :: bool
  p_incomplete_type :: bool

definition instance_creation :: "cpp_class \<Rightarrow> string \<Rightarrow> string \<Rightarrow> string \<Rightarrow> string list result" where
  "instance_creation cls lvalue parameters construct_type_name =
     (if lvalue = [] \<or> startswith lvalue ''None'' then Inl AssertionError
      else if p_cannot_be_constructed cls then Inl TypeError
      else if p_incomplete_type cls then Inl (PlainException (p_full_name cls @ '' cannot be constructed (incomplete type)''))
      else Inr [lvalue @ '' = new '' @ construct_type_name @ ''('' @ parameters @ '');'', lvalue @ ''->Ref ();''])"

definition post_instance_creation :: "string \<Rightarrow> string list" where
  "post_instance_creation lvalue = [''ns3::CompleteConstruct('' @ lvalue @ '');'']"

text \<open>\<open>Attribute_customizations\<close>: the parameters of all methods of all classes.\<close>

record method_param =
  mp_class_ref :: "string option"
  mp_default :: "string option"
  mp_default_type :: "string option"

definition fix_attribute :: "method_param \<Rightarrow> method_param" where
  "fix_attribute p =
     (if mp_class_ref p = Some ''AttributeValue'' \<and> mp_default p \<noteq> None \<and> mp_default_type p = None
      then p\<lparr>mp_default_type := Some ''ns3::EmptyAttributeValue''\<rparr> else p)"

definition Attribute_customizations :: "method_param list list list \<Rightarrow> method_param list list list" where
  "Attribute_customizations classes = map (map (map fix_attribute)) classes"

definition add_std_ios_openmode :: "module_op list" where
  "add_std_ios_openmode =
     map (\<lambda>flag. After_init (''PyModule_AddIntConstant(m, (char *) '' @ dquote @ ''STD_IOS_'' @ upper flag @ dquote @ '', std::ios::'' @ flag @ '');''))
       [''in'', ''out'', ''ate'', ''app'', ''trunc'', ''binary'']"

definition add_std_ofstream :: "module_op list" where
  "add_std_ofstream =
     [Add_include ''<fstream>'', Add_class ''ostream'' (Some ''::std'') None, Cannot_be_constructed ''ostream'' ''abstract base class'',
      Add_class ''ofstream'' (Some ''::std'') (Some ''ostream''),
      Add_enum ''ofstream'' ''openmode'' (map (\<lambda>m. (m, ''std::ios_base::'' @ m)) [''app'', ''ate'', ''binary'', ''in'', ''out'', ''trunc'']),
      Add_constructor ''ofstream'' [(''const char *'', ''filename'', None),
        (''::std::ofstream::openmode'', ''mode'', Some ''std::ios_base::out'')],
      Add_method ''ofstream'' ''close''] @ add_std_ios_openmode"

text \<open>\<open>IosOpenmodeParam\<close>: \<open>ReverseWrapperBase\<close> is not imported.\<close>

definition openmode_c_to_python :: "wrapper \<Rightarrow> wrapper result" where
  "openmode_c_to_python w = Inl NameError"

definition openmode_python_to_c :: "pybindgen \<Rightarrow> string \<Rightarrow> string option \<Rightarrow> wrapper \<Rightarrow> wrapper" where
  "openmode_python_to_c b name dflt w =
     add_call (b_name b name)
       (add_parse ''i'' [''&'' @ b_name b name] name (case dflt of None \<Rightarrow> False | Some d \<Rightarrow> d \<noteq> [])
         (declare_variable ''std::ios_base::openmode'' name dflt w))"

definition add_ipv4_address_tp_hash :: "string list \<Rightarrow> module_op list result" where
  "add_ipv4_address_tp_hash classes =
     map_result (\<lambda>c.
       [Body (join_str nl [[], ''long'', ''_ns3_Ipv4Address_tp_hash (PyObject *obj)'', ''{'',
          ''   PyNs3Ipv4Address *addr = reinterpret_cast<PyNs3Ipv4Address *> (obj);'',
          ''   return static_cast<long> (ns3::Ipv4AddressHash () (*addr->obj));'', ''}'', []]),
        Header ''long _ns3_Ipv4Address_tp_hash (PyObject *obj);'', Slot c ''tp_hash'' ''_ns3_Ipv4Address_tp_hash''])
       (find_class classes ''Ipv4Address'')"

definition kernel_classes :: "string list" where
  "kernel_classes = [''KernelSocketFdFactory'', ''LinuxSocketImpl'', ''KernelSocketFd'', ''LinuxSocketFdFactory'', ''FreeBSDSocketFdFactory'']"

text \<open>The classes are those of the module, in order; exceptions are passed over.\<close>

definition post_register_types :: "(string, string) dict \<Rightarrow> string list \<Rightarrow> string list" where
  "post_register_types env classes =
     (if dict_has env ''KERNEL_STACK'' then classes
      else foldl (\<lambda>cs name. remove1 (''ns3::'' @ name) cs) classes kernel_classes)"

section \<open>The generator\<close>

text \<open>\<open>ErrorHandler.handle_error\<close>: the frames are looked through from the last; the warning is given at the first one in the file of the
  API definitions, or without a place.  The list of frames is reversed in place.\<close>

definition handle_error :: "string \<Rightarrow> (string \<times> int) list \<Rightarrow> (string \<times> int) option \<times> (string \<times> int) list" where
  "handle_error apidefs_file stack = (find (\<lambda>l. fst l = apidefs_file) (rev stack), rev stack)"

definition header_file_name :: "string \<Rightarrow> string" where
  "header_file_name main_file_name = path_join (dirname main_file_name) ''ns3module.h''"

text \<open>The steps of \<open>main\<close>.  \<open>hooks\<close> are the functions that the customizations of the module define, \<open>None\<close> when there are none;
  \<open>apidefs\<close> is the file from which the API definitions were loaded.\<close>

datatype gen_step =
    Module_init
  | Set_name string
  | Include_header string
  | Ios_openmode
  | Register_types
  | Hook string
  | Remove_kernel_classes
  | Register_callbacks "callback_handler list"
  | Register_methods
  | Object_step
  | Attribute_step
  | Generate_callbacks generated
  | Register_functions
  | Generate_module

record gen_run =
  gr_outputs :: "string list"
  gr_imports :: "string list"
  gr_apidefs_file :: string
  gr_steps :: "gen_step list"

definition hook_steps :: "string list option \<Rightarrow> string \<Rightarrow> gen_step list" where
  "hook_steps hooks name = (case hooks of None \<Rightarrow> [] | Some hs \<Rightarrow> if name \<in> set hs then [Hook name] else [])"

definition modulegen_main :: "pybindgen \<Rightarrow> string option \<Rightarrow> string list option \<Rightarrow> string option \<Rightarrow> string list \<Rightarrow> gen_run result" where
  "modulegen_main b apidefs hooks callbacks_file argv =
     (case argv of
        [_, src_path, target, extension_name, output_cc] \<Rightarrow>
          (case apidefs of
             None \<Rightarrow> Inl (PlainException ''ImportError'')
           | Some file \<Rightarrow>
               bind_result (import_callbacks callbacks_file) (\<lambda>callbacks.
               map_result (\<lambda>g. \<lparr>gr_outputs = [output_cc, header_file_name output_cc],
                   gr_imports = [path_join (path_join src_path ''bindings'') (''modulegen__'' @ target)],
                   gr_apidefs_file = splitext_root file @ ''.py'',
                   gr_steps = [Module_init, Set_name extension_name,
                     Include_header (dquote @ ''ns3/'' @ extension_name @ ''-module.h'' @ dquote), Ios_openmode, Register_types] @
                     hook_steps hooks ''post_register_types'' @
                     [Remove_kernel_classes, Register_callbacks (register_callback_classes callbacks), Register_methods] @
                     hook_steps hooks ''post_register_methods'' @
                     [Object_step, Attribute_step, Generate_callbacks g, Register_functions] @
                     hook_steps hooks ''post_register_functions'' @ [Generate_module]\<rparr>)
                 (generate_callback_classes b callbacks)))
      | _ \<Rightarrow> Inl ValueError)"

section \<open>Lemmas\<close>

text \<open>A plain type between the brackets: no closing bracket, no blanks around it, no \<open>const\<close> at either end, no leading colons.\<close>

definition plain_type :: "string \<Rightarrow> bool" where
  "plain_type T \<longleftrightarrow> T \<noteq> [] \<and> CHR ''>'' \<notin> set T \<and> \<not> is_space (hd T) \<and> \<not> is_space (last T) \<and>
     \<not> startswith T ''const '' \<and> T \<noteq> ''const'' \<and> \<not> endswith T '' const'' \<and> \<not> startswith T ''::''"

lemma ptr_tail_text:
  assumes "CHR ''>'' \<notin> set u" "u \<noteq> []"
  shows "ptr_tail (''Ptr<'' @ u @ ''>'') = Some u"
proof -
  have "takeWhile (\<lambda>c. c \<noteq> CHR ''>'') (u @ [CHR ''>'']) = u" "dropWhile (\<lambda>c. c \<noteq> CHR ''>'') (u @ [CHR ''>'']) = [CHR ''>'']"
    using assms(1) by (induction u) auto
  then show ?thesis using assms(2) by (simp add: ptr_tail_def startswith_def)
qed

lemma strip_between:
  assumes "t \<noteq> []" "\<not> is_space (hd t)" "\<not> is_space (last t)"
  shows "strip (CHR '' '' # t @ '' '') = t"
proof -
  have "lstrip (CHR '' '' # t @ '' '') = t @ '' ''"
    using assms(1,2) by (cases t) (simp_all add: lstrip_def is_space_def)
  moreover have "rstrip (t @ '' '') = t"
    using assms(1,3) by (simp add: rstrip_def is_space_def) (simp add: dropWhile_hd_false hd_rev is_space_def)
  ultimately show ?thesis by (simp add: strip_def)
qed

lemma const_suffix_no_prefix:
  assumes "\<not> startswith T ''const ''" "T \<noteq> ''const''"
  shows "\<not> startswith (T @ '' const'') ''const ''"
proof
  assume "startswith (T @ '' const'') ''const ''"
  then obtain u where u: "T @ '' const'' = ''const '' @ u" by (auto simp: startswith_iff)
  then show False
  proof (cases "6 \<le> length T")
    case True
    then have "take 6 T = take 6 (T @ '' const'')" by simp
    then have "take 6 T = ''const ''" by (simp add: u)
    then have "T = ''const '' @ drop 6 T" by (metis append_take_drop_id)
    then show False using assms(1) by (metis startswith_append)
  next
    case False
    then have short: "length T \<in> {0, 1, 2, 3, 4, 5}" by (simp only: insert_iff empty_iff) arith
    have "T = take (length T) (''const '' @ u)" by (simp flip: u del: append_Cons append_Nil)
    moreover have "drop (length T) (''const '' @ u) = '' const''" by (simp flip: u del: append_Cons append_Nil)
    ultimately show False using assms(2) short by auto
  qed
qed

lemma plain_traits:
  assumes "plain_type T"
  shows "untransformed_type_traits (smart_ctype (T @ '' *'') c) = (Some (T @ '' *''), c)"
proof -
  let ?n = "T @ (if c then '' const'' else [])"
  have T: "T \<noteq> []" "CHR ''>'' \<notin> set T" "\<not> is_space (hd T)" "\<not> is_space (last T)" "\<not> startswith T ''const ''"
    "T \<noteq> ''const''" "\<not> endswith T '' const''" "\<not> startswith T ''::''"
    using assms by (auto simp: plain_type_def)
  have "smart_ctype (T @ '' *'') c = ''ns3::'' @ ''Ptr<'' @ (CHR '' '' # ?n @ '' '') @ ''>''" by (simp add: smart_ctype_def)
  moreover have "ptr_tail (''Ptr<'' @ (CHR '' '' # ?n @ '' '') @ ''>'') = Some (CHR '' '' # ?n @ '' '')"
    using T(2) by (intro ptr_tail_text) auto
  ultimately have m: "ptr_match (smart_ctype (T @ '' *'') c) = Some (CHR '' '' # ?n @ '' '')"
    by (simp add: ptr_match_def startswith_def)
  have st: "strip (CHR '' '' # ?n @ '' '') = ?n"
    using T(1,3,4) by (intro strip_between) (auto simp: is_space_def)
  have c1: "\<not> startswith ?n ''const ''" using const_suffix_no_prefix [OF T(5,6)] T(5) by simp
  have c2: "endswith ?n '' const'' = c" using T(7) by (simp add: endswith_def)
  have "\<not> startswith (T @ '' *'') ''::''"
  proof (cases T)
    case (Cons a U)
    then show ?thesis using T(8) by (cases U) (auto simp: startswith_def)
  qed (use T in simp)
  with m st c1 c2 show ?thesis by (cases c) (simp_all add: untransformed_type_traits_def Let_def)
qed

definition return_ok :: "pybindgen \<Rightarrow> string list \<Rightarrow> bool" where
  "return_ok b params \<longleftrightarrow> b_return b (fst (b_type b (hd params))) (snd (b_type b (hd params)))"

definition params_ok :: "pybindgen \<Rightarrow> string list \<Rightarrow> bool" where
  "params_ok b params \<longleftrightarrow>
     list_all (\<lambda>ty. b_param b (fst (b_type b ty)) (snd (b_type b ty)) \<noteq> Unknown_type) (callback_parameters params)"

lemma callback_arguments_None:
  "fst (callback_arguments b ps) = None \<longleftrightarrow>
   \<not> list_all (\<lambda>ty. b_param b (fst (b_type b ty)) (snd (b_type b ty)) \<noteq> Unknown_type) ps"
proof -
  have "list_ex (\<lambda>a. a = Unknown_type) (map (\<lambda>(name, ty, const). b_param b ty const)
      (map (\<lambda>(i, ty). (f i, b_type b ty)) (zip is ps))) \<longleftrightarrow>
    \<not> list_all (\<lambda>ty. b_param b (fst (b_type b ty)) (snd (b_type b ty)) \<noteq> Unknown_type) ps"
    if "length is = length ps" for "is" :: "nat list" and f :: "nat \<Rightarrow> string"
    using that by (induction "is" ps rule: list_induct2) (auto simp: case_prod_beta)
  from this [of "[0..<length ps]" "\<lambda>i. ''arg'' @ show_nat (i + 1)"] show ?thesis
    by (simp add: callback_arguments_def Let_def)
qed

lemma generate_callback_outcome:
  assumes "params \<noteq> []"
  shows "\<exists>g'. generate_callback b i params g = Inr g' \<and>
    map fst (e_output g') = map fst (e_output g) @ (if return_ok b params \<and> params_ok b params then [impl_name i] else []) \<and>
    e_disabled g' = e_disabled g @ (if return_ok b params \<and> \<not> params_ok b params then [callback_name params] else [])"
proof (cases "fst (callback_arguments b (callback_parameters params))")
  case None
  then have "\<not> params_ok b params" by (simp add: callback_arguments_None params_ok_def)
  with None assms show ?thesis by (cases params) (auto simp: generate_callback_def return_ok_def case_prod_beta Let_def)
next
  case (Some args)
  then have "params_ok b params" using callback_arguments_None [of b "callback_parameters params"] by (simp add: params_ok_def)
  with Some assms show ?thesis by (cases params) (auto simp: generate_callback_def return_ok_def case_prod_beta Let_def)
qed

lemma generate_loop:
  assumes "list_all (\<lambda>(i, ps). ps \<noteq> []) ips"
  shows "\<exists>g'. foldM_result (\<lambda>g (i, params). generate_callback b i params g) g ips = Inr g' \<and>
    map fst (e_output g') = map fst (e_output g) @ map (\<lambda>(i, ps). impl_name i) (filter (\<lambda>(i, ps). return_ok b ps \<and> params_ok b ps) ips) \<and>
    e_disabled g' = e_disabled g @ map (\<lambda>(i, ps). callback_name ps) (filter (\<lambda>(i, ps). return_ok b ps \<and> \<not> params_ok b ps) ips)"
  using assms
proof (induction ips arbitrary: g)
  case (Cons x ips)
  obtain i ps where x: "x = (i, ps)" by (cases x)
  from generate_callback_outcome [of ps b i g] Cons.prems obtain g1 where g1: "generate_callback b i ps g = Inr g1"
    "map fst (e_output g1) = map fst (e_output g) @ (if return_ok b ps \<and> params_ok b ps then [impl_name i] else [])"
    "e_disabled g1 = e_disabled g @ (if return_ok b ps \<and> \<not> params_ok b ps then [callback_name ps] else [])"
    by (auto simp: x)
  from Cons.IH [of g1] Cons.prems show ?case by (auto simp: x g1)
qed simp

section \<open>Properties\<close>

text \<open>The C++ type that a smart pointer gets is a normal form.  For every plain type, const or not, the type that \<open>create_type_handler\<close>
  writes is recognised again as a smart pointer to the same type with the same constness, so that creating a handler for it
  changes nothing.\<close>

theorem smart_pointer_normal_form:
  assumes "create_type_handler kind (ctype # rest) kwargs = Inr h" "h_untransformed h = T @ '' *''" "plain_type T"
  shows "\<exists>c. untransformed_type_traits ctype = (Some (T @ '' *''), c) \<and>
    untransformed_type_traits (h_ctype h) = (Some (T @ '' *''), c) \<and>
    (\<exists>h'. create_type_handler kind (h_ctype h # rest) kwargs = Inr h' \<and> h' = h)"
proof -
  from assms(1) obtain orig c where t: "untransformed_type_traits ctype = (Some orig, c)" "kind \<noteq> HOther"
    by (auto simp: create_type_handler_def split: if_splits prod.splits option.splits)
  from assms(1,2) t have h: "orig = T @ '' *''" "h_ctype h = smart_ctype (T @ '' *'') c" by (auto simp: create_type_handler_def)
  note n = plain_traits [OF assms(3), of c]
  have "create_type_handler kind (h_ctype h # rest) kwargs = Inr h"
    using assms(1) t n h by (auto simp: create_type_handler_def)
  with t n h show ?thesis by simp
qed

theorem smart_pointer_normal_form_witness:
  "\<exists>h c. create_type_handler HParameter [''ns3::Ptr<const ns3::Packet>'', ''p''] [] = Inr h \<and>
     h_ctype h = ''ns3::Ptr< ns3::Packet const >'' \<and> untransformed_type_traits (h_ctype h) = (Some ''ns3::Packet *'', c)"
proof -
  let ?h = "create_type_handler HParameter [''ns3::Ptr<const ns3::Packet>'', ''p''] []"
  have e: "\<not> isl ?h" "h_untransformed (projr ?h) = ''ns3::Packet'' @ '' *''" "plain_type ''ns3::Packet''"
    "h_ctype (projr ?h) = ''ns3::Ptr< ns3::Packet const >''" by code_simp+
  then have h: "?h = Inr (projr ?h)" by (cases ?h) auto
  from smart_pointer_normal_form [OF h e(2,3)] h e(4) show ?thesis by auto
qed

text \<open>Which callbacks get a class.  The generated classes are those of the callbacks whose types can all be wrapped, under the
  names that were registered for them; a handler is disabled exactly when the return type can be wrapped and a
  parameter cannot.  So a callback whose return type cannot be wrapped keeps an enabled handler that names a class which is never
  written.\<close>

theorem generated_callbacks:
  assumes "[] \<notin> set callbacks"
  shows "\<exists>g. generate_callback_classes b callbacks = Inr g \<and>
    map fst (e_output g) = map k_impl (filter (\<lambda>h. return_ok b (k_args h) \<and> params_ok b (k_args h)) (register_callback_classes callbacks)) \<and>
    e_disabled g = map k_ctype (filter (\<lambda>h. return_ok b (k_args h) \<and> \<not> params_ok b (k_args h)) (register_callback_classes callbacks))"
proof -
  let ?ips = "zip [0..<length callbacks] callbacks"
  have ne: "list_all (\<lambda>(i, ps). ps \<noteq> []) ?ips" using assms by (auto simp: list_all_iff dest: set_zip_rightD)
  have names: "map k_impl (filter (\<lambda>h. P (k_args h)) (register_callback_classes callbacks)) =
      map (\<lambda>(i, ps). impl_name i) (filter (\<lambda>(i, ps). P ps) ?ips)"
    "map k_ctype (filter (\<lambda>h. P (k_args h)) (register_callback_classes callbacks)) =
      map (\<lambda>(i, ps). callback_name ps) (filter (\<lambda>(i, ps). P ps) ?ips)" for P
    by (auto simp: register_callback_classes_def filter_map comp_def split_def)
  from generate_loop [OF ne, of b "\<lparr>e_output = [], e_disabled = [], e_warnings = 0, e_no_helper = []\<rparr>"]
  show ?thesis
    by (auto simp: generate_callback_classes_def names [of "\<lambda>ps. return_ok b ps \<and> params_ok b ps"]
      names [of "\<lambda>ps. return_ok b ps \<and> \<not> params_ok b ps"])
qed

definition sample_pybindgen :: pybindgen where
  "sample_pybindgen = \<lparr>b_type = (\<lambda>t. (t, False)), b_return = (\<lambda>t _. t \<noteq> ''odd''), b_param = (\<lambda>t _. if t = ''odd'' then Unknown_type else Known_type False),
     b_name = (\<lambda>n. n), b_method = (\<lambda>_ _. [])\<rparr>"

theorem generated_callbacks_witness:
  "\<exists>g. generate_callback_classes sample_pybindgen [[''void'', ''int''], [''void'', ''odd''], [''odd'']] = Inr g \<and>
     map fst (e_output g) = [''PythonCallbackImpl0''] \<and> e_disabled g = [''ns3::Callback< void, odd >'']"
proof -
  let ?cs = "[[''void'', ''int''], [''void'', ''odd''], [''odd'']]"
  have "map k_impl (filter (\<lambda>h. return_ok sample_pybindgen (k_args h) \<and> params_ok sample_pybindgen (k_args h)) (register_callback_classes ?cs)) =
      [''PythonCallbackImpl0'']"
    "map k_ctype (filter (\<lambda>h. return_ok sample_pybindgen (k_args h) \<and> \<not> params_ok sample_pybindgen (k_args h)) (register_callback_classes ?cs)) =
      [''ns3::Callback< void, odd >'']" by code_simp+
  then show ?thesis using generated_callbacks [of ?cs sample_pybindgen] by simp
qed



end
