(* ===== verification/Link_Run.thy ===== *)
theory Link_Run
  imports Posix_Paths
begin

text \<open>
  \<open>src/myscripts/pamptcp-link-characteristics/run-link-characteristics.py\<close>: a sweep of simulations over the
  kind of link, the number of clients and the size of their bursts.  The script writes one traffic
  profile per pair of clients and size, builds the program, and runs one process per job on a pool
  of threads, whose completions arrive in any order.

  The surroundings are the record \<open>sweep_world\<close>; the parsed command line is \<open>sweep_args\<close>.  Paths are
  resolved without symbolic links, and no ancestor of a profile directory is a file.
\<close>

section \<open>Surroundings\<close>

datatype proc_end = Exited int | Timed_out | Not_started

record sweep_world =
  v_script :: string
  v_environ :: "(string, string) dict"
  v_float_str :: "pyfloat \<Rightarrow> string"
  v_run :: "string list \<Rightarrow> (string, string) dict \<Rightarrow> int option \<Rightarrow> proc_end \<times> string"
  v_build :: "string list \<Rightarrow> int"

record sweep_args =
  a_mode :: string
  a_jobs :: int
  a_parallel :: int
  a_timeout :: int
  a_links :: string
  a_clients :: string
  a_wifi_bytes :: string
  a_nr_bytes :: string
  a_profile_root :: string
  a_generate_only :: bool
  a_skip_existing :: bool
  a_keep_dce_files :: bool
  a_fail_fast :: bool
  a_sim_time :: pyfloat
  a_stats_start :: pyfloat
  a_stats_stop :: pyfloat
  a_client_start_jitter :: pyfloat
  a_client_start_jitter_stream :: int
  a_num_aps :: int
  a_scheduler :: string

definition default_args :: sweep_args where
  "default_args = \<lparr>a_mode = ''opt'', a_jobs = 4, a_parallel = 1, a_timeout = 900, a_links = ''wifi-only,nr-only'',
     a_clients = ''1,4,8,15,30'', a_wifi_bytes = ''64,1024,16384,65536,262144,1048576,2097152,4194304'',
     a_nr_bytes = ''64,1024,16384,65536,262144,524288,1048576,2097152'',
     a_profile_root = ''myscripts/pamptcp-link-characteristics/flow-profiles/final-grid'',
     a_generate_only = False, a_skip_existing = False, a_keep_dce_files = False, a_fail_fast = False,
     a_sim_time = Dyadic 10 0, a_stats_start = Dyadic 4 0, a_stats_stop = Dyadic 10 0,
     a_client_start_jitter = Dyadic 1 0, a_client_start_jitter_stream = 1, a_num_aps = 1, a_scheduler = ''default''\<rparr>"

definition TARGET :: string where
  "TARGET = ''bin/link-characteristics''"

definition repo_root :: "sweep_world \<Rightarrow> string" where
  "repo_root w = dirname (dirname (dirname (v_script w)))"

section \<open>Lists on the command line\<close>

fun uints :: "string list \<Rightarrow> int list result" where
  "uints [] = Inr []"
| "uints (p # ps) =
     (if strip p = [] then uints ps
      else bind_result (py_int (strip p)) (\<lambda>v.
        if v \<le> 0 then Inl ValueError else map_result (\<lambda>vs. v # vs) (uints ps)))"

definition parse_csv_uints :: "string \<Rightarrow> int list result" where
  "parse_csv_uints text =
     bind_result (uints (split_char (CHR '','') text)) (\<lambda>vs. if vs = [] then Inl ValueError else Inr vs)"

definition valid_links :: "string list" where
  "valid_links = [''wifi-only'', ''nr-only'']"

definition parse_links :: "string \<Rightarrow> string list result" where
  "parse_links text =
     (let links = filter (\<lambda>l. l \<noteq> []) (map strip (split_char (CHR '','') text))
      in if list_ex (\<lambda>l. l \<notin> set valid_links) links then Inl ValueError
         else if links = [] then Inl ValueError
         else Inr links)"

section \<open>Profiles\<close>

definition data_rate_for_bytes :: "int \<Rightarrow> string" where
  "data_rate_for_bytes bytes_per_second = show_int (bytes_per_second * 8) @ ''bps''"

text \<open>\<open>{n:03d}\<close>.\<close>

definition fmt_03d :: "int \<Rightarrow> string" where
  "fmt_03d n = (if n < 0 then CHR ''-'' # pad_left 2 (show_nat (nat (- n))) else pad_left 3 (show_nat (nat n)))"

definition profile_name :: "int \<Rightarrow> int \<Rightarrow> string" where
  "profile_name num_clients bytes_per_second = ''n'' @ fmt_03d num_clients @ ''-b'' @ show_int bytes_per_second"

definition make_dirs :: "string \<Rightarrow> fs \<Rightarrow> fs result" where
  "make_dirs p fs =
     (case fs p of
        Some (FileNode _) \<Rightarrow> Inl FileExistsError
      | _ \<Rightarrow> Inr (\<lambda>q. if q = p \<or> (fs q = None \<and> startswith p (q @ ''/'')) then Some DirNode else fs q))"

definition templates_csv :: "int \<Rightarrow> string" where
  "templates_csv b =
     (let rate = data_rate_for_bytes b
      in join_str nl
        [''template_id,priority,appSteadyRate,appBurstRate,appTrafficModel,appSteadyTime,appBurstTime,appInitialSendDelay'',
         ''b'' @ show_int b @ '',3,'' @ rate @ '','' @ rate @
           '',duration,ns3::ConstantRandomVariable[Constant=1.0],ns3::ConstantRandomVariable[Constant=0.0],0'',
         []])"

definition groups_csv :: "int \<Rightarrow> int \<Rightarrow> string" where
  "groups_csv n b = join_str nl [''template_id,count'', ''b'' @ show_int b @ '','' @ show_int n, []]"

definition write_profile :: "string \<Rightarrow> int \<Rightarrow> int \<Rightarrow> fs \<Rightarrow> fs result" where
  "write_profile profile_dir n b fs =
     bind_result (make_dirs profile_dir fs) (\<lambda>fs.
     bind_result (write_text (path_join profile_dir ''templates.csv'') (templates_csv b) fs)
       (write_text (path_join profile_dir ''groups.csv'') (groups_csv n b)))"

section \<open>Building and running\<close>

definition out_dir :: "string \<Rightarrow> string" where
  "out_dir mode = (if mode = ''opt'' then ''build-opt-dce-rel'' else ''build'')"

text \<open>The command is announced, then run; \<open>SystemExit\<close> with a message is exit code 1.\<close>

definition build_once :: "sweep_world \<Rightarrow> fs \<Rightarrow> string \<Rightarrow> int \<Rightarrow> string result" where
  "build_once w fs mode jobs =
     (if \<not> path_exists fs (path_joins (repo_root w) [out_dir mode, ''c4che'']) then Inl (SystemExit 1)
      else let cmd = [''python3'', ''./waf'', ''build'', ''--targets='' @ TARGET, ''-j'', show_int jobs, ''-o'', out_dir mode];
               rc = v_build w cmd
           in if rc \<noteq> 0 then Inl (CalledProcessError rc) else Inr (''+ '' @ join_str '' '' cmd))"

text \<open>\<open>a:b\<close>, when \<open>b\<close> is set and not empty.\<close>

definition with_old :: "string \<Rightarrow> (string, string) dict \<Rightarrow> string \<Rightarrow> string" where
  "with_old value env k = (case dict_get env k of
       Some old \<Rightarrow> if old \<noteq> [] then value @ '':'' @ old else value | None \<Rightarrow> value)"

definition sweep_libraries :: "string \<Rightarrow> string \<Rightarrow> string list" where
  "sweep_libraries root mode =
     (if mode = ''opt''
      then [path_join root ''build-opt-dce-rel/lib'', ''/root/bake/build-opt-rel/lib'', ''/root/bake/build-opt-dce-rel/lib'']
      else [path_join root ''build/lib'', ''/root/bake/build/lib''])"

definition sweep_dce_path :: "string \<Rightarrow> string \<Rightarrow> string list" where
  "sweep_dce_path root mode =
     (if mode = ''opt''
      then [path_join root ''build-opt-dce-rel/bin'', path_join root ''build-opt-dce-rel/bin_dce'',
            ''/root/bake/build-opt-dce-rel/bin'', ''/root/bake/build-opt-dce-rel/bin_dce'',
            ''/root/bake/build/sbin'', ''/root/bake/build/bin_dce'']
      else [path_join root ''build/bin'', path_join root ''build/bin_dce'', ''/root/bake/build/bin'',
            ''/root/bake/build/bin_dce'', ''/root/bake/build/sbin''])"

definition env_for_mode :: "sweep_world \<Rightarrow> string \<Rightarrow> string \<Rightarrow> (string, string) dict" where
  "env_for_mode w mode dce_files_dir =
     (let env = v_environ w; root = repo_root w
      in dict_update env
        [(''LD_LIBRARY_PATH'', with_old (join_str '':'' (sweep_libraries root mode)) env ''LD_LIBRARY_PATH''),
         (''DCE_PATH'', with_old (join_str '':'' (sweep_dce_path root mode)) env ''DCE_PATH''),
         (''PAMPTCP_BASE_DIR'', root), (''DCE_FILES_DIR'', dce_files_dir)])"

definition binary_for_mode :: "string \<Rightarrow> string \<Rightarrow> string" where
  "binary_for_mode root mode =
     path_joins root [out_dir mode, ''myscripts/pamptcp-link-characteristics/bin/link-characteristics'']"

text \<open>The name of a report: the time without trailing zeros, with \<open>p\<close> for the point.\<close>

definition duration_text :: "pyfloat \<Rightarrow> string" where
  "duration_text sim_time =
     (let d = rstrip_char (CHR ''.'') (rstrip_char (CHR ''0'') (fmt_fixed 6 sim_time));
          d = map (\<lambda>c. if c = CHR ''.'' then CHR ''p'' else c) d
      in if d = [] then ''0'' else d)"

definition report_name :: "string \<Rightarrow> string \<Rightarrow> int \<Rightarrow> pyfloat \<Rightarrow> string" where
  "report_name link scheduler stream sim_time =
     scheduler @ (if link \<noteq> ''dual'' then ''-'' @ link else []) @ ''-stream'' @ show_int stream @ ''-'' @
     duration_text sim_time @ ''s.json''"

definition expected_json :: "string \<Rightarrow> string \<Rightarrow> string \<Rightarrow> int \<Rightarrow> pyfloat \<Rightarrow> string" where
  "expected_json profile_dir link scheduler stream sim_time =
     path_join profile_dir (report_name link scheduler stream sim_time)"

record run_result =
  rr_link :: string
  rr_dir :: string
  rr_rc :: int
  rr_elapsed :: pyfloat
  rr_log :: "string option"
  rr_kept :: bool

definition program_command :: "sweep_world \<Rightarrow> sweep_args \<Rightarrow> string \<Rightarrow> string \<Rightarrow> string list" where
  "program_command w args link profile_dir =
     [binary_for_mode (repo_root w) (a_mode args),
      ''--trafficProfileDir='' @ profile_dir, ''--numAps='' @ show_int (a_num_aps args), ''--pathMode='' @ link,
      ''--simTime='' @ v_float_str w (a_sim_time args), ''--statsStart='' @ v_float_str w (a_stats_start args),
      ''--statsStop='' @ v_float_str w (a_stats_stop args),
      ''--clientStartJitter='' @ v_float_str w (a_client_start_jitter args),
      ''--clientStartJitterStream='' @ show_int (a_client_start_jitter_stream args),
      ''--mptcpScheduler='' @ a_scheduler args]"

text \<open>One job, given the files that exist when it starts, its temporary directory and the time it
  takes.  The log, which is not touched for a skipped job, holds what the process printed.\<close>

definition run_one :: "sweep_world \<Rightarrow> sweep_args \<Rightarrow> string \<Rightarrow> string \<Rightarrow> fs \<Rightarrow> string \<Rightarrow> pyfloat \<Rightarrow> run_result result" where
  "run_one w args link profile_dir fs dce_tmp elapsed =
     (if a_skip_existing args \<and>
         path_exists fs (expected_json profile_dir link (a_scheduler args) (a_client_start_jitter_stream args) (a_sim_time args))
      then Inr \<lparr>rr_link = link, rr_dir = profile_dir, rr_rc = 0, rr_elapsed = Dyadic 0 0, rr_log = None, rr_kept = False\<rparr>
      else
        let cmd = program_command w args link profile_dir;
            (ended, out) = v_run w cmd (env_for_mode w (a_mode args) dce_tmp)
              (if a_timeout args > 0 then Some (a_timeout args) else None);
            log = ''+ '' @ join_str '' '' cmd @ nl @ ''DCE_FILES_DIR='' @ dce_tmp @ nl @ out;
            kept = (if a_keep_dce_files args then nl @ ''kept DCE files at '' @ dce_tmp @ nl else [])
        in case ended of
             Not_started \<Rightarrow> Inl FileNotFoundError
           | Exited rc \<Rightarrow> Inr \<lparr>rr_link = link, rr_dir = profile_dir, rr_rc = rc, rr_elapsed = elapsed,
               rr_log = Some (log @ kept), rr_kept = a_keep_dce_files args\<rparr>
           | Timed_out \<Rightarrow> Inr \<lparr>rr_link = link, rr_dir = profile_dir, rr_rc = 124, rr_elapsed = elapsed,
               rr_log = Some (log @ nl @ ''TIMEOUT after '' @ show_int (a_timeout args) @ ''s'' @ nl @ kept),
               rr_kept = a_keep_dce_files args\<rparr>)"

section \<open>The sweep\<close>

definition iter_jobs :: "sweep_args \<Rightarrow> (string \<times> int \<times> int) list result" where
  "iter_jobs args =
     bind_result (parse_links (a_links args)) (\<lambda>links.
     bind_result (parse_csv_uints (a_clients args)) (\<lambda>clients.
     bind_result (parse_csv_uints (a_wifi_bytes args)) (\<lambda>wifi_bytes.
     bind_result (parse_csv_uints (a_nr_bytes args)) (\<lambda>nr_bytes.
       Inr (concat (map (\<lambda>link.
         concat (map (\<lambda>num_clients.
           map (\<lambda>bytes_per_second. (link, num_clients, bytes_per_second))
             (if link = ''wifi-only'' then wifi_bytes else nr_bytes)) clients)) links))))))"

text \<open>\<open>path.relative_to(root)\<close>.\<close>

definition relative_to :: "string \<Rightarrow> string \<Rightarrow> string result" where
  "relative_to p root =
     (if p = root then Inr ''.''
      else if startswith p (root @ ''/'') then Inr (drop (length root + 1) p)
      else Inl ValueError)"

definition status_text :: "run_result \<Rightarrow> string" where
  "status_text r = (if rr_rc r = 0 then ''ok'' else ''failed rc='' @ show_int (rr_rc r))"

text \<open>The loop over the completed runs: the printed lines and the failures.\<close>

fun collect_runs :: "string \<Rightarrow> bool \<Rightarrow> run_result result list \<Rightarrow> (string list \<times> run_result list) result" where
  "collect_runs root fail_fast [] = Inr ([], [])"
| "collect_runs root fail_fast (future # futures) =
     bind_result future (\<lambda>r.
     bind_result (relative_to (rr_dir r) root) (\<lambda>rel.
       let line = ''['' @ status_text r @ ''] '' @ rr_link r @ '' '' @ rel @ '' wall='' @ fmt_fixed 1 (rr_elapsed r) @ ''s''
       in if rr_rc r \<noteq> 0 \<and> fail_fast then Inr ([line], [r])
          else map_result (\<lambda>(ls, fs). (line # ls, (if rr_rc r \<noteq> 0 then [r] else []) @ fs))
                 (collect_runs root fail_fast futures)))"

record sweep_outcome =
  so_status :: int
  so_printed :: "string list"
  so_errors :: "string list"
  so_files :: fs

definition write_profiles :: "string \<Rightarrow> (string \<times> int \<times> int) list \<Rightarrow> fs \<Rightarrow> fs result" where
  "write_profiles profile_root jobs fs =
     foldM_result (\<lambda>fs (_, n, b). write_profile (path_join profile_root (profile_name n b)) n b fs) fs jobs"

definition sweep_job :: "sweep_world \<Rightarrow> sweep_args \<Rightarrow> string \<Rightarrow> (nat \<Rightarrow> fs \<times> string \<times> pyfloat) \<Rightarrow>
    (string \<times> int \<times> int) list \<Rightarrow> nat \<Rightarrow> run_result result" where
  "sweep_job w args profile_root at_start jobs i =
     (let (link, n, b) = jobs ! i; (fs, tmp, elapsed) = at_start i
      in run_one w args link (path_join profile_root (profile_name n b)) fs tmp elapsed)"

text \<open>The whole script.  \<open>at_start i\<close> is what job \<open>i\<close> finds when it is started, and \<open>order\<close> is the order in which
  the jobs complete.\<close>

definition sweep_main :: "sweep_world \<Rightarrow> fs \<Rightarrow> sweep_args \<Rightarrow> (nat \<Rightarrow> fs \<times> string \<times> pyfloat) \<Rightarrow> nat list \<Rightarrow> sweep_outcome result" where
  "sweep_main w fs args at_start order =
     (let root = repo_root w; profile_root = normpath (path_join root (a_profile_root args))
      in bind_result (iter_jobs args) (\<lambda>jobs.
         bind_result (write_profiles profile_root jobs fs) (\<lambda>fs.
           let first = ''profiles='' @ show_nat (length (remdups (map snd jobs))) @ '' runs='' @ show_nat (length jobs) @
                 '' root='' @ profile_root
           in if a_generate_only args
              then Inr \<lparr>so_status = 0, so_printed = [first], so_errors = [], so_files = fs\<rparr>
              else bind_result (build_once w fs (a_mode args) (a_jobs args)) (\<lambda>built.
                   bind_result (collect_runs root (a_fail_fast args) (map (sweep_job w args profile_root at_start jobs) order))
                     (\<lambda>(printed, failures).
                     Inr \<lparr>so_status = (if failures \<noteq> [] then 1 else 0), so_printed = first # built # printed,
                          so_errors = (if failures \<noteq> []
                            then ''failed runs:'' # map (\<lambda>r. ''  '' @ rr_link r @ '' '' @ rr_dir r @ '' rc='' @ show_int (rr_rc r)) failures
                            else []),
                          so_files = fs\<rparr>)))))"

section \<open>Lemmas\<close>

lemma uints_positive: "uints ps = Inr vs \<Longrightarrow> v \<in> set vs \<Longrightarrow> 0 < v"
  by (induction ps arbitrary: vs) (auto split: if_splits)

lemma parse_csv_positive:
  "parse_csv_uints text = Inr vs \<Longrightarrow> vs \<noteq> [] \<and> (\<forall>v \<in> set vs. 0 < v)"
  by (auto simp: parse_csv_uints_def uints_positive split: if_splits)

lemma parse_links_valid: "parse_links text = Inr ls \<Longrightarrow> ls \<noteq> [] \<and> set ls \<subseteq> set valid_links"
  by (auto simp: parse_links_def Let_def list_ex_iff split: if_splits)

text \<open>Three nested loops: the triples and their number.\<close>

lemma nested_loops:
  defines "triples as ns bs \<equiv> concat (map (\<lambda>a. concat (map (\<lambda>n. map (\<lambda>b. (a, n, b)) (bs a)) ns)) as)"
  shows "(a, n, b) \<in> set (triples as ns bs) \<longleftrightarrow> a \<in> set as \<and> n \<in> set ns \<and> b \<in> set (bs a)"
    and "length (triples as ns bs) = length ns * sum_list (map (\<lambda>a. length (bs a)) as)"
proof -
  show "(a, n, b) \<in> set (triples as ns bs) \<longleftrightarrow> a \<in> set as \<and> n \<in> set ns \<and> b \<in> set (bs a)"
    by (auto simp: triples_def)
  have inner: "length (concat (map (\<lambda>n. map (\<lambda>b. (a, n, b)) (bs a)) ns)) = length ns * length (bs a)" for a
    by (induction ns) auto
  show "length (triples as ns bs) = length ns * sum_list (map (\<lambda>a. length (bs a)) as)"
    unfolding triples_def by (induction as) (simp_all add: inner distrib_left del: length_concat)
qed

lemma collect_runs_Cons:
  assumes "collect_runs root ff (x # rs) = Inr (ls, fails)"
  obtains (stop) r l where "x = Inr r" "rr_rc r \<noteq> 0" "ls = [l]" "fails = [r]"
  | (more) r l ls' fs' where "x = Inr r" "collect_runs root ff rs = Inr (ls', fs')"
      "ls = l # ls'" "fails = (if rr_rc r \<noteq> 0 then [r] else []) @ fs'"
proof (cases x)
  case (Inl e)
  then show ?thesis using assms by simp
next
  case x: (Inr r)
  show ?thesis
  proof (cases "relative_to (rr_dir r) root")
    case (Inl e)
    then show ?thesis using assms x by simp
  next
    case rel: (Inr p)
    show ?thesis
    proof (cases "rr_rc r \<noteq> 0 \<and> ff")
      case True
      then show ?thesis using assms by (intro stop [OF x]) (auto simp add: x rel Let_def)
    next
      case False
      show ?thesis
      proof (cases "collect_runs root ff rs")
        case (Inl e)
        then show ?thesis using assms False by (simp only: collect_runs.simps x rel bind_result_simps Let_def if_False map_result_simps sum.simps)
      next
        case (Inr q)
        then obtain ls' fs' where "collect_runs root ff rs = Inr (ls', fs')" by (cases q) simp
        then show ?thesis using assms False more [of r ls' fs']
          by (simp only: collect_runs.simps x rel bind_result_simps Let_def if_False map_result_simps sum.simps prod.simps) blast
      qed
    qed
  qed
qed

lemma collect_runs_failures:
  "collect_runs root ff rs = Inr (ls, fails) \<Longrightarrow>
   (\<forall>f \<in> set fails. Inr f \<in> set rs \<and> rr_rc f \<noteq> 0) \<and>
   (fails = [] \<longrightarrow> (\<forall>x \<in> set rs. \<exists>r. x = Inr r \<and> rr_rc r = 0) \<and> length ls = length rs)"
proof (induction rs arbitrary: ls fails)
  case (Cons x rs)
  from Cons.prems show ?case
  proof (cases rule: collect_runs_Cons)
    case (more r l ls' fs')
    from Cons.IH [OF more(2)] show ?thesis by (simp add: more(1,3,4))
  qed simp
qed simp

text \<open>A sweep that ends and is not \<open>--generate-only\<close> has collected the runs of its jobs.\<close>

lemma sweep_main_run:
  assumes "sweep_main w fs args at_start order = Inr res" "\<not> a_generate_only args"
    and "iter_jobs args = Inr jobs"
    and "profile_root = normpath (path_join (repo_root w) (a_profile_root args))"
  obtains ls fails where
    "collect_runs (repo_root w) (a_fail_fast args) (map (sweep_job w args profile_root at_start jobs) order) = Inr (ls, fails)"
    "so_status res = (if fails \<noteq> [] then 1 else 0)"
proof -
  from assms(1) obtain p where
    c: "collect_runs (repo_root w) (a_fail_fast args) (map (sweep_job w args profile_root at_start jobs) order) = Inr p"
    and st: "so_status res = (if snd p \<noteq> [] then 1 else 0)"
    unfolding sweep_main_def Let_def assms(3) bind_result_simps if_not_P [OF assms(2)] assms(4) [symmetric]
      case_prod_beta sum.inject
    by (elim bind_resultE) (rule that, assumption, simp only: sum.inject, erule subst, simp only: sweep_outcome.simps)
  then show ?thesis using that by (cases p) simp
qed

section \<open>Properties\<close>

lemma iter_jobs_parts:
  assumes "iter_jobs args = Inr jobs"
  obtains links clients wb nb where
    "parse_links (a_links args) = Inr links" "parse_csv_uints (a_clients args) = Inr clients"
    "parse_csv_uints (a_wifi_bytes args) = Inr wb" "parse_csv_uints (a_nr_bytes args) = Inr nb"
    "jobs = concat (map (\<lambda>link. concat (map (\<lambda>n. map (\<lambda>b. (link, n, b))
        (if link = ''wifi-only'' then wb else nb)) clients)) links)"
  using assms unfolding iter_jobs_def by (elim bind_resultE) (rule that, assumption+, erule sum.inject(2) [THEN iffD1, symmetric])

lemma iter_jobs_positive:
  assumes "iter_jobs args = Inr jobs"
  shows "\<forall>(link, n, b) \<in> set jobs. link \<in> {''wifi-only'', ''nr-only''} \<and> 0 < n \<and> 0 < b"
proof -
  from assms obtain links clients wb nb where p:
    "parse_links (a_links args) = Inr links" "parse_csv_uints (a_clients args) = Inr clients"
    "parse_csv_uints (a_wifi_bytes args) = Inr wb" "parse_csv_uints (a_nr_bytes args) = Inr nb"
    and jobs: "jobs = concat (map (\<lambda>link. concat (map (\<lambda>n. map (\<lambda>b. (link, n, b))
        (if link = ''wifi-only'' then wb else nb)) clients)) links)" by (rule iter_jobs_parts)
  note ok = parse_links_valid [OF p(1)] parse_csv_positive [OF p(2)] parse_csv_positive [OF p(3)] parse_csv_positive [OF p(4)]
  have "link \<in> {''wifi-only'', ''nr-only''} \<and> 0 < n \<and> 0 < b" if "(link, n, b) \<in> set jobs" for link n b
  proof -
    from that have "link \<in> set links" "n \<in> set clients" "b \<in> set wb \<union> set nb"
      unfolding jobs nested_loops by (cases "link = ''wifi-only''"; simp)+
    with ok show ?thesis unfolding valid_links_def by auto
  qed
  then show ?thesis by blast
qed

text \<open>C28: the jobs of a sweep.  They are all combinations of the links, the numbers of clients and
  the sizes that are given for the link, in this order of nesting; there is at least one; each link
  is one of the two that exist, and all numbers are positive.\<close>

theorem sweep_jobs_product:
  assumes "iter_jobs args = Inr jobs"
  shows "\<exists>links clients wifi_bytes nr_bytes.
    parse_links (a_links args) = Inr links \<and> parse_csv_uints (a_clients args) = Inr clients \<and>
    parse_csv_uints (a_wifi_bytes args) = Inr wifi_bytes \<and> parse_csv_uints (a_nr_bytes args) = Inr nr_bytes \<and>
    (\<forall>link n b. (link, n, b) \<in> set jobs \<longleftrightarrow>
       link \<in> set links \<and> n \<in> set clients \<and> b \<in> set (if link = ''wifi-only'' then wifi_bytes else nr_bytes)) \<and>
    length jobs = length clients * (sum_list (map (\<lambda>l. length (if l = ''wifi-only'' then wifi_bytes else nr_bytes)) links)) \<and>
    jobs \<noteq> [] \<and> (\<forall>(link, n, b) \<in> set jobs. link \<in> {''wifi-only'', ''nr-only''} \<and> 0 < n \<and> 0 < b)"
proof -
  from assms obtain links clients wb nb where p:
    "parse_links (a_links args) = Inr links" "parse_csv_uints (a_clients args) = Inr clients"
    "parse_csv_uints (a_wifi_bytes args) = Inr wb" "parse_csv_uints (a_nr_bytes args) = Inr nb"
    and jobs: "jobs = concat (map (\<lambda>link. concat (map (\<lambda>n. map (\<lambda>b. (link, n, b))
        (if link = ''wifi-only'' then wb else nb)) clients)) links)"
    by (rule iter_jobs_parts)
  note ok = parse_links_valid [OF p(1)] parse_csv_positive [OF p(2)] parse_csv_positive [OF p(3)] parse_csv_positive [OF p(4)]
  have mem: "(link, n, b) \<in> set jobs \<longleftrightarrow>
      link \<in> set links \<and> n \<in> set clients \<and> b \<in> set (if link = ''wifi-only'' then wb else nb)" for link n b
    unfolding jobs by (rule nested_loops)
  have len: "length jobs = length clients * (sum_list (map (\<lambda>l. length (if l = ''wifi-only'' then wb else nb)) links))"
    unfolding jobs by (rule nested_loops)
  obtain l n where ln: "l \<in> set links" "n \<in> set clients" using ok(1,2) by (metis list.set_intros(1) neq_Nil_conv)
  have "(if l = ''wifi-only'' then wb else nb) \<noteq> []" using ok(3,4) by (cases "l = ''wifi-only''") simp_all
  note b = hd_in_set [OF this]
  from ln b have "(l, n, hd (if l = ''wifi-only'' then wb else nb)) \<in> set jobs" unfolding mem by (intro conjI)
  then have ne: "jobs \<noteq> []" by auto
  note pos = iter_jobs_positive [OF assms]
  show ?thesis by (intro exI conjI allI) (rule p mem len ne pos)+
qed

definition small_args :: sweep_args where
  "small_args = default_args \<lparr>a_clients := ''1,4'', a_wifi_bytes := ''64, 1024'', a_nr_bytes := ''64''\<rparr>"

theorem sweep_jobs_product_witness:
  "\<exists>jobs. iter_jobs small_args = Inr jobs \<and> jobs \<noteq> []"
proof -
  have "map_result length (iter_jobs small_args) = Inr 6" by code_simp
  then obtain jobs where "iter_jobs small_args = Inr jobs" unfolding map_result_eq_Inr by blast
  from sweep_jobs_product [OF this] this show ?thesis by blast
qed

text \<open>C30: the exit code of a sweep.  When the script ends without an exception it returns 0 exactly when
  every run returned 0, in whatever order the runs complete and whether or not it stops at
  the first failure.\<close>

theorem sweep_exit_status:
  assumes "sweep_main w fs args at_start order = Inr res" "\<not> a_generate_only args"
    and "iter_jobs args = Inr jobs" "set order = {..<length jobs}"
    and "profile_root = normpath (path_join (repo_root w) (a_profile_root args))"
  shows "so_status res = 0 \<longleftrightarrow>
    (\<forall>i < length jobs. \<exists>r. sweep_job w args profile_root at_start jobs i = Inr r \<and> rr_rc r = 0)"
proof -
  from assms(1,2,3,5) obtain ls fails where c:
    "collect_runs (repo_root w) (a_fail_fast args) (map (sweep_job w args profile_root at_start jobs) order) = Inr (ls, fails)"
    and st: "so_status res = (if fails \<noteq> [] then 1 else 0)"
    by (rule sweep_main_run)
  note f = collect_runs_failures [OF c]
  show ?thesis
  proof (cases "fails = []")
    case True
    then have "\<forall>i \<in> set order. \<exists>r. sweep_job w args profile_root at_start jobs i = Inr r \<and> rr_rc r = 0"
      using f by auto
    then show ?thesis using True st assms(4) by auto
  next
    case False
    then obtain b where "Inr b \<in> set (map (sweep_job w args profile_root at_start jobs) order)" "rr_rc b \<noteq> 0"
      using f by (metis list.set_intros(1) neq_Nil_conv)
    then obtain i where "i \<in> set order" "sweep_job w args profile_root at_start jobs i = Inr b" by auto
    then show ?thesis using False st assms(4) \<open>rr_rc b \<noteq> 0\<close> by force
  qed
qed

definition small_world :: sweep_world where
  "small_world = \<lparr>v_script = ''/r/m/p/run.py'', v_environ = [(''DCE_PATH'', ''/x'')], v_float_str = (\<lambda>_. ''1.0''),
     v_run = (\<lambda>cmd env timeout. (if ''--pathMode=nr-only'' \<in> set cmd then Exited 3 else Exited 0, [])),
     v_build = (\<lambda>cmd. 0)\<rparr>"

definition small_fs :: fs where
  "small_fs p = (if p = ''/r/build-opt-dce-rel/c4che'' then Some DirNode else None)"

definition two_args :: sweep_args where
  "two_args = default_args \<lparr>a_clients := ''1'', a_wifi_bytes := ''64'', a_nr_bytes := ''32'', a_profile_root := ''p''\<rparr>"

theorem sweep_exit_status_witness:
  "\<exists>res jobs. sweep_main small_world small_fs two_args (\<lambda>_. (small_fs, ''/tmp/x'', Dyadic 1 0)) [1, 0] = Inr res \<and>
     iter_jobs two_args = Inr jobs \<and> length jobs = 2 \<and> so_status res \<noteq> 0 \<and>
     \<not> (\<forall>i < 2. \<exists>r. sweep_job small_world two_args ''/r/p'' (\<lambda>_. (small_fs, ''/tmp/x'', Dyadic 1 0)) jobs i = Inr r \<and> rr_rc r = 0)"
proof -
  let ?start = "\<lambda>_. (small_fs, ''/tmp/x'', Dyadic 1 0)"
  have "map_result so_status (sweep_main small_world small_fs two_args ?start [1, 0]) = Inr 1" by code_simp
  then obtain res where res: "sweep_main small_world small_fs two_args ?start [1, 0] = Inr res" "so_status res = 1"
    unfolding map_result_eq_Inr by metis
  have "map_result length (iter_jobs two_args) = Inr 2" by code_simp
  then obtain jobs where jobs: "iter_jobs two_args = Inr jobs" "length jobs = 2" unfolding map_result_eq_Inr by metis
  have gen: "\<not> a_generate_only two_args" by code_simp
  have ord: "set [1, 0] = {..<length jobs}" unfolding jobs(2) by auto
  have root: "''/r/p'' = normpath (path_join (repo_root small_world) (a_profile_root two_args))" by code_simp
  from sweep_exit_status [OF res(1) gen jobs(1) ord root] res jobs show ?thesis by simp
qed

end
