(* ===== verification/Link_Summary.thy ===== *)
theory Link_Summary
  imports Link_Run
begin

text \<open>
  \<open>src/myscripts/pamptcp-link-characteristics/summarize-link-characteristics.py\<close>: the reports that a sweep
  left in its profile directories, read and written as one CSV table and one Markdown page.

  A JSON document is the datatype \<open>json\<close>; the parser of the library is a function of
  \<open>summary_world\<close>, together with \<open>repr\<close> of a float.  Numbers are finite.  A profile root is given by its
  directories and their files, the paths on the command line are in the normal form of
  \<open>Path\<close>, and paths are resolved without symbolic links.
\<close>

section \<open>JSON values\<close>

datatype json =
    JNull
  | JBool bool
  | JInt int
  | JFloat pyfloat
  | JStr string
  | JList "json list"
  | JObj "(string, json) dict"

record summary_world =
  u_script :: string
  u_float_repr :: "pyfloat \<Rightarrow> string"
  u_json :: "string \<Rightarrow> json result"

text \<open>\<open>x.get(k, d)\<close>, which only dictionaries have, and iteration.\<close>

definition jget :: "json \<Rightarrow> string \<Rightarrow> json \<Rightarrow> json result" where
  "jget j k dflt = (case j of
       JObj d \<Rightarrow> Inr (case dict_get d k of Some v \<Rightarrow> v | None \<Rightarrow> dflt)
     | _ \<Rightarrow> Inl AttributeError)"

definition jiter :: "json \<Rightarrow> json list result" where
  "jiter j = (case j of
       JList js \<Rightarrow> Inr js
     | JObj d \<Rightarrow> Inr (map (JStr \<circ> fst) d)
     | JStr s \<Rightarrow> Inr (map (\<lambda>c. JStr [c]) s)
     | _ \<Rightarrow> Inl TypeError)"

text \<open>The double nearest to \<open>p / q\<close>, ties to even, for positive \<open>q\<close> and results in the normal range.\<close>

fun bit_count :: "int \<Rightarrow> nat" where
  "bit_count n = (if n \<le> 0 then 0 else Suc (bit_count (n div 2)))"

declare bit_count.simps [simp del]

definition div_half_even :: "int \<Rightarrow> int \<Rightarrow> int" where
  "div_half_even n d =
     (let q = n div d; r = n mod d
      in if 2 * r < d then q else if 2 * r > d then q + 1 else if even q then q else q + 1)"

definition double_of_ratio :: "int \<Rightarrow> int \<Rightarrow> pyfloat" where
  "double_of_ratio p q =
     (let a = \<bar>p\<bar>;
          up = 54 + bit_count q - bit_count a; down = bit_count a - (54 + bit_count q);
          n = a * 2 ^ up; d = q * 2 ^ down;
          extra = bit_count (n div d) - 53;
          m = div_half_even n (d * 2 ^ extra) * sgn p;
          shift = down + extra
      in if a = 0 then Dyadic 0 0
         else if shift \<le> up then Dyadic m (up - shift) else Dyadic (m * 2 ^ (shift - up)) 0)"

text \<open>\<open>float(x)\<close> and \<open>int(x)\<close> of a JSON value.  A string given to \<open>float\<close> is outside the model.\<close>

definition jfloat :: "json \<Rightarrow> pyfloat result" where
  "jfloat j = (case j of
       JFloat x \<Rightarrow> Inr x
     | JInt i \<Rightarrow> Inr (double_of_ratio i 1)
     | JBool b \<Rightarrow> Inr (Dyadic (of_bool b) 0)
     | JStr _ \<Rightarrow> Inl Unsupported
     | _ \<Rightarrow> Inl TypeError)"

fun truncate_float :: "pyfloat \<Rightarrow> int" where
  "truncate_float (Dyadic m k) = sgn m * (\<bar>m\<bar> div 2 ^ k)"

definition jint :: "json \<Rightarrow> int result" where
  "jint j = (case j of
       JInt i \<Rightarrow> Inr i
     | JFloat x \<Rightarrow> Inr (truncate_float x)
     | JBool b \<Rightarrow> Inr (of_bool b)
     | JStr s \<Rightarrow> py_int s
     | _ \<Rightarrow> Inl TypeError)"

section \<open>Names of profiles and of reports\<close>

text \<open>\<open>PROFILE_RE\<close> and \<open>REPORT_RE\<close>.  A dollar also matches before a final newline; the scheduler
  is the longest prefix after which the rest matches.\<close>

definition at_end :: "string \<Rightarrow> bool" where
  "at_end s \<longleftrightarrow> s = [] \<or> s = nl"

definition profile_match :: "string \<Rightarrow> (int \<times> int) option" where
  "profile_match s =
     (let ds = takeWhile is_digit (tl s); r = dropWhile is_digit (tl s);
          es = takeWhile is_digit (drop 2 r); r' = dropWhile is_digit (drop 2 r)
      in if startswith s ''n'' \<and> ds \<noteq> [] \<and> startswith r ''-b'' \<and> es \<noteq> [] \<and> at_end r'
         then Some (int (read_nat ds), int (read_nat es)) else None)"

definition stream_tail :: "string \<Rightarrow> bool" where
  "stream_tail t =
     (let ds = takeWhile is_digit t; r = dropWhile is_digit t;
          body = (if endswith r nl then butlast r else r)
      in ds \<noteq> [] \<and> startswith r ''-'' \<and> endswith body ''s.json'' \<and> 7 < length body \<and> CHR 0x0A \<notin> set body)"

definition report_tail :: "string \<Rightarrow> string option" where
  "report_tail s =
     (if startswith s ''-wifi-only-stream'' \<and> stream_tail (drop 17 s) then Some ''wifi-only''
      else if startswith s ''-nr-only-stream'' \<and> stream_tail (drop 15 s) then Some ''nr-only''
      else None)"

fun report_scan :: "bool \<Rightarrow> string \<Rightarrow> string option" where
  "report_scan started [] = None"
| "report_scan started (c # cs) =
     (case (if c = CHR 0x0A then None else report_scan True cs) of
        Some link \<Rightarrow> Some link
      | None \<Rightarrow> if started then report_tail (c # cs) else None)"

definition report_match :: "string \<Rightarrow> string option" where
  "report_match s = report_scan False s"

section \<open>One report\<close>

definition EXPECTED_WARNINGS :: "string list" where
  "EXPECTED_WARNINGS = [''Single-path mode disables MPTCP subflow setup'']"

fun find_entry :: "json list \<Rightarrow> json result" where
  "find_entry [] = Inr (JObj [])"
| "find_entry (entry # entries) =
     bind_result (jget entry ''scope'' JNull) (\<lambda>s.
       if s = JStr ''overall'' then Inr entry else find_entry entries)"

definition find_overall :: "json \<Rightarrow> json result" where
  "find_overall report =
     bind_result (jget report ''priority_metrics'' (JObj [])) (\<lambda>m.
     bind_result (jget m ''entries'' (JList [])) (\<lambda>es.
     bind_result (jiter es) find_entry))"

text \<open>\<open>expected in warning\<close>.\<close>

definition jin :: "string \<Rightarrow> json \<Rightarrow> bool result" where
  "jin p j = (case j of
       JStr s \<Rightarrow> Inr (contains s p)
     | JList js \<Rightarrow> Inr (JStr p \<in> set js)
     | JObj d \<Rightarrow> Inr (dict_has d p)
     | _ \<Rightarrow> Inl TypeError)"

fun any_in :: "string list \<Rightarrow> json \<Rightarrow> bool result" where
  "any_in [] j = Inr False"
| "any_in (p # ps) j = bind_result (jin p j) (\<lambda>b. if b then Inr True else any_in ps j)"

fun unexpected :: "json list \<Rightarrow> json list result" where
  "unexpected [] = Inr []"
| "unexpected (j # js) =
     bind_result (any_in EXPECTED_WARNINGS j) (\<lambda>b. map_result (\<lambda>ks. if b then ks else j # ks) (unexpected js))"

definition jstring :: "json \<Rightarrow> string result" where
  "jstring j = (case j of JStr s \<Rightarrow> Inr s | _ \<Rightarrow> Inl TypeError)"

record row =
  w_link :: string
  w_clients :: int
  w_bytes :: int
  w_offered :: pyfloat
  w_floats :: "pyfloat list"
  w_ints :: "int list"
  w_warnings :: string
  w_json :: string

text \<open>The floats are the throughputs of the path and of the sink, the mean, the percentiles and the maximum of
  the delay and the mean jitter; the integers are the counters.\<close>

definition w_connected :: "row \<Rightarrow> int" where "w_connected r = w_ints r ! 3"
definition w_total :: "row \<Rightarrow> int" where "w_total r = w_ints r ! 4"
definition w_failures :: "row \<Rightarrow> int" where "w_failures r = w_ints r ! 5"

definition offered_mbps :: "int \<Rightarrow> int \<Rightarrow> pyfloat" where
  "offered_mbps clients bytes_per_burst =
     (case double_of_ratio (clients * bytes_per_burst) 1 of Dyadic m k \<Rightarrow>
        double_of_ratio (m * 8) (2 ^ k * 1000000))"

definition jget_all :: "(json \<Rightarrow> 'b result) \<Rightarrow> json \<Rightarrow> (json \<times> string) list \<Rightarrow> 'b list result" where
  "jget_all conv dflt keys = mapM_result (\<lambda>(j, k). bind_result (jget j k dflt) conv) keys"

definition load_row :: "summary_world \<Rightarrow> string \<Rightarrow> string \<Rightarrow> string \<Rightarrow> string result \<Rightarrow> row option result" where
  "load_row w path dir name content =
     (case (profile_match dir, report_match name) of
        (Some (clients, bytes_per_burst), Some link) \<Rightarrow>
          bind_result (bind_result content (u_json w)) (\<lambda>report.
          bind_result (find_overall report) (\<lambda>overall.
          bind_result (jget overall ''delay_ms'' (JObj [])) (\<lambda>delay.
          bind_result (jget overall ''jitter_ms'' (JObj [])) (\<lambda>jitter.
          bind_result (jget report ''packet_sink'' (JObj [])) (\<lambda>sink.
          bind_result (jget report ''client_connect'' (JObj [])) (\<lambda>connect.
          bind_result (bind_result (jget report ''warnings'' (JList [])) (\<lambda>ws. bind_result (jiter ws) unexpected)) (\<lambda>warnings.
          bind_result (jget_all jfloat (JFloat (Dyadic 0 0))
            [(overall, ''throughput_mbps''), (sink, ''throughput_mbps''), (delay, ''mean''), (delay, ''p50''),
             (delay, ''p95''), (delay, ''p99''), (delay, ''max''), (jitter, ''mean'')]) (\<lambda>floats.
          bind_result (jget_all jint (JInt 0)
            [(overall, ''rx_packets''), (overall, ''delay_rx_packets''), (overall, ''active_flows''),
             (connect, ''connected''), (connect, ''total''), (connect, ''total_connect_failures'')]) (\<lambda>ints.
          bind_result (mapM_result jstring warnings) (\<lambda>texts.
            Inr (Some \<lparr>w_link = link, w_clients = clients, w_bytes = bytes_per_burst,
              w_offered = offered_mbps clients bytes_per_burst, w_floats = floats, w_ints = ints,
              w_warnings = join_str '' | '' texts, w_json = path\<rparr>)))))))))))
      | _ \<Rightarrow> Inr None)"

section \<open>The two tables\<close>

definition format_float :: "pyfloat \<Rightarrow> string" where
  "format_float x = rstrip_char (CHR ''.'') (rstrip_char (CHR ''0'') (fmt_fixed 3 x))"

definition csv_fieldnames :: "string list" where
  "csv_fieldnames = [''link'', ''clients'', ''bytes_per_burst'', ''offered_mbps'', ''rx_mbps'', ''sink_mbps'',
     ''delay_mean_ms'', ''delay_p50_ms'', ''delay_p95_ms'', ''delay_p99_ms'', ''delay_max_ms'', ''jitter_mean_ms'',
     ''rx_packets'', ''delay_rx_packets'', ''active_flows'', ''connected'', ''total'', ''connect_failures'',
     ''warnings'', ''json'']"

text \<open>A field is quoted when it holds a comma, a quote or an end of line.\<close>

definition csv_field :: "string \<Rightarrow> string" where
  "csv_field s =
     (if list_ex (\<lambda>c. c \<in> set [CHR '','', CHR 0x22, CHR 0x0D, CHR 0x0A]) s
      then dquote @ replace_str dquote (dquote @ dquote) s @ dquote else s)"

definition csv_line :: "string list \<Rightarrow> string" where
  "csv_line fds = join_str '','' (map csv_field fds) @ [CHR 0x0D, CHR 0x0A]"

definition row_fields :: "summary_world \<Rightarrow> row \<Rightarrow> string list" where
  "row_fields w r =
     [w_link r, show_int (w_clients r), show_int (w_bytes r)] @ map (u_float_repr w) (w_offered r # w_floats r) @
     map show_int (w_ints r) @ [w_warnings r, w_json r]"

definition csv_text :: "summary_world \<Rightarrow> row list \<Rightarrow> string" where
  "csv_text w rows = concat (map csv_line (csv_fieldnames # map (row_fields w) rows))"

definition write_csv :: "summary_world \<Rightarrow> row list \<Rightarrow> string \<Rightarrow> fs \<Rightarrow> fs result" where
  "write_csv w rows path fs =
     bind_result (make_dirs (dirname path) fs) (write_text path (csv_text w rows))"

definition row_notes :: "row \<Rightarrow> string list" where
  "row_notes r =
     (if w_connected r \<noteq> w_total r then [''connected '' @ show_int (w_connected r) @ ''/'' @ show_int (w_total r)] else []) @
     (if w_failures r \<noteq> 0 then [''connect failures '' @ show_int (w_failures r)] else []) @
     (if w_warnings r \<noteq> [] then [''warnings''] else [])"

definition markdown_row :: "row \<Rightarrow> string" where
  "markdown_row r =
     ''| '' @ join_str '' | ''
       ([show_int (w_clients r), show_int (w_bytes r), format_float (w_offered r), format_float (w_floats r ! 0)] @
        map (\<lambda>i. format_float (w_floats r ! i)) [2, 3, 4, 5, 6] @
        [show_int (w_connected r) @ ''/'' @ show_int (w_total r), join_str ''; '' (row_notes r)]) @ '' |''"

definition markdown_section :: "row list \<Rightarrow> string \<Rightarrow> string list" where
  "markdown_section rows link =
     (let link_rows = filter (\<lambda>r. w_link r = link) rows
      in if link_rows = [] then []
         else [''## '' @ link, [],
               ''| clients | bytes/burst | offered Mbps | rx Mbps | delay mean ms | p50 | p95 | p99 | max | connected | notes |'',
               ''|---:|---:|---:|---:|---:|---:|---:|---:|---:|---:|---|''] @ map markdown_row link_rows @ [[]])"

text \<open>\<open>path.with_suffix('.csv')\<close>: the suffix starts at the last dot, unless that dot is the first or the last
  character of the name.\<close>

definition with_suffix :: "string \<Rightarrow> string \<Rightarrow> string result" where
  "with_suffix sfx path =
     (let name = basename path; ext = takeWhile (\<lambda>c. c \<noteq> CHR ''.'') (rev name);
          old = (if CHR ''.'' \<in> set name \<and> ext \<noteq> [] \<and> length ext + 1 < length name then length ext + 1 else 0)
      in if name = [] then Inl ValueError else Inr (take (length path - old) path @ sfx))"

definition write_markdown :: "row list \<Rightarrow> string \<Rightarrow> string \<Rightarrow> fs \<Rightarrow> fs result" where
  "write_markdown rows path root fs =
     bind_result (make_dirs (dirname path) fs) (\<lambda>fs.
     bind_result (with_suffix ''.csv'' path) (\<lambda>csv.
     bind_result (relative_to csv root) (\<lambda>rel.
       let lines = [''# Link Characteristics Summary'', [],
              ''Delay is `priority_metrics.entries[scope=overall].delay_ms`, i.e. application-layer completion time for each timestamped TCP burst.'',
              []] @ concat (map (markdown_section rows) [''wifi-only'', ''nr-only'']) @
              [''## Files'', [], ''- CSV: `'' @ rel @ ''`'', []]
       in write_text path (join_str nl lines) fs)))"

section \<open>The script\<close>

text \<open>\<open>profile_root.glob('n*-b*/*.json')\<close>, sorted; \<open>tree\<close> lists the directories with their files.\<close>

type_synonym tree = "(string \<times> (string \<times> string result) list) list"

definition glob_reports :: "tree \<Rightarrow> (string \<times> string \<times> string result) list" where
  "glob_reports tree =
     sort_key (\<lambda>(d, n, c). (d, n))
       (concat (map (\<lambda>(d, files). map (\<lambda>(n, c). (d, n, c)) (filter (\<lambda>(n, c). endswith n ''.json'') files))
         (filter (\<lambda>(d, files). startswith d ''n'' \<and> contains (tl d) ''-b'') tree)))"

fun keep_rows :: "row option list \<Rightarrow> row list" where
  "keep_rows [] = []"
| "keep_rows (None # rs) = keep_rows rs"
| "keep_rows (Some r # rs) = r # keep_rows rs"

definition load_rows :: "summary_world \<Rightarrow> string \<Rightarrow> tree \<Rightarrow> row list result" where
  "load_rows w profile_root tree =
     map_result (\<lambda>rs. sort_key (\<lambda>r. (w_link r, w_clients r, w_bytes r)) (keep_rows rs))
       (mapM_result (\<lambda>(d, n, c). load_row w (path_joins profile_root [d, n]) d n c) (glob_reports tree))"

record summary_args =
  s_profile_root :: string
  s_csv :: string
  s_md :: string

definition summary_root :: "summary_world \<Rightarrow> string" where
  "summary_root w = dirname (dirname (dirname (u_script w)))"

definition output_path :: "summary_world \<Rightarrow> string \<Rightarrow> string \<Rightarrow> string \<Rightarrow> string" where
  "output_path w profile_root given name =
     path_join (summary_root w) (if given \<noteq> [] then given else path_join profile_root name)"

definition summary_main :: "summary_world \<Rightarrow> summary_args \<Rightarrow> (string \<Rightarrow> tree) \<Rightarrow> fs \<Rightarrow> (string \<times> fs) result" where
  "summary_main w args tree_of fs =
     (let profile_root = normpath (path_join (summary_root w) (s_profile_root args));
          csv_path = output_path w profile_root (s_csv args) ''summary.csv'';
          md_path = output_path w profile_root (s_md args) ''summary.md''
      in bind_result (load_rows w profile_root (tree_of profile_root)) (\<lambda>rows.
         bind_result (write_csv w rows csv_path fs) (\<lambda>fs.
         bind_result (write_markdown rows md_path (summary_root w) fs) (\<lambda>fs.
           Inr (''rows='' @ show_nat (length rows) @ '' csv='' @ csv_path @ '' md='' @ md_path, fs)))))"


section \<open>Lemmas\<close>

text \<open>\<open>quiet s\<close>: no dash of \<open>s\<close> is followed by the first letter of a kind of link.\<close>

fun quiet :: "string \<Rightarrow> bool" where
  "quiet (c # d # s) \<longleftrightarrow> (c = CHR ''-'' \<longrightarrow> d \<noteq> CHR ''w'' \<and> d \<noteq> CHR ''n'') \<and> quiet (d # s)"
| "quiet _ \<longleftrightarrow> True"

lemma quiet_no_dash: "CHR ''-'' \<notin> set s \<Longrightarrow> quiet s"
  by (induction s rule: quiet.induct) auto

lemma quiet_append: "quiet (u @ [c]) \<Longrightarrow> quiet (c # v) \<Longrightarrow> quiet (u @ c # v)"
proof (induction u)
  case (Cons a u)
  then show ?case by (cases u) auto
qed simp

lemma quiet_tail: "quiet (c # s) \<Longrightarrow> quiet s"
  by (cases s) auto

lemma quiet_Cons: "c \<noteq> CHR ''-'' \<Longrightarrow> quiet (c # s) \<longleftrightarrow> quiet s"
  by (cases s) auto

lemma report_tail_quiet: "quiet s \<Longrightarrow> report_tail s = None"
proof (cases s rule: quiet.cases)
  case (1 c d t)
  assume "quiet s"
  with 1 show ?thesis by (auto simp: report_tail_def startswith_def)
qed (auto simp: report_tail_def startswith_def)

lemma report_scan_quiet: "quiet s \<Longrightarrow> report_scan started s = None"
proof (induction s arbitrary: started)
  case (Cons c s)
  then show ?case using quiet_tail [of c s] report_tail_quiet [of "c # s"] by auto
qed simp

lemma report_scan_append:
  assumes "CHR 0x0A \<notin> set u" "report_scan True v = Some link" "started \<or> u \<noteq> []"
  shows "report_scan started (u @ v) = Some link"
  using assms
proof (induction u arbitrary: started)
  case Nil
  then show ?case by simp
next
  case (Cons c u)
  have rest: "report_scan True (u @ v) = Some link" using Cons by simp
  have "c \<noteq> CHR 0x0A" using Cons.prems(1) by auto
  with rest show ?case by simp
qed

lemma takeWhile_digits:
  assumes "\<forall>c \<in> set ds. is_digit c" "\<not> is_digit c"
  shows "takeWhile is_digit (ds @ c # r) = ds" "dropWhile is_digit (ds @ c # r) = c # r"
  using assms by (simp_all add: takeWhile_append dropWhile_append)

lemma stream_tail_printed:
  assumes "dur \<noteq> []" "CHR 0x0A \<notin> set dur"
  shows "stream_tail (show_nat n @ ''-'' @ dur @ ''s.json'')"
proof -
  have d: "takeWhile is_digit (show_nat n @ CHR ''-'' # dur @ ''s.json'') = show_nat n"
    "dropWhile is_digit (show_nat n @ CHR ''-'' # dur @ ''s.json'') = CHR ''-'' # dur @ ''s.json''"
    by (rule takeWhile_digits [OF show_nat_digits], simp add: is_digit_def)+
  show ?thesis using assms by (simp add: stream_tail_def d endswith_def nl_def Let_def)
qed

lemma duration_chars:
  assumes "0 \<le> m"
  shows "duration_text (Dyadic m k) \<noteq> []"
    and "\<forall>c \<in> set (duration_text (Dyadic m k)). is_digit c \<or> c = CHR ''p''"
proof -
  show "duration_text (Dyadic m k) \<noteq> []" by (simp add: duration_text_def Let_def)
  have sub: "set (rstrip_char c s) \<subseteq> set s" for c s by (auto simp: rstrip_char_def dest: set_dropWhileD)
  have digits: "c \<in> set (pad_left n (show_nat q)) \<Longrightarrow> is_digit c" for c n q
    using show_nat_digits [of q] by (auto simp: pad_left_def is_digit_def)
  have "c \<in> set (fmt_fixed 6 (Dyadic m k)) \<Longrightarrow> is_digit c \<or> c = CHR ''.''" for c
    using assms show_nat_digits digits by (fastforce simp: Let_def)
  then have "c \<in> set (rstrip_char a (rstrip_char b (fmt_fixed 6 (Dyadic m k)))) \<Longrightarrow> is_digit c \<or> c = CHR ''.''" for a b c
    using sub by blast
  then have "\<forall>c \<in> set (rstrip_char a (rstrip_char b (fmt_fixed 6 (Dyadic m k)))). is_digit c \<or> c = CHR ''.''" for a b
    by blast
  then show "\<forall>c \<in> set (duration_text (Dyadic m k)). is_digit c \<or> c = CHR ''p''"
    unfolding duration_text_def Let_def by (simp del: fmt_fixed.simps) (auto simp del: fmt_fixed.simps simp: is_digit_def)
qed

lemma quiet_tail_text:
  assumes "CHR ''-'' \<notin> set dur" "dur \<noteq> []" "hd dur \<noteq> CHR ''w''" "hd dur \<noteq> CHR ''n''" "CHR ''-'' \<notin> set num"
  shows "quiet (num @ ''-'' @ dur @ ''s.json'')"
proof -
  have "quiet (dur @ ''s.json'')" using assms(1) by (intro quiet_no_dash) auto
  then have "quiet (CHR ''-'' # dur @ ''s.json'')" using assms(2-4) by (cases dur) auto
  moreover have "quiet (num @ [CHR ''-''])"
    using assms(5)
  proof (induction num)
    case (Cons a num)
    then show ?case by (cases num) auto
  qed simp
  ultimately show ?thesis using quiet_append [of num "CHR ''-''" "dur @ ''s.json''"] by simp
qed

text \<open>What a row that is kept says about the names of its file, and its shape.\<close>

lemma load_row_Some:
  assumes "load_row w path dir name content = Inr (Some r)"
  shows "profile_match dir = Some (w_clients r, w_bytes r) \<and> report_match name = Some (w_link r) \<and>
    w_json r = path \<and> length (w_floats r) = 8 \<and> length (w_ints r) = 6"
proof -
  obtain n b where p: "profile_match dir = Some (n, b)"
    using assms by (cases "profile_match dir") (auto simp add: load_row_def simp del: bind_result_eq_Inr)
  obtain link where l: "report_match name = Some link"
    using assms by (cases "report_match name") (auto simp add: load_row_def p simp del: bind_result_eq_Inr)
  show ?thesis
    using assms unfolding load_row_def p l prod.case option.case jget_all_def
    by - (elim bind_resultE, (drule mapM_result_length)+, auto)
qed

lemma set_keep_rows: "r \<in> set (keep_rows rs) \<longleftrightarrow> Some r \<in> set rs"
  by (induction rs rule: keep_rows.induct) auto

lemma mapM_result_mem:
  "mapM_result f xs = Inr ys \<Longrightarrow> y \<in> set ys \<longleftrightarrow> (\<exists>x \<in> set xs. f x = Inr y)"
  by (induction xs arbitrary: ys) auto

section \<open>Properties\<close>

text \<open>The two scripts agree on the names of profiles.  The name that the sweep gives to a directory is read
  back by the summary as the same number of clients and the same size.\<close>

lemma profile_match_name:
  "0 \<le> n \<Longrightarrow> 0 \<le> b \<Longrightarrow> profile_match (profile_name n b) = Some (n, b)"
proof -
  assume nb: "0 \<le> n" "0 \<le> b"
  let ?n = "pad_left 3 (show_nat (nat n))" and ?b = "show_nat (nat b)"
  have zeros: "read_nat (replicate k (CHR ''0'') @ s) = read_nat s" for k s
    by (induction k) (simp_all add: read_nat_def digit_val_def)
  have dn: "\<forall>c \<in> set ?n. is_digit c" using show_nat_digits by (auto simp: pad_left_def is_digit_def)
  have db: "takeWhile is_digit ?b = ?b" "dropWhile is_digit ?b = []"
    using show_nat_digits [of "nat b"] by (simp_all add: takeWhile_eq_all_conv dropWhile_eq_Nil_conv)
  have all_b: "Ball (set ?b) is_digit" using show_nat_digits by simp
  have t: "takeWhile is_digit (?n @ CHR ''-'' # CHR ''b'' # ?b) = ?n"
    "dropWhile is_digit (?n @ CHR ''-'' # CHR ''b'' # ?b) = CHR ''-'' # CHR ''b'' # ?b"
    by (rule takeWhile_digits [OF dn], simp add: is_digit_def)+
  have "?n \<noteq> []" by (simp add: pad_left_def)
  moreover have "read_nat ?n = nat n" by (simp add: pad_left_def zeros)
  ultimately show ?thesis
    using nb by (simp add: profile_match_def profile_name_def fmt_03d_def show_int_def Let_def t db all_b at_end_def)
qed

text \<open>Names of profiles are a codec: different pairs have different directories.\<close>

interpretation profile_names: codec "\<lambda>(n, b). profile_name n b"
  "\<lambda>s. case profile_match s of Some x \<Rightarrow> Inr x | None \<Rightarrow> Inl ValueError" "\<lambda>x. x" "\<lambda>(n, b). 0 \<le> n \<and> 0 \<le> b"
  by unfold_locales (auto simp: profile_match_name)

lemma profile_name_shape:
  assumes "0 \<le> n" "0 \<le> b"
  shows "CHR ''/'' \<notin> set (profile_name n b)" "profile_name n b \<noteq> []" "\<not> startswith (profile_name n b) ''/''"
  using assms show_nat_digits [of "nat n"] show_nat_digits [of "nat b"]
  by (auto simp: profile_name_def fmt_03d_def show_int_def pad_left_def is_digit_def startswith_def)

definition dir_prefix :: "string \<Rightarrow> string" where
  "dir_prefix root = (if root = [] \<or> endswith root ''/'' then root else root @ ''/'')"

lemma join_prefix: "\<not> startswith p ''/'' \<Longrightarrow> path_join root p = dir_prefix root @ p"
  by (simp add: path_join_def dir_prefix_def)

lemma profile_file:
  assumes "0 \<le> n" "0 \<le> b" "\<not> startswith file ''/''"
  shows "path_join (path_join root (profile_name n b)) file = dir_prefix root @ profile_name n b @ ''/'' @ file"
proof -
  note sh = profile_name_shape [OF assms(1,2)]
  have "last (profile_name n b) \<noteq> CHR ''/''" using last_in_set [OF sh(2)] sh(1) by metis
  then have "\<not> endswith (dir_prefix root @ profile_name n b) ''/''" using sh(2) by (simp add: endswith_slash_iff)
  then show ?thesis using sh(2) by (simp add: join_prefix [OF sh(3)] join_prefix [OF assms(3)] dir_prefix_def)
qed

text \<open>Writing one profile keeps every file but its own two.\<close>

lemma write_profile_files:
  assumes "write_profile dir n b fs = Inr fs'"
  shows "fs' (path_join dir ''templates.csv'') = Some (FileNode (templates_csv b)) \<or>
      path_join dir ''templates.csv'' = path_join dir ''groups.csv''"
    and "fs' (path_join dir ''groups.csv'') = Some (FileNode (groups_csv n b))"
    and "fs p = Some (FileNode s) \<Longrightarrow> p \<noteq> path_join dir ''templates.csv'' \<Longrightarrow> p \<noteq> path_join dir ''groups.csv'' \<Longrightarrow>
      fs' p = Some (FileNode s)"
proof -
  from assms obtain fs1 fs2 where m: "make_dirs dir fs = Inr fs1"
    and t: "write_text (path_join dir ''templates.csv'') (templates_csv b) fs1 = Inr fs2"
    and g: "write_text (path_join dir ''groups.csv'') (groups_csv n b) fs2 = Inr fs'"
    unfolding write_profile_def by (elim bind_resultE)
  from t have fs2: "fs2 = fs1(path_join dir ''templates.csv'' \<mapsto> FileNode (templates_csv b))"
    by (auto simp: write_text_def split: if_splits)
  from g have fs': "fs' = fs2(path_join dir ''groups.csv'' \<mapsto> FileNode (groups_csv n b))"
    by (auto simp: write_text_def split: if_splits)
  show "fs' (path_join dir ''templates.csv'') = Some (FileNode (templates_csv b)) \<or>
      path_join dir ''templates.csv'' = path_join dir ''groups.csv''"
    "fs' (path_join dir ''groups.csv'') = Some (FileNode (groups_csv n b))" by (auto simp: fs' fs2)
  assume p: "fs p = Some (FileNode s)" "p \<noteq> path_join dir ''templates.csv''" "p \<noteq> path_join dir ''groups.csv''"
  have "fs1 p = Some (FileNode s)"
  proof (cases "fs dir")
    case None
    with m p(1) show ?thesis by (auto simp: make_dirs_def)
  next
    case (Some node)
    with m p(1) show ?thesis by (cases node) (auto simp: make_dirs_def)
  qed
  with p(2,3) show "fs' p = Some (FileNode s)" by (simp add: fs' fs2)
qed

text \<open>The files of a profile, and that different profiles share none.\<close>

definition profile_files :: "string \<Rightarrow> int \<Rightarrow> int \<Rightarrow> (string \<times> string) list" where
  "profile_files root n b =
     [(path_join (path_join root (profile_name n b)) ''templates.csv'', templates_csv b),
      (path_join (path_join root (profile_name n b)) ''groups.csv'', groups_csv n b)]"

lemma profile_paths_differ:
  assumes "0 \<le> n" "0 \<le> b" "0 \<le> n'" "0 \<le> b'" "f \<in> {''templates.csv'', ''groups.csv''}" "f' \<in> {''templates.csv'', ''groups.csv''}"
    and "path_join (path_join root (profile_name n b)) f = path_join (path_join root (profile_name n' b')) f'"
  shows "(n, b) = (n', b') \<and> f = f'"
proof -
  have sl: "\<not> startswith f ''/''" "\<not> startswith f' ''/''" "CHR ''/'' \<notin> set f" "CHR ''/'' \<notin> set f'"
    using assms(5,6) by (auto simp: startswith_def)
  have e: "profile_name n b @ CHR ''/'' # f = profile_name n' b' @ CHR ''/'' # f'"
    using assms(7) by (simp add: profile_file assms(1-4) sl)
  have "basename (profile_name n b @ CHR ''/'' # f) = f" "basename (profile_name n' b' @ CHR ''/'' # f') = f'"
    by (simp_all add: basename_append_slash sl)
  with e have f: "f = f'" by metis
  with e have "profile_name n b = profile_name n' b'" by simp
  then have "(n, b) = (n', b')" using profile_names.render_determines [of "(n, b)" "(n', b')"] assms(1-4) by simp
  with f show ?thesis by blast
qed

lemma profile_files_path:
  "(p, s) \<in> set (profile_files root n b) \<Longrightarrow>
   \<exists>f \<in> {''templates.csv'', ''groups.csv''}. p = path_join (path_join root (profile_name n b)) f"
  unfolding profile_files_def by auto

lemma write_profiles_files:
  assumes "write_profiles root jobs fs = Inr fs'" "\<forall>(l, n, b) \<in> set jobs. 0 \<le> n \<and> 0 \<le> b"
  shows "(l, n, b) \<in> set jobs \<Longrightarrow> (p, s) \<in> set (profile_files root n b) \<Longrightarrow> fs' p = Some (FileNode s)"
    and "0 \<le> n \<Longrightarrow> 0 \<le> b \<Longrightarrow> (p, s) \<in> set (profile_files root n b) \<Longrightarrow> fs p = Some (FileNode s) \<Longrightarrow> fs' p = Some (FileNode s)"
proof -
  have "((l, n, b) \<in> set jobs \<longrightarrow> (p, s) \<in> set (profile_files root n b) \<longrightarrow> fs' p = Some (FileNode s)) \<and>
    (0 \<le> n \<longrightarrow> 0 \<le> b \<longrightarrow> (p, s) \<in> set (profile_files root n b) \<longrightarrow> fs p = Some (FileNode s) \<longrightarrow> fs' p = Some (FileNode s))"
    for l n b p s
    using assms
  proof (induction jobs arbitrary: fs l n b p s)
    case (Cons j jobs)
    obtain l0 n0 b0 where j: "j = (l0, n0, b0)" by (cases j)
    let ?dir = "path_join root (profile_name n0 b0)"
    from Cons.prems(1) obtain fs1 where w: "write_profile ?dir n0 b0 fs = Inr fs1"
      and r: "write_profiles root jobs fs1 = Inr fs'" by (auto simp: write_profiles_def j)
    have nn: "0 \<le> n0" "0 \<le> b0" and rest: "\<forall>(l, n, b) \<in> set jobs. 0 \<le> n \<and> 0 \<le> b" using Cons.prems(2) by (auto simp: j)
    note IH = Cons.IH [OF r rest]
    note one = write_profile_files [OF w]
    have ne: "path_join ?dir ''templates.csv'' \<noteq> path_join ?dir ''groups.csv''"
      using profile_paths_differ [OF nn nn, of "''templates.csv''" "''groups.csv''" root] by auto
    have own: "fs1 p = Some (FileNode s)" if "(p, s) \<in> set (profile_files root n0 b0)" for p s
      using that one(1,2) ne by (auto simp: profile_files_def)
    have kept: "fs1 p = Some (FileNode s)"
      if nb: "0 \<le> n" "0 \<le> b" and files: "(p, s) \<in> set (profile_files root n b)" and p: "fs p = Some (FileNode s)" for n b p s
    proof (cases "(n, b) = (n0, b0)")
      case True
      then show ?thesis using own files by simp
    next
      case False
      have "p \<noteq> path_join ?dir f" if f: "f \<in> {''templates.csv'', ''groups.csv''}" for f
        using profile_paths_differ [OF nb nn _ f] profile_files_path [OF files] False by metis
      then show ?thesis using one(3) [OF p] by simp
    qed
    show ?case using IH own kept nn by (fastforce simp: j)
  qed (simp add: write_profiles_def)
  then show "(l, n, b) \<in> set jobs \<Longrightarrow> (p, s) \<in> set (profile_files root n b) \<Longrightarrow> fs' p = Some (FileNode s)"
    "0 \<le> n \<Longrightarrow> 0 \<le> b \<Longrightarrow> (p, s) \<in> set (profile_files root n b) \<Longrightarrow> fs p = Some (FileNode s) \<Longrightarrow> fs' p = Some (FileNode s)"
    by blast+
qed

text \<open>C29: every job finds its own profile.  After the profiles are written, the directory of each job, whose name says
  its number of clients and its size, holds the two tables with exactly these numbers: no job overwrites
  the files of another.\<close>

theorem profiles_written:
  assumes "iter_jobs args = Inr jobs" "write_profiles root jobs fs = Inr fs'" "(link, n, b) \<in> set jobs"
  shows "fs' (path_join (path_join root (profile_name n b)) ''templates.csv'') = Some (FileNode (templates_csv b)) \<and>
    fs' (path_join (path_join root (profile_name n b)) ''groups.csv'') = Some (FileNode (groups_csv n b)) \<and>
    profile_match (profile_name n b) = Some (n, b)"
proof -
  have pos: "\<forall>(l, n, b) \<in> set jobs. 0 \<le> n \<and> 0 \<le> b" using iter_jobs_positive [OF assms(1)] by fastforce
  with assms(3) have "0 \<le> n" "0 \<le> b" by auto
  with write_profiles_files(1) [OF assms(2) pos assms(3)] show ?thesis
    by (simp add: profile_files_def profile_match_name)
qed

theorem profiles_written_witness:
  "\<exists>fs'. write_profiles ''/r/p'' [(''wifi-only'', 1, 64)] small_fs = Inr fs' \<and>
     fs' ''/r/p/n001-b64/groups.csv'' = Some (FileNode (groups_csv 1 64))"
proof -
  let ?a = "two_args\<lparr>a_links := ''wifi-only''\<rparr>"
  have j: "iter_jobs ?a = Inr [(''wifi-only'', 1, 64)]" by code_simp
  have w: "\<not> isl (write_profiles ''/r/p'' [(''wifi-only'', 1, 64)] small_fs)" by code_simp
  then obtain fs' where fs': "write_profiles ''/r/p'' [(''wifi-only'', 1, 64)] small_fs = Inr fs'"
    by (cases "write_profiles ''/r/p'' [(''wifi-only'', 1, 64)] small_fs") auto
  have "path_join (path_join ''/r/p'' (profile_name 1 64)) ''groups.csv'' = ''/r/p/n001-b64/groups.csv''" by code_simp
  with profiles_written [OF j fs'] fs' show ?thesis by auto
qed

text \<open>C31: the two scripts agree on the names of reports.  Whatever the scheduler is called (dashes and even the
  names of links may occur in it), the summary reads the kind of link back from the file
  name under which the sweep looks for the report.\<close>

theorem report_name_roundtrip:
  assumes "link \<in> set valid_links" "scheduler \<noteq> []" "CHR 0x0A \<notin> set scheduler" "0 \<le> stream" "0 \<le> m"
  shows "report_match (report_name link scheduler stream (Dyadic m k)) = Some link"
proof -
  let ?d = "duration_text (Dyadic m k)" and ?n = "show_nat (nat stream)"
  let ?t = "?n @ ''-'' @ ?d @ ''s.json''"
  note d = duration_chars [OF assms(5), of k]
  have dd: "CHR ''-'' \<notin> set ?d" "CHR 0x0A \<notin> set ?d" "CHR ''w'' \<notin> set ?d" "CHR ''n'' \<notin> set ?d"
    using d(2) by (auto simp: is_digit_def)
  have hd: "hd ?d \<noteq> CHR ''w''" "hd ?d \<noteq> CHR ''n''" using dd(3,4) hd_in_set [OF d(1)] by auto
  have "CHR ''-'' \<notin> set ?n" using show_nat_digits [of "nat stream"] by (auto simp: is_digit_def)
  then have q: "quiet ?t" using dd(1) d(1) hd by (intro quiet_tail_text)
  then have qs: "quiet (''stream'' @ ?t)" by (simp add: quiet_Cons)
  have s: "stream_tail ?t" by (rule stream_tail_printed [OF d(1) dd(2)])
  consider "link = ''wifi-only''" | "link = ''nr-only''" using assms(1) by (auto simp: valid_links_def)
  then have "report_scan True (''-'' @ link @ ''-stream'' @ ?t) = Some link \<and> link \<noteq> ''dual''"
  proof cases
    case 1
    have "quiet (''wifi-only-stream'' @ ?t)" using qs by (simp add: quiet_Cons)
    then have "report_scan True (''wifi-only-stream'' @ ?t) = None" by (rule report_scan_quiet)
    then show ?thesis using s by (simp add: 1 report_tail_def)
  next
    case 2
    have "quiet (''nr-only-stream'' @ ?t)" using qs by (simp add: quiet_Cons)
    then have "report_scan True (''nr-only-stream'' @ ?t) = None" by (rule report_scan_quiet)
    then show ?thesis using s by (simp add: 2 report_tail_def startswith_def)
  qed
  then show ?thesis
    using report_scan_append [OF assms(3), of "''-'' @ link @ ''-stream'' @ ?t" link False] assms(2,4)
    by (simp add: report_match_def report_name_def show_int_def)
qed

theorem report_name_roundtrip_witness:
  "report_match (report_name ''nr-only'' ''x-wifi-only-stream1-2s.json'' 3 (Dyadic 5 1)) = Some ''nr-only''"
  by (rule report_name_roundtrip) (simp_all add: valid_links_def)


definition small_summary :: summary_world where
  "small_summary = \<lparr>u_script = ''/r/m/p/sum.py'', u_float_repr = (\<lambda>_. ''0.5''),
     u_json = (\<lambda>s. if s = ''{}'' then Inr (JObj []) else Inl ValueError)\<rparr>"

definition small_tree :: tree where
  "small_tree = [(''n004-b64'', [(''default-wifi-only-stream1-10s.json'', Inr ''{}''), (''notes.json'', Inr ''x'')]),
     (''n001-b64'', [(''default-wifi-only-stream1-10s.json'', Inr ''{}''), (''run.log'', Inr [])])]"




end
