(* ===== verification/Shellcmd.thy ===== *)
theory Shellcmd
  imports Prelude
begin

text \<open>
  \<open>src/waf-tools/shellcmd.py\<close>: the small shell of the build.  A command line is split into tokens
  (\<open>shlex.split\<close>), parsed into a list of nodes (commands with their redirections, \<open>cd\<close>, and the
  operators), and run: the processes of a pipe are started one after the other, and \<open>&&\<close> and
  \<open>||\<close> decide on their exit code whether the rest is run.

  The operating system is the record \<open>os_world\<close>: whether a file can be opened, whether a process
  can be started, and the exit code of a process, which may depend on everything started before.
  The debug messages on the error stream and the closing of files are left out.
\<close>

section \<open>Tokens\<close>

text \<open>\<open>shlex.split\<close>: outside of words, in a word, in quotes, or after a backslash (with the state to
  return to).  The second component is the word being read.\<close>

datatype shlex_state = SBetween | SWord | SQuote char | SEscape "char option"

definition is_shlex_space :: "char \<Rightarrow> bool" where
  "is_shlex_space c \<longleftrightarrow> c \<in> set [CHR 0x20, CHR 0x09, CHR 0x0D, CHR 0x0A]"

fun shlex_loop :: "shlex_state \<Rightarrow> string \<Rightarrow> string \<Rightarrow> string list result" where
  "shlex_loop SBetween w [] = Inr []"
| "shlex_loop SWord w [] = Inr [w]"
| "shlex_loop (SQuote q) w [] = Inl ValueError"
| "shlex_loop (SEscape q) w [] = Inl ValueError"
| "shlex_loop SBetween w (c # cs) =
     (if is_shlex_space c then shlex_loop SBetween [] cs
      else if c = CHR 0x5C then shlex_loop (SEscape None) [] cs
      else if c = CHR 0x27 \<or> c = CHR 0x22 then shlex_loop (SQuote c) [] cs
      else shlex_loop SWord [c] cs)"
| "shlex_loop SWord w (c # cs) =
     (if is_shlex_space c then map_result (\<lambda>ws. w # ws) (shlex_loop SBetween [] cs)
      else if c = CHR 0x5C then shlex_loop (SEscape None) w cs
      else if c = CHR 0x27 \<or> c = CHR 0x22 then shlex_loop (SQuote c) w cs
      else shlex_loop SWord (w @ [c]) cs)"
| "shlex_loop (SQuote q) w (c # cs) =
     (if c = q then shlex_loop SWord w cs
      else if c = CHR 0x5C \<and> q = CHR 0x22 then shlex_loop (SEscape (Some q)) w cs
      else shlex_loop (SQuote q) (w @ [c]) cs)"
| "shlex_loop (SEscape q) w (c # cs) =
     (case q of
        None \<Rightarrow> shlex_loop SWord (w @ [c]) cs
      | Some q' \<Rightarrow> shlex_loop (SQuote q') (w @ (if c \<noteq> CHR 0x5C \<and> c \<noteq> q' then [CHR 0x5C] else []) @ [c]) cs)"

definition shlex_split :: "string \<Rightarrow> string list result" where
  "shlex_split s = shlex_loop SBetween [] s"

text \<open>The match of \<open>env_var_rx\<close>: a name, an equals sign and a word without blanks; the end of the
  pattern also matches before a final newline.\<close>

definition is_env_char :: "char \<Rightarrow> bool" where
  "is_env_char c \<longleftrightarrow> (CHR ''a'' \<le> c \<and> c \<le> CHR ''z'') \<or> (CHR ''A'' \<le> c \<and> c \<le> CHR ''Z'') \<or> is_digit c \<or> c = CHR ''_''"

definition env_var_match :: "string \<Rightarrow> (string \<times> string) option" where
  "env_var_match token =
     (case split_once (CHR ''='') token of
        [k, v] \<Rightarrow>
          let w = (if endswith v nl then butlast v else v)
          in if k \<noteq> [] \<and> list_all is_env_char k \<and> w \<noteq> [] \<and> list_all (\<lambda>c. \<not> is_space c) w
             then Some (k, w) else None
      | _ \<Rightarrow> None)"

section \<open>The nodes of a command line\<close>

datatype redirect = RNone | RPipe | RStdout | RFile string

record command =
  c_name :: string
  c_argv :: "string list"
  c_stdin :: "string option"
  c_stdout :: redirect
  c_stderr :: redirect
  c_env :: "(string, string) dict option"

definition new_command :: "string \<Rightarrow> command" where
  "new_command name = \<lparr>c_name = name, c_argv = [name], c_stdin = None, c_stdout = RNone,
     c_stderr = RNone, c_env = None\<rparr>"

datatype node =
    NCommand command
  | NChdir "string option"
  | NPipe
  | NAnd
  | NOr

text \<open>The text under which a command line is announced.  The second test of the source for an
  \<open>And\<close> node is never reached.\<close>

definition abbreviated_node :: "node \<Rightarrow> string list" where
  "abbreviated_node n = (case n of
       NCommand c \<Rightarrow> [c_name c]
     | NChdir d \<Rightarrow> [''cd '' @ (case d of None \<Rightarrow> ''None'' | Some p \<Rightarrow> p)]
     | NPipe \<Rightarrow> [''|'']
     | NAnd \<Rightarrow> [''&&'']
     | NOr \<Rightarrow> [])"

definition get_abbreviated_command :: "node list \<Rightarrow> string" where
  "get_abbreviated_command pipeline = join_str '' '' (concat (map abbreviated_node pipeline))"

section \<open>Parsing\<close>

datatype parse_state = BEGIN | COMMAND | CHDIR | STDERR | STDOUT | STDIN

record parser =
  ps_state :: parse_state
  ps_current :: "node option"
  ps_pipeline :: "node list"
  ps_env :: "(string, string) dict"

definition parser_init :: parser where
  "parser_init = \<lparr>ps_state = BEGIN, ps_current = None, ps_pipeline = [], ps_env = []\<rparr>"

definition commit_command :: "parser \<Rightarrow> parser result" where
  "commit_command p = (case ps_current p of
       None \<Rightarrow> Inl AssertionError
     | Some n \<Rightarrow> Inr (p\<lparr>ps_pipeline := ps_pipeline p @ [n], ps_current := None\<rparr>))"

definition commit_operator :: "node \<Rightarrow> parser \<Rightarrow> parser result" where
  "commit_operator op p =
     map_result (\<lambda>p. p\<lparr>ps_pipeline := ps_pipeline p @ [op], ps_state := BEGIN\<rparr>) (commit_command p)"

definition parse_begin :: "string \<Rightarrow> parser \<Rightarrow> parser result" where
  "parse_begin token p =
     (case env_var_match token of
        Some (k, v) \<Rightarrow> Inr (p\<lparr>ps_env := dict_set k v (ps_env p)\<rparr>)
      | None \<Rightarrow>
          if ps_current p \<noteq> None then Inl AssertionError
          else if token = ''cd''
          then (if ps_env p \<noteq> [] then Inl AssertionError
                else Inr (p\<lparr>ps_current := Some (NChdir None), ps_state := CHDIR\<rparr>))
          else Inr (p\<lparr>ps_current := Some (NCommand ((new_command token)\<lparr>c_env :=
                       (if ps_env p \<noteq> [] then Some (ps_env p) else None)\<rparr>)),
                      ps_env := [], ps_state := COMMAND\<rparr>))"

definition set_command :: "parser \<Rightarrow> command \<Rightarrow> parser" where
  "set_command p c = p\<lparr>ps_current := Some (NCommand c)\<rparr>"

definition parse_command :: "string \<Rightarrow> command \<Rightarrow> parser \<Rightarrow> parser result" where
  "parse_command token c p =
     (if token = ''>'' then Inr (p\<lparr>ps_state := STDOUT\<rparr>)
      else if token = ''2>'' then Inr (p\<lparr>ps_state := STDERR\<rparr>)
      else if token = ''2>&1''
      then (if c_stderr c \<noteq> RNone then Inl AssertionError else Inr (set_command p (c\<lparr>c_stderr := RStdout\<rparr>)))
      else if token = ''<'' then Inr (p\<lparr>ps_state := STDIN\<rparr>)
      else if token = ''|''
      then (if c_stdout c \<noteq> RNone then Inl AssertionError
            else commit_operator NPipe (set_command p (c\<lparr>c_stdout := RPipe\<rparr>)))
      else if token = ''&&'' then commit_operator NAnd p
      else if token = ''||'' then commit_operator NOr p
      else Inr (set_command p (c\<lparr>c_argv := c_argv c @ [token]\<rparr>)))"

definition parse_chdir :: "string \<Rightarrow> string option \<Rightarrow> parser \<Rightarrow> parser result" where
  "parse_chdir token dir p =
     (if token = ''&&'' then commit_operator NAnd p
      else if dir \<noteq> None then Inl AssertionError
      else Inr (p\<lparr>ps_current := Some (NChdir (Some token))\<rparr>))"

definition parse_redirect :: "string \<Rightarrow> command \<Rightarrow> parser \<Rightarrow> parser result" where
  "parse_redirect token c p =
     (if ps_state p = STDOUT
      then (if c_stdout c \<noteq> RNone then Inl AssertionError
            else Inr ((set_command p (c\<lparr>c_stdout := RFile token\<rparr>))\<lparr>ps_state := COMMAND\<rparr>))
      else if ps_state p = STDERR
      then (if c_stderr c \<noteq> RNone then Inl AssertionError
            else Inr ((set_command p (c\<lparr>c_stderr := RFile token\<rparr>))\<lparr>ps_state := COMMAND\<rparr>))
      else (if c_stdin c \<noteq> None then Inl AssertionError
            else Inr ((set_command p (c\<lparr>c_stdin := Some token\<rparr>))\<lparr>ps_state := COMMAND\<rparr>)))"

definition parse_token :: "parser \<Rightarrow> string \<Rightarrow> parser result" where
  "parse_token p token =
     (case ps_state p of
        BEGIN \<Rightarrow> parse_begin token p
      | COMMAND \<Rightarrow> (case ps_current p of Some (NCommand c) \<Rightarrow> parse_command token c p | _ \<Rightarrow> Inl AttributeError)
      | CHDIR \<Rightarrow> (case ps_current p of Some (NChdir d) \<Rightarrow> parse_chdir token d p | _ \<Rightarrow> Inl AttributeError)
      | _ \<Rightarrow> (case ps_current p of Some (NCommand c) \<Rightarrow> parse_redirect token c p | _ \<Rightarrow> Inl AttributeError))"

definition parse_tokens :: "string list \<Rightarrow> node list result" where
  "parse_tokens tokens =
     bind_result (foldM_result parse_token parser_init tokens) (\<lambda>p.
     map_result ps_pipeline (commit_command p))"

definition parse_line :: "string \<Rightarrow> node list result" where
  "parse_line line = bind_result (shlex_split line) parse_tokens"

section \<open>Running\<close>

datatype input_from = IInherit | IPrevious | IFile string

record spawn =
  sp_argv :: "string list"
  sp_stdin :: input_from
  sp_stdout :: redirect
  sp_stderr :: redirect
  sp_env :: "(string, string) dict option"
  sp_cwd :: "string option"

record os_world =
  w_environ :: "(string, string) dict"
  w_can_open :: "string \<Rightarrow> bool"
  w_can_start :: "spawn \<Rightarrow> bool"
  w_exit :: "spawn list \<Rightarrow> spawn \<Rightarrow> int"

text \<open>\<open>_exec_piped_commands\<close>: the exit code of the last process as soon as one is not 0.\<close>

definition exec_piped_commands :: "int list \<Rightarrow> int" where
  "exec_piped_commands retvals = (if list_ex (\<lambda>r. r \<noteq> 0) retvals then last retvals else 0)"

text \<open>The loop: the working directory, what is displayed of the current pipe, the exit codes of its
  processes (none when no process of the pipe was started), all processes started so far, and
  the printed lines.\<close>

record run_state =
  r_cwd :: string
  r_display :: "string list"
  r_codes :: "int list"
  r_spawned :: "spawn list"
  r_printed :: "string list"

definition run_init :: "run_state" where
  "run_init = \<lparr>r_cwd = ''.'', r_display = [], r_codes = [], r_spawned = [], r_printed = []\<rparr>"

definition openable :: "os_world \<Rightarrow> redirect \<Rightarrow> bool" where
  "openable w r = (case r of RFile f \<Rightarrow> f \<in> set [''NUL:'', ''/dev/null''] \<or> w_can_open w f | _ \<Rightarrow> True)"

definition stdin_of :: "run_state \<Rightarrow> command \<Rightarrow> bool \<Rightarrow> input_from" where
  "stdin_of st c piped =
     (if piped then IPrevious else case c_stdin c of Some f \<Rightarrow> IFile f | None \<Rightarrow> IInherit)"

definition make_spawn :: "os_world \<Rightarrow> run_state \<Rightarrow> command \<Rightarrow> bool \<Rightarrow> spawn" where
  "make_spawn w st c piped =
     \<lparr>sp_argv = c_argv c, sp_stdin = stdin_of st c piped, sp_stdout = c_stdout c, sp_stderr = c_stderr c,
      sp_env = (case c_env c of
         Some e \<Rightarrow> if e \<noteq> [] then Some (dict_update (w_environ w) e) else None
       | None \<Rightarrow> None),
      sp_cwd = (if r_cwd st = ''.'' then None else Some (r_cwd st))\<rparr>"

text \<open>What verbose mode adds to the display for a command.\<close>

definition display_command :: "command \<Rightarrow> bool \<Rightarrow> string list" where
  "display_command c piped =
     [(case c_env c of
         Some e \<Rightarrow> (if e \<noteq> [] then join_str '' '' (map (\<lambda>kv. fst kv @ ''='' @ snd kv) e) @ '' '' else []) @
                    join_str '' '' (c_argv c)
       | None \<Rightarrow> join_str '' '' (c_argv c))] @
     (case c_stdin c of Some f \<Rightarrow> if piped then [] else [''< '' @ f] | None \<Rightarrow> []) @
     (case c_stdout c of RFile f \<Rightarrow> [''> '' @ f] | _ \<Rightarrow> []) @
     (case c_stderr c of RStdout \<Rightarrow> [''2>&1''] | RFile f \<Rightarrow> [''2> '' @ f] | _ \<Rightarrow> [])"

definition start_command :: "os_world \<Rightarrow> bool \<Rightarrow> run_state \<Rightarrow> command \<Rightarrow> bool \<Rightarrow> run_state result" where
  "start_command w verbose st c piped =
     (let sp = make_spawn w st c piped
      in if (case sp_stdin sp of IFile f \<Rightarrow> \<not> w_can_open w f | _ \<Rightarrow> False) \<or>
            \<not> openable w (c_stdout c) \<or> \<not> openable w (c_stderr c) \<or> \<not> w_can_start w sp
         then Inl FileNotFoundError
         else Inr (st\<lparr>r_display := r_display st @ (if verbose then display_command c piped else []),
                      r_codes := r_codes st @ [w_exit w (r_spawned st) sp],
                      r_spawned := r_spawned st @ [sp]\<rparr>))"

definition next_pipe :: "run_state \<Rightarrow> run_state" where
  "next_pipe st = st\<lparr>r_display := [], r_codes := []\<rparr>"

text \<open>The result is the value returned (\<open>None\<close> when the loop ends without a return) and the final
  state.  In verbose mode the lines for \<open>&&\<close> and \<open>||\<close> print the variable \<open>retval\<close>, which is
  assigned only at the end of the command line.  The flag says that the node before was a pipe.\<close>

fun run_loop :: "os_world \<Rightarrow> bool \<Rightarrow> bool \<Rightarrow> node list \<Rightarrow> run_state \<Rightarrow> (int option \<times> run_state) result" where
  "run_loop w verbose piped [] st = Inr (None, st)"
| "run_loop w verbose piped [NChdir d] st = Inl IndexError"
| "run_loop w verbose piped (NChdir d # op # rest) st =
     (if op \<noteq> NAnd then Inl AssertionError
      else case d of
        None \<Rightarrow> Inl TypeError
      | Some dir \<Rightarrow> run_loop w verbose piped rest
          (st\<lparr>r_cwd := path_join (r_cwd st) dir,
              r_display := r_display st @ (if verbose then [''cd '' @ dir @ '' &&''] else [])\<rparr>))"
| "run_loop w verbose piped [NCommand c] st =
     map_result (\<lambda>st.
       let retval = exec_piped_commands (r_codes st)
       in (Some retval,
           if verbose
           then st\<lparr>r_printed := r_printed st @ [join_str '' '' (r_display st) @ '': exit code '' @ show_int retval]\<rparr>
           else st))
       (start_command w verbose st c piped)"
| "run_loop w verbose piped (NCommand c # op # rest) st =
     bind_result (start_command w verbose st c piped) (\<lambda>st.
       case op of
         NPipe \<Rightarrow> run_loop w verbose True rest (st\<lparr>r_display := r_display st @ [''|'']\<rparr>)
       | NOr \<Rightarrow>
           (if verbose then Inl UnboundLocalError
            else if exec_piped_commands (r_codes st) = 0 then Inr (Some (exec_piped_commands (r_codes st)), st)
            else run_loop w verbose False rest (next_pipe st))
       | NAnd \<Rightarrow>
           (if verbose then Inl UnboundLocalError
            else if exec_piped_commands (r_codes st) \<noteq> 0 then Inr (Some (exec_piped_commands (r_codes st)), st)
            else run_loop w verbose False rest (next_pipe st))
       | _ \<Rightarrow> run_loop w verbose piped rest st)"
| "run_loop w verbose piped (n # rest) st = Inl AssertionError"

definition run_pipeline :: "os_world \<Rightarrow> bool \<Rightarrow> node list \<Rightarrow> (int option \<times> run_state) result" where
  "run_pipeline w verbose pipeline = run_loop w verbose False pipeline run_init"

section \<open>Running a pipe\<close>

lemma exec_piped_last:
  assumes "rs \<noteq> []"
  shows "exec_piped_commands rs = last rs"
proof (cases "list_ex (\<lambda>r. r \<noteq> 0) rs")
  case False
  then have "last rs = 0" using last_in_set [OF assms] by (auto simp: list_ex_iff)
  with False show ?thesis by (simp add: exec_piped_commands_def)
qed (simp add: exec_piped_commands_def)

text \<open>The nodes of a pipe, and the state in which all its processes are started.\<close>

fun pipe_group :: "command list \<Rightarrow> node list" where
  "pipe_group [] = []"
| "pipe_group [c] = [NCommand c]"
| "pipe_group (c # d # cs) = NCommand c # NPipe # pipe_group (d # cs)"

fun start_all :: "os_world \<Rightarrow> bool \<Rightarrow> command list \<Rightarrow> run_state \<Rightarrow> run_state result" where
  "start_all w piped [] st = Inr st"
| "start_all w piped [c] st = start_command w False st c piped"
| "start_all w piped (c # d # cs) st =
     bind_result (start_command w False st c piped) (\<lambda>st.
       start_all w True (d # cs) (st\<lparr>r_display := r_display st @ [''|'']\<rparr>))"

lemma run_group:
  "cs \<noteq> [] \<Longrightarrow> run_loop w False piped (pipe_group cs) st =
     map_result (\<lambda>st. (Some (exec_piped_commands (r_codes st)), st)) (start_all w piped cs st)"
proof (induction w piped cs st rule: start_all.induct)
  case (3 w piped c d cs st)
  then show ?case by (cases "start_command w False st c piped") simp_all
qed (simp_all add: Let_def)

lemma run_group_op:
  assumes "cs \<noteq> []" "op = NAnd \<or> op = NOr"
  shows "run_loop w False piped (pipe_group cs @ op # rest) st =
     bind_result (start_all w piped cs st) (\<lambda>st.
       if (op = NAnd) = (exec_piped_commands (r_codes st) = 0)
       then run_loop w False False rest (next_pipe st)
       else Inr (Some (exec_piped_commands (r_codes st)), st))"
  using assms
proof (induction w piped cs st rule: start_all.induct)
  case (2 w piped c st)
  then show ?case by (cases "start_command w False st c piped") auto
next
  case (3 w piped c d cs st)
  then show ?case by (cases "start_command w False st c piped") simp_all
qed simp

lemma start_command_verbose:
  "start_command w True st c piped = Inr st' \<Longrightarrow> \<exists>st''. start_command w False st c piped = Inr st''"
  by (auto simp: start_command_def Let_def split: if_splits)

text \<open>The processes of a pipe, in order, with their exit codes.\<close>

lemma start_command_spawned:
  "start_command w v st c piped = Inr st' \<Longrightarrow>
   r_spawned st' = r_spawned st @ [make_spawn w st c piped] \<and>
   r_codes st' = r_codes st @ [w_exit w (r_spawned st) (make_spawn w st c piped)] \<and> r_cwd st' = r_cwd st"
  by (auto simp: start_command_def Let_def split: if_splits)

lemma start_all_spawned:
  assumes "start_all w piped cs st = Inr st'" "cs \<noteq> []"
  shows "\<exists>sps. r_spawned st' = r_spawned st @ sps \<and> map sp_argv sps = map c_argv cs \<and>
    map sp_stdin sps = stdin_of st (hd cs) piped # replicate (length cs - 1) IPrevious \<and>
    r_codes st' \<noteq> [] \<and> last (r_codes st') = w_exit w (butlast (r_spawned st')) (last (r_spawned st'))"
  using assms
proof (induction w piped cs st rule: start_all.induct)
  case (2 w piped c st)
  then show ?case using start_command_spawned [of w False st c piped st']
    by (auto simp: make_spawn_def intro!: exI [of _ "[make_spawn w st c piped]"])
next
  case (3 w piped c d cs st)
  then obtain st1 where s1: "start_command w False st c piped = Inr st1"
    and s2: "start_all w True (d # cs) (st1\<lparr>r_display := r_display st1 @ [''|'']\<rparr>) = Inr st'" by auto
  from 3(1) [OF s2] obtain sps where
    sps: "r_spawned st' = r_spawned st1 @ sps" "map sp_argv sps = map c_argv (d # cs)"
      "map sp_stdin sps = IPrevious # replicate (length cs) IPrevious" "r_codes st' \<noteq> []"
      "last (r_codes st') = w_exit w (butlast (r_spawned st')) (last (r_spawned st'))"
    by (auto simp: stdin_of_def)
  have "r_spawned st1 = r_spawned st @ [make_spawn w st c piped]" using start_command_spawned s1 by blast
  with sps show ?case
    by (intro exI [of _ "make_spawn w st c piped # sps"]) (simp add: make_spawn_def)
qed simp

section \<open>Printing a command line\<close>

definition env_tokens :: "(string, string) dict option \<Rightarrow> string list" where
  "env_tokens e = (case e of None \<Rightarrow> [] | Some kvs \<Rightarrow> map (\<lambda>kv. fst kv @ ''='' @ snd kv) kvs)"

definition redirect_tokens :: "command \<Rightarrow> string list" where
  "redirect_tokens c =
     (case c_stdin c of Some f \<Rightarrow> [''<'', f] | None \<Rightarrow> []) @
     (case c_stdout c of RFile f \<Rightarrow> [''>'', f] | _ \<Rightarrow> []) @
     (case c_stderr c of RFile f \<Rightarrow> [''2>'', f] | RStdout \<Rightarrow> [''2>&1''] | _ \<Rightarrow> [])"

definition command_tokens :: "command \<Rightarrow> string list" where
  "command_tokens c = env_tokens (c_env c) @ c_argv c @ redirect_tokens c"

definition shell_words :: "string set" where
  "shell_words = {''>'', ''2>'', ''2>&1'', ''<'', ''|'', ''&&'', ''||''}"

text \<open>A command that can be written: its arguments are not operators, its name is neither \<open>cd\<close> nor
  an assignment, and its variables are assignments with different names.\<close>

definition env_ok :: "(string, string) dict option \<Rightarrow> bool" where
  "env_ok e = (case e of None \<Rightarrow> True
     | Some kvs \<Rightarrow> kvs \<noteq> [] \<and> distinct (map fst kvs) \<and>
         list_all (\<lambda>kv. env_var_match (fst kv @ ''='' @ snd kv) = Some kv) kvs)"

definition writable :: "command \<Rightarrow> bool" where
  "writable c \<longleftrightarrow> (\<exists>args. c_argv c = c_name c # args \<and> set args \<inter> shell_words = {}) \<and>
     c_name c \<noteq> ''cd'' \<and> env_var_match (c_name c) = None \<and> env_ok (c_env c) \<and>
     c_stdout c \<noteq> RStdout \<and> c_stderr c \<noteq> RPipe"

fun line_nodes :: "command \<Rightarrow> (node \<times> command) list \<Rightarrow> node list" where
  "line_nodes c [] = [NCommand c]"
| "line_nodes c ((op, d) # r) = NCommand c # op # line_nodes d r"

definition op_token :: "node \<Rightarrow> string" where
  "op_token op = (if op = NPipe then ''|'' else if op = NAnd then ''&&'' else ''||'')"

fun line_tokens :: "command \<Rightarrow> (node \<times> command) list \<Rightarrow> string list" where
  "line_tokens c [] = command_tokens c"
| "line_tokens c ((op, d) # r) = command_tokens c @ [op_token op] @ line_tokens d r"

text \<open>A pipe redirects the output of the command before it, and nothing else does.\<close>

fun line_ok :: "command \<Rightarrow> (node \<times> command) list \<Rightarrow> bool" where
  "line_ok c [] \<longleftrightarrow> writable c \<and> c_stdout c \<noteq> RPipe"
| "line_ok c ((op, d) # r) \<longleftrightarrow> writable c \<and> (op = NPipe \<or> op = NAnd \<or> op = NOr) \<and>
     (c_stdout c = RPipe \<longleftrightarrow> op = NPipe) \<and> line_ok d r"

lemma foldM_env_tokens:
  assumes "list_all (\<lambda>kv. env_var_match (fst kv @ ''='' @ snd kv) = Some kv) kvs"
    and "distinct (map fst (ps_env p @ kvs))" "ps_state p = BEGIN"
  shows "foldM_result parse_token p (map (\<lambda>kv. fst kv @ ''='' @ snd kv) kvs) = Inr (p\<lparr>ps_env := ps_env p @ kvs\<rparr>)"
  using assms
proof (induction kvs arbitrary: p)
  case (Cons kv kvs)
  have new: "dict_set k v d = d @ [(k, v)]" if "k \<notin> fst ` set d" for k v and d :: "(string, string) dict"
    using that by (induction d) auto
  have "parse_token p (fst kv @ ''='' @ snd kv) = Inr (p\<lparr>ps_env := ps_env p @ [kv]\<rparr>)"
    using Cons.prems new [of "fst kv" "ps_env p" "snd kv"] by (cases kv) (auto simp: parse_token_def parse_begin_def)
  with Cons.IH [of "p\<lparr>ps_env := ps_env p @ [kv]\<rparr>"] Cons.prems show ?case by simp
qed simp

definition parser_at :: "node list \<Rightarrow> (string, string) dict \<Rightarrow> parser" where
  "parser_at ns e = \<lparr>ps_state = BEGIN, ps_current = None, ps_pipeline = ns, ps_env = e\<rparr>"

definition parser_in :: "node list \<Rightarrow> command \<Rightarrow> parser" where
  "parser_in ns c = \<lparr>ps_state = COMMAND, ps_current = Some (NCommand c), ps_pipeline = ns, ps_env = []\<rparr>"

lemma foldM_args:
  "set args \<inter> shell_words = {} \<Longrightarrow>
   foldM_result parse_token (parser_in ns c) args = Inr (parser_in ns (c\<lparr>c_argv := c_argv c @ args\<rparr>))"
proof (induction args arbitrary: c)
  case (Cons a args)
  then have "parse_token (parser_in ns c) a = Inr (parser_in ns (c\<lparr>c_argv := c_argv c @ [a]\<rparr>))"
    by (auto simp: parse_token_def parse_command_def parser_in_def set_command_def shell_words_def)
  with Cons show ?case by simp
qed simp

lemma foldM_redirects:
  assumes "c_stdin c = None" "c_stdout c = RNone" "c_stderr c = RNone" "c_stdout d \<noteq> RStdout" "c_stderr d \<noteq> RPipe"
  shows "foldM_result parse_token (parser_in ns c) (redirect_tokens d) =
    Inr (parser_in ns (c\<lparr>c_stdin := c_stdin d, c_stdout := (if c_stdout d = RPipe then RNone else c_stdout d),
      c_stderr := c_stderr d\<rparr>))"
  using assms
  by (cases "c_stdin d"; cases "c_stdout d"; cases "c_stderr d")
     (simp_all add: redirect_tokens_def parse_token_def parse_command_def parse_redirect_def
        parser_in_def set_command_def)

lemma foldM_command:
  assumes "writable c"
  shows "foldM_result parse_token (parser_at ns []) (command_tokens c) =
    Inr (parser_in ns (c\<lparr>c_stdout := (if c_stdout c = RPipe then RNone else c_stdout c)\<rparr>))"
proof -
  from assms obtain args where argv: "c_argv c = c_name c # args" and args: "set args \<inter> shell_words = {}"
    and name: "c_name c \<noteq> ''cd''" "env_var_match (c_name c) = None"
    and env: "env_ok (c_env c)" and red: "c_stdout c \<noteq> RStdout" "c_stderr c \<noteq> RPipe"
    by (auto simp: writable_def)
  define e where "e = (case c_env c of None \<Rightarrow> [] | Some kvs \<Rightarrow> kvs)"
  have 1: "foldM_result parse_token (parser_at ns []) (env_tokens (c_env c)) = Inr (parser_at ns e)"
    using foldM_env_tokens [of e "parser_at ns []"] env
    by (auto simp: env_tokens_def env_ok_def e_def parser_at_def split: option.splits)
  have ce: "(if e \<noteq> [] then Some e else None) = c_env c"
    using env by (auto simp: e_def env_ok_def split: option.splits)
  let ?c1 = "(new_command (c_name c))\<lparr>c_env := c_env c\<rparr>"
  have 2: "parse_token (parser_at ns e) (c_name c) = Inr (parser_in ns ?c1)"
    using name by (simp add: parse_token_def parse_begin_def parser_at_def parser_in_def ce [symmetric])
  have 3: "foldM_result parse_token (parser_in ns ?c1) args = Inr (parser_in ns (?c1\<lparr>c_argv := c_argv c\<rparr>))"
    using foldM_args [OF args, of ns ?c1] by (simp add: argv new_command_def)
  have 4: "foldM_result parse_token (parser_in ns (?c1\<lparr>c_argv := c_argv c\<rparr>)) (redirect_tokens c) =
      Inr (parser_in ns (?c1\<lparr>c_argv := c_argv c, c_stdin := c_stdin c,
        c_stdout := (if c_stdout c = RPipe then RNone else c_stdout c), c_stderr := c_stderr c\<rparr>))"
    using foldM_redirects [of "?c1\<lparr>c_argv := c_argv c\<rparr>" c ns] red by (simp add: new_command_def)
  have 5: "?c1\<lparr>c_argv := c_argv c, c_stdin := c_stdin c,
      c_stdout := (if c_stdout c = RPipe then RNone else c_stdout c), c_stderr := c_stderr c\<rparr> =
      c\<lparr>c_stdout := (if c_stdout c = RPipe then RNone else c_stdout c)\<rparr>"
    by (cases c) (simp add: new_command_def)
  show ?thesis
    using 1 2 3 4 by (simp add: command_tokens_def argv foldM_result_append 5 [unfolded argv])
qed

lemma foldM_line:
  "line_ok c r \<Longrightarrow>
   bind_result (foldM_result parse_token (parser_at ns []) (line_tokens c r)) (\<lambda>p.
     map_result ps_pipeline (commit_command p)) = Inr (ns @ line_nodes c r)"
proof (induction c r arbitrary: ns rule: line_nodes.induct)
  case (1 c)
  then have "foldM_result parse_token (parser_at ns []) (command_tokens c) = Inr (parser_in ns c)"
    using foldM_command [of c ns] by simp
  then show ?case by (simp add: commit_command_def parser_in_def)
next
  case (2 c op d r)
  then have w: "writable c" and op: "op = NPipe \<or> op = NAnd \<or> op = NOr"
    and so: "c_stdout c = RPipe \<longleftrightarrow> op = NPipe" and ok: "line_ok d r" by auto
  let ?c = "c\<lparr>c_stdout := (if c_stdout c = RPipe then RNone else c_stdout c)\<rparr>"
  have "parse_token (parser_in ns ?c) (op_token op) = Inr (parser_at (ns @ [NCommand c, op]) [])"
    using op so
    by (cases c) (auto simp: parse_token_def parse_command_def parser_in_def parser_at_def op_token_def
        commit_operator_def commit_command_def set_command_def)
  with foldM_command [OF w, of ns] 2(1) [OF ok, of "ns @ [NCommand c, op]"]
  show ?case by (simp add: foldM_result_append)
qed

text \<open>Words without blanks, quotes and backslashes are read back by \<open>shlex.split\<close>.\<close>

definition bare_char :: "char \<Rightarrow> bool" where
  "bare_char c \<longleftrightarrow> \<not> is_shlex_space c \<and> c \<noteq> CHR 0x5C \<and> c \<noteq> CHR 0x27 \<and> c \<noteq> CHR 0x22"

definition bare_word :: "string \<Rightarrow> bool" where
  "bare_word t \<longleftrightarrow> t \<noteq> [] \<and> list_all bare_char t"

lemma shlex_rest_of_word:
  "list_all bare_char t \<Longrightarrow> shlex_loop SWord w (t @ s) = shlex_loop SWord (w @ t) s"
  by (induction t arbitrary: w) (auto simp: bare_char_def)

lemma shlex_word: "bare_word t \<Longrightarrow> shlex_loop SBetween w (t @ s) = shlex_loop SWord t s"
  by (cases t) (auto simp: bare_word_def bare_char_def shlex_rest_of_word)

lemma shlex_join: "list_all bare_word ts \<Longrightarrow> shlex_loop SBetween [] (join_str '' '' ts) = Inr ts"
proof (induction "'' ''" ts rule: join_str.induct)
  case (2 x)
  then show ?case using shlex_word [of x "[]" "[]"] by simp
next
  case (3 x y zs)
  then show ?case using shlex_word [of x "[]" "'' '' @ join_str '' '' (y # zs)"]
    by (simp add: is_shlex_space_def)
qed simp

lemma abbreviated_Or: "abbreviated_node NOr = []"
  by (simp add: abbreviated_node_def)

lemma concat_abbreviated:
  "concat (map abbreviated_node ns) = concat (map abbreviated_node (filter (\<lambda>n. n \<noteq> NOr) ns))"
  by (induction ns) (auto simp: abbreviated_Or)

text \<open>A world for the examples below, in which the program \<open>false\<close> fails.\<close>

definition sample_world :: os_world where
  "sample_world = \<lparr>w_environ = [], w_can_open = (\<lambda>_. True), w_can_start = (\<lambda>_. True),
     w_exit = (\<lambda>_ sp. if sp_argv sp = [''false''] then 1 else 0)\<rparr>"

definition sample_command :: command where
  "sample_command = (new_command ''ls'')\<lparr>c_argv := [''ls'', ''-l''], c_stdin := Some ''in'',
     c_stderr := RStdout, c_env := Some [(''A'', ''1'')]\<rparr>"

interpretation words: codec "join_str '' ''" shlex_split "\<lambda>ts. ts" "list_all bare_word"
  by unfold_locales (simp add: shlex_split_def shlex_join)

text \<open>A command line is its first command and the operators with the commands after them.\<close>

definition line_text :: "command \<times> (node \<times> command) list \<Rightarrow> string" where
  "line_text l = join_str '' '' (line_tokens (fst l) (snd l))"

definition line_written :: "command \<times> (node \<times> command) list \<Rightarrow> bool" where
  "line_written l \<longleftrightarrow> line_ok (fst l) (snd l) \<and> list_all bare_word (line_tokens (fst l) (snd l))"

interpretation command_line: codec line_text parse_line "\<lambda>l. line_nodes (fst l) (snd l)" line_written
proof
  fix l
  assume "line_written l"
  then have "line_ok (fst l) (snd l)" "list_all bare_word (line_tokens (fst l) (snd l))"
    by (simp_all add: line_written_def)
  with foldM_line [of "fst l" "snd l" "[]"] words.parse_render [of "line_tokens (fst l) (snd l)"]
  show "parse_line (line_text l) = Inr (line_nodes (fst l) (snd l))"
    by (simp add: line_text_def parse_line_def parse_tokens_def parser_at_def parser_init_def)
qed

section \<open>Properties\<close>

text \<open>C17: parsing reads back what is written.  A command line made of commands with assignments,
  arguments and redirections, joined by pipes, \<open>&&\<close> and \<open>||\<close>, and written with blanks between
  its words, is parsed into exactly the nodes it was made from; so lines with different nodes are
  written differently.\<close>

theorem parse_line_roundtrip:
  assumes "line_ok c r" "list_all bare_word (line_tokens c r)"
  shows "parse_line (join_str '' '' (line_tokens c r)) = Inr (line_nodes c r) \<and>
    (\<forall>d q. line_ok d q \<and> list_all bare_word (line_tokens d q) \<and> line_nodes d q \<noteq> line_nodes c r \<longrightarrow>
       join_str '' '' (line_tokens d q) \<noteq> join_str '' '' (line_tokens c r))"
proof -
  have "line_written (c, r)" using assms by (simp add: line_written_def)
  from command_line.parse_render [OF this] command_line.render_determines [OF _ this]
  show ?thesis by (auto simp: line_text_def line_written_def)
qed

theorem parse_line_roundtrip_witness:
  "parse_line ''A=1 ls -l < in 2>&1 || false'' = Inr [NCommand sample_command, NOr, NCommand (new_command ''false'')]"
proof -
  let ?r = "[(NOr, new_command ''false'')]"
  have m: "env_var_match ''A=1'' = Some (''A'', ''1'')" "env_var_match ''ls'' = None" "env_var_match ''false'' = None"
    by code_simp+
  then have ok: "line_ok sample_command ?r"
    by (simp add: writable_def env_ok_def sample_command_def new_command_def shell_words_def)
  have t: "line_tokens sample_command ?r = [''A=1'', ''ls'', ''-l'', ''<'', ''in'', ''2>&1'', ''||'', ''false'']"
    by code_simp
  have "list_all bare_word (line_tokens sample_command ?r)" unfolding t by code_simp
  from parse_line_roundtrip [OF ok this] show ?thesis unfolding t by simp
qed

text \<open>C18: the operators.  After a pipe, \<open>&&\<close> goes on with the rest of the line when the pipe succeeded
  and otherwise returns its exit code; \<open>||\<close> goes on when the pipe failed, and when it succeeded
  the whole line returns 0, whatever follows: in \<open>a || b && c\<close> a success of \<open>a\<close> skips \<open>c\<close> too,
  unlike in a shell.\<close>

theorem operators_semantics:
  assumes "cs \<noteq> []"
  shows "run_loop w False piped (pipe_group cs @ NAnd # rest) st =
      bind_result (run_loop w False piped (pipe_group cs) st) (\<lambda>(rv, st').
        if rv = Some 0 then run_loop w False False rest (next_pipe st') else Inr (rv, st')) \<and>
    run_loop w False piped (pipe_group cs @ NOr # rest) st =
      bind_result (run_loop w False piped (pipe_group cs) st) (\<lambda>(rv, st').
        if rv = Some 0 then Inr (rv, st') else run_loop w False False rest (next_pipe st'))"
  using assms
  by (cases "start_all w piped cs st") (simp_all add: run_group run_group_op)

theorem operators_semantics_witness:
  "map_result (\<lambda>(rv, st). (rv, map sp_argv (r_spawned st)))
     (run_pipeline sample_world False
        ([NCommand (new_command ''true''), NOr] @ [NCommand (new_command ''b''), NAnd, NCommand (new_command ''c'')]))
   = Inr (Some 0, [[''true'']])"
proof -
  have r: "run_loop sample_world False False (pipe_group [new_command ''true'']) run_init =
      Inr (Some 0, run_init\<lparr>r_codes := [0], r_spawned := [make_spawn sample_world run_init (new_command ''true'') False]\<rparr>)"
    by (simp add: start_command_def Let_def make_spawn_def stdin_of_def new_command_def openable_def
        sample_world_def run_init_def exec_piped_commands_def)
  show ?thesis
    using operators_semantics [of "[new_command ''true'']" sample_world False
        "[NCommand (new_command ''b''), NAnd, NCommand (new_command ''c'')]" run_init] r
    by (simp add: run_pipeline_def make_spawn_def new_command_def)
qed

text \<open>A pipe.  Its processes are started in order with the arguments of the commands, each after the
  first reads the output of the one before, and the exit code is that of the last process, also
  when an earlier one failed.\<close>

theorem pipe_semantics:
  assumes "cs \<noteq> []" "run_pipeline w False (pipe_group cs) = Inr (rv, st)"
  shows "map sp_argv (r_spawned st) = map c_argv cs \<and>
    map sp_stdin (r_spawned st) =
      (case c_stdin (hd cs) of Some f \<Rightarrow> IFile f | None \<Rightarrow> IInherit) # replicate (length cs - 1) IPrevious \<and>
    rv = Some (w_exit w (butlast (r_spawned st)) (last (r_spawned st)))"
proof -
  from assms have s: "start_all w False cs run_init = Inr st" "rv = Some (exec_piped_commands (r_codes st))"
    by (auto simp: run_pipeline_def run_group)
  from start_all_spawned [OF s(1) assms(1)] show ?thesis
    using s(2) by (auto simp: run_init_def stdin_of_def exec_piped_last)
qed

theorem pipe_semantics_witness:
  "\<exists>st. run_pipeline sample_world False (pipe_group [new_command ''false'', new_command ''cat'']) = Inr (Some 0, st) \<and>
     map sp_argv (r_spawned st) = [[''false''], [''cat'']]"
proof -
  have "\<exists>rv st. run_pipeline sample_world False (pipe_group [new_command ''false'', new_command ''cat'']) = Inr (rv, st)"
    by (simp add: run_pipeline_def run_group start_command_def Let_def make_spawn_def stdin_of_def new_command_def
        openable_def sample_world_def)
  then obtain rv st where r: "run_pipeline sample_world False (pipe_group [new_command ''false'', new_command ''cat'']) = Inr (rv, st)"
    by blast
  have a: "map sp_argv (r_spawned st) = [[''false''], [''cat'']]"
    and rv: "rv = Some (w_exit sample_world (butlast (r_spawned st)) (last (r_spawned st)))"
    using pipe_semantics [OF _ r] by (simp_all add: new_command_def)
  from a have ne: "r_spawned st \<noteq> []" by auto
  have "sp_argv (last (r_spawned st)) = last (map sp_argv (r_spawned st))"
    using ne by (simp add: last_map)
  also have "\<dots> = [''cat'']" unfolding a by simp
  finally have z: "rv = Some 0" using rv by (simp add: sample_world_def)
  from r [unfolded z] a show ?thesis by (intro exI conjI)
qed

text \<open>Verbose mode.  A command followed by \<open>&&\<close> or \<open>||\<close> whose process can be started always ends in
  an exception, because the message prints a variable that is not assigned yet.\<close>

theorem verbose_operators_fail:
  assumes "op = NAnd \<or> op = NOr" "start_command w True st c piped = Inr st'"
  shows "run_loop w True piped (NCommand c # op # rest) st = Inl UnboundLocalError"
  using assms by auto

theorem verbose_operators_fail_witness:
  "run_pipeline sample_world True [NCommand (new_command ''a''), NAnd, NCommand (new_command ''b'')] = Inl UnboundLocalError"
proof -
  have "\<exists>st'. start_command sample_world True run_init (new_command ''a'') False = Inr st'"
    by (simp add: start_command_def Let_def make_spawn_def stdin_of_def new_command_def openable_def sample_world_def)
  then obtain st' where "start_command sample_world True run_init (new_command ''a'') False = Inr st'" by blast
  from verbose_operators_fail [OF _ this, of NAnd] show ?thesis by (simp add: run_pipeline_def)
qed

text \<open>The announced text of a command line does not show the operator \<open>||\<close>: it is the text of the
  line without these operators.\<close>

theorem abbreviated_command_drops_or:
  "get_abbreviated_command ns = get_abbreviated_command (filter (\<lambda>n. n \<noteq> NOr) ns)"
  unfolding get_abbreviated_command_def by (rule arg_cong [OF concat_abbreviated])

end
