(* ===== verification/Wutils.thy ===== *)
theory Wutils
  imports Shellcmd Py_Literal Posix_Paths
begin

text \<open>
  \<open>src/wutils.py\<close>: running the programs of the build tree.  A program is looked up by name among
  the task generators below the launch directory, its environment is made from that of the
  build, and a failure of the process becomes an error of waf.

  The build context, the options and the platform are the record \<open>bld\<close>; \<open>bl_run argv env cwd\<close>
  gives the exit code and the error stream of a process.  Paths are joined as on POSIX systems; a
  program that cannot be started at all (\<open>OSError\<close>) is outside the model.
\<close>

section \<open>The build context\<close>

type_synonym proc_env = "(string, string) dict"

record taskgen =
  tg_is_program :: bool
  tg_name :: string
  tg_dir :: string
  tg_bld_dir :: string
  tg_node :: string

record bld =
  bl_platform :: string
  bl_cwd :: string
  bl_environ :: proc_env
  bl_glob :: "string \<Rightarrow> string list"
  bl_signals :: "(string \<times> int) list"
  bl_run :: "string list \<Rightarrow> proc_env \<Rightarrow> string option \<Rightarrow> int \<times> string"
  bl_module_path :: "string list"
  bl_executable_path :: "string list"
  bl_valgrind :: string
  bl_python :: "string list"
  bl_out_dir :: string
  bl_ns3_dir :: string
  bl_prefix :: string
  bl_pymoddir :: "string option"
  bl_programs :: "taskgen list"
  bl_cwd_launch :: string
  bo_cwd_launch :: "string option"
  bo_command_template :: string
  bo_valgrind :: bool
  bo_dlm :: bool

definition get_command_template :: "bld \<Rightarrow> string list \<Rightarrow> string" where
  "get_command_template b arguments =
     foldl (\<lambda>cmd arg. cmd @ '' '' @ arg)
       (if bo_command_template b \<noteq> [] then bo_command_template b else ''%s'') arguments"

section \<open>Finding a program\<close>

text \<open>\<open>os.path.relpath\<close>.\<close>

definition path_parts :: "string \<Rightarrow> string list" where
  "path_parts p = filter (\<lambda>c. c \<noteq> []) (split_char (CHR ''/'') p)"

definition common_length :: "string list \<Rightarrow> string list \<Rightarrow> nat" where
  "common_length xs ys = length (takeWhile (\<lambda>(x, y). x = y) (zip xs ys))"

definition relpath :: "string \<Rightarrow> string \<Rightarrow> string \<Rightarrow> string result" where
  "relpath cwd path start =
     (if path = [] then Inl ValueError
      else let start_list = path_parts (abspath cwd start);
               path_list = path_parts (abspath cwd path);
               i = common_length start_list path_list
           in Inr (case replicate (length start_list - i) ''..'' @ drop i path_list of
                [] \<Rightarrow> ''.''
              | c # cs \<Rightarrow> path_joins c cs))"

definition program_names :: "bld \<Rightarrow> string \<Rightarrow> taskgen \<Rightarrow> string list result" where
  "program_names b launch_dir obj =
     (case relpath (bl_cwd b) (tg_dir obj) launch_dir of
        Inl _ \<Rightarrow> Inl (WafError ''no path specified'')
      | Inr r \<Rightarrow> Inr [basename (tg_name obj), path_join r (tg_name obj)])"

fun find_loop :: "bld \<Rightarrow> string \<Rightarrow> string \<Rightarrow> taskgen list \<Rightarrow> string list \<Rightarrow> taskgen result" where
  "find_loop b launch_dir program_name [] found =
     Inl (WafError (''program '' @ [CHR 0x27] @ program_name @ [CHR 0x27] @
       '' not found; available programs are: '' @ py_repr (VList (map VStr found))))"
| "find_loop b launch_dir program_name (obj # objs) found =
     (if \<not> tg_is_program obj then find_loop b launch_dir program_name objs found
      else if \<not> (startswith (tg_dir obj) launch_dir \<or> startswith (tg_bld_dir obj) launch_dir)
      then find_loop b launch_dir program_name objs found
      else bind_result (program_names b launch_dir obj) (\<lambda>names.
        if program_name \<in> set names then Inr obj
        else find_loop b launch_dir program_name objs (found @ names)))"

text \<open>The errors are those into which the callers turn the \<open>ValueError\<close>s.\<close>

definition find_program :: "bld \<Rightarrow> string \<Rightarrow> taskgen result" where
  "find_program b program_name =
     find_loop b (abspath (bl_cwd b) (bl_cwd_launch b)) program_name (bl_programs b) []"

section \<open>The environment of a program\<close>

definition pathvar :: "string \<Rightarrow> string" where
  "pathvar platform =
     (if platform = ''linux2'' then ''LD_LIBRARY_PATH''
      else if platform = ''darwin'' then ''DYLD_LIBRARY_PATH''
      else if platform = ''win32'' then ''PATH''
      else if platform = ''cygwin'' then ''PATH''
      else ''LD_LIBRARY_PATH'')"

definition pathsep :: "string \<Rightarrow> string" where
  "pathsep platform = (if platform = ''win32'' then '';'' else '':'')"

text \<open>The entries put before the old value of a variable, if it has one.\<close>

definition prepend_paths :: "string \<Rightarrow> string list \<Rightarrow> string \<Rightarrow> proc_env \<Rightarrow> proc_env" where
  "prepend_paths sep paths k env =
     dict_set k (join_str sep (paths @ (case dict_get env k of Some v \<Rightarrow> [v] | None \<Rightarrow> []))) env"

definition the_value :: "proc_env \<Rightarrow> string \<Rightarrow> string" where
  "the_value env k = (case dict_get env k of Some v \<Rightarrow> v | None \<Rightarrow> [])"

definition library_dirs :: "bld \<Rightarrow> string list" where
  "library_dirs b =
     [path_join (bl_out_dir b) ''lib'', path_join (bl_out_dir b) ''lib64'', path_join (bl_out_dir b) ''bin'',
      path_join (bl_ns3_dir b) ''lib'', path_join (bl_ns3_dir b) ''lib64'', path_join (bl_ns3_dir b) ''bin'']"

definition dce_path_entries :: "bld \<Rightarrow> string \<Rightarrow> string list" where
  "dce_path_entries b libs =
     filter (\<lambda>p. p \<noteq> [])
       [the_value (bl_environ b) ''DCE_PATH'', path_join (bl_out_dir b) ''bin_dce'',
        path_join (bl_ns3_dir b) ''sbin'', path_join (bl_ns3_dir b) ''bin_dce'', libs]"

definition dce_root_entries :: "bld \<Rightarrow> string list" where
  "dce_root_entries b = filter (\<lambda>p. p \<noteq> []) [the_value (bl_environ b) ''DCE_ROOT'', bl_out_dir b, bl_prefix b]"

definition python_dirs :: "bld \<Rightarrow> string list" where
  "python_dirs b =
     [(case bl_pymoddir b of Some d \<Rightarrow> d | None \<Rightarrow> []),
      (let dirs = bl_glob b (bl_ns3_dir b @ ''/lib*/python*/site-packages'')
       in if dirs \<noteq> [] then last dirs else [])]"

definition get_proc_env :: "bld \<Rightarrow> proc_env option \<Rightarrow> proc_env" where
  "get_proc_env b os_env =
     (let sep = pathsep (bl_platform b); var = pathvar (bl_platform b);
          e0 = dict_update (bl_environ b) (case os_env of Some e \<Rightarrow> e | None \<Rightarrow> []);
          e1 = prepend_paths sep (bl_module_path b) var e0;
          e2 = dict_set var (join_str sep (the_value e1 var # library_dirs b)) e1;
          e3 = dict_set ''DCE_PATH'' (join_str sep (dce_path_entries b (the_value e2 var))) e2;
          e4 = dict_set ''DCE_ROOT'' (join_str sep (dce_root_entries b)) e3;
          e5 = prepend_paths sep (python_dirs b) ''PYTHONPATH'' e4
      in prepend_paths sep (bl_executable_path b) ''PATH'' e5)"

section \<open>Running\<close>

text \<open>The name of the signal that ended a process.\<close>

definition signal_name :: "(string \<times> int) list \<Rightarrow> int \<Rightarrow> string option" where
  "signal_name signals retval =
     map_option fst (find (\<lambda>(name, val). length name > 3 \<and> take 3 name = ''SIG'' \<and> name ! 3 \<noteq> CHR ''_'' \<and> val = - retval) signals)"

definition process_error :: "bld \<Rightarrow> string list \<Rightarrow> int \<Rightarrow> py_error" where
  "process_error b argv retval =
     (case (if retval < 0 then signal_name (bl_signals b) retval else None) of
        Some signame \<Rightarrow> WafError (''Command '' @ py_repr (VList (map VStr argv)) @ '' terminated with signal '' @ signame @
          ''. Run it under a debugger to get more information (./waf --run <program> --command-template='' @
          dquote @ ''gdb --args %s <args>'' @ dquote @ '').'')
      | None \<Rightarrow> WafError (''Command '' @ py_repr (VList (map VStr argv)) @ '' exited with code '' @ show_int retval))"

definition valgrind_argv :: "bld \<Rightarrow> string list \<Rightarrow> string list" where
  "valgrind_argv b argv =
     [bl_valgrind b, ''--leak-check=full'', ''--show-reachable=yes'', ''--error-exitcode=1''] @ argv"

definition run_argv :: "bld \<Rightarrow> string list \<Rightarrow> proc_env option \<Rightarrow> string option \<Rightarrow> bool \<Rightarrow> int result" where
  "run_argv b argv os_env cwd force_no_valgrind =
     (let env = get_proc_env b os_env;
          finish = (\<lambda>argv retval. if retval \<noteq> 0 then Inl (process_error b argv retval) else Inr retval)
      in if bo_valgrind b \<and> \<not> force_no_valgrind
         then if bo_command_template b \<noteq> []
              then Inl (WafError ''Options --command-template and --valgrind are conflicting'')
              else if bl_valgrind b = [] then Inl (WafError ''valgrind is not installed'')
              else let argv' = valgrind_argv b argv; (retval, err) = bl_run b argv' env cwd;
                       error = list_ex (\<lambda>line. contains line ''== LEAK SUMMARY'') (lines_of err)
                   in finish argv' (if retval = 0 \<and> error then 1 else retval)
         else finish argv (fst (bl_run b argv env cwd)))"

text \<open>\<open>template % (s,)\<close>: one \<open>%s\<close>, any number of \<open>%%\<close>.  The flag says that the argument is used.\<close>

fun format_one :: "string \<Rightarrow> string \<Rightarrow> bool \<Rightarrow> string result" where
  "format_one s [] used = (if used then Inr [] else Inl TypeError)"
| "format_one s (c # cs) used =
     (if c \<noteq> CHR ''%'' then map_result (\<lambda>r. c # r) (format_one s cs used)
      else case cs of
        [] \<Rightarrow> Inl ValueError
      | d # ds \<Rightarrow>
          if d = CHR ''%'' then map_result (\<lambda>r. CHR ''%'' # r) (format_one s ds used)
          else if d = CHR ''s'' then (if used then Inl TypeError else map_result (\<lambda>r. s @ r) (format_one s ds True))
          else Inl Unsupported)"

definition get_run_program :: "bld \<Rightarrow> string \<Rightarrow> string option \<Rightarrow> (string \<times> string list) result" where
  "get_run_program b program_string command_template =
     (if command_template \<in> {None, Some ''%s''}
      then bind_result (shlex_split program_string) (\<lambda>argv.
             case argv of
               [] \<Rightarrow> Inl IndexError
             | program_name # args \<Rightarrow>
                 map_result (\<lambda>obj. (program_name, tg_node obj # args)) (find_program b program_name))
      else bind_result (find_program b program_string) (\<lambda>obj.
             bind_result (format_one (tg_node obj) (the command_template) False) (\<lambda>tmpl.
               map_result (\<lambda>execvec. (program_string, execvec))
                 (shlex_split (replace_str [CHR 0x5C] [CHR 0x5C, CHR 0x5C] tmpl)))))"

definition launch_cwd :: "bld \<Rightarrow> string" where
  "launch_cwd b = (case bo_cwd_launch b of Some d \<Rightarrow> if d \<noteq> [] then d else bl_cwd_launch b | None \<Rightarrow> bl_cwd_launch b)"

definition visualizer :: "bool \<Rightarrow> string list" where
  "visualizer v = (if v then [''--SimulatorImplementationType=ns3::VisualSimulatorImpl''] else [])"

definition run_program :: "bld \<Rightarrow> string \<Rightarrow> string option \<Rightarrow> string option \<Rightarrow> bool \<Rightarrow> int result" where
  "run_program b program_string command_template cwd visualize =
     bind_result (get_run_program b program_string command_template) (\<lambda>(_, execvec).
     bind_result (if bo_dlm b
                  then map_result (\<lambda>(_, dce_runner). dce_runner @ execvec) (get_run_program b ''dce-runner'' command_template)
                  else Inr execvec) (\<lambda>execvec.
       run_argv b (execvec @ visualizer visualize) None
         (Some (case cwd of Some d \<Rightarrow> d | None \<Rightarrow> launch_cwd b)) False))"

definition run_python_program :: "bld \<Rightarrow> string \<Rightarrow> bool \<Rightarrow> int result" where
  "run_python_program b program_string visualize =
     bind_result (shlex_split program_string) (\<lambda>execvec.
       case bl_python b of
         [] \<Rightarrow> Inl IndexError
       | py # _ \<Rightarrow> run_argv b (py # execvec @ visualizer visualize) None (Some (launch_cwd b)) False)"

section \<open>Relative paths\<close>

lemma path_parts_abs_of: "list_all proper_part cs \<Longrightarrow> path_parts (abs_of cs) = cs"
  by (auto simp: path_parts_def split_abs_of filter_id_conv list_all_iff proper_part_def)

lemma common_length_take:
  "take (common_length xs ys) xs = take (common_length xs ys) ys \<and>
   common_length xs ys \<le> length xs \<and> common_length xs ys \<le> length ys"
proof (induction xs arbitrary: ys)
  case Nil
  then show ?case by (simp add: common_length_def)
next
  case (Cons x xs)
  then show ?case by (cases ys) (auto simp: common_length_def)
qed

lemma relpath_comps:
  assumes "list_all proper_part ss" "list_all proper_part ps"
  shows "\<exists>rs. relpath cwd (abs_of ps) (abs_of ss) = Inr (if rs = [] then ''.'' else join_str ''/'' rs) \<and>
    list_all (\<lambda>d. proper_part d \<or> d = ''..'') rs \<and> norm_comps True [] (ss @ rs) = ps"
proof -
  let ?i = "common_length ss ps"
  define rs where "rs = replicate (length ss - ?i) ''..'' @ drop ?i ps"
  have rs: "list_all (\<lambda>d. proper_part d \<or> d = ''..'') rs"
    using assms(2) by (auto simp: rs_def list_all_iff dest: in_set_dropD)
  have "abs_of ps \<noteq> []" by (simp add: abs_of_def)
  then have "relpath cwd (abs_of ps) (abs_of ss) = Inr (case rs of [] \<Rightarrow> ''.'' | c # cs \<Rightarrow> path_joins c cs)"
    using assms by (simp add: relpath_def abspath_abs_of path_parts_abs_of rs_def Let_def)
  moreover have "(case rs of [] \<Rightarrow> ''.'' | c # cs \<Rightarrow> path_joins c cs) = (if rs = [] then ''.'' else join_str ''/'' rs)"
  proof (cases rs)
    case (Cons c cs)
    then have "c \<noteq> []" "\<not> endswith c ''/''" using rs endswith_slash_part [of c] by (auto simp: proper_part_def)
    with Cons rs show ?thesis by (simp add: path_joins_parts)
  qed simp
  moreover have "norm_comps True [] (ss @ rs) = ps"
  proof -
    have "norm_comps True [] (ss @ rs) = norm_comps True (rev ss) rs"
      using norm_comps_proper [OF assms(1), of "[]" rs] by simp
    also have "\<dots> = norm_comps True (drop (length ss - ?i) (rev ss)) (drop ?i ps)"
      unfolding rs_def using assms(1) by (intro norm_comps_up) (simp_all add: list_all_iff)
    also have "\<dots> = take ?i ss @ drop ?i ps"
      using assms(2) common_length_take [of ss ps]
      by (subst norm_comps_rev) (auto simp: list_all_iff rev_drop dest: in_set_dropD)
    also have "\<dots> = ps" using common_length_take [of ss ps] by simp
    finally show ?thesis .
  qed
  ultimately show ?thesis using rs by (intro exI [of _ rs] conjI) (simp only:)
qed

lemma join_back:
  assumes "list_all proper_part ss" "list_all (\<lambda>d. proper_part d \<or> d = ''..'') rs"
    and "norm_comps True [] (ss @ rs) = ps"
  shows "normpath (path_join (abs_of ss) (if rs = [] then ''.'' else join_str ''/'' rs)) = abs_of ps"
proof -
  define r where "r = (if rs = [] then ''.'' else join_str ''/'' rs)"
  define cs where "cs = (if rs = [] then [''.''] else rs)"
  have sl: "CHR ''/'' \<notin> set d" if "d \<in> set rs" for d
  proof -
    have "proper_part d \<or> d = ''..''" using that assms(2) by (simp add: list_all_iff)
    then show ?thesis by (auto simp: proper_part_def)
  qed
  have split_r: "split_char (CHR ''/'') r = cs"
  proof (cases "rs = []")
    case False
    then have "split_char (CHR ''/'') (join_str ''/'' rs) = rs" using sl by (intro split_char_join_parts) simp_all
    then show ?thesis using False by (simp add: r_def cs_def)
  qed (simp add: r_def cs_def)
  have skip: "norm_comps True acc cs = norm_comps True acc rs" for acc by (simp add: cs_def)
  have nosl: "\<not> startswith r ''/''"
  proof (cases rs)
    case (Cons c cs')
    then have "c \<noteq> []" "\<not> startswith c ''/''"
      using assms(2) startswith_slash_part [of c] by (auto simp: proper_part_def)
    then obtain x xs where "c = x # xs" "x \<noteq> CHR ''/''" by (cases c) auto
    with Cons show ?thesis by (cases cs') (auto simp: r_def)
  qed (simp add: r_def)
  have "normpath (path_join (abs_of ss) r) = abs_of ps"
  proof (cases "ss = []")
    case True
    then have j: "path_join (abs_of ss) r = CHR ''/'' # r"
      using nosl by (simp add: path_join_def abs_of_def endswith_slash_iff)
    have nc: "norm_comps True [] (split_char (CHR ''/'') (CHR ''/'' # r)) = ps"
      unfolding split_char_append [of "CHR ''/''" "[]", simplified] split_r using assms(3) True by (simp add: skip split_r)
    have "\<not> startswith (CHR ''/'' # r) ''//''" using nosl by simp
    then show ?thesis unfolding j by (intro normpath_rooted nc) simp_all
  next
    case False
    have ends: "\<not> endswith (abs_of ss) ''/''" using abs_of_last [OF assms(1) False] .
    then have j: "path_join (abs_of ss) r = CHR ''/'' # join_str ''/'' ss @ CHR ''/'' # r"
      using nosl by (simp add: path_join_def abs_of_def)
    have sj: "split_char (CHR ''/'') (join_str ''/'' cs @ CHR ''/'' # t) = cs @ split_char (CHR ''/'') t"
      if "cs \<noteq> []" "list_all proper_part cs" for cs t
      using that by (induction cs rule: induct_list012) (auto simp: split_char_append proper_part_def)
    have nc: "norm_comps True [] (split_char (CHR ''/'') (CHR ''/'' # join_str ''/'' ss @ CHR ''/'' # r)) = ps"
      unfolding split_char_append [of "CHR ''/''" "[]", simplified] sj [OF False assms(1)] split_r
      using assms(3) norm_comps_proper [OF assms(1), of "[]"] by (simp add: skip split_r sj [OF False assms(1)])
    have "join_str ''/'' ss \<noteq> []"
      using False assms(1) by (cases ss; cases "tl ss") (auto simp: proper_part_def)
    then obtain x xs where J: "join_str ''/'' ss = x # xs" by (cases "join_str ''/'' ss") auto
    with abs_of_lead(1) [OF assms(1)] have "x \<noteq> CHR ''/''" by (simp add: abs_of_def)
    then have "\<not> startswith (CHR ''/'' # join_str ''/'' ss @ CHR ''/'' # r) ''//''" by (simp add: J)
    then show ?thesis unfolding j by (intro normpath_rooted nc) simp_all
  qed
  then show ?thesis unfolding r_def .
qed

section \<open>Lemmas on programs and environments\<close>

lemma find_loop_Inr:
  "find_loop b ld name objs found = Inr obj \<Longrightarrow>
   \<exists>us vs. objs = us @ obj # vs \<and> tg_is_program obj \<and>
     (startswith (tg_dir obj) ld \<or> startswith (tg_bld_dir obj) ld) \<and>
     (\<exists>names. program_names b ld obj = Inr names \<and> name \<in> set names) \<and>
     list_all (\<lambda>u. tg_is_program u \<and> (startswith (tg_dir u) ld \<or> startswith (tg_bld_dir u) ld) \<longrightarrow>
       (\<exists>names. program_names b ld u = Inr names \<and> name \<notin> set names)) us"
proof (induction objs arbitrary: found)
  case (Cons o' objs)
  consider "obj = o'" "tg_is_program o'" "startswith (tg_dir o') ld \<or> startswith (tg_bld_dir o') ld"
      "\<exists>names. program_names b ld o' = Inr names \<and> name \<in> set names"
    | found' where "find_loop b ld name objs found' = Inr obj"
      "tg_is_program o' \<and> (startswith (tg_dir o') ld \<or> startswith (tg_bld_dir o') ld) \<longrightarrow>
       (\<exists>names. program_names b ld o' = Inr names \<and> name \<notin> set names)"
    using Cons.prems by (auto split: if_splits)
  then show ?case
  proof cases
    case 1
    then show ?thesis by (intro exI [of _ "[]"] exI [of _ objs]) simp
  next
    case 2
    from Cons.IH [OF 2(1)] obtain us vs where
      uv: "objs = us @ obj # vs" "tg_is_program obj"
        "startswith (tg_dir obj) ld \<or> startswith (tg_bld_dir obj) ld"
        "\<exists>names. program_names b ld obj = Inr names \<and> name \<in> set names"
        "list_all (\<lambda>u. tg_is_program u \<and> (startswith (tg_dir u) ld \<or> startswith (tg_bld_dir u) ld) \<longrightarrow>
          (\<exists>names. program_names b ld u = Inr names \<and> name \<notin> set names)) us" by blast
    show ?thesis
      by (rule exI [of _ "o' # us"], rule exI [of _ vs]) (use uv 2(2) in simp)
  qed
qed simp

lemma program_names_Inr:
  "program_names b ld obj = Inr names \<Longrightarrow>
   \<exists>r. relpath (bl_cwd b) (tg_dir obj) ld = Inr r \<and> names = [basename (tg_name obj), path_join r (tg_name obj)]"
  by (auto simp: program_names_def split: sum.splits)

lemma process_error_waf: "\<exists>m. process_error b argv rv = WafError m"
  by (auto simp: process_error_def split: option.splits)

lemma get_prepend [simp]:
  "dict_get (prepend_paths sep ps k env) k' =
     (if k = k' then Some (join_str sep (ps @ (case dict_get env k of Some v \<Rightarrow> [v] | None \<Rightarrow> [])))
      else dict_get env k')"
  by (simp add: prepend_paths_def)

text \<open>A build context for the examples below: every process succeeds.\<close>

definition sample_bld :: bld where
  "sample_bld = \<lparr>bl_platform = ''linux2'', bl_cwd = ''/b'', bl_environ = [(''HOME'', ''/h''), (''PATH'', ''/bin'')],
     bl_glob = (\<lambda>_. []), bl_signals = [(''SIGKILL'', 9)], bl_run = (\<lambda>_ _ _. (0, [])),
     bl_module_path = [''/b/lib''], bl_executable_path = [''/b/exe''], bl_valgrind = [], bl_python = [''python''],
     bl_out_dir = ''/b/build'', bl_ns3_dir = ''/ns3'', bl_prefix = ''/p'', bl_pymoddir = None, bl_programs = [],
     bl_cwd_launch = ''/b'', bo_cwd_launch = None, bo_command_template = [], bo_valgrind = False, bo_dlm = False\<rparr>"

section \<open>Properties\<close>



text \<open>Which program a name stands for.  It is the first program generator, in the order of the
  build, that lies below the launch directory and has the name, or the path relative to the
  launch directory, asked for.\<close>

theorem find_program_first:
  assumes "find_program b name = Inr obj"
  shows "\<exists>us vs. bl_programs b = us @ obj # vs \<and> tg_is_program obj \<and>
    (startswith (tg_dir obj) (abspath (bl_cwd b) (bl_cwd_launch b)) \<or>
     startswith (tg_bld_dir obj) (abspath (bl_cwd b) (bl_cwd_launch b))) \<and>
    (\<exists>r. relpath (bl_cwd b) (tg_dir obj) (abspath (bl_cwd b) (bl_cwd_launch b)) = Inr r \<and>
       (name = basename (tg_name obj) \<or> name = path_join r (tg_name obj))) \<and>
    list_all (\<lambda>u. tg_is_program u \<and> (startswith (tg_dir u) (abspath (bl_cwd b) (bl_cwd_launch b)) \<or>
        startswith (tg_bld_dir u) (abspath (bl_cwd b) (bl_cwd_launch b))) \<longrightarrow> name \<noteq> basename (tg_name u)) us"
proof -
  let ?ld = "abspath (bl_cwd b) (bl_cwd_launch b)"
  from find_loop_Inr [OF assms [unfolded find_program_def]] obtain us vs where
    uv: "bl_programs b = us @ obj # vs" "tg_is_program obj"
      "startswith (tg_dir obj) ?ld \<or> startswith (tg_bld_dir obj) ?ld"
      "\<exists>names. program_names b ?ld obj = Inr names \<and> name \<in> set names"
      "list_all (\<lambda>u. tg_is_program u \<and> (startswith (tg_dir u) ?ld \<or> startswith (tg_bld_dir u) ?ld) \<longrightarrow>
        (\<exists>names. program_names b ?ld u = Inr names \<and> name \<notin> set names)) us" by blast
  have "\<exists>r. relpath (bl_cwd b) (tg_dir obj) ?ld = Inr r \<and> (name = basename (tg_name obj) \<or> name = path_join r (tg_name obj))"
    using uv(4) program_names_Inr by fastforce
  moreover have "list_all (\<lambda>u. tg_is_program u \<and> (startswith (tg_dir u) ?ld \<or> startswith (tg_bld_dir u) ?ld) \<longrightarrow>
      name \<noteq> basename (tg_name u)) us"
    using uv(5) program_names_Inr unfolding list_all_iff by (metis list.set_intros(1))
  ultimately show ?thesis using uv(1-3) by blast
qed

theorem find_program_first_witness:
  "\<exists>us vs. bl_programs (sample_bld\<lparr>bl_programs := [\<lparr>tg_is_program = True, tg_name = ''x/p'', tg_dir = ''/b/x'',
      tg_bld_dir = ''/b/build/x'', tg_node = ''/b/build/x/p''\<rparr>]\<rparr>) = us @ \<lparr>tg_is_program = True, tg_name = ''x/p'', tg_dir = ''/b/x'',
      tg_bld_dir = ''/b/build/x'', tg_node = ''/b/build/x/p''\<rparr> # vs"
proof -
  let ?t = "\<lparr>tg_is_program = True, tg_name = ''x/p'', tg_dir = ''/b/x'', tg_bld_dir = ''/b/build/x'', tg_node = ''/b/build/x/p''\<rparr>"
  have "map_result tg_node (find_program (sample_bld\<lparr>bl_programs := [?t]\<rparr>) ''p'') = Inr ''/b/build/x/p''" by code_simp
  then obtain o' where o': "find_program (sample_bld\<lparr>bl_programs := [?t]\<rparr>) ''p'' = Inr o'" by auto
  from find_program_first [OF o'] obtain us vs where "[?t] = us @ o' # vs" by auto
  then have "us = [] \<and> vs = []" by (cases us) auto
  then show ?thesis by (intro exI [of _ "[]"]) simp
qed



text \<open>The environment of a program.  The library path is the module path, the old value and the
  directories of the build and of ns-3, in this order; the Python path and the path put their
  directories before the old value; variables given by the caller override those of the process;
  no other variable changes.\<close>

theorem proc_env_spec:
  assumes "bl_platform b \<notin> {''win32'', ''cygwin'', ''darwin''}"
  shows "(let env = get_proc_env b os_env; old = dict_update (bl_environ b) (case os_env of Some e \<Rightarrow> e | None \<Rightarrow> []);
       old_value = (\<lambda>k. case dict_get old k of Some v \<Rightarrow> [v] | None \<Rightarrow> [])
    in dict_get env ''LD_LIBRARY_PATH'' =
         Some (join_str '':'' (join_str '':'' (bl_module_path b @ old_value ''LD_LIBRARY_PATH'') # library_dirs b)) \<and>
       dict_get env ''PYTHONPATH'' = Some (join_str '':'' (python_dirs b @ old_value ''PYTHONPATH'')) \<and>
       dict_get env ''PATH'' = Some (join_str '':'' (bl_executable_path b @ old_value ''PATH'')) \<and>
       dict_get env ''DCE_ROOT'' = Some (join_str '':'' (dce_root_entries b)) \<and>
       dict_get env ''DCE_PATH'' = Some (join_str '':'' (dce_path_entries b (the_value env ''LD_LIBRARY_PATH''))) \<and>
       (\<forall>k. k \<notin> {''LD_LIBRARY_PATH'', ''PYTHONPATH'', ''PATH'', ''DCE_ROOT'', ''DCE_PATH''} \<longrightarrow>
          dict_get env k = dict_get old k))"
proof -
  have v: "pathvar (bl_platform b) = ''LD_LIBRARY_PATH''" "pathsep (bl_platform b) = '':''"
    using assms by (simp_all add: pathvar_def pathsep_def)
  show ?thesis
    by (simp add: get_proc_env_def v Let_def the_value_def)
qed

theorem proc_env_spec_witness:
  "dict_get (get_proc_env sample_bld None) ''HOME'' = Some ''/h'' \<and>
   dict_get (get_proc_env sample_bld None) ''PATH'' = Some ''/b/exe:/bin''"
  using proc_env_spec [of sample_bld None]
  by (simp add: sample_bld_def Let_def dict_get_def)

end
