(* ===== verification/Waf_Hooks.thy ===== *)
theory Waf_Hooks
  imports Link_Summary Wutils
begin

text \<open>
  Two tools that hook into the build tool: \<open>src/waf-tools/clang_compilation_database.py\<close>, which collects the commands of
  the compiler tasks and merges them into a database of one entry per file, and
  \<open>src/waf-tools/relocation.py\<close>, which moves the nodes of a project whose directory was renamed.

  The database is a list of JSON values; reading and writing its text is done by the library, and keys are
  compared as JSON values.  Nodes are
  numbered, and a node tree is the map of children and the map of parents.
\<close>

section \<open>The compilation database\<close>

record compile_task =
  x_compiler :: bool
  x_last_cmd :: "string list option"
  x_cwd :: "string option"
  x_input :: string

text \<open>\<open>collect_compilation_db_tasks\<close> runs for every task generator.  The database and the function that writes it are set up by the first
  call; the second component says whether this call registered the function.\<close>

definition collect_compilation_db_tasks :: "compile_task list option \<Rightarrow> compile_task list option \<Rightarrow> compile_task list \<times> bool" where
  "collect_compilation_db_tasks clang_db compiled_tasks =
     ((case clang_db of None \<Rightarrow> [] | Some db \<Rightarrow> db) @
        filter x_compiler (case compiled_tasks of None \<Rightarrow> [] | Some ts \<Rightarrow> ts), clang_db = None)"

text \<open>\<open>shlex.quote\<close>: safe words stay, others are put into single quotes.\<close>

definition quote_safe :: "char \<Rightarrow> bool" where
  "quote_safe c \<longleftrightarrow> is_env_char c \<or> c \<in> set ''@%+=:,./-''"

definition quote_char :: "char \<Rightarrow> string" where
  "quote_char c = (if c = CHR 0x27 then [CHR 0x27, CHR 0x22, CHR 0x27, CHR 0x22, CHR 0x27] else [c])"

definition quote :: "string \<Rightarrow> string" where
  "quote s =
     (if s = [] then [CHR 0x27, CHR 0x27]
      else if list_all quote_safe s then s
      else CHR 0x27 # concat (map quote_char s) @ [CHR 0x27])"

definition quoted_command :: "string list \<Rightarrow> string" where
  "quoted_command cmd = join_str '' '' (map quote cmd)"

text \<open>The entries that exist are read by \<open>x["file"]\<close>, and keyed by any value that can be hashed.\<close>

fun hashable :: "json \<Rightarrow> bool" where
  "hashable (JList _) = False"
| "hashable (JObj _) = False"
| "hashable _ = True"

definition entry_key :: "json \<Rightarrow> json result" where
  "entry_key x = (case x of
       JObj d \<Rightarrow> bind_result (dict_getitem d ''file'') (\<lambda>f. if hashable f then Inr f else Inl TypeError)
     | _ \<Rightarrow> Inl TypeError)"

definition old_entries :: "json \<Rightarrow> (json, json) dict result" where
  "old_entries root =
     bind_result (jiter root) (\<lambda>xs. foldM_result (\<lambda>d x. map_result (\<lambda>k. dict_set k x d) (entry_key x)) [] xs)"

definition new_entry :: "string \<Rightarrow> string \<Rightarrow> compile_task \<Rightarrow> string list \<Rightarrow> (string \<times> json) result" where
  "new_entry cwd variant_dir task cmd =
     (let directory = (case x_cwd task of Some d \<Rightarrow> d | None \<Rightarrow> variant_dir)
      in map_result (\<lambda>filename. (filename, JObj [(''directory'', JStr directory), (''command'', JStr (quoted_command cmd)),
             (''file'', JStr filename)])) (relpath cwd (x_input task) directory))"

fun add_entries :: "string \<Rightarrow> string \<Rightarrow> compile_task list \<Rightarrow> (json, json) dict \<Rightarrow> (json, json) dict result" where
  "add_entries cwd variant_dir [] db = Inr db"
| "add_entries cwd variant_dir (task # tasks) db =
     (case x_last_cmd task of
        None \<Rightarrow> add_entries cwd variant_dir tasks db
      | Some cmd \<Rightarrow> bind_result (new_entry cwd variant_dir task cmd) (\<lambda>(f, e).
          add_entries cwd variant_dir tasks (dict_set (JStr f) e db)))"

text \<open>\<open>write_compilation_database\<close>: \<open>root\<close> is what the file holds, \<open>None\<close> when it cannot be read; the result is what is written.\<close>

definition write_compilation_database :: "string \<Rightarrow> string \<Rightarrow> json option \<Rightarrow> compile_task list option \<Rightarrow> json result" where
  "write_compilation_database cwd variant_dir root tasks =
     bind_result (old_entries (case root of None \<Rightarrow> JList [] | Some r \<Rightarrow> r)) (\<lambda>db.
     map_result (\<lambda>db. JList (map snd db)) (add_entries cwd variant_dir (case tasks of None \<Rightarrow> [] | Some ts \<Rightarrow> ts) db))"

section \<open>Relocation\<close>

record node_tree =
  r_children :: "nat \<Rightarrow> (string, nat) dict"
  r_parent :: "nat \<Rightarrow> nat"

record project =
  j_top_dir :: string
  j_out_dir :: string
  j_variant_dir :: string
  j_tree :: node_tree
  j_find_node :: "string \<Rightarrow> nat option"
  j_make_node :: "string \<Rightarrow> nat"
  j_printed :: "string list"

definition EXTRA_LOCK :: string where "EXTRA_LOCK = ''.old_srcdir''"

text \<open>\<open>store\<close> writes the source directory under the name of the lock, given a writer of configuration sets.\<close>

definition store_srcdir :: "(string \<Rightarrow> string) \<Rightarrow> string \<Rightarrow> string \<Rightarrow> fs \<Rightarrow> fs result" where
  "store_srcdir written variant_dir srcdir = write_text (path_join variant_dir EXTRA_LOCK) (written srcdir)"

text \<open>The children of \<open>d\<close> become those of \<open>s\<close>, which is emptied first.\<close>

definition move_children :: "nat \<Rightarrow> nat \<Rightarrow> node_tree \<Rightarrow> node_tree" where
  "move_children d s t =
     (let t = t\<lparr>r_children := (r_children t)(s := [])\<rparr>;
          t = foldl (\<lambda>t (k, v). t\<lparr>r_children := (r_children t)(s := dict_set k v (r_children t s)), r_parent := (r_parent t)(v := s)\<rparr>)
                t (r_children t d)
      in t\<lparr>r_children := (r_children t)(d := [])\<rparr>)"

text \<open>\<open>init_dirs\<close> before the original method; \<open>srcdir\<close> is what the lock holds, if it can be loaded.\<close>

definition init_dirs :: "string option \<Rightarrow> project \<Rightarrow> project result" where
  "init_dirs srcdir p =
     (if \<not> (startswith (j_top_dir p) ''/'' \<and> startswith (j_out_dir p) ''/'')
      then Inl (WafError (''The project was not configured: run '' @ dquote @ ''waf configure'' @ dquote @ '' first!''))
      else case srcdir of
        None \<Rightarrow> Inr p
      | Some src \<Rightarrow>
          if src = [] then Inr p
          else case j_find_node p src of
            None \<Rightarrow> Inr p
          | Some d \<Rightarrow>
              if src = j_top_dir p \<or> r_children (j_tree p) d = [] then Inr p
              else Inr (p\<lparr>j_tree := move_children d (j_make_node p (j_top_dir p)) (j_tree p),
                     j_printed := j_printed p @ [''relocating the source directory '' @ repr_str src @ '' -> '' @ repr_str (j_top_dir p)]\<rparr>))"

text \<open>\<open>uid\<close>: computed once from the name of the class and the paths below the source directory.\<close>

definition uid :: "(string list \<Rightarrow> string) \<Rightarrow> string \<Rightarrow> string list \<Rightarrow> string list \<Rightarrow> string option \<Rightarrow> string" where
  "uid md5 class_name inputs outputs cached =
     (case cached of Some u \<Rightarrow> u | None \<Rightarrow> md5 (class_name # inputs @ outputs))"

text \<open>\<open>apply_incpaths\<close>: of each include directory, whether it lies below the source directory, its path from the build
  directory and its absolute path.\<close>

definition apply_incpaths :: "(bool \<times> string \<times> string) list \<Rightarrow> string list" where
  "apply_incpaths nodes = map (\<lambda>(below, rel, abs). if below \<and> rel \<noteq> [] then rel else abs) nodes"

section \<open>Lemmas\<close>

lemma quote_body:
  "shlex_loop (SQuote (CHR 0x27)) w (concat (map quote_char t) @ CHR 0x27 # s) = shlex_loop SWord (w @ t) s"
  by (induction t arbitrary: w) (auto simp: quote_char_def is_shlex_space_def)

lemma safe_word: "t \<noteq> [] \<Longrightarrow> list_all quote_safe t \<Longrightarrow> bare_word t"
  by (auto simp: bare_word_def list_all_iff bare_char_def quote_safe_def is_shlex_space_def is_env_char_def is_digit_def)

lemma shlex_quote: "shlex_loop SBetween w (quote t @ s) = shlex_loop SWord t s"
  using quote_body [of "[]" t s] shlex_word [OF safe_word, of t w s]
  by (auto simp: quote_def is_shlex_space_def)

lemma shlex_quoted: "shlex_loop SBetween [] (join_str '' '' (map quote cmd)) = Inr cmd"
proof (induction "'' ''" cmd rule: join_str.induct)
  case (2 x)
  then show ?case using shlex_quote [of "[]" x "[]"] by simp
next
  case (3 x y zs)
  then show ?case using shlex_quote [of "[]" x "'' '' @ join_str '' '' (map quote (y # zs))"]
    by (simp add: is_shlex_space_def)
qed simp

interpretation quoted_words: codec quoted_command shlex_split "\<lambda>cmd. cmd" "\<lambda>_. True"
  by unfold_locales (simp add: quoted_command_def shlex_split_def shlex_quoted)

text \<open>The keys of the database, the file names of its entries, and what a run of the loop keeps.\<close>

definition db_ok :: "(json, json) dict \<Rightarrow> bool" where
  "db_ok db \<longleftrightarrow> dict_ok db \<and> list_all (\<lambda>(k, e). entry_key e = Inr k) db"

lemma db_ok_set: "db_ok db \<Longrightarrow> entry_key e = Inr k \<Longrightarrow> db_ok (dict_set k e db)"
proof -
  assume d: "db_ok db" and e: "entry_key e = Inr k"
  have "list_all (\<lambda>(k, e). entry_key e = Inr k) (dict_set k e db)"
    using d e by (induction db) (auto simp: db_ok_def dict_ok_def)
  with d show "db_ok (dict_set k e db)" by (simp add: db_ok_def)
qed

lemma new_entry_key: "new_entry cwd v task cmd = Inr (f, e) \<Longrightarrow> entry_key e = Inr (JStr f)"
  by (auto simp: new_entry_def Let_def entry_key_def dict_getitem_def dict_get_def)

lemma old_entries_ok: "old_entries root = Inr db \<Longrightarrow> db_ok db"
proof -
  assume "old_entries root = Inr db"
  then obtain xs where "foldM_result (\<lambda>d x. map_result (\<lambda>k. dict_set k x d) (entry_key x)) [] xs = Inr db"
    unfolding old_entries_def by (elim bind_resultE)
  then show "db_ok db"
    by (rule foldM_result_invariant) (auto simp: db_ok_def [of "[]"] dict_ok_def intro: db_ok_set)
qed

lemma add_entries_ok: "add_entries cwd v tasks db = Inr db' \<Longrightarrow> db_ok db \<Longrightarrow> db_ok db'"
  by (induction tasks arbitrary: db) (auto split: option.splits intro: db_ok_set new_entry_key)

text \<open>An entry that no later task replaces stays.\<close>

definition task_file :: "string \<Rightarrow> string \<Rightarrow> compile_task \<Rightarrow> json option" where
  "task_file cwd v task = (case x_last_cmd task of None \<Rightarrow> None
     | Some cmd \<Rightarrow> (case new_entry cwd v task cmd of Inr (f, e) \<Rightarrow> Some (JStr f) | Inl _ \<Rightarrow> None))"

lemma add_entries_keep:
  "add_entries cwd v tasks db = Inr db' \<Longrightarrow> \<forall>t \<in> set tasks. task_file cwd v t \<noteq> Some k \<Longrightarrow> dict_get db' k = dict_get db k"
  by (induction tasks arbitrary: db) (auto simp: task_file_def split: option.splits)

lemma add_entries_last:
  assumes "add_entries cwd v (ts @ t # us) db = Inr db'" "x_last_cmd t = Some cmd" "new_entry cwd v t cmd = Inr (f, e)"
    and "\<forall>u \<in> set us. task_file cwd v u \<noteq> Some (JStr f)"
  shows "dict_get db' (JStr f) = Some e"
  using assms
proof (induction ts arbitrary: db)
  case Nil
  then have "add_entries cwd v us (dict_set (JStr f) e db) = Inr db'" by simp
  from add_entries_keep [OF this Nil.prems(4)] show ?case by simp
next
  case (Cons a ts)
  then show ?case by (auto split: option.splits)
qed

section \<open>Properties\<close>

text \<open>C38: the commands of the database can be run.  Splitting the quoted command as a shell does gives back
  the words of the command, whatever characters they contain.\<close>

theorem quoted_command_roundtrip: "shlex_split (quoted_command cmd) = Inr cmd"
  by (rule quoted_words.parse_render) simp

text \<open>C39: the compilation database after a build.  It has one entry per file, keyed by the name in the entry;
  the last command that was run for a file is its entry, with the words of the command quoted.\<close>

theorem compilation_database:
  assumes "write_compilation_database cwd v root (Some (ts @ t # us)) = Inr out"
    and "x_last_cmd t = Some cmd" "new_entry cwd v t cmd = Inr (f, e)"
    and "\<forall>u \<in> set us. task_file cwd v u \<noteq> Some (JStr f)"
  shows "\<exists>entries keys. out = JList entries \<and> map entry_key entries = map Inr keys \<and> distinct keys \<and> e \<in> set entries"
proof -
  from assms(1) obtain db db' where old: "old_entries (case root of None \<Rightarrow> JList [] | Some r \<Rightarrow> r) = Inr db"
    and add: "add_entries cwd v (ts @ t # us) db = Inr db'" and out: "out = JList (map snd db')"
    unfolding write_compilation_database_def by (elim bind_resultE) auto
  have ok: "db_ok db'" using add_entries_ok [OF add old_entries_ok [OF old]] .
  then have "map entry_key (map snd db') = map Inr (map fst db')" "distinct (map fst db')"
    by (auto simp: db_ok_def dict_ok_def list_all_iff)
  moreover have "e \<in> set (map snd db')"
    using map_of_SomeD [OF add_entries_last [OF add assms(2-4), unfolded dict_get_def]] by force
  ultimately show ?thesis using out by blast
qed

definition sample_compile :: compile_task where
  "sample_compile = \<lparr>x_compiler = True, x_last_cmd = Some [''g++'', ''-DX=a b'', ''../m.cc''], x_cwd = None, x_input = ''/p/m.cc''\<rparr>"

theorem compilation_database_witness:
  "\<exists>out. write_compilation_database ''/p'' ''/p/build'' None (Some ([] @ sample_compile # [])) = Inr out \<and> out \<noteq> JList []"
proof -
  let ?w = "write_compilation_database ''/p'' ''/p/build'' None (Some ([] @ sample_compile # []))"
  let ?n = "new_entry ''/p'' ''/p/build'' sample_compile [''g++'', ''-DX=a b'', ''../m.cc'']"
  have "\<not> isl ?w" "\<not> isl ?n" by code_simp+
  then obtain out f e where w: "?w = Inr out" and n: "?n = Inr (f, e)" by (cases ?w; cases ?n) auto
  have "x_last_cmd sample_compile = Some [''g++'', ''-DX=a b'', ''../m.cc'']" by (simp add: sample_compile_def)
  from compilation_database [OF w this n] w show ?thesis by auto
qed

text \<open>Relocation moves the whole project.  When the old source directory has children and is another node than the
  new one, the new node has exactly these children, each child knows it as its parent, the old node is empty, and no other
  node changes its children.\<close>

theorem relocation_moves_children:
  assumes "d \<noteq> s" "dict_ok (r_children t d)"
  shows "r_children (move_children d s t) s = r_children t d \<and> r_children (move_children d s t) d = [] \<and>
    (\<forall>v \<in> snd ` set (r_children t d). r_parent (move_children d s t) v = s) \<and>
    (\<forall>n. n \<noteq> d \<and> n \<noteq> s \<longrightarrow> r_children (move_children d s t) n = r_children t n) \<and>
    (\<forall>v. v \<notin> snd ` set (r_children t d) \<longrightarrow> r_parent (move_children d s t) v = r_parent t v)"
proof -
  let ?step = "\<lambda>t (k, v). t\<lparr>r_children := (r_children t)(s := dict_set k v (r_children t s)), r_parent := (r_parent t)(v := s)\<rparr>"
  have set_new: "dict_set k v xs = xs @ [(k, v)]" if "k \<notin> fst ` set xs" for k v and xs :: "(string, nat) dict"
    using that by (induction xs) auto
  have loop: "r_children (foldl ?step u xs) = (r_children u)(s := r_children u s @ xs) \<and>
      (\<forall>v. r_parent (foldl ?step u xs) v = (if v \<in> snd ` set xs then s else r_parent u v))"
    if "distinct (map fst (r_children u s @ xs))" for u :: node_tree and xs
    using that
  proof (induction xs arbitrary: u)
    case (Cons x xs)
    obtain k v where x: "x = (k, v)" by (cases x)
    have new: "dict_set k v (r_children u s) = r_children u s @ [(k, v)]" using Cons.prems by (intro set_new) (auto simp: x)
    let ?u = "?step u x"
    have "distinct (map fst (r_children ?u s @ xs))" using Cons.prems by (simp add: x new)
    from Cons.IH [OF this] show ?case by (auto simp: x new fun_upd_def)
  qed (auto simp: fun_upd_idem)
  let ?t0 = "t\<lparr>r_children := (r_children t)(s := [])\<rparr>"
  have "distinct (map fst (r_children ?t0 s @ r_children t d))" using assms(2) by (simp add: dict_ok_def)
  note l = loop [OF this]
  have d: "r_children ?t0 d = r_children t d" using assms(1) by simp
  show ?thesis unfolding move_children_def Let_def d using l assms(1) by simp
qed

theorem relocation_moves_children_witness:
  "r_children (move_children 1 2 \<lparr>r_children = (\<lambda>n. if n = 1 then [(''src'', 3)] else []), r_parent = (\<lambda>_. 1)\<rparr>) 2 = [(''src'', 3)]"
  using relocation_moves_children [of 1 2 "\<lparr>r_children = (\<lambda>n. if n = 1 then [(''src'', 3)] else []), r_parent = (\<lambda>_. 1)\<rparr>"]
  by (simp add: dict_ok_def)

end
