(* ===== verification/Ns3waf_Config.thy ===== *)
theory Ns3waf_Config
  imports Wutils
begin

text \<open>
  The configuration half of \<open>src/ns3waf/__init__.py\<close>: the command line options, the checks that are made once,
  and the search for the ns-3 modules with \<open>pkg-config\<close>.

  The environment of waf is a dictionary of values in which a missing key reads as the empty
  list.  What the build tool and the machine answer (the compiler, \<open>pkg-config\<close>, the files that match a
  pattern) is the record \<open>conf_world\<close>; \<open>wenv_append\<close> is waf's \<open>append_value\<close>.
\<close>

section \<open>The environment\<close>

datatype evalue = EBool bool | EStr string | EList "string list"

type_synonym wenv = "(string, evalue) dict"

definition eget :: "wenv \<Rightarrow> string \<Rightarrow> evalue" where
  "eget env k = (case dict_get env k of Some v \<Rightarrow> v | None \<Rightarrow> EList [])"

fun truth :: "evalue \<Rightarrow> bool" where
  "truth (EBool b) = b"
| "truth (EStr s) = (s \<noteq> [])"
| "truth (EList xs) = (xs \<noteq> [])"

text \<open>\<open>str(v)\<close>; the items of a loop over \<open>v\<close>; \<open>v + xs\<close> for a list \<open>xs\<close>.\<close>

fun etext :: "evalue \<Rightarrow> string" where
  "etext (EBool b) = (if b then ''True'' else ''False'')"
| "etext (EStr s) = s"
| "etext (EList xs) = repr_str_list xs"

fun eitems :: "evalue \<Rightarrow> string list result" where
  "eitems (EBool b) = Inl TypeError"
| "eitems (EStr s) = Inr (map (\<lambda>c. [c]) s)"
| "eitems (EList xs) = Inr xs"

fun eplus :: "evalue \<Rightarrow> string list \<Rightarrow> string list result" where
  "eplus (EList xs) ys = Inr (xs @ ys)"
| "eplus _ ys = Inl TypeError"

fun ehas :: "evalue \<Rightarrow> string \<Rightarrow> bool result" where
  "ehas (EBool b) x = Inl TypeError"
| "ehas (EStr s) x = Inr (contains s x)"
| "ehas (EList xs) x = Inr (x \<in> set xs)"

definition wenv_append :: "string \<Rightarrow> string \<Rightarrow> wenv \<Rightarrow> wenv" where
  "wenv_append k x env =
     dict_set k (EList ((case eget env k of EList xs \<Rightarrow> xs | v \<Rightarrow> [etext v]) @ [x])) env"

section \<open>Options\<close>

text \<open>A flag, the option it sets, and the value it stores; the default is the opposite.\<close>

definition option_table :: "(string \<times> string \<times> bool) list" where
  "option_table =
     [(''--enable-static'', ''enable_static'', True), (''--disable-log'', ''enable_log'', False),
      (''--disable-assert'', ''enable_assert'', False), (''--enable-gcov'', ''enable_gcov'', True),
      (''--disable-examples'', ''enable_examples'', False), (''--disable-tests'', ''enable_tests'', False),
      (''--disable-debug'', ''enable_debug'', False)]"

definition ns3_options :: "string list \<Rightarrow> (string, bool) dict" where
  "ns3_options flags =
     foldl (\<lambda>d f. (case dict_get option_table f of Some (dest, v) \<Rightarrow> dict_set dest v d | None \<Rightarrow> d))
       (map (\<lambda>(f, dest, v). (dest, \<not> v)) option_table) flags"

record waf_options =
  o_opt :: bool
  o_static :: bool
  o_log :: bool
  o_assert :: bool
  o_gcov :: bool
  o_examples :: bool
  o_tests :: bool
  o_debug :: bool

section \<open>Surroundings and state\<close>

datatype pkg_answer = Pkg_found wenv | Pkg_missing

record pkg_request =
  pr_package :: string
  pr_args :: string
  pr_store :: string
  pr_path :: string

record conf_world =
  q_options :: waf_options
  q_platform :: string
  q_machine :: string
  q_flag_ok :: "string \<Rightarrow> string \<Rightarrow> bool"
  q_libstdcxx :: "string \<Rightarrow> string"
  q_pkg_config_path :: "string option"
  q_pkgconfig_runs :: bool
  q_glob :: "string \<Rightarrow> string list"
  q_check_cfg :: "pkg_request \<Rightarrow> pkg_answer"

text \<open>\<open>q_flag_ok c f\<close> says whether a program compiles with the flag \<open>f\<close> given to the compiler \<open>c\<close>.  An answer of
  \<open>pkg-config\<close> carries the variables that waf then stores.\<close>

record feature =
  ft_name :: string
  ft_caption :: string
  ft_enabled :: bool
  ft_reason :: string

record conf_state =
  c_env :: wenv
  c_features :: "feature list"
  c_log :: "string list"

definition upd_env :: "(wenv \<Rightarrow> wenv) \<Rightarrow> conf_state \<Rightarrow> conf_state" where
  "upd_env f st = st\<lparr>c_env := f (c_env st)\<rparr>"

definition report_optional_feature :: "string \<Rightarrow> string \<Rightarrow> bool \<Rightarrow> string \<Rightarrow> conf_state \<Rightarrow> conf_state" where
  "report_optional_feature name caption was_enabled reason st =
     st\<lparr>c_features := c_features st @ [\<lparr>ft_name = name, ft_caption = caption, ft_enabled = was_enabled, ft_reason = reason\<rparr>]\<rparr>"

text \<open>The compilers are swapped: the mode \<open>cxx\<close>, which is the default, asks the C compiler.\<close>

definition check_compilation_flag :: "conf_world \<Rightarrow> string \<Rightarrow> string \<Rightarrow> bool" where
  "check_compilation_flag q flag mode = q_flag_ok q (if mode = ''cxx'' then ''cc'' else ''cxx'') flag"

definition pad_right :: "nat \<Rightarrow> string \<Rightarrow> string" where
  "pad_right n s = s @ replicate (n - length s) (CHR '' '')"

definition print_optional_features :: "conf_state \<Rightarrow> string list" where
  "print_optional_features st =
     ''---- Summary of optional NS-3 features:'' #
     map (\<lambda>f. pad_right 30 (ft_caption f) @ '': '' @
       (if ft_enabled f then ''enabled'' else ''not enabled ('' @ ft_reason f @ '')'')) (c_features st)"

section \<open>Static builds and the linker\<close>

definition is_gcc :: "string list \<Rightarrow> wenv \<Rightarrow> bool" where
  "is_gcc names env = (case eget env ''CXX_NAME'' of EStr s \<Rightarrow> s \<in> set names | _ \<Rightarrow> False)"

definition is_i386 :: "string \<Rightarrow> bool" where
  "is_i386 m = list_ex (\<lambda>c. startswith m ([CHR ''i'', c] @ ''86'')) ''3456''"

definition enable_static :: "conf_state \<Rightarrow> conf_state" where
  "enable_static st =
     upd_env (dict_set ''NS3_ENABLE_STATIC'' (EBool True)) (report_optional_feature ''static'' ''Static build'' True [] st)"

definition no_static :: "string \<Rightarrow> conf_state \<Rightarrow> conf_state" where
  "no_static = report_optional_feature ''static'' ''Static build'' False"

definition no_mcmodel :: string where
  "no_mcmodel = ''Can'' @ [CHR 0x27] @ ''t enable static builds because no -mcmodel=large compiler option. Try --disable-python or upgrade your compiler to at least gcc 4.3.x.''"

definition choose_static :: "conf_world \<Rightarrow> conf_state \<Rightarrow> conf_state" where
  "choose_static q st =
     (if \<not> o_static (q_options q) then no_static ''option --enable-static not selected'' st
      else if startswith (q_platform q) ''linux'' \<and> is_gcc [''gcc'', ''icc''] (c_env st) then
        if is_i386 (q_machine q) then enable_static st
        else if q_machine q = ''x86_64'' then
          if truth (eget (c_env st) ''NS3_ENABLE_PYTHON_BINDINGS'') \<and> \<not> check_compilation_flag q ''-mcmodel=large'' ''cxx''
          then no_static no_mcmodel st
          else enable_static st
        else st
      else if is_gcc [''gcc''] (c_env st) \<and> (startswith (q_platform q) ''darwin'' \<or> startswith (q_platform q) ''cygwin'')
      then enable_static st
      else no_static ''Unsupported platform'' st)"

definition check_static :: "conf_world \<Rightarrow> conf_state \<Rightarrow> conf_state" where
  "check_static q st =
     (let st = upd_env (\<lambda>env. dict_set ''LIB_SUFFIX'' (EStr (if o_opt (q_options q) then ''optimized'' else ''debug''))
                 (dict_set ''NS3_ENABLE_STATIC'' (EBool False) env)) st;
          st = choose_static q st
      in if \<not> truth (eget (c_env st) ''NS3_ENABLE_STATIC'') then st
         else if q_platform q = ''darwin''
         then upd_env (dict_set ''STLIB_MARKER'' (EStr ''-Wl,-all_load'')) st
         else upd_env (\<lambda>env. dict_set ''SHLIB_MARKER'' (EStr ''-Wl,-Bdynamic,--no-whole-archive'')
                (dict_set ''STLIB_MARKER'' (EStr ''-Wl,--whole-archive,-Bstatic'') env)) st)"

definition unpack_one :: "evalue \<Rightarrow> string result" where
  "unpack_one v = bind_result (eitems v) (\<lambda>xs. case xs of [x] \<Rightarrow> Inr x | _ \<Rightarrow> Inl ValueError)"

definition check_win32 :: "conf_world \<Rightarrow> conf_state \<Rightarrow> conf_state result" where
  "check_win32 q st =
     (if \<not> is_gcc [''gcc'', ''icc''] (c_env st) then Inr st
      else
        let st = (if q_platform q = ''win32'' then upd_env (wenv_append ''LINKFLAGS'' ''-Wl,--enable-runtime-pseudo-reloc'') st
                  else if q_platform q = ''cygwin'' then upd_env (wenv_append ''LINKFLAGS'' ''-Wl,--enable-auto-import'') st
                  else st)
        in bind_result (unpack_one (eget (c_env st) ''CXX'')) (\<lambda>cxx.
             let location = dirname (strip (q_libstdcxx q cxx));
                 st = (if location \<noteq> [] then upd_env (wenv_append ''NS3_MODULE_PATH'' location) st else st)
             in Inr (if startswith (q_platform q) ''linux'' \<and> check_compilation_flag q ''-Wl,--soname=foo'' ''cxx''
                     then upd_env (dict_set ''WL_SONAME_SUPPORTED'' (EBool True)) st else st)))"

section \<open>Finding the modules\<close>

definition build_ns3_libname :: "string \<Rightarrow> string \<Rightarrow> string \<Rightarrow> string" where
  "build_ns3_libname version module profile = ''lib'' @ version @ ''-'' @ module @ ''-'' @ profile"

text \<open>\<open>re.search("(ns[0-9][\.\-][dev0-9\.]+)", s)\<close>.\<close>

definition version_char :: "char \<Rightarrow> bool" where
  "version_char c \<longleftrightarrow> is_digit c \<or> c \<in> set ''dev.''"

definition version_at :: "string \<Rightarrow> string option" where
  "version_at s =
     (let v = takeWhile version_char (drop 4 s)
      in if startswith s ''ns'' \<and> 3 < length s \<and> is_digit (s ! 2) \<and> s ! 3 \<in> {CHR ''.'', CHR ''-''} \<and> v \<noteq> []
         then Some (take 4 s @ v) else None)"

fun search_version :: "string \<Rightarrow> string option" where
  "search_version [] = None"
| "search_version (c # cs) = (case version_at (c # cs) of Some v \<Rightarrow> Some v | None \<Rightarrow> search_version cs)"

text \<open>The version of ns-3, from the name of the package file of its core; \<open>None\<close> when the search gives up with a message.
  The second component is the name of the file, known only when it has just been looked up.\<close>

definition log_error :: "string \<Rightarrow> conf_state \<Rightarrow> conf_state" where
  "log_error s st = st\<lparr>c_log := c_log st @ [s]\<rparr>"

definition pkgconfig_dir :: "conf_state \<Rightarrow> string result" where
  "pkgconfig_dir st = (case eget (c_env st) ''NS3_DIR'' of EStr d \<Rightarrow> Inr (d @ ''/lib/pkgconfig'') | _ \<Rightarrow> Inl TypeError)"

definition find_version :: "conf_world \<Rightarrow> string \<Rightarrow> conf_state \<Rightarrow> (conf_state \<times> bool \<times> string option) result" where
  "find_version q pc_dir st =
     (if dict_has (c_env st) ''NS3_VERSION'' then Inr (st, True, None)
      else
        let libcore = build_ns3_libname ''*'' ''core'' (etext (eget (c_env st) ''LIB_SUFFIX''))
        in case q_glob q (pc_dir @ ''/'' @ libcore @ ''.pc'') of
             [] \<Rightarrow> Inr (log_error (''Could not find '' @ libcore) st, False, None)
           | [pc] \<Rightarrow> (case search_version (basename pc) of
                 None \<Rightarrow> Inl AttributeError
               | Some v \<Rightarrow> Inr (upd_env (dict_set ''NS3_VERSION'' (EStr v)) st, True, Some (basename pc)))
           | _ \<Rightarrow> Inl AttributeError)"

definition module_request :: "conf_world \<Rightarrow> string \<Rightarrow> conf_state \<Rightarrow> string \<Rightarrow> pkg_request result" where
  "module_request q pc_dir st module =
     (case q_pkg_config_path q of
        None \<Rightarrow> Inl TypeError
      | Some p \<Rightarrow> Inr \<lparr>
          pr_package = build_ns3_libname (etext (eget (c_env st) ''NS3_VERSION'')) (lower module)
            (etext (eget (c_env st) ''LIB_SUFFIX'')),
          pr_args = ''--cflags --libs'' @ (if truth (eget (c_env st) ''NS3_ENABLE_STATIC'') then '' --static'' else []),
          pr_store = ''NS3_'' @ upper module, pr_path = p @ '':'' @ pc_dir\<rparr>)"

text \<open>For a static build the libraries of the module are also listed in \<open>STLIB_ST_NS3_X\<close>.\<close>

definition static_libraries :: "string option \<Rightarrow> string \<Rightarrow> conf_state \<Rightarrow> conf_state result" where
  "static_libraries match_pkg module st =
     (if \<not> truth (eget (c_env st) ''NS3_ENABLE_STATIC'') then Inr st
      else case match_pkg of
        None \<Rightarrow> Inl UnboundLocalError
      | Some pkg \<Rightarrow>
          let libname = ''STLIB_ST_NS3_'' @ upper module;
              st = upd_env (dict_set libname (EStr (''-l'' @ replace_str ''libns3'' ''ns3'' pkg))) st
          in map_result (\<lambda>libs. foldl (\<lambda>st lib. if contains lib ''ns3'' then upd_env (wenv_append libname (''-l'' @ lib)) st else st) st libs)
               (eitems (eget (c_env st) (''LIB_NS3_'' @ upper module))))"

fun find_modules :: "conf_world \<Rightarrow> string \<Rightarrow> string option \<Rightarrow> bool \<Rightarrow> string list \<Rightarrow> conf_state \<Rightarrow> string list \<Rightarrow>
    (conf_state \<times> string list) result" where
  "find_modules q pc_dir match_pkg mandatory [] st found = Inr (st, found)"
| "find_modules q pc_dir match_pkg mandatory (module # modules) st found =
     bind_result (ehas (eget (c_env st) ''NS3_MODULES_FOUND'') module) (\<lambda>known.
       if known then find_modules q pc_dir match_pkg mandatory modules st found
       else bind_result (module_request q pc_dir st module) (\<lambda>request.
         case q_check_cfg q request of
           Pkg_missing \<Rightarrow> if mandatory then Inl (WafError ''The configuration failed'')
             else find_modules q pc_dir match_pkg mandatory modules st found
         | Pkg_found vars \<Rightarrow>
             bind_result (static_libraries match_pkg module (upd_env (\<lambda>env. dict_update env vars) st)) (\<lambda>st.
               find_modules q pc_dir match_pkg mandatory modules st (found @ [module]))))"

definition check_dependencies :: "conf_world \<Rightarrow> string list \<Rightarrow> bool \<Rightarrow> conf_state \<Rightarrow> conf_state result" where
  "check_dependencies q required mandatory st =
     bind_result (pkgconfig_dir st) (\<lambda>pc_dir.
     bind_result (find_version q pc_dir st) (\<lambda>(st, go_on, match_pkg).
       if \<not> go_on then Inr st
       else bind_result (find_modules q pc_dir match_pkg mandatory required st []) (\<lambda>(st, found).
         map_result (\<lambda>all. upd_env (dict_set ''NS3_MODULES_FOUND'' (EList all)) st)
           (eplus (eget (c_env st) ''NS3_MODULES_FOUND'') found))))"

section \<open>Checks that are made once\<close>

definition append_all :: "(string \<times> string) list \<Rightarrow> conf_state \<Rightarrow> conf_state" where
  "append_all kvs st = foldl (\<lambda>st (k, v). upd_env (wenv_append k v) st) st kvs"

text \<open>One feature of the summary, with the variables it sets.\<close>

definition log_feature :: "bool \<Rightarrow> conf_state \<Rightarrow> conf_state" where
  "log_feature on st =
     (if on then append_all [(''DEFINES'', ''NS3_LOG_ENABLE'')] (report_optional_feature ''log'' ''Logging'' True [] st)
      else report_optional_feature ''log'' ''Logging'' False ''option --disable-log selected'' st)"

definition assert_feature :: "bool \<Rightarrow> conf_state \<Rightarrow> conf_state" where
  "assert_feature on st =
     (if on then append_all [(''DEFINES'', ''NS3_ASSERT_ENABLE'')] (report_optional_feature ''assert'' ''Assert checks'' True [] st)
      else report_optional_feature ''assert'' ''Assert checks'' False ''option --disable-assert selected'' st)"

definition coverage_feature :: "bool \<Rightarrow> conf_state \<Rightarrow> conf_state" where
  "coverage_feature on st =
     (if on then append_all [(''CFLAGS'', ''-fprofile-arcs''), (''CFLAGS'', ''-ftest-coverage''), (''CXXFLAGS'', ''-fprofile-arcs''),
             (''CXXFLAGS'', ''-ftest-coverage''), (''LINKFLAGS'', ''-fprofile-arcs'')]
             (report_optional_feature ''coverage'' ''Code coverage'' True [] st)
      else report_optional_feature ''coverage'' ''Code coverage'' False ''option --enable-gcov not selected'' st)"

definition switch_feature :: "string \<Rightarrow> string \<Rightarrow> string \<Rightarrow> string \<Rightarrow> bool \<Rightarrow> conf_state \<Rightarrow> conf_state" where
  "switch_feature name caption reason variable on st =
     upd_env (dict_set variable (EBool on)) (report_optional_feature name caption on (if on then [] else reason) st)"

definition add_debug_flag :: "string \<Rightarrow> conf_state \<Rightarrow> conf_state result" where
  "add_debug_flag k st = map_result (\<lambda>fs. upd_env (dict_set k (EList fs)) st) (eplus (eget (c_env st) k) [''-g''])"

definition debug_feature :: "bool \<Rightarrow> conf_state \<Rightarrow> conf_state result" where
  "debug_feature on st =
     (if on then bind_result (add_debug_flag ''CXXFLAGS'' st) (\<lambda>st. bind_result (add_debug_flag ''CFLAGS'' st) (\<lambda>st.
             Inr (report_optional_feature ''debug'' ''Debug Symbols'' True [] st)))
      else Inr (report_optional_feature ''debug'' ''Debug Symbols'' False ''option --disable-debug selected'' st))"

definition check_features :: "waf_options \<Rightarrow> conf_state \<Rightarrow> conf_state result" where
  "check_features opt st =
     debug_feature (o_debug opt)
       (switch_feature ''tests'' ''Test programs'' ''option --disable-tests selected'' ''NS3_ENABLE_TESTS'' (o_tests opt)
       (switch_feature ''examples'' ''Example programs'' ''option --disable-examples selected'' ''NS3_ENABLE_EXAMPLES'' (o_examples opt)
       (coverage_feature (o_gcov opt) (assert_feature (o_assert opt) (log_feature (o_log opt) st)))))"

definition check_once :: "conf_world \<Rightarrow> conf_state \<Rightarrow> conf_state result" where
  "check_once q st =
     (if dict_has (c_env st) ''NS3_CHECK_MODULE_ONCE'' then Inr st
      else if \<not> q_pkgconfig_runs q then Inl (WafError ''The configuration failed'')
      else bind_result (check_win32 q (upd_env (dict_set ''NS3_CHECK_MODULE_ONCE'' (EStr [])) st)) (\<lambda>st.
             check_features (q_options q) (check_static q st)))"

definition check_modules :: "conf_world \<Rightarrow> string list \<Rightarrow> bool \<Rightarrow> conf_state \<Rightarrow> conf_state result" where
  "check_modules q modules mandatory st =
     bind_result (check_once q st) (check_dependencies q modules mandatory)"

section \<open>Lemmas\<close>

named_theorems conf_simps \<open>how the steps of the configuration change the environment and the features\<close>

lemma dict_has_set [conf_simps]: "dict_has (dict_set k v d) k' \<longleftrightarrow> k = k' \<or> dict_has d k'"
  by (auto simp: dict_has_def)

lemma dict_has_append [conf_simps]: "dict_has (wenv_append k v d) k' \<longleftrightarrow> k = k' \<or> dict_has d k'"
  by (simp add: wenv_append_def dict_has_set)

lemma dict_has_update: "dict_has d k \<Longrightarrow> dict_has (dict_update d e) k"
  by (induction e arbitrary: d) (auto simp: conf_simps)

lemma upd_env_simps [conf_simps]:
  "c_env (upd_env f st) = f (c_env st)" "c_features (upd_env f st) = c_features st" "c_log (upd_env f st) = c_log st"
  by (simp_all add: upd_env_def)

lemma report_simps [conf_simps]:
  "c_env (report_optional_feature n c b r st) = c_env st"
  by (simp_all add: report_optional_feature_def)

lemma log_error_simps [conf_simps]:
  "c_env (log_error s st) = c_env st" "c_features (log_error s st) = c_features st"
  by (simp_all add: log_error_def)

lemma eget_set [conf_simps]: "eget (dict_set k v d) k' = (if k = k' then v else eget d k')"
  by (simp add: eget_def)

lemma eget_append [conf_simps]: "k \<noteq> k' \<Longrightarrow> eget (wenv_append k v d) k' = eget d k'"
  by (simp add: wenv_append_def eget_set)

lemma eget_update_other:
  assumes "k \<notin> fst ` set e" shows "eget (dict_update d e) k = eget d k"
  using assms by (induction e arbitrary: d) (auto simp: conf_simps)

text \<open>The loop over the libraries of a static build touches one variable only.\<close>

lemma static_libraries_env:
  assumes "static_libraries p m st = Inr st'"
  shows "c_features st' = c_features st"
    and "dict_has (c_env st) k \<Longrightarrow> dict_has (c_env st') k"
    and "k \<noteq> ''STLIB_ST_NS3_'' @ upper m \<Longrightarrow> eget (c_env st') k = eget (c_env st) k"
proof -
  let ?v = "''STLIB_ST_NS3_'' @ upper m"
  let ?P = "\<lambda>s. c_features s = c_features st \<and> (\<forall>k. dict_has (c_env st) k \<longrightarrow> dict_has (c_env s) k) \<and>
    (\<forall>k. k \<noteq> ?v \<longrightarrow> eget (c_env s) k = eget (c_env st) k)"
  have loop: "?P (foldl (\<lambda>st lib. if contains lib ''ns3'' then upd_env (wenv_append ?v (''-l'' @ lib)) st else st) s libs)"
    if "?P s" for s libs
    using that
  proof (induction libs arbitrary: s)
    case (Cons l libs)
    have "?P (if contains l ''ns3'' then upd_env (wenv_append ?v (''-l'' @ l)) s else s)"
      using Cons.prems by (simp add: conf_simps del: append.simps)
    from Cons.IH [OF this] show ?case by (simp del: append.simps)
  qed simp
  have "?P st'"
  proof (cases "truth (eget (c_env st) ''NS3_ENABLE_STATIC'')")
    case False
    then show ?thesis using assms by (simp add: static_libraries_def)
  next
    case True
    then obtain pkg where p: "p = Some pkg" using assms by (cases p) (auto simp: static_libraries_def)
    let ?s = "upd_env (dict_set ?v (EStr (''-l'' @ replace_str ''libns3'' ''ns3'' pkg))) st"
    have s: "?P ?s" by (simp add: conf_simps)
    from assms True obtain libs where
      "st' = foldl (\<lambda>st lib. if contains lib ''ns3'' then upd_env (wenv_append ?v (''-l'' @ lib)) st else st) ?s libs"
      unfolding static_libraries_def p Let_def by (auto simp del: append.simps)
    with loop [OF s] show ?thesis by simp
  qed
  then show "c_features st' = c_features st" "dict_has (c_env st) k \<Longrightarrow> dict_has (c_env st') k"
    "k \<noteq> ?v \<Longrightarrow> eget (c_env st') k = eget (c_env st) k" by blast+
qed

text \<open>What the build tool stores for a package does not touch the list of the modules.\<close>

definition answers_ok :: "conf_world \<Rightarrow> bool" where
  "answers_ok q \<longleftrightarrow> (\<forall>r vars. q_check_cfg q r = Pkg_found vars \<longrightarrow> ''NS3_MODULES_FOUND'' \<notin> fst ` set vars)"

lemma find_modules_state:
  "find_modules q d p mand ms st found = Inr (st', found') \<Longrightarrow>
   c_features st' = c_features st \<and> (dict_has (c_env st) k \<longrightarrow> dict_has (c_env st') k)"
proof (induction ms arbitrary: st found)
  case (Cons m ms)
  from Cons.prems obtain known where k: "ehas (eget (c_env st) ''NS3_MODULES_FOUND'') m = Inr known" by auto
  show ?case
  proof (cases known)
    case True
    then show ?thesis using Cons.IH Cons.prems k by simp
  next
    case False
    with Cons.prems k obtain r where r: "module_request q d st m = Inr r" by auto
    show ?thesis
    proof (cases "q_check_cfg q r")
      case Pkg_missing
      then show ?thesis using Cons.IH Cons.prems False k r by (auto split: if_splits)
    next
      case (Pkg_found vars)
      with Cons.prems False k r obtain s where s: "static_libraries p m (upd_env (\<lambda>env. dict_update env vars) st) = Inr s"
        "find_modules q d p mand ms s (found @ [m]) = Inr (st', found')" by auto
      from Cons.IH [OF s(2)] static_libraries_env(1,2) [OF s(1)]
      show ?thesis by (auto simp: conf_simps dict_has_update)
    qed
  qed
qed simp

lemma find_modules_found:
  "find_modules q d p mand ms st found = Inr (st', found') \<Longrightarrow> answers_ok q \<Longrightarrow>
   eget (c_env st) ''NS3_MODULES_FOUND'' = EList old \<Longrightarrow>
   eget (c_env st') ''NS3_MODULES_FOUND'' = EList old \<and>
   (\<exists>new. found' = found @ new \<and> set new \<subseteq> set ms - set old \<and> (mand \<longrightarrow> set ms \<subseteq> set old \<union> set new))"
proof (induction ms arbitrary: st found)
  case (Cons m ms)
  then have k: "ehas (eget (c_env st) ''NS3_MODULES_FOUND'') m = Inr (m \<in> set old)" by simp
  show ?case
  proof (cases "m \<in> set old")
    case True
    then show ?thesis using Cons.IH Cons.prems k by auto
  next
    case False
    with Cons.prems(1) k obtain r where r: "module_request q d st m = Inr r" by auto
    show ?thesis
    proof (cases "q_check_cfg q r")
      case Pkg_missing
      with Cons.prems(1) False k r have nm: "\<not> mand" and f: "find_modules q d p mand ms st found = Inr (st', found')"
        by (auto split: if_splits)
      from Cons.IH [OF f Cons.prems(2,3)] obtain new where "found' = found @ new" "set new \<subseteq> set ms - set old"
        "eget (c_env st') ''NS3_MODULES_FOUND'' = EList old" by blast
      with nm show ?thesis by auto
    next
      case (Pkg_found vars)
      with Cons.prems(1) False k r obtain s where s: "static_libraries p m (upd_env (\<lambda>env. dict_update env vars) st) = Inr s"
        "find_modules q d p mand ms s (found @ [m]) = Inr (st', found')" by auto
      have "eget (c_env s) ''NS3_MODULES_FOUND'' = EList old"
        using Cons.prems(2,3) Pkg_found static_libraries_env(3) [OF s(1), of "''NS3_MODULES_FOUND''"]
        by (simp add: conf_simps eget_update_other answers_ok_def)
      from Cons.IH [OF s(2) Cons.prems(2) this] False
      show ?thesis by fastforce
    qed
  qed
qed simp

text \<open>The two compositions, with their intermediate results named.\<close>

lemma check_once_first:
  assumes "\<not> dict_has (c_env st) ''NS3_CHECK_MODULE_ONCE''" "q_pkgconfig_runs q"
    and "check_win32 q (upd_env (dict_set ''NS3_CHECK_MODULE_ONCE'' (EStr [])) st) = Inr st1"
  shows "check_once q st = check_features (q_options q) (check_static q st1)"
  using assms by (simp add: check_once_def)

lemma check_dependencies_found:
  assumes "pkgconfig_dir st = Inr d" "find_version q d st = Inr (st1, True, p)"
    and "find_modules q d p mand required st1 [] = Inr (st2, found)"
    and "eplus (eget (c_env st2) ''NS3_MODULES_FOUND'') found = Inr all"
  shows "check_dependencies q required mand st = Inr (upd_env (dict_set ''NS3_MODULES_FOUND'' (EList all)) st2)"
  using assms by (simp add: check_dependencies_def)

lemma Inr_projr: "\<not> isl m \<Longrightarrow> m = Inr (projr m)"
  by (cases m) auto

text \<open>Nothing removes a variable, so the mark of the first run stays.\<close>

lemma dict_has_append_all: "dict_has (c_env st) k \<Longrightarrow> dict_has (c_env (append_all kvs st)) k"
  by (induction kvs arbitrary: st) (auto simp: append_all_def conf_simps)

lemma dict_has_feature_steps:
  assumes "dict_has (c_env st) k"
  shows "dict_has (c_env (log_feature on st)) k" "dict_has (c_env (assert_feature on st)) k"
    "dict_has (c_env (coverage_feature on st)) k" "dict_has (c_env (switch_feature n c r v on st)) k"
    "debug_feature on st = Inr st' \<Longrightarrow> dict_has (c_env st') k"
proof -
  have r: "dict_has (c_env (report_optional_feature n c b r st)) k" for n c b r using assms by (simp add: conf_simps)
  show "dict_has (c_env (log_feature on st)) k" "dict_has (c_env (assert_feature on st)) k"
    "dict_has (c_env (coverage_feature on st)) k"
    using r by (simp_all add: log_feature_def assert_feature_def coverage_feature_def dict_has_append_all del: append.simps)
  show "dict_has (c_env (switch_feature n c r v on st)) k"
    using assms by (simp add: switch_feature_def conf_simps)
  show "dict_has (c_env st') k" if d: "debug_feature on st = Inr st'"
    using d assms by (auto simp: debug_feature_def add_debug_flag_def conf_simps split: if_splits)
qed

lemma dict_has_check_features:
  assumes "check_features opt st = Inr st'" "dict_has (c_env st) k"
  shows "dict_has (c_env st') k"
  using assms(1) unfolding check_features_def
  by (rule dict_has_feature_steps(5) [rotated]) (intro dict_has_feature_steps(1-4) assms(2))

lemma dict_has_check_static: "dict_has (c_env st) k \<Longrightarrow> dict_has (c_env (check_static q st)) k"
  by (simp add: check_static_def choose_static_def enable_static_def no_static_def conf_simps Let_def)

lemma dict_has_check_win32: "check_win32 q st = Inr st' \<Longrightarrow> dict_has (c_env st) k \<Longrightarrow> dict_has (c_env st') k"
  by (auto simp: check_win32_def Let_def conf_simps split: if_splits)

lemma check_once_marks: "check_once q st = Inr st' \<Longrightarrow> dict_has (c_env st') ''NS3_CHECK_MODULE_ONCE''"
  by (auto simp: check_once_def conf_simps split: if_splits
      elim!: dict_has_check_features [OF _ dict_has_check_static [OF dict_has_check_win32]])

text \<open>What one search adds.\<close>

lemma check_dependencies_modules:
  assumes "check_dependencies q required mandatory st = Inr st'" "answers_ok q"
    and "eget (c_env st) ''NS3_MODULES_FOUND'' = EList old"
  shows "\<exists>new. eget (c_env st') ''NS3_MODULES_FOUND'' = EList (old @ new) \<and> set new \<subseteq> set required - set old \<and>
    (mandatory \<and> dict_has (c_env st') ''NS3_VERSION'' \<longrightarrow> set required \<subseteq> set old \<union> set new)"
proof -
  from assms(1) obtain d st1 go p where v: "find_version q d st = Inr (st1, go, p)"
    and rest: "(if \<not> go then Inr st1
       else bind_result (find_modules q d p mandatory required st1 []) (\<lambda>(st, found).
         map_result (\<lambda>all. upd_env (dict_set ''NS3_MODULES_FOUND'' (EList all)) st)
           (eplus (eget (c_env st) ''NS3_MODULES_FOUND'') found))) = Inr st'"
    unfolding check_dependencies_def by (elim bind_resultE) auto
  have old: "eget (c_env st1) ''NS3_MODULES_FOUND'' = EList old"
    and go: "\<not> go \<Longrightarrow> \<not> dict_has (c_env st1) ''NS3_VERSION''"
    using v assms(3) by (auto simp: find_version_def Let_def conf_simps split: if_splits list.splits option.splits)
  show ?thesis
  proof (cases go)
    case False
    then show ?thesis using rest old go by auto
  next
    case True
    with rest obtain st2 found all where f: "find_modules q d p mandatory required st1 [] = Inr (st2, found)"
      and all: "eplus (eget (c_env st2) ''NS3_MODULES_FOUND'') found = Inr all"
      and st': "st' = upd_env (dict_set ''NS3_MODULES_FOUND'' (EList all)) st2" by auto
    from find_modules_found [OF f assms(2) old] all show ?thesis by (auto simp: st' conf_simps)
  qed
qed

section \<open>Properties\<close>

text \<open>The version of ns-3 is read back from the name of a package file.  When the core has exactly one
  package file and its name was built from a version, the configuration stores that version.\<close>

theorem version_roundtrip:
  assumes "\<not> dict_has (c_env st) ''NS3_VERSION''" "eget (c_env st) ''LIB_SUFFIX'' = EStr profile" "CHR ''/'' \<notin> set profile"
    and "version = ''ns'' @ [d, c] @ v" "is_digit d" "c \<in> {CHR ''.'', CHR ''-''}" "v \<noteq> []" "list_all version_char v"
    and "pc = build_ns3_libname version ''core'' profile @ ''.pc''"
    and "q_glob q (dir @ ''/'' @ build_ns3_libname ''*'' ''core'' profile @ ''.pc'') = [dir @ ''/'' @ pc]"
  shows "find_version q dir st = Inr (upd_env (dict_set ''NS3_VERSION'' (EStr version)) st, True, Some pc)"
proof -
  have slash: "CHR ''/'' \<notin> set v" "CHR ''/'' \<noteq> d" "CHR ''/'' \<noteq> c"
    using assms(5,6,8) by (auto simp: list_all_iff version_char_def is_digit_def)
  have b: "basename (dir @ CHR ''/'' # pc) = pc"
    using slash assms(3) by (intro basename_append_slash) (simp add: assms(4,9) build_ns3_libname_def)
  have t: "takeWhile version_char (v @ CHR ''-'' # r) = v" for r
    using assms(8) by (simp add: takeWhile_append list_all_iff version_char_def is_digit_def)
  have "search_version pc = Some version"
    using assms(5-7) by (simp add: assms(4,9) build_ns3_libname_def version_at_def startswith_def t)
  with b show ?thesis using assms(1,2,10) by (simp add: find_version_def)
qed

definition sample_options :: waf_options where
  "sample_options = \<lparr>o_opt = False, o_static = False, o_log = True, o_assert = True, o_gcov = False, o_examples = True,
     o_tests = True, o_debug = True\<rparr>"

definition conf_sample :: conf_world where
  "conf_sample = \<lparr>q_options = sample_options, q_platform = ''linux'', q_machine = ''x86_64'', q_flag_ok = (\<lambda>_ _. True),
     q_libstdcxx = (\<lambda>_. ''/usr/lib/libstdc++.so''), q_pkg_config_path = Some ''/p'', q_pkgconfig_runs = True,
     q_glob = (\<lambda>p. [''/n/lib/pkgconfig/libns3-dev-core-debug.pc'']),
     q_check_cfg = (\<lambda>r. if pr_store r = ''NS3_LTE'' then Pkg_missing else Pkg_found [(''LIB_'' @ pr_store r, EList [])])\<rparr>"

definition sample_state :: conf_state where
  "sample_state = \<lparr>c_env = [(''CXX_NAME'', EStr ''gcc''), (''CXX'', EList [''g++'']), (''NS3_DIR'', EStr ''/n'')],
     c_features = [], c_log = []\<rparr>"

theorem version_roundtrip_witness:
  "find_version conf_sample ''/n/lib/pkgconfig'' (upd_env (dict_set ''LIB_SUFFIX'' (EStr ''debug'')) sample_state) =
     Inr (upd_env (dict_set ''NS3_VERSION'' (EStr ''ns3-dev'')) (upd_env (dict_set ''LIB_SUFFIX'' (EStr ''debug'')) sample_state),
       True, Some ''libns3-dev-core-debug.pc'')"
  by (rule version_roundtrip [where profile = "''debug''" and d = "CHR ''3''" and c = "CHR ''-''" and v = "''dev''"])
    (simp_all add: conf_sample_def sample_state_def conf_simps build_ns3_libname_def version_char_def is_digit_def dict_has_def dict_get_def eget_def)


definition checked_state :: conf_state where
  "checked_state = upd_env (\<lambda>env. env @ [(''LIB_SUFFIX'', EStr ''debug''), (''NS3_CHECK_MODULE_ONCE'', EStr []),
     (''NS3_VERSION'', EStr ''ns3-dev'')]) sample_state"


text \<open>The general checks run once.  After a first successful call of \<open>check_modules\<close> no later call adds to the
  summary of the optional features.\<close>

theorem checks_run_once:
  assumes "check_modules q modules mandatory st = Inr st1" "check_modules q' modules' mandatory' st1 = Inr st2"
  shows "c_features st2 = c_features st1"
proof -
  have dep: "c_features s' = c_features s \<and> (dict_has (c_env s) k \<longrightarrow> dict_has (c_env s') k)"
    if cd: "check_dependencies q ms mand s = Inr s'" for q ms mand s s' k
  proof -
    from cd obtain d s1 go p where v: "find_version q d s = Inr (s1, go, p)"
      and rest: "(if \<not> go then Inr s1
         else bind_result (find_modules q d p mand ms s1 []) (\<lambda>(st, found).
           map_result (\<lambda>all. upd_env (dict_set ''NS3_MODULES_FOUND'' (EList all)) st)
             (eplus (eget (c_env st) ''NS3_MODULES_FOUND'') found))) = Inr s'"
      unfolding check_dependencies_def by (elim bind_resultE) auto
    have one: "c_features s1 = c_features s \<and> (dict_has (c_env s) k \<longrightarrow> dict_has (c_env s1) k)"
      using v by (auto simp: find_version_def Let_def conf_simps split: if_splits list.splits option.splits)
    show ?thesis
    proof (cases go)
      case True
      with rest obtain s2 found all where "find_modules q d p mand ms s1 [] = Inr (s2, found)"
        and "s' = upd_env (dict_set ''NS3_MODULES_FOUND'' (EList all)) s2" by auto
      with find_modules_state [of q d p mand ms s1 "[]" s2 found k] one show ?thesis by (auto simp: conf_simps)
    qed (use rest one in auto)
  qed
  from assms(1) obtain s where s: "check_once q st = Inr s" "check_dependencies q modules mandatory s = Inr st1"
    unfolding check_modules_def by (elim bind_resultE)
  have "dict_has (c_env s) ''NS3_CHECK_MODULE_ONCE''" using check_once_marks [OF s(1)] .
  with dep [OF s(2)] have "dict_has (c_env st1) ''NS3_CHECK_MODULE_ONCE''" by blast
  then have "check_once q' st1 = Inr st1" by (simp add: check_once_def)
  with assms(2) have "check_dependencies q' modules' mandatory' st1 = Inr st2" by (simp add: check_modules_def)
  from dep [OF this] show ?thesis by blast
qed

theorem checks_run_once_witness:
  "\<exists>st1 st2. check_modules conf_sample [] True sample_state = Inr st1 \<and>
     check_modules conf_sample [] False st1 = Inr st2 \<and> length (c_features st1) = 7 \<and> c_features st2 = c_features st1"
proof -
  let ?s = "upd_env (dict_set ''NS3_CHECK_MODULE_ONCE'' (EStr [])) sample_state"
  let ?d = "''/n/lib/pkgconfig''"
  let ?w = "projr (check_win32 conf_sample ?s)"
  let ?f = "check_features sample_options (check_static conf_sample ?w)"
  let ?v = "find_version conf_sample ?d (projr ?f)"
  have w: "\<not> dict_has (c_env sample_state) ''NS3_CHECK_MODULE_ONCE''" "q_pkgconfig_runs conf_sample"
    "\<not> isl (check_win32 conf_sample ?s)" by code_simp+
  have f: "\<not> isl ?f" "pkgconfig_dir (projr ?f) = Inr ?d" "\<not> isl ?v" "fst (snd (projr ?v))" by code_simp+
  have g: "length (c_features (fst (projr ?v))) = 7" "pkgconfig_dir (fst (projr ?v)) = Inr ?d"
    "dict_has (c_env (fst (projr ?v))) ''NS3_CHECK_MODULE_ONCE''" "dict_has (c_env (fst (projr ?v))) ''NS3_VERSION''"
    "eget (c_env (fst (projr ?v))) ''NS3_MODULES_FOUND'' = EList []" by code_simp+
  have once: "check_once conf_sample sample_state = Inr (projr ?f)"
    using check_once_first [OF w(1,2) Inr_projr [OF w(3)]] Inr_projr [OF f(1)] by (simp add: conf_sample_def)
  obtain u p where v: "?v = Inr (u, True, p)" "fst (projr ?v) = u"
    using Inr_projr [OF f(3)] f(4) by (cases "projr ?v") (auto simp only: fst_conv snd_conv)
  note g = g [unfolded v(2)]
  define s1 where "s1 = upd_env (dict_set ''NS3_MODULES_FOUND'' (EList [])) u"
  have first: "check_modules conf_sample [] True sample_state = Inr s1"
    unfolding check_modules_def once bind_result_simps s1_def
    by (rule check_dependencies_found [OF f(2) v(1)]) (simp_all add: g)
  have again: "check_once conf_sample s1 = Inr s1" "find_version conf_sample ?d s1 = Inr (s1, True, None)"
    "pkgconfig_dir s1 = Inr ?d" "eget (c_env s1) ''NS3_MODULES_FOUND'' = EList []" "length (c_features s1) = 7"
    using g by (simp_all add: s1_def check_once_def find_version_def pkgconfig_dir_def conf_simps)
  have second: "check_modules conf_sample [] False s1 = Inr (upd_env (dict_set ''NS3_MODULES_FOUND'' (EList [])) s1)"
    unfolding check_modules_def again(1) bind_result_simps
    by (rule check_dependencies_found [OF again(3,2)]) (simp_all add: again(4))
  from checks_run_once [OF first second] first second again(5) show ?thesis by blast
qed

end
