(* ===== verification/Ns3waf_Build.thy ===== *)
theory Ns3waf_Build
  imports Ns3waf_Config
begin

text \<open>
  The build half of \<open>src/ns3waf/__init__.py\<close>: what a module declares to waf.  A call of the build context is
  recorded as a task generator with its keyword arguments; calls that only install files are recorded too.  The two
  rules that are Python functions, which copy headers and write the \<open>pkg-config\<close> file, are modelled by what they
  do to the file system.

  The state is \<open>build_state\<close>; what the tool answers (its directories, the features it derives from
  the names of the sources) is \<open>build_world\<close>.  No caller passes positional arguments.
\<close>

section \<open>State\<close>

datatype kval = KStr string | KList "string list" | KBool bool | KNone | KRule string

type_synonym kwargs = "(string, kval) dict"

record gen =
  g_group :: string
  g_objects :: bool
  g_kw :: kwargs
  g_ns3_program :: bool

record build_state =
  b_env :: wenv
  b_group :: string
  b_gens :: "gen list"
  b_installs :: "(string \<times> string list) list"
  b_log :: "string list"

record build_world =
  z_cwd :: string
  z_out_dir :: string
  z_path :: string
  z_machine :: string
  z_sniff :: "kval \<Rightarrow> string \<Rightarrow> kval result"

definition set_group :: "string \<Rightarrow> build_state \<Rightarrow> build_state" where
  "set_group g st = st\<lparr>b_group := g\<rparr>"

definition add_gen :: "bool \<Rightarrow> kwargs \<Rightarrow> build_state \<Rightarrow> build_state" where
  "add_gen objects kw st = st\<lparr>b_gens := b_gens st @ [\<lparr>g_group = b_group st, g_objects = objects, g_kw = kw, g_ns3_program = False\<rparr>]\<rparr>"

definition install_files :: "string \<Rightarrow> string list \<Rightarrow> build_state \<Rightarrow> build_state" where
  "install_files dest files st = st\<lparr>b_installs := b_installs st @ [(dest, files)]\<rparr>"

definition say :: "string \<Rightarrow> build_state \<Rightarrow> build_state" where
  "say s st = st\<lparr>b_log := b_log st @ [s]\<rparr>"

text \<open>\<open>kw.get(k, []) + xs\<close>, and the same stored back under \<open>k\<close>.\<close>

definition kplus :: "kwargs \<Rightarrow> string \<Rightarrow> string list \<Rightarrow> string list result" where
  "kplus kw k xs = (case dict_get kw k of None \<Rightarrow> Inr xs | Some (KList ys) \<Rightarrow> Inr (ys @ xs) | _ \<Rightarrow> Inl TypeError)"

definition kextend :: "string \<Rightarrow> string list \<Rightarrow> kwargs \<Rightarrow> kwargs result" where
  "kextend k xs kw = map_result (\<lambda>ys. dict_set k (KList ys) kw) (kplus kw k xs)"

fun kitems :: "kval \<Rightarrow> string list result" where
  "kitems (KList xs) = Inr xs"
| "kitems (KStr s) = Inr (map (\<lambda>c. [c]) s)"
| "kitems _ = Inl TypeError"

section \<open>Modules\<close>

definition modules_uselib :: "string list \<Rightarrow> string list" where
  "modules_uselib names =
     map (\<lambda>n. ''NS3_'' @ upper n) names @ map (\<lambda>n. ''NS3_LIBRARY_'' @ upper n) names @
     map (\<lambda>n. ''NS3_HEADERS_'' @ upper n) names"

fun modules_found :: "wenv \<Rightarrow> string list \<Rightarrow> bool result" where
  "modules_found env [] = Inr True"
| "modules_found env (m # ms) =
     bind_result (ehas (eget env ''NS3_MODULES_FOUND'') m) (\<lambda>b. if b then modules_found env ms else Inr False)"

definition eformat :: "evalue \<Rightarrow> string \<Rightarrow> string result" where
  "eformat v s = (case v of EStr t \<Rightarrow> format_one s t False | _ \<Rightarrow> Inl TypeError)"

definition c_libname :: "wenv \<Rightarrow> string \<Rightarrow> string result" where
  "c_libname env name =
     eformat (eget env (if truth (eget env ''NS3_ENABLE_STATIC'') then ''cstlib_PATTERN'' else ''cshlib_PATTERN'')) (''ns3-'' @ name)"

section \<open>Libraries\<close>

text \<open>The directories of the sources, each once, in the order of their first occurrence.\<close>

definition uniq :: "string list \<Rightarrow> string list" where
  "uniq xs = map fst (foldl (\<lambda>d i. dict_set i True d) [] xs)"

definition dirs_of :: "kval \<Rightarrow> string list result" where
  "dirs_of source = map_result (\<lambda>xs. uniq (map dirname xs)) (kitems source)"

definition out_relpath :: "build_world \<Rightarrow> string result" where
  "out_relpath z = relpath (z_cwd z) (z_out_dir z) (z_out_dir z @ ''/'' @ z_path z)"

text \<open>The flags for the linker, and those for both compilers.\<close>

definition library_flags :: "build_world \<Rightarrow> wenv \<Rightarrow> string \<Rightarrow> (string list \<times> string list) result" where
  "library_flags z env name =
     (if truth (eget env ''NS3_ENABLE_STATIC'') then Inr ([], [])
      else if is_gcc [''gcc'', ''icc''] env \<and> truth (eget env ''WL_SONAME_SUPPORTED'')
      then map_result (\<lambda>lib. ([''-Wl,--soname='' @ lib], [])) (c_libname env name)
      else if is_gcc [''gcc'', ''icc''] env \<and> z_machine z = ''x86_64'' \<and> truth (eget env ''NS3_ENABLE_PYTHON_BINDINGS'')
      then Inr ([], [''-mcmodel=large''])
      else Inr ([], []))"

definition library_kwargs :: "string list \<Rightarrow> string list \<Rightarrow> string list \<Rightarrow> kwargs \<Rightarrow> kwargs result" where
  "library_kwargs linkflags cflags includes kw =
     bind_result (kextend ''cxxflags'' cflags kw) (\<lambda>kw.
     bind_result (kextend ''cflags'' cflags kw) (\<lambda>kw.
     bind_result (kextend ''linkflags'' linkflags kw) (\<lambda>kw.
     bind_result (kextend ''ccdefines'' [''NS3_MODULE_COMPILATION''] kw) (\<lambda>kw.
     bind_result (kextend ''cxxdefines'' [''NS3_MODULE_COMPILATION''] kw)
       (kextend ''includes'' includes)))))"

definition build_library :: "build_world \<Rightarrow> string \<Rightarrow> kwargs \<Rightarrow> build_state \<Rightarrow> build_state result" where
  "build_library z name kw st =
     (let st = set_group ''ns3modulebuild'' (say (''Building library '' @ name) st)
      in case dict_get kw ''source'' of
           None \<Rightarrow> Inr (say ''no source !'' st)
         | Some KNone \<Rightarrow> Inr (say ''no source !'' st)
         | Some source \<Rightarrow>
             bind_result (dirs_of source) (\<lambda>includes.
             bind_result (out_relpath z) (\<lambda>out.
             bind_result (library_flags z (b_env st) name) (\<lambda>(linkflags, cflags).
             bind_result (z_sniff z source (if truth (eget (b_env st) ''NS3_ENABLE_STATIC'') then ''stlib'' else ''shlib'')) (\<lambda>features.
               let target = path_joins out [''lib'', ''ns3-'' @ name]
               in map_result (\<lambda>kw.
                    add_gen False [(''name'', KStr (''NS3_LIBRARY_'' @ upper name)), (''use'', KList [target])] (add_gen False kw st))
                    (library_kwargs linkflags cflags includes (dict_set ''target'' (KStr target) (dict_set ''features'' features kw))))))))"

section \<open>Headers\<close>

text \<open>The rule: the headers are copied beside the aggregate header, which includes them.  The guard is never defined.\<close>

definition module_guard :: "string \<Rightarrow> string" where
  "module_guard name =
     (let pad = replicate 12 (CHR '' '')
      in nl @ pad @ ''#ifdef NS3_MODULE_COMPILATION'' @ nl @ pad @ ''# error '' @ dquote @
         ''Do not include ns3 module aggregator headers from other modules; these are meant only for end user scripts.'' @ dquote @ nl @
         pad @ ''#endif'' @ nl @ pad @ ''#ifndef NS3_MODULE_'' @ replace_str ''-'' ''_'' (upper name) @ nl @ pad)"

definition aggregate_text :: "string \<Rightarrow> string list \<Rightarrow> string" where
  "aggregate_text name headers =
     module_guard name @ nl @ nl @ ''// Module headers:'' @ nl @
     concat (map (\<lambda>h. ''#include '' @ dquote @ basename h @ dquote @ nl) headers) @ ''#endif'' @ nl"

definition copy_file :: "string \<Rightarrow> string \<Rightarrow> fs \<Rightarrow> fs result" where
  "copy_file src dst fs =
     (if src = dst then Inl (PlainException ''SameFileError'') else bind_result (read_file fs src) (\<lambda>s. write_text dst s fs))"

definition headers_run :: "string \<Rightarrow> string \<Rightarrow> string list \<Rightarrow> fs \<Rightarrow> fs result" where
  "headers_run name output inputs fs =
     bind_result (foldM_result (\<lambda>fs h. copy_file h (path_join (dirname output) (basename h)) fs) fs inputs)
       (write_text output (aggregate_text name inputs))"

definition build_headers :: "build_world \<Rightarrow> string \<Rightarrow> kval option \<Rightarrow> build_state \<Rightarrow> build_state result" where
  "build_headers z name headers st =
     (let st = set_group ''ns3moduleheader'' st
      in case headers of
           None \<Rightarrow> Inr st
         | Some KNone \<Rightarrow> Inr st
         | Some hs \<Rightarrow>
             bind_result (out_relpath z) (\<lambda>out.
               let target = path_joins out [''include'', ''ns3'', name @ ''-module.h'']
               in case hs of
                    KList xs \<Rightarrow> Inr (install_files ''${PREFIX}/include/ns3'' (xs @ [target])
                      (add_gen False [(''use'', KList [target]), (''target'', KStr (''NS3_HEADERS_'' @ upper name)),
                         (''export_includes'', KList [''include''])]
                      (add_gen False [(''rule'', KRule ''headers''), (''source'', hs), (''target'', KStr target)] st)))
                  | _ \<Rightarrow> Inl TypeError))"

section \<open>The package file\<close>

definition format_items :: "wenv \<Rightarrow> string \<Rightarrow> string \<Rightarrow> string list result" where
  "format_items env pattern k = bind_result (eitems (eget env k)) (mapM_result (eformat (eget env pattern)))"

definition lib_flags :: "wenv \<Rightarrow> string \<Rightarrow> string list result" where
  "lib_flags env dep =
     bind_result (format_items env ''LIBPATH_ST'' (''LIBPATH_'' @ upper dep)) (\<lambda>paths.
     bind_result (case eget env (''LINKFLAGS_'' @ upper dep) of EList xs \<Rightarrow> Inr (paths @ xs) | _ \<Rightarrow> Inl TypeError) (\<lambda>fs.
       map_result (\<lambda>libs. fs @ libs) (format_items env ''LIB_ST'' (''LIB_'' @ upper dep))))"

text \<open>The marker is taken as it is; what is not a string cannot be joined.\<close>

definition self_lib :: "wenv \<Rightarrow> string \<Rightarrow> string \<Rightarrow> evalue list result" where
  "self_lib env name libdir =
     (let (path_st, lib_st, marker) =
            (if truth (eget env ''NS3_ENABLE_STATIC'') then (''STLIBPATH_ST'', ''STLIB_ST'', ''STLIB_MARKER'')
             else (''LIBPATH_ST'', ''LIB_ST'', ''SHLIB_MARKER''))
      in bind_result (eformat (eget env path_st) libdir) (\<lambda>p.
           map_result (\<lambda>l. [EStr p, eget env marker, EStr l]) (eformat (eget env lib_st) (''ns3-'' @ name))))"

definition estring :: "evalue \<Rightarrow> string result" where
  "estring v = (case v of EStr s \<Rightarrow> Inr s | _ \<Rightarrow> Inl TypeError)"

definition add_env_list :: "wenv \<Rightarrow> string \<Rightarrow> string list \<Rightarrow> string list result" where
  "add_env_list env k xs = (case eget env k of EList ys \<Rightarrow> Inr (xs @ ys) | _ \<Rightarrow> Inl TypeError)"

definition dep_cflags :: "wenv \<Rightarrow> string list \<Rightarrow> string \<Rightarrow> string list result" where
  "dep_cflags env xs dep =
     bind_result (add_env_list env (''CFLAGS_'' @ dep) xs) (\<lambda>xs.
     bind_result (add_env_list env (''CXXFLAGS_'' @ dep) xs) (\<lambda>xs.
     bind_result (format_items env ''DEFINES_ST'' (''DEFINES_'' @ dep)) (\<lambda>ds.
       map_result (\<lambda>is. xs @ ds @ is) (format_items env ''CPPPATH_ST'' (''INCLUDES_'' @ dep)))))"

definition pcfile_text :: "wenv \<Rightarrow> string \<Rightarrow> string list \<Rightarrow> string \<Rightarrow> string result" where
  "pcfile_text env name uses install_prefix =
     (let includedir = path_join install_prefix ''include''; libdir = path_join install_prefix ''lib''
      in bind_result (self_lib env name ''${libdir}'') (\<lambda>own.
         bind_result (foldM_result (\<lambda>libs dep. map_result (\<lambda>ls. libs @ map EStr ls) (lib_flags env dep)) own uses) (\<lambda>libs.
         bind_result (eformat (eget env ''CPPPATH_ST'') ''${includedir}'') (\<lambda>inc.
         bind_result (foldM_result (dep_cflags env) [inc] uses) (\<lambda>cflags.
         bind_result (mapM_result estring libs) (\<lambda>libs.
           Inr (nl @ join_str nl [''prefix='' @ install_prefix, ''libdir='' @ libdir, ''includedir='' @ includedir, [],
             ''Name: libns3-'' @ name, ''Description: ns-3 module '' @ name, ''Version: devel'',
             ''Libs: '' @ join_str '' '' libs, ''Cflags: '' @ join_str '' '' cflags] @ nl @ nl)))))))"

text \<open>The file that is opened first is left empty by an exception; the model then has no file system.\<close>

definition generate_pcfile :: "wenv \<Rightarrow> string \<Rightarrow> string list \<Rightarrow> string \<Rightarrow> fs \<Rightarrow> fs result" where
  "generate_pcfile env name uses outfilename fs =
     (if fs outfilename = Some DirNode then Inl IsADirectoryError
      else bind_result (estring (eget env ''PREFIX'')) (\<lambda>p.
           bind_result (pcfile_text env name uses p) (\<lambda>s. write_text outfilename s fs)))"

definition build_pkgconfig :: "string \<Rightarrow> build_state \<Rightarrow> build_state" where
  "build_pkgconfig name st =
     (let st = set_group ''ns3modulebuild'' st;
          target = ''lib/pkgconfig/libns3-dev-'' @ name @ ''-'' @ etext (eget (b_env st) ''LIB_SUFFIX'') @ ''.pc''
      in install_files ''${PREFIX}/lib/pkgconfig'' [target]
           (add_gen False [(''rule'', KRule ''pcfile''), (''target'', KStr target), (''always'', KBool True)] st))"

section \<open>The class Module\<close>

record ns3module =
  m_source_dirs :: "string list"
  m_name :: string
  m_needed_ok :: bool

definition needed_of :: "kwargs \<Rightarrow> string list result" where
  "needed_of kw = (case dict_get kw ''needed'' of None \<Rightarrow> Inr [] | Some v \<Rightarrow> kitems v)"

definition upd_benv :: "(wenv \<Rightarrow> wenv) \<Rightarrow> build_state \<Rightarrow> build_state" where
  "upd_benv f st = st\<lparr>b_env := f (b_env st)\<rparr>"

definition declare_module :: "build_world \<Rightarrow> string \<Rightarrow> string list \<Rightarrow> kwargs \<Rightarrow> build_state \<Rightarrow> build_state result" where
  "declare_module z name needed kw st =
     bind_result (kextend ''use'' (modules_uselib needed) kw) (\<lambda>kw.
     bind_result (build_library z name kw st) (\<lambda>st.
     bind_result (build_headers z name (dict_get kw ''headers'') st) (\<lambda>st.
       let st = build_pkgconfig name st
       in map_result (\<lambda>all. upd_benv (dict_set ''NS3_MODULES_FOUND'' (EList all)) st)
            (eplus (eget (b_env st) ''NS3_MODULES_FOUND'') [name]))))"

definition create_module :: "build_world \<Rightarrow> string \<Rightarrow> kwargs \<Rightarrow> build_state \<Rightarrow> (ns3module \<times> build_state) result" where
  "create_module z name kw st =
     bind_result (dirs_of (case dict_get kw ''source'' of None \<Rightarrow> KNone | Some v \<Rightarrow> v)) (\<lambda>dirs.
     bind_result (needed_of kw) (\<lambda>needed.
     bind_result (modules_found (b_env st) needed) (\<lambda>ok.
       let m = \<lparr>m_source_dirs = dirs, m_name = name, m_needed_ok = ok\<rparr>
       in if ok then map_result (\<lambda>st. (m, st)) (declare_module z name needed kw st) else Inr (m, st))))"

text \<open>What follows the creation of a program: outside \<open>bin_dce\<close> it can be run by name.\<close>

definition program_target :: "kwargs \<Rightarrow> string result" where
  "program_target kw = (case dict_get kw ''target'' of
       None \<Rightarrow> Inl KeyError | Some (KStr t) \<Rightarrow> Inr t | _ \<Rightarrow> Inl AttributeError)"

definition mark_last :: "build_state \<Rightarrow> build_state" where
  "mark_last st = st\<lparr>b_gens := (case rev (b_gens st) of [] \<Rightarrow> [] | g # gs \<Rightarrow> rev gs @ [g\<lparr>g_ns3_program := True\<rparr>])\<rparr>"

definition add_program :: "kwargs \<Rightarrow> build_state \<Rightarrow> build_state result" where
  "add_program kw st =
     (let kw = (if dict_has kw ''features'' then kw else dict_set ''features'' (KStr ''cxx cxxprogram'') kw);
          st = add_gen False kw st
      in map_result (\<lambda>t. if contains t ''bin_dce'' then st
             else upd_benv (wenv_append ''NS3_RUNNABLE_PROGRAMS'' (basename t)) (mark_last st)) (program_target kw))"

definition static_linkflags :: "wenv \<Rightarrow> kwargs \<Rightarrow> string \<Rightarrow> kwargs result" where
  "static_linkflags env kw module =
     (let flags = (case dict_get kw ''linkflags'' of None \<Rightarrow> KList [] | Some v \<Rightarrow> v); kw = dict_set ''linkflags'' flags kw
      in if list_ex (contains (lower module)) [''dce'', ''netlink'', ''header'', ''library''] then Inr kw
         else case flags of
           KList fs \<Rightarrow> map_result (\<lambda>libs. dict_set ''linkflags'' (KList (fs @ [''-ldl'', ''-Wl,--whole-archive,-Bstatic''] @ libs)) kw)
             (eitems (eget env (''STLIB_ST_'' @ upper module)))
         | _ \<Rightarrow> Inl TypeError)"

definition add_example :: "build_world \<Rightarrow> ns3module \<Rightarrow> string list \<Rightarrow> kwargs \<Rightarrow> build_state \<Rightarrow> build_state result" where
  "add_example z m needed kw st =
     (if \<not> m_needed_ok m then Inr st
      else if \<not> truth (eget (b_env st) ''NS3_ENABLE_EXAMPLES'') then Inr st
      else bind_result (modules_found (b_env st) (filter (\<lambda>i. i \<noteq> m_name m) needed)) (\<lambda>found.
        if \<not> found then Inr st
        else bind_result (kplus kw ''use'' (modules_uselib needed)) (\<lambda>uses.
          let kw = dict_set ''use'' (KList uses) kw
          in bind_result (if truth (eget (b_env st) ''NS3_ENABLE_STATIC'')
                          then foldM_result (static_linkflags (b_env st)) kw uses else Inr kw) (\<lambda>kw.
               add_program kw st))))"

text \<open>\<open>bld.program\<close> and \<open>bld.shlib\<close>.\<close>

definition tool_gen :: "build_world \<Rightarrow> string \<Rightarrow> kwargs \<Rightarrow> build_state \<Rightarrow> build_state result" where
  "tool_gen z kind kw st =
     (case dict_get kw ''source'' of
        None \<Rightarrow> Inl KeyError
      | Some source \<Rightarrow> map_result (\<lambda>f. add_gen False (dict_set ''features'' f kw) st) (z_sniff z source kind))"

text \<open>Unlike the others, this one does not ask whether the module itself was declared.\<close>

definition add_runner_test :: "build_world \<Rightarrow> ns3module \<Rightarrow> string list \<Rightarrow> string option \<Rightarrow> kwargs \<Rightarrow> build_state \<Rightarrow> build_state result" where
  "add_runner_test z m needed name kw st =
     (let target = m_name m @ ''-test'' @ (case name of Some n \<Rightarrow> ''-'' @ n | None \<Rightarrow> [])
      in bind_result (kextend ''use'' (modules_uselib needed) (dict_set ''target'' (KStr target) kw)) (\<lambda>kw.
         bind_result (build_library z target kw st) (\<lambda>st.
         bind_result (out_relpath z) (\<lambda>out.
           let st = upd_benv (wenv_append ''NS3_ENABLED_MODULE_TEST_LIBRARIES'' (out @ ''/lib/ns3-'' @ target)) st
           in Inr (if contains target ''bin_dce'' then st
                   else upd_benv (wenv_append ''NS3_RUNNABLE_PROGRAMS'' (basename target)) st)))))"

text \<open>All sources of a test but the last become objects; the last one is the program.\<close>

definition source_dir_define :: "build_world \<Rightarrow> string \<Rightarrow> string" where
  "source_dir_define z src = ''NS_TEST_SOURCEDIR='' @ dirname (path_join (z_path z) src)"

definition add_object :: "build_world \<Rightarrow> kwargs \<Rightarrow> build_state \<Rightarrow> string \<Rightarrow> build_state result" where
  "add_object z kw st src =
     map_result (\<lambda>kw. add_gen True kw st)
       (kextend ''defines'' [source_dir_define z src]
         (dict_set ''target'' (KStr (src @ ''_object'')) (dict_set ''source'' (KList [src]) kw)))"

definition test_sources :: "kwargs \<Rightarrow> string list result" where
  "test_sources kw = (case dict_get kw ''source'' of None \<Rightarrow> Inl KeyError | Some v \<Rightarrow> kitems v)"

definition last_source :: "kwargs \<Rightarrow> string list \<Rightarrow> kval" where
  "last_source kw srcs = (case dict_get kw ''source'' of
       Some (KStr s) \<Rightarrow> KStr (drop (length s - 1) s) | _ \<Rightarrow> KList (drop (length srcs - 1) srcs))"

definition declare_test :: "build_world \<Rightarrow> kwargs \<Rightarrow> build_state \<Rightarrow> build_state result" where
  "declare_test z kw st =
     bind_result (test_sources kw) (\<lambda>srcs.
     bind_result (foldM_result (add_object z kw) st (butlast srcs)) (\<lambda>st.
     bind_result (kextend ''use'' (map (\<lambda>s. s @ ''_object'') (butlast srcs)) kw) (\<lambda>kw.
       if srcs = [] then Inl IndexError
       else bind_result (kextend ''defines'' [source_dir_define z (last srcs)] (dict_set ''source'' (last_source kw srcs) kw)) (\<lambda>kw.
              add_program (dict_set ''install_path'' KNone kw) st))))"

definition add_test :: "build_world \<Rightarrow> ns3module \<Rightarrow> string list \<Rightarrow> kwargs \<Rightarrow> build_state \<Rightarrow> build_state result" where
  "add_test z m needed kw st =
     (if \<not> m_needed_ok m then Inr st
      else if \<not> truth (eget (b_env st) ''NS3_ENABLE_TESTS'') then Inr st
      else bind_result (modules_found (b_env st) (filter (\<lambda>i. i \<noteq> m_name m) needed)) (\<lambda>found.
        if \<not> found then Inr st
        else bind_result (kextend ''use'' (modules_uselib needed) kw) (\<lambda>kw.
             bind_result (kextend ''includes'' (m_source_dirs m) kw) (\<lambda>kw. declare_test z kw st))))"

section \<open>Lemmas\<close>

named_theorems build_simps \<open>the fields of a build state after an elementary step\<close>

lemma elementary_steps [build_simps]:
  "b_env (set_group g st) = b_env st" "b_gens (set_group g st) = b_gens st"
  "b_env (say s st) = b_env st" "b_gens (say s st) = b_gens st"
  "b_env (install_files d fs st) = b_env st" "b_gens (install_files d fs st) = b_gens st"
  "b_env (upd_benv f st) = f (b_env st)" "b_gens (upd_benv f st) = b_gens st"
  "b_env (add_gen ob kw st) = b_env st"
  "b_gens (add_gen ob kw st) = b_gens st @ [\<lparr>g_group = b_group st, g_objects = ob, g_kw = kw, g_ns3_program = False\<rparr>]"
  "b_env (mark_last st) = b_env st"
  by (simp_all add: set_group_def say_def install_files_def upd_benv_def add_gen_def mark_last_def)

lemma mark_last_add_gen [build_simps]:
  "b_gens (mark_last (add_gen ob kw st)) = b_gens st @ [\<lparr>g_group = b_group st, g_objects = ob, g_kw = kw, g_ns3_program = True\<rparr>]"
  by (simp add: mark_last_def add_gen_def)

lemma uniq_distinct: "distinct (uniq xs)" and set_uniq: "set (uniq xs) = set xs"
proof -
  have loop: "dict_ok (foldl (\<lambda>d i. dict_set i True d) d xs) \<and>
      set (map fst (foldl (\<lambda>d i. dict_set i True d) d xs)) = fst ` set d \<union> set xs" if "dict_ok d" for d :: "(string, bool) dict"
    using that
  proof (induction xs arbitrary: d)
    case (Cons x xs)
    have "fst ` set (dict_set x True d) = insert x (fst ` set d)" using dict_set_keys [of x True d]
      by (metis (no_types, lifting) insert_absorb list.set(1,2) list.set_map set_append sup_bot.right_neutral Un_insert_right)
    with Cons show ?case by simp
  qed simp
  from loop [of "[]"] show "distinct (uniq xs)" "set (uniq xs) = set xs"
    by (auto simp: uniq_def dict_ok_def)
qed

lemma modules_found_iff:
  "eget env ''NS3_MODULES_FOUND'' = EList old \<Longrightarrow> modules_found env ms = Inr (set ms \<subseteq> set old)"
  by (induction ms) auto

lemma build_library_state:
  assumes "build_library z name kw st = Inr st'"
  shows "b_env st' = b_env st \<and> prefix (b_gens st) (b_gens st')"
proof (cases "dict_get kw ''source'' \<in> {None, Some KNone}")
  case True
  then show ?thesis using assms by (auto simp: build_library_def Let_def build_simps)
next
  case False
  then obtain source where "dict_get kw ''source'' = Some source" "source \<noteq> KNone" by auto
  then show ?thesis using assms unfolding build_library_def Let_def map_result_eq_Inr
    by (cases source) (auto simp: build_simps simp del: append.simps)
qed

lemma build_headers_state:
  "build_headers z name hs st = Inr st' \<Longrightarrow> b_env st' = b_env st \<and> prefix (b_gens st) (b_gens st')"
  by (auto simp: build_headers_def Let_def build_simps split: option.splits kval.splits)

lemma build_pkgconfig_state:
  "b_env (build_pkgconfig name st) = b_env st" "prefix (b_gens st) (b_gens (build_pkgconfig name st))"
  by (simp_all add: build_pkgconfig_def Let_def build_simps)

lemma declare_module_env:
  assumes "declare_module z name needed kw st = Inr st'" "eget (b_env st) ''NS3_MODULES_FOUND'' = EList old"
  shows "b_env st' = dict_set ''NS3_MODULES_FOUND'' (EList (old @ [name])) (b_env st) \<and> prefix (b_gens st) (b_gens st')"
proof -
  from assms(1) obtain kw' st1 st2 where s: "build_library z name kw' st = Inr st1"
    "build_headers z name (dict_get kw' ''headers'') st1 = Inr st2"
    and r: "map_result (\<lambda>all. upd_benv (dict_set ''NS3_MODULES_FOUND'' (EList all)) (build_pkgconfig name st2))
      (eplus (eget (b_env (build_pkgconfig name st2)) ''NS3_MODULES_FOUND'') [name]) = Inr st'"
    unfolding declare_module_def Let_def by (elim bind_resultE) blast
  note one = build_library_state [OF s(1)] and two = build_headers_state [OF s(2)]
  have "st' = upd_benv (dict_set ''NS3_MODULES_FOUND'' (EList (old @ [name]))) (build_pkgconfig name st2)"
    using r one two assms(2) by (simp add: build_pkgconfig_state)
  moreover have "prefix (b_gens st) (b_gens (build_pkgconfig name st2))"
    using one two build_pkgconfig_state(2) [of st2 name] by (meson prefix_order.trans)
  ultimately show ?thesis using one two by (simp add: build_simps build_pkgconfig_state)
qed

lemma declare_module_state:
  assumes "declare_module z name needed kw st = Inr st'" "eget (b_env st) ''NS3_MODULES_FOUND'' = EList old"
  shows "eget (b_env st') ''NS3_MODULES_FOUND'' = EList (old @ [name]) \<and> prefix (b_gens st) (b_gens st')"
  using declare_module_env [OF assms] by (simp add: conf_simps)

lemma create_module_env:
  assumes "create_module z name kw st = Inr (m, st')" "needed_of kw = Inr needed" "eget (b_env st) ''NS3_MODULES_FOUND'' = EList old"
  shows "m_name m = name \<and> m_needed_ok m = (set needed \<subseteq> set old) \<and>
    b_env st' = (if set needed \<subseteq> set old then dict_set ''NS3_MODULES_FOUND'' (EList (old @ [name])) (b_env st) else b_env st)"
proof -
  let ?ok = "set needed \<subseteq> set old"
  from assms obtain dirs where "(let m = \<lparr>m_source_dirs = dirs, m_name = name, m_needed_ok = ?ok\<rparr>
       in if ?ok then map_result (\<lambda>st. (m, st)) (declare_module z name needed kw st) else Inr (m, st)) = Inr (m, st')"
    unfolding create_module_def assms(2) bind_result_simps modules_found_iff [OF assms(3)] by (elim bind_resultE)
  then show ?thesis using declare_module_env [OF _ assms(3)] by (auto simp: Let_def split: if_splits)
qed

lemma tool_gen_env: "tool_gen z kind kw st = Inr st' \<Longrightarrow> b_env st' = b_env st"
  by (auto simp: tool_gen_def build_simps split: option.splits)

text \<open>The object of one source, and the objects of several.\<close>

definition object_of :: "string \<Rightarrow> gen \<Rightarrow> bool" where
  "object_of src g \<longleftrightarrow> g_objects g \<and> dict_get (g_kw g) ''source'' = Some (KList [src]) \<and>
     dict_get (g_kw g) ''target'' = Some (KStr (src @ ''_object''))"

lemma add_object_state:
  assumes "add_object z kw st src = Inr st'"
  shows "b_env st' = b_env st \<and> (\<exists>g. b_gens st' = b_gens st @ [g] \<and> object_of src g)"
  using assms by (auto simp: add_object_def kextend_def build_simps object_of_def)

lemma add_objects_state:
  "foldM_result (add_object z kw) st srcs = Inr st' \<Longrightarrow>
   b_env st' = b_env st \<and> (\<exists>objs. b_gens st' = b_gens st @ objs \<and> list_all2 object_of srcs objs)"
proof (induction srcs arbitrary: st)
  case (Cons s srcs)
  then obtain st1 where a: "add_object z kw st s = Inr st1" "foldM_result (add_object z kw) st1 srcs = Inr st'" by auto
  from add_object_state [OF a(1)] Cons.IH [OF a(2)] show ?case by fastforce
qed simp

lemma add_program_state:
  assumes "add_program kw st = Inr st'"
  shows "\<exists>g. b_gens st' = b_gens st @ [g] \<and> \<not> g_objects g \<and>
    (\<forall>k. k \<noteq> ''features'' \<longrightarrow> dict_get (g_kw g) k = dict_get kw k)"
  using assms by (auto simp: add_program_def Let_def build_simps split: if_splits)

lemma copy_fileD:
  assumes "copy_file src dst fs = Inr fs'"
  obtains s where "fs src = Some (FileNode s)" "fs' = fs(dst \<mapsto> FileNode s)"
proof -
  from assms obtain s where r: "read_file fs src = Inr s" "write_text dst s fs = Inr fs'"
    by (auto simp: copy_file_def split: if_splits)
  have "fs src = Some (FileNode s)" using r(1) by (auto simp: read_file_def split: option.splits fnode.splits)
  moreover have "fs' = fs(dst \<mapsto> FileNode s)" using r(2) by (auto simp: write_text_def split: if_splits)
  ultimately show thesis by (rule that)
qed

lemma copy_loop:
  assumes "foldM_result (\<lambda>fs h. copy_file h (dst h) fs) fs hs = Inr fs'"
    and "distinct (map dst hs)" "dst ` set hs \<inter> set hs = {}"
  shows "(\<forall>p. p \<notin> dst ` set hs \<longrightarrow> fs' p = fs p) \<and>
    (\<forall>h \<in> set hs. \<exists>s. fs h = Some (FileNode s) \<and> fs' (dst h) = Some (FileNode s))"
  using assms
proof (induction hs arbitrary: fs)
  case (Cons h hs)
  then obtain fs1 where c: "copy_file h (dst h) fs = Inr fs1"
    and l: "foldM_result (\<lambda>fs h. copy_file h (dst h) fs) fs1 hs = Inr fs'" by auto
  obtain s where s: "fs h = Some (FileNode s)" "fs1 = fs(dst h \<mapsto> FileNode s)" using copy_fileD [OF c] .
  have new: "dst h \<notin> dst ` set hs" "dst h \<notin> set hs" using Cons.prems(2,3) by auto
  have "distinct (map dst hs)" "dst ` set hs \<inter> set hs = {}" using Cons.prems(2,3) by auto
  note IH = Cons.IH [OF l this]
  have frame: "fs' p = fs p" if "p \<notin> dst ` set (h # hs)" for p using IH that by (simp add: s(2))
  have here: "fs' (dst h) = Some (FileNode s)" using IH new(1) by (simp add: s(2))
  have "\<exists>t. fs g = Some (FileNode t) \<and> fs' (dst g) = Some (FileNode t)" if "g \<in> set hs" for g
    using IH that new(2) by (auto simp: s(2) split: if_splits)
  with frame here s(1) show ?case by auto
qed simp

section \<open>Properties\<close>

text \<open>C35: a module is declared only with everything it needs.  \<open>create_module\<close> declares the module exactly when all modules it
  needs have been found; otherwise the build is left as it was.  A declared module is added to the found
  ones, so that later modules can need it, and no earlier task generator is lost.\<close>

theorem module_needs_dependencies:
  assumes "create_module z name kw st = Inr (m, st')" "needed_of kw = Inr needed"
    and "eget (b_env st) ''NS3_MODULES_FOUND'' = EList old"
  shows "(m_needed_ok m \<longleftrightarrow> set needed \<subseteq> set old) \<and> (\<not> m_needed_ok m \<longrightarrow> st' = st) \<and>
    (m_needed_ok m \<longrightarrow> eget (b_env st') ''NS3_MODULES_FOUND'' = EList (old @ [name])) \<and>
    prefix (b_gens st) (b_gens st')"
proof -
  let ?ok = "set needed \<subseteq> set old"
  from assms obtain dirs where c: "(let m = \<lparr>m_source_dirs = dirs, m_name = name, m_needed_ok = ?ok\<rparr>
       in if ?ok then map_result (\<lambda>st. (m, st)) (declare_module z name needed kw st) else Inr (m, st)) = Inr (m, st')"
    unfolding create_module_def assms(2) bind_result_simps modules_found_iff [OF assms(3)] by (elim bind_resultE)
  show ?thesis
  proof (cases ?ok)
    case True
    with c obtain st2 where "declare_module z name needed kw st = Inr st2" "st' = st2" "m_needed_ok m"
      by (auto simp: Let_def simp del: subset_code)
    with declare_module_state [OF _ assms(3)] True show ?thesis by blast
  next
    case False
    with c have "st' = st" "\<not> m_needed_ok m" by (auto simp: Let_def)
    with False show ?thesis by simp
  qed
qed

definition sample_build_world :: build_world where
  "sample_build_world = \<lparr>z_cwd = ''/r/build'', z_out_dir = ''/r/build'', z_path = ''.'', z_machine = ''x86_64'',
     z_sniff = (\<lambda>_ _. Inr (KStr ''cxx cxxshlib''))\<rparr>"

definition sample_build :: build_state where
  "sample_build = \<lparr>b_env = [(''NS3_MODULES_FOUND'', EList [''core'']), (''NS3_ENABLE_TESTS'', EBool True)],
     b_group = [], b_gens = [], b_installs = [], b_log = []\<rparr>"

definition sample_kw :: kwargs where
  "sample_kw = [(''source'', KList [''model/a.cc'']), (''needed'', KList [''core'']), (''headers'', KList [''model/a.h''])]"

theorem module_needs_dependencies_witness:
  "\<exists>m st'. create_module sample_build_world ''dce'' sample_kw sample_build = Inr (m, st') \<and> m_needed_ok m \<and>
     eget (b_env st') ''NS3_MODULES_FOUND'' = EList [''core'', ''dce'']"
proof -
  let ?c = "create_module sample_build_world ''dce'' sample_kw sample_build"
  have "\<not> isl ?c" "needed_of sample_kw = Inr [''core'']" "eget (b_env sample_build) ''NS3_MODULES_FOUND'' = EList [''core'']"
    by code_simp+
  note e = this
  obtain m st' where c: "?c = Inr (m, st')" using Inr_projr [OF e(1)] by (metis surj_pair)
  from module_needs_dependencies [OF c e(2,3)] have "m_needed_ok m" "eget (b_env st') ''NS3_MODULES_FOUND'' = EList [''core'', ''dce'']"
    by simp_all
  with c show ?thesis by blast
qed

text \<open>The task generators of a test.  Every source but the last is compiled to an object of its own, in order;
  the last one is the only source of the program, and the program uses all the objects.\<close>

theorem test_objects:
  assumes "declare_test z kw st = Inr st'" "dict_get kw ''source'' = Some (KList srcs)"
  shows "srcs \<noteq> [] \<and> (\<exists>objs prog uses. b_gens st' = b_gens st @ objs @ [prog] \<and> list_all2 object_of (butlast srcs) objs \<and>
    \<not> g_objects prog \<and> dict_get (g_kw prog) ''source'' = Some (KList [last srcs]) \<and>
    dict_get (g_kw prog) ''use'' = Some (KList uses) \<and> (\<forall>s \<in> set (butlast srcs). s @ ''_object'' \<in> set uses))"
proof -
  have src: "test_sources kw = Inr srcs" using assms(2) by (simp add: test_sources_def)
  from assms(1) obtain st1 kw1 where o: "foldM_result (add_object z kw) st (butlast srcs) = Inr st1"
    and u: "kextend ''use'' (map (\<lambda>s. s @ ''_object'') (butlast srcs)) kw = Inr kw1"
    and p: "(if srcs = [] then Inl IndexError
       else bind_result (kextend ''defines'' [source_dir_define z (last srcs)] (dict_set ''source'' (last_source kw1 srcs) kw1)) (\<lambda>kw.
              add_program (dict_set ''install_path'' KNone kw) st1)) = Inr st'"
    unfolding declare_test_def src bind_result_simps by (elim bind_resultE)
  have ne: "srcs \<noteq> []" using p by auto
  from p ne obtain kw2 where d: "kextend ''defines'' [source_dir_define z (last srcs)] (dict_set ''source'' (last_source kw1 srcs) kw1) = Inr kw2"
    and a: "add_program (dict_set ''install_path'' KNone kw2) st1 = Inr st'" by (auto elim: bind_resultE)
  from u obtain uses where kw1: "kw1 = dict_set ''use'' (KList uses) kw" and uses: "kplus kw ''use'' (map (\<lambda>s. s @ ''_object'') (butlast srcs)) = Inr uses"
    by (auto simp: kextend_def)
  have mem: "\<forall>s \<in> set (butlast srcs). s @ ''_object'' \<in> set uses"
    using uses by (auto simp: kplus_def split: option.splits kval.splits)
  have last: "drop (length srcs - 1) srcs = [last srcs]" using ne by (metis append_butlast_last_id append_eq_conv_conj length_butlast)
  have ls: "last_source kw1 srcs = KList [last srcs]" using assms(2) last by (simp add: last_source_def kw1)
  from d have kw2: "dict_get kw2 ''source'' = Some (KList [last srcs])" "dict_get kw2 ''use'' = Some (KList uses)"
    by (auto simp: kextend_def kw1 ls [unfolded kw1])
  from add_objects_state [OF o] obtain objs where objs: "b_gens st1 = b_gens st @ objs" "list_all2 object_of (butlast srcs) objs" by blast
  from add_program_state [OF a] obtain g where g: "b_gens st' = b_gens st1 @ [g]" "\<not> g_objects g"
    "dict_get (g_kw g) ''source'' = Some (KList [last srcs])" "dict_get (g_kw g) ''use'' = Some (KList uses)"
    using kw2 by auto
  have "b_gens st' = b_gens st @ objs @ [g]" using g(1) objs(1) by simp
  with ne objs(2) g(2-4) mem show ?thesis by blast
qed

definition sample_test_kw :: kwargs where
  "sample_test_kw = [(''source'', KList [''test/a.cc'', ''test/b.cc'', ''test/m.cc'']), (''target'', KStr ''bin_dce/t'')]"

theorem test_objects_witness:
  "\<exists>st'. declare_test sample_build_world sample_test_kw sample_build = Inr st' \<and> length (b_gens st') = 3"
proof -
  let ?c = "declare_test sample_build_world sample_test_kw sample_build"
  have "\<not> isl ?c" by code_simp
  note c = Inr_projr [OF this]
  have "dict_get sample_test_kw ''source'' = Some (KList [''test/a.cc'', ''test/b.cc'', ''test/m.cc''])" by code_simp
  from test_objects [OF c this] obtain objs prog where
    "b_gens (projr ?c) = b_gens sample_build @ objs @ [prog]" "list_all2 object_of [''test/a.cc'', ''test/b.cc''] objs" by auto
  then have "length (b_gens (projr ?c)) = 3" by (auto dest: list_all2_lengthD simp: sample_build_def)
  with c show ?thesis by blast
qed

text \<open>The headers of a module reach the include directory.  When the rule succeeds and no two of its files
  collide, every header has a copy with its text beside the aggregate header, and the aggregate
  header is the text that includes them.\<close>

theorem headers_copied:
  assumes "headers_run name out inputs fs = Inr fs'"
    and "dst = (\<lambda>h. path_join (dirname out) (basename h))"
    and "distinct (map dst inputs)" "dst ` set inputs \<inter> set inputs = {}" "out \<notin> dst ` set inputs"
  shows "fs' out = Some (FileNode (aggregate_text name inputs)) \<and>
    (\<forall>h \<in> set inputs. \<exists>s. fs h = Some (FileNode s) \<and> fs' (dst h) = Some (FileNode s))"
proof -
  from assms(1) obtain fs1 where l: "foldM_result (\<lambda>fs h. copy_file h (dst h) fs) fs inputs = Inr fs1"
    and w: "write_text out (aggregate_text name inputs) fs1 = Inr fs'"
    unfolding headers_run_def assms(2) by (elim bind_resultE)
  from w have fs': "fs' = fs1(out \<mapsto> FileNode (aggregate_text name inputs))"
    by (auto simp: write_text_def split: if_splits)
  have "dst h \<noteq> out" if "h \<in> set inputs" for h using assms(5) that by auto
  with copy_loop [OF l assms(3,4)] show ?thesis by (auto simp: fs')
qed

theorem headers_copied_witness:
  "\<exists>fs'. headers_run ''dce'' ''/b/ns3/dce-module.h'' [''/s/model/a.h''] [''/s/model/a.h'' \<mapsto> FileNode ''int a;''] = Inr fs' \<and>
     fs' ''/b/ns3/a.h'' = Some (FileNode ''int a;'')"
proof -
  let ?fs = "[''/s/model/a.h'' \<mapsto> FileNode ''int a;'']" and ?dst = "\<lambda>h. path_join (dirname ''/b/ns3/dce-module.h'') (basename h)"
  let ?r = "headers_run ''dce'' ''/b/ns3/dce-module.h'' [''/s/model/a.h''] ?fs"
  have d: "path_join (dirname ''/b/ns3/dce-module.h'') (basename ''/s/model/a.h'') = ''/b/ns3/a.h''" by code_simp
  have "?r = Inr (projr ?r)"
    by (rule Inr_projr) (simp add: headers_run_def d copy_file_def read_file_def write_text_def)
  from headers_copied [OF this refl] this d show ?thesis by auto
qed

end
