(* ===== verification/Wscript_Tables.thy ===== *)
theory Wscript_Tables
  imports Ns3waf_Build
begin

text \<open>
  The lists of \<open>src/wscript\<close>: the sources and headers of the two modules, the test programs, the examples with the modules they
  need, and the contents of the \<open>wscript\<close> files below \<open>src/myscripts\<close>, which declare programs with \<open>build_a_script\<close>.
  An example is its needed modules, its target and its sources.
\<close>

section \<open>Modules, tests and examples\<close>

definition netlink_source :: "string list" where
  "netlink_source =
     [''netlink/netlink-socket.cc'', ''netlink/netlink-socket-address.cc'', ''netlink/netlink-socket-factory.cc'', ''netlink/netlink-attribute.cc'',
      ''netlink/netlink-message.cc'', ''netlink/netlink-message-route.cc'']"

definition netlink_headers :: "string list" where
  "netlink_headers =
     [''netlink/netlink-socket-factory.h'', ''netlink/netlink-socket-address.h'']"

definition kernel_source_files :: "string list" where
  "kernel_source_files =
     [''model/kernel-socket-fd-factory.cc'', ''model/kernel-socket-fd.cc'', ''model/linux-socket-fd-factory.cc'', ''model/freebsd-socket-fd-factory.cc'',
      ''model/linux/linux-socket-impl.cc'']"

definition kernel_header_files :: "string list" where
  "kernel_header_files =
     [''model/kernel-socket-fd-factory.h'', ''model/linux-socket-fd-factory.h'', ''model/freebsd-socket-fd-factory.h'', ''model/linux/linux-socket-impl.h'']"

definition dce_source :: "string list" where
  "dce_source =
     [''model/dce-manager.cc'', ''model/dce-application.cc'', ''model/dce.cc'', ''model/dce-signal.cc'', ''model/libc-dce.cc'', ''model/utils.cc'',
      ''model/unix-fd.cc'', ''model/unix-file-fd.cc'', ''model/unix-socket-fd.cc'', ''model/unix-datagram-socket-fd.cc'',
      ''model/unix-stream-socket-fd.cc'', ''model/unix-timer-fd.cc'', ''model/dce-fd.cc'', ''model/dce-stdio.cc'', ''model/dce-pthread.cc'',
      ''model/dce-stdlib.cc'', ''model/dce-debug.cc'', ''model/dce-semaphore.cc'', ''model/dce-pthread-mutex.cc'', ''model/dce-cxa.cc'',
      ''model/dce-netdb.cc'', ''model/dce-string.cc'', ''model/dce-env.cc'', ''model/dce-pthread-cond.cc'', ''model/dce-timerfd.cc'',
      ''model/dce-time.cc'', ''model/dce-stat.cc'', ''model/dce-syslog.cc'', ''model/dce-dl.cc'', ''model/dce-global-variables.cc'', ''model/cmsg.cc'',
      ''model/waiter.cc'', ''model/kingsley-alloc.cc'', ''model/dce-alloc.cc'', ''model/fiber-manager.cc'', ''model/ucontext-fiber-manager.cc'',
      ''model/pthread-fiber-manager.cc'', ''model/task-manager.cc'', ''model/task-scheduler.cc'', ''model/rr-task-scheduler.cc'',
      ''model/loader-factory.cc'', ''model/elf-dependencies.cc'', ''model/elf-cache.cc'', ''model/cooja-loader-factory.cc'',
      ''model/dlm-loader-factory.cc'', ''model/socket-fd-factory.cc'', ''model/ns3-socket-fd-factory.cc'', ''model/local-socket-fd.cc'',
      ''model/local-stream-socket-fd.cc'', ''model/local-datagram-socket-fd.cc'', ''model/local-socket-fd-factory.cc'', ''model/dce-umask.cc'',
      ''model/dce-misc.cc'', ''model/dce-node-context.cc'', ''model/dce-wait.cc'', ''model/wait-queue.cc'', ''model/file-usage.cc'', ''model/dce-poll.cc'',
      ''model/ipv4-dce-routing.cc'', ''model/dce-credentials.cc'', ''model/dce-pwd.cc'', ''model/pipe-fd.cc'', ''model/fifo-buffer.cc'',
      ''model/dce-dirent.cc'', ''model/dce-at.cc'', ''model/exec-utils.cc'', ''model/linux/ipv4-linux.cc'', ''model/linux/ipv6-linux.cc'',
      ''model/freebsd/ipv4-freebsd.cc'', ''model/dce-vfs.cc'', ''model/elf-ldd.cc'', ''model/dce-termio.cc'', ''model/process-delay-model.cc'',
      ''model/linux/linux-ipv4-raw-socket-factory.cc'', ''model/linux/linux-ipv4-raw-socket-factory-impl.cc'',
      ''model/linux/linux-ipv6-raw-socket-factory.cc'', ''model/linux/linux-ipv6-raw-socket-factory-impl.cc'', ''model/linux/linux-udp-socket-factory.cc'',
      ''model/linux/linux-udp-socket-factory-impl.cc'', ''model/linux/linux-udp6-socket-factory.cc'', ''model/linux/linux-udp6-socket-factory-impl.cc'',
      ''model/linux/linux-tcp-socket-factory.cc'', ''model/linux/linux-tcp-socket-factory-impl.cc'', ''model/linux/linux-tcp6-socket-factory.cc'',
      ''model/linux/linux-tcp6-socket-factory-impl.cc'', ''model/linux/linux-dccp-socket-factory.cc'', ''model/linux/linux-dccp-socket-factory-impl.cc'',
      ''model/linux/linux-dccp6-socket-factory.cc'', ''model/linux/linux-dccp6-socket-factory-impl.cc'', ''model/linux/linux-sctp-socket-factory.cc'',
      ''model/linux/linux-sctp-socket-factory-impl.cc'', ''model/linux/linux-sctp6-socket-factory.cc'', ''model/linux/linux-sctp6-socket-factory-impl.cc'',
      ''helper/ipv4-dce-routing-helper.cc'', ''helper/dce-manager-helper.cc'', ''helper/dce-application-helper.cc'', ''helper/ccn-client-helper.cc'',
      ''helper/linux-stack-helper.cc'', ''helper/freebsd-stack-helper.cc'']"

definition dce_headers :: "string list" where
  "dce_headers =
     [''model/dce-manager.h'', ''model/task-scheduler.h'', ''model/task-manager.h'', ''model/socket-fd-factory.h'', ''model/loader-factory.h'',
      ''model/dce-application.h'', ''model/ipv4-dce-routing.h'', ''model/linux/ipv4-linux.h'', ''model/linux/ipv6-linux.h'',
      ''model/freebsd/ipv4-freebsd.h'', ''model/process-delay-model.h'', ''model/exec-utils.h'', ''model/utils.h'', ''model/unix-fd.h'',
      ''model/wait-queue.h'', ''model/process.h'', ''model/linux/linux-ipv4-raw-socket-factory.h'', ''model/linux/linux-ipv6-raw-socket-factory.h'',
      ''model/linux/linux-udp-socket-factory.h'', ''model/linux/linux-udp6-socket-factory.h'', ''model/linux/linux-tcp-socket-factory.h'',
      ''model/linux/linux-tcp6-socket-factory.h'', ''model/linux/linux-dccp-socket-factory.h'', ''model/linux/linux-dccp6-socket-factory.h'',
      ''model/linux/linux-sctp-socket-factory.h'', ''model/linux/linux-sctp6-socket-factory.h'', ''helper/dce-manager-helper.h'',
      ''helper/dce-application-helper.h'', ''helper/ccn-client-helper.h'', ''helper/ipv4-dce-routing-helper.h'', ''helper/linux-stack-helper.h'',
      ''helper/freebsd-stack-helper.h'']"

definition dce_tests :: "(string \<times> string list) list" where
  "dce_tests =
     [(''test-empty'', []), (''test-sleep'', []), (''test-nanosleep'', []), (''test-pthread'', [''PTHREAD'']), (''test-mutex'', [''PTHREAD'']),
      (''test-once'', [''PTHREAD'']), (''test-pthread-key'', [''PTHREAD'']), (''test-sem'', [''PTHREAD'']), (''test-malloc'', []), (''test-malloc-2'', []),
      (''test-fd-simple'', []), (''test-strerror'', []), (''test-stdio'', []), (''test-string'', []), (''test-netdb'', []), (''test-env'', []),
      (''test-cond'', [''PTHREAD'']), (''test-timer-fd'', []), (''test-stdlib'', []), (''test-select'', [''PTHREAD'']), (''test-random'', []),
      (''test-ioctl'', []), (''test-fork'', []), (''test-local-socket'', [''PTHREAD'']), (''test-poll'', [''PTHREAD'']),
      (''test-tcp-socket'', [''PTHREAD'']), (''test-exec'', []), (''test-exec-target-1'', []), (''test-raw-socket'', []), (''test-fork-fd'', []),
      (''test-iperf'', []), (''test-name'', []), (''test-pipe'', []), (''test-dirent'', []), (''test-socket'', []), (''test-bug-multi-select'', []),
      (''test-tsearch'', []), (''test-signal'', []), (''test-clock-gettime'', []), (''test-gcc-builtin-apply'', [])]"

definition dce_programs :: "(string \<times> string list) list" where
  "dce_programs =
     [(''udp-server'', []), (''udp-client'', []), (''udp-perf'', [''m'']), (''tcp-server'', []), (''tcp-client'', []), (''tcp-loopback'', []),
      (''unix-server'', []), (''unix-client'', []), (''udp-echo-server'', []), (''udp-echo-client'', []), (''dccp-server'', []), (''dccp-client'', []),
      (''freebsd-iproute'', [])]"

definition sctp_programs :: "(string \<times> string list) list" where
  "sctp_programs =
     [(''sctp-server'', [''sctp'']), (''sctp-client'', [''sctp''])]"

definition dce_examples :: "(string list \<times> string \<times> string list) list" where
  "dce_examples =
     [([''core'', ''internet'', ''dce''], ''bin/dce-tcp-simple'', [''example/dce-tcp-simple.cc'']),
      ([''core'', ''internet'', ''dce''], ''bin/dce-udp-simple'', [''example/dce-udp-simple.cc'']),
      ([''core'', ''internet'', ''dce''], ''bin/dce-ccnd-simple'', [''example/ccnx/dce-ccnd-simple.cc'']),
      ([''core'', ''internet'', ''dce''], ''bin/dce-ccnd-short-stuff'', [''example/ccnx/dce-ccnd-short-stuff.cc'']),
      ([''core'', ''internet'', ''dce'', ''tap-bridge'', ''point-to-point'', ''csma''], ''bin/dce-tap-udp-echo'', [''example/ccnx/dce-tap-udp-echo.cc'']),
      ([''core'', ''internet'', ''dce'', ''tap-bridge'', ''csma''], ''bin/dce-tap-ccnd'', [''example/ccnx/dce-tap-ccnd.cc'']),
      ([''core'', ''internet'', ''dce'', ''tap-bridge'', ''csma''], ''bin/dce-tap-vlc'', [''example/ccnx/dce-tap-vlc.cc'']),
      ([''core'', ''internet'', ''dce''], ''bin/dce-bash-simple'', [''example/bash/dce-bash-simple.cc'']),
      ([''core'', ''internet'', ''dce'', ''point-to-point'', ''netanim''], ''bin/dce-ccn-cache'', [''example/ccnx/dce-ccn-cache.cc'', ''example/ccnx/misc-tools.cc'']),
      ([''core'', ''internet'', ''dce'', ''point-to-point'', ''netanim'', ''csma''], ''bin/dce-iperf'', [''example/dce-iperf.cc'', ''example/ccnx/misc-tools.cc'']),
      ([''core'', ''internet'', ''dce'', ''point-to-point'', ''netanim'', ''csma'', ''fd-net-device''], ''bin/dce-iperf-emulation'', [''example/dce-iperf-emulation.cc'', ''example/ccnx/misc-tools.cc'']),
      ([''core'', ''network'', ''internet'', ''dce'', ''point-to-point'', ''csma'', ''applications''], ''bin/linear-udp-perf'', [''example/linear-udp-perf.cc''])]"

definition kernel_examples :: "(string list \<times> string \<times> string list) list" where
  "kernel_examples =
     [([''core'', ''internet'', ''dce'', ''point-to-point''], ''bin/dce-udp-perf'', [''example/dce-udp-perf.cc'']),
      ([''core'', ''network'', ''dce''], ''bin/dce-linux-simple'', [''example/dce-linux-simple.cc'']),
      ([''core'', ''network'', ''dce'', ''wifi'', ''point-to-point'', ''csma'', ''mobility''], ''bin/dce-linux'', [''example/dce-linux.cc'']),
      ([''core'', ''network'', ''dce'', ''csma''], ''bin/dce-dccp'', [''example/dce-dccp.cc'']),
      ([''core'', ''internet'', ''dce'', ''point-to-point'', ''netanim''], ''bin/dce-ccnd-udp-2-nodes'', [''example/ccnx/dce-ccnd-udp-2-nodes.cc'', ''example/ccnx/misc-tools.cc'']),
      ([''core'', ''internet'', ''dce'', ''point-to-point'', ''netanim''], ''bin/dce-ccnd-linear-multiple'', [''example/ccnx/dce-ccnd-linear-multiple.cc'', ''example/ccnx/misc-tools.cc'']),
      ([''core'', ''network'', ''dce'', ''point-to-point''], ''bin/dce-xfrm'', [''example/dce-xfrm.cc'']),
      ([''core'', ''network'', ''dce'', ''wifi'', ''point-to-point'', ''csma'', ''mobility''], ''bin/dce-ltp'', [''example/dce-ltp.cc'']),
      ([''core'', ''network'', ''dce'', ''point-to-point'', ''mobility''], ''bin/dce-iperf-mptcp'', [''example/dce-iperf-mptcp.cc'']),
      ([''core'', ''internet'', ''network'', ''dce'', ''point-to-point'', ''mobility''], ''bin/dce-iperf-heterogeneous-multihop'', [''example/dce-iperf-heterogeneous-multihop.cc'']),
      ([''core'', ''network'', ''dce'', ''point-to-point'', ''mobility'', ''applications''], ''bin/dce-cradle-mptcp'', [''example/dce-cradle-mptcp.cc'']),
      ([''core'', ''network'', ''dce'', ''point-to-point'', ''mobility'', ''wifi'', ''dce-quagga''], ''bin/dce-mptcp-handoff-v6'', [''example/dce-mptcp-handoff-v6.cc'']),
      ([''core'', ''network'', ''dce'', ''point-to-point'', ''mobility'', ''wifi'', ''dce-quagga''], ''bin/dce-mptcp-handoff-v4v6'', [''example/dce-mptcp-handoff-v4v6.cc'']),
      ([''core'', ''network'', ''dce'', ''point-to-point'', ''mobility'', ''wifi'', ''lte''], ''bin/dce-mptcp-lte-wifi'', [''example/dce-mptcp-lte-wifi.cc'']),
      ([''core'', ''network'', ''dce'', ''point-to-point'', ''mobility'', ''wifi'', ''lte'', ''dce-quagga''], ''bin/dce-mptcp-lte-wifi-v6'', [''example/dce-mptcp-lte-wifi-v6.cc'']),
      ([''core'', ''network'', ''dce'', ''point-to-point'', ''applications''], ''bin/dce-cradle-simple'', [''example/dce-cradle-simple.cc'']),
      ([''core'', ''network'', ''dce'', ''point-to-point'', ''applications'', ''internet''], ''bin/dce-tcp-ns3-nsc-comparison'', [''example/dce-tcp-ns3-nsc-comparison.cc'']),
      ([''core'', ''internet'', ''dce'', ''point-to-point''], ''bin/dce-httpd'', [''example/dce-httpd.cc'']),
      ([''core'', ''internet'', ''dce'', ''point-to-point'', ''netanim'', ''mobility'', ''wifi'', ''network''], ''bin/dce-wifi-ccnx'', [''example/ccnx/dce-wifi-ccnx.cc''])]"

section \<open>The scripts\<close>

text \<open>One call in the \<open>build\<close> function of a script directory.  \<open>sc_libs\<close> are the libraries to which the suffix of the build is
  appended.  Paths are relative to the directory.\<close>

record script_call =
  sc_needed :: "string list"
  sc_target :: string
  sc_source :: "string list"
  sc_libs :: "string list"
  sc_linkflags :: "string list"

datatype script_step = Script script_call | Program string kwargs | When_set string script_step

definition steps_120_demo :: "build_world \<Rightarrow> script_step list" where
  "steps_120_demo z =
     [Script \<lparr>sc_needed = [''core'', ''network'', ''internet'', ''internet-apps'', ''point-to-point'', ''csma'', ''mobility'', ''applications'', ''dce'', ''lte'', ''wifi'',
       ''spectrum''], sc_target = ''bin/120-demo'', sc_source = [''120-demo.cc'', ''../app-test/rate-dual-helper.cc'', ''../app-test/rate-dual-application.cc''], sc_libs = [''ns3.35-nr-''], sc_linkflags = []\<rparr>,
      Script \<lparr>sc_needed = [''core'', ''network'', ''internet'', ''point-to-point'', ''csma'', ''mobility'', ''applications'', ''wifi'', ''spectrum''], sc_target = ''bin/link-info-wifi-only'', sc_source = [''link-info/wifi-only/link-info-wifi-only.cc''], sc_libs = [], sc_linkflags = []\<rparr>,
      Script \<lparr>sc_needed = [''core'', ''network'', ''internet'', ''internet-apps'', ''point-to-point'', ''mobility'', ''applications'', ''flow-monitor'', ''lte''], sc_target = ''bin/link-info-nr-only'', sc_source = [''link-info/nr-only/link-info-nr-only.cc''], sc_libs = [''ns3.35-nr-''], sc_linkflags = []\<rparr>]"

definition steps_app_test :: "build_world \<Rightarrow> script_step list" where
  "steps_app_test z =
     [Script \<lparr>sc_needed = [''core'', ''network'', ''internet'', ''point-to-point'', ''mobility'', ''applications'', ''dce'', ''lte'', ''wifi''], sc_target = ''bin/app-test1'', sc_source = [''app-test1.cc'', ''rate-dual-helper.cc'', ''rate-dual-application.cc''], sc_libs = [''ns3.35-flow-monitor-''], sc_linkflags = []\<rparr>]"

definition steps_btorrent1 :: "build_world \<Rightarrow> script_step list" where
  "steps_btorrent1 z =
     [When_set ''KERNEL_STACK'' (Script \<lparr>sc_needed = [''core'', ''internet'', ''dce'', ''point-to-point''], sc_target = ''bin/dce-bt1'', sc_source = [''dce-bt1.cc''], sc_libs = [], sc_linkflags = []\<rparr>)]"

definition steps_ccn_common :: "build_world \<Rightarrow> script_step list" where
  "steps_ccn_common z =
     [Program ''program'' [(''source'', KStr ''my-client.c''), (''target'', KStr ''../../bin_dce/my-client''), (''cflags'', KList [''-fPIC'']), (''linkflags'', KList [''-pie'', ''-rdynamic''])],
      Program ''program'' [(''source'', KStr ''my-serveur.c''), (''target'', KStr ''../../bin_dce/my-serveur''), (''cflags'', KList [''-fPIC'']), (''linkflags'', KList [''-pie'', ''-rdynamic''])],
      Program ''program'' [(''source'', KStr ''lanceur.c''), (''target'', KStr ''../../bin_dce/lanceur''), (''cflags'', KList [''-fPIC'']), (''linkflags'', KList [''-pie'', ''-rdynamic''])],
      Program ''program'' [(''source'', KStr ''bug1167.cc''), (''target'', KStr ''../../bin_dce/bug1167''), (''cxxflags'', KList [''-fPIC'']), (''linkflags'', KList [''-pie'', ''-rdynamic''])]]"

definition steps_ccn_exp1 :: "build_world \<Rightarrow> script_step list" where
  "steps_ccn_exp1 z =
     [Script \<lparr>sc_needed = [''core'', ''internet'', ''dce'', ''point-to-point'', ''netanim'', ''flow-monitor''], sc_target = ''bin/dce-ccn-exp1'', sc_source = [''dce-ccn-exp1.cc''], sc_libs = [], sc_linkflags = []\<rparr>]"

definition steps_ccn_mt1 :: "build_world \<Rightarrow> script_step list" where
  "steps_ccn_mt1 z =
     [Script \<lparr>sc_needed = [''core'', ''internet'', ''dce'', ''point-to-point'', ''applications''], sc_target = ''bin/dce-ccn-mt1'', sc_source = [''ccn-mt1.cc''], sc_libs = [], sc_linkflags = []\<rparr>]"

definition steps_ccn_tap_vlc :: "build_world \<Rightarrow> script_step list" where
  "steps_ccn_tap_vlc z =
     [Script \<lparr>sc_needed = [''core'', ''internet'', ''dce'', ''tap-bridge'', ''point-to-point'', ''csma''], sc_target = ''bin/dce-ccn-vlc'', sc_source = [''dce-ccn-vlc.cc''], sc_libs = [], sc_linkflags = []\<rparr>]"

definition steps_dce_emu_ping :: "build_world \<Rightarrow> script_step list" where
  "steps_dce_emu_ping z =
     [Script \<lparr>sc_needed = [''core'', ''internet'', ''point-to-point'', ''fd-net-device'', ''dce'', ''netanim''], sc_target = ''bin/dce-emu-ping'', sc_source = [''dce-emu-ping.cc'', ''misc-tools.cc''], sc_libs = [], sc_linkflags = []\<rparr>]"

definition steps_dce_mpi_udp :: "build_world \<Rightarrow> script_step list" where
  "steps_dce_mpi_udp z =
     [When_set ''MPI'' (Script \<lparr>sc_needed = [''core'', ''internet'', ''dce'', ''point-to-point'', ''mpi''], sc_target = ''bin/dce-mpi-udp'', sc_source = [''dce-mpi-udp.cc''], sc_libs = [], sc_linkflags = []\<rparr>)]"

definition steps_dce_wifi :: "build_world \<Rightarrow> script_step list" where
  "steps_dce_wifi z =
     [Script \<lparr>sc_needed = [''core'', ''network'', ''internet'', ''internet-apps'', ''point-to-point'', ''mobility'', ''applications'', ''dce'', ''lte'', ''wifi''], sc_target = ''bin/dce-wifi'', sc_source = [''dce-wifi.cc''], sc_libs = [''ns3.35-nr-'', ''ns3.35-flow-monitor-''], sc_linkflags = []\<rparr>]"

definition steps_dce_wifi_ofdma :: "build_world \<Rightarrow> script_step list" where
  "steps_dce_wifi_ofdma z =
     [Script \<lparr>sc_needed = [''core'', ''network'', ''internet'', ''mobility'', ''dce'', ''wifi'', ''spectrum''], sc_target = ''bin/dce-wifi-ofdma'', sc_source = [''dce-wifi-ofdma.cc''], sc_libs = [], sc_linkflags = []\<rparr>]"

definition steps_iperf_multi :: "build_world \<Rightarrow> script_step list" where
  "steps_iperf_multi z =
     [When_set ''KERNEL_STACK'' (Script \<lparr>sc_needed = [''core'', ''internet'', ''dce'', ''point-to-point'', ''csma''], sc_target = ''bin/dce-iperf-multi'', sc_source = [''dce-iperf-multi.cc''], sc_libs = [], sc_linkflags = []\<rparr>)]"

definition steps_loaders_test :: "build_world \<Rightarrow> script_step list" where
  "steps_loaders_test z =
     [Script \<lparr>sc_needed = [''core'', ''internet'', ''dce'', ''point-to-point''], sc_target = ''bin/dce-twin'', sc_source = [''dce-twin.cc''], sc_libs = [], sc_linkflags = []\<rparr>,
      Script \<lparr>sc_needed = [''core'', ''internet'', ''dce'', ''point-to-point''], sc_target = ''bin/vdl-dce-twin'', sc_source = [''dce-twin.cc''], sc_libs = [], sc_linkflags = [''-Wl,--dynamic-linker='' @ abspath (z_cwd z) ''../elf-loader/ldso'']\<rparr>,
      Program ''program'' [(''source'', KStr ''mytest.cc''), (''target'', KStr ''../../bin_dce/mytest''), (''use'', KStr ''../../lib/mylib''), (''cxxflags'', KList [''-fPIC'']), (''linkflags'', KList [''-L'' @ abspath (z_cwd z) ''build/lib/'' , ''-lmylib'', ''-lstdc++'', ''-pie'', ''-rdynamic''])],
      Program ''shlib'' [(''source'', KList [''mylib.cc'']), (''target'', KStr ''../../lib/mylib''), (''cflags'', KList [''-g'']), (''linkflags'', KList [''-shared'', ''-Wl,-soname=libmylib.so''])]]"

definition steps_mini_debug :: "build_world \<Rightarrow> script_step list" where
  "steps_mini_debug z =
     [Script \<lparr>sc_needed = [''core'', ''network'', ''internet'', ''internet-apps'', ''point-to-point'', ''mobility'', ''applications'', ''dce'', ''lte'', ''wifi''], sc_target = ''bin/dce-mini-debug'', sc_source = [''dce-mini-debug.cc'', ''../app-test/rate-dual-helper.cc'', ''../app-test/rate-dual-application.cc''], sc_libs = [''ns3.35-nr-''], sc_linkflags = []\<rparr>]"

definition steps_mt2 :: "build_world \<Rightarrow> script_step list" where
  "steps_mt2 z =
     [Script \<lparr>sc_needed = [''core'', ''internet'', ''dce'', ''point-to-point''], sc_target = ''bin/dce-mt2'', sc_source = [''dce-mt2.cc''], sc_libs = [], sc_linkflags = []\<rparr>,
      Program ''program'' [(''source'', KStr ''mcreceive.c''), (''target'', KStr ''../../bin_dce/mcreceive''), (''cflags'', KList [''-fPIC'']), (''linkflags'', KList [''-pie'', ''-rdynamic''])],
      Program ''program'' [(''source'', KStr ''mcsend.c''), (''target'', KStr ''../../bin_dce/mcsend''), (''cflags'', KList [''-fPIC'']), (''linkflags'', KList [''-pie'', ''-rdynamic''])]]"

definition steps_mt3 :: "build_world \<Rightarrow> script_step list" where
  "steps_mt3 z =
     [Script \<lparr>sc_needed = [''core'', ''internet'', ''dce'', ''point-to-point'', ''netanim'', ''mobility''], sc_target = ''bin/dce-mt3'', sc_source = [''dce-mt3.cc''], sc_libs = [], sc_linkflags = []\<rparr>]"

definition steps_nr_dce :: "build_world \<Rightarrow> script_step list" where
  "steps_nr_dce z =
     [Script \<lparr>sc_needed = [''core'', ''network'', ''internet'', ''internet-apps'', ''point-to-point'', ''mobility'', ''applications'', ''dce'', ''lte''], sc_target = ''bin/nr-dce'', sc_source = [''nr-dce.cc''], sc_libs = [''ns3.35-nr-'', ''ns3.35-flow-monitor-''], sc_linkflags = []\<rparr>]"

definition steps_pamptcp :: "build_world \<Rightarrow> script_step list" where
  "steps_pamptcp z =
     [Script \<lparr>sc_needed = [''core'', ''network'', ''internet'', ''internet-apps'', ''point-to-point'', ''csma'', ''mobility'', ''applications'', ''dce'', ''lte'', ''wifi'',
       ''spectrum''], sc_target = ''bin/pamptcp'', sc_source = [''pamptcp.cc'', ''pamptcp-profile.cc'', ''pamptcp-report.cc'', ''../app-test/rate-dual-helper.cc'', ''../app-test/rate-dual-application.cc''], sc_libs = [''ns3.35-nr-''], sc_linkflags = []\<rparr>]"

definition steps_pamptcp_link_characteristics :: "build_world \<Rightarrow> script_step list" where
  "steps_pamptcp_link_characteristics z =
     [Script \<lparr>sc_needed = [''core'', ''network'', ''internet'', ''internet-apps'', ''point-to-point'', ''csma'', ''mobility'', ''applications'', ''dce'', ''lte'', ''wifi'',
       ''spectrum''], sc_target = ''bin/link-characteristics'', sc_source = [''link-characteristics.cc'', ''pamptcp-profile.cc'', ''link-characteristics-report.cc'', ''../app-test/rate-dual-helper.cc'',
       ''../app-test/rate-dual-application.cc''], sc_libs = [''ns3.35-nr-''], sc_linkflags = []\<rparr>]"

definition steps_ping :: "build_world \<Rightarrow> script_step list" where
  "steps_ping z =
     [Script \<lparr>sc_needed = [''core'', ''internet'', ''dce'', ''point-to-point'', ''netanim''], sc_target = ''bin/dce-ping'', sc_source = [''dce-ping.cc'', ''misc-tools.cc''], sc_libs = [], sc_linkflags = []\<rparr>]"

definition steps_ping_mt1 :: "build_world \<Rightarrow> script_step list" where
  "steps_ping_mt1 z =
     [Script \<lparr>sc_needed = [''core'', ''internet'', ''dce'', ''point-to-point''], sc_target = ''bin/dce-ping-mt1'', sc_source = [''ping-mt1.cc''], sc_libs = [], sc_linkflags = []\<rparr>]"

definition steps_sleep :: "build_world \<Rightarrow> script_step list" where
  "steps_sleep z =
     [Program ''program'' [(''source'', KStr ''tenseconds.c''), (''target'', KStr ''../../bin_dce/tenseconds''), (''cflags'', KList [''-fPIC'']), (''linkflags'', KList [''-pie'', ''-rdynamic''])],
      Script \<lparr>sc_needed = [''core'', ''dce''], sc_target = ''bin/dce-sleep'', sc_source = [''dce-sleep.cc''], sc_libs = [], sc_linkflags = []\<rparr>]"

definition steps_tuto1 :: "build_world \<Rightarrow> script_step list" where
  "steps_tuto1 z =
     [Script \<lparr>sc_needed = [''core'', ''internet'', ''dce'', ''point-to-point''], sc_target = ''bin/dce-tuto1'', sc_source = [''dce-tuto1.cc''], sc_libs = [], sc_linkflags = []\<rparr>]"

definition steps_tuto2 :: "build_world \<Rightarrow> script_step list" where
  "steps_tuto2 z =
     [Script \<lparr>sc_needed = [''core'', ''internet'', ''dce'', ''point-to-point''], sc_target = ''bin/dce-tuto2'', sc_source = [''dce-tuto2.cc''], sc_libs = [], sc_linkflags = []\<rparr>]"

definition steps_tuto3 :: "build_world \<Rightarrow> script_step list" where
  "steps_tuto3 z =
     [Script \<lparr>sc_needed = [''core'', ''internet'', ''dce'', ''point-to-point''], sc_target = ''bin/dce-tuto3'', sc_source = [''dce-tuto3.cc''], sc_libs = [], sc_linkflags = []\<rparr>]"

definition myscript_steps :: "build_world \<Rightarrow> string \<Rightarrow> script_step list option" where
  "myscript_steps z = map_of
     [(''120-demo'', steps_120_demo z), (''app-test'', steps_app_test z), (''btorrent1'', steps_btorrent1 z), (''ccn-common'', steps_ccn_common z),
      (''ccn-exp1'', steps_ccn_exp1 z), (''ccn-mt1'', steps_ccn_mt1 z), (''ccn-tap-vlc'', steps_ccn_tap_vlc z), (''dce-emu-ping'', steps_dce_emu_ping z),
      (''dce-mpi-udp'', steps_dce_mpi_udp z), (''dce-wifi'', steps_dce_wifi z), (''dce-wifi-ofdma'', steps_dce_wifi_ofdma z),
      (''iperf-multi'', steps_iperf_multi z), (''loaders-test'', steps_loaders_test z), (''mini-debug'', steps_mini_debug z), (''mt2'', steps_mt2 z),
      (''mt3'', steps_mt3 z), (''nr-dce'', steps_nr_dce z), (''pamptcp'', steps_pamptcp z),
      (''pamptcp-link-characteristics'', steps_pamptcp_link_characteristics z), (''ping'', steps_ping z), (''ping-mt1'', steps_ping_mt1 z),
      (''sleep'', steps_sleep z), (''tuto1'', steps_tuto1 z), (''tuto2'', steps_tuto2 z), (''tuto3'', steps_tuto3 z)]"

end
