(* ===== verification/Bind_Waf.thy ===== *)
theory Bind_Waf
  imports Ns3waf_Build
begin

text \<open>
  The \<open>wscript\<close> of the Python bindings, \<open>src/bindings/python/wscript\<close>: what it configures and what it adds to the build.

  The state of a configuration is \<open>conf_run\<close>: the environment and the messages of \<open>Ns3waf_Config\<close>, with the environment variables of
  the process.  The checks of the build tool and what the machine has are the record \<open>py_world\<close>; a check returns the
  environment it leaves and whether it succeeded.
\<close>

section \<open>Surroundings and state\<close>

record conf_run =
  r_conf :: conf_state
  r_environ :: proc_env

record py_options =
  po_disable :: bool
  po_python :: "string option"
  po_pybindgen :: "string option"

type_synonym env_check = "wenv \<Rightarrow> wenv \<times> bool"

record py_world =
  y_options :: py_options
  y_platform :: string
  y_cwd :: string
  y_isdir :: "string \<Rightarrow> bool"
  y_load_python :: env_check
  y_version_ok :: env_check
  y_headers_ok :: env_check
  y_has_module :: "proc_env \<Rightarrow> string \<Rightarrow> bool"
  y_pybindgen_version :: "string \<Rightarrow> string"
  y_compiles :: "string \<Rightarrow> bool"
  y_cxxabi :: bool
  y_pygccxml :: "string option"
  y_system :: string
  y_platform_name :: string
  y_find_program :: "string \<Rightarrow> string list option"
  y_gccxml_line :: "string \<Rightarrow> string"

definition upd_run :: "(conf_state \<Rightarrow> conf_state) \<Rightarrow> conf_run \<Rightarrow> conf_run" where
  "upd_run f r = r\<lparr>r_conf := f (r_conf r)\<rparr>"

definition run_env :: "conf_run \<Rightarrow> wenv" where
  "run_env r = c_env (r_conf r)"

definition set_run_env :: "wenv \<Rightarrow> conf_run \<Rightarrow> conf_run" where
  "set_run_env env = upd_run (upd_env (\<lambda>_. env))"

text \<open>\<open>conf.msg\<close>: what was looked for, and what was found.\<close>

definition conf_msg :: "string \<Rightarrow> string \<Rightarrow> conf_run \<Rightarrow> conf_run" where
  "conf_msg m res = upd_run (log_error (m @ '' : '' @ res))"

definition conf_warn :: "string \<Rightarrow> conf_run \<Rightarrow> conf_run" where
  "conf_warn m = upd_run (log_error m)"

section \<open>Helpers\<close>

definition add_to_python_path :: "string \<Rightarrow> string \<Rightarrow> proc_env \<Rightarrow> proc_env" where
  "add_to_python_path platform path e =
     (let old = (case dict_get e ''PYTHONPATH'' of None \<Rightarrow> [] | Some v \<Rightarrow> v)
      in dict_set ''PYTHONPATH'' (if old \<noteq> [] then path @ pathsep platform @ old else path) e)"

definition set_pybindgen_pythonpath :: "string \<Rightarrow> wenv \<Rightarrow> proc_env \<Rightarrow> proc_env result" where
  "set_pybindgen_pythonpath platform env e =
     (if truth (eget env ''WITH_PYBINDGEN'')
      then (case eget env ''WITH_PYBINDGEN'' of EStr p \<Rightarrow> Inr (add_to_python_path platform p e) | _ \<Rightarrow> Inl TypeError)
      else Inr e)"

text \<open>The comparison of two strings, character by character.\<close>

fun string_le :: "string \<Rightarrow> string \<Rightarrow> bool" where
  "string_le [] t = True"
| "string_le (c # s) [] = False"
| "string_le (c # s) (d # t) = (if c = d then string_le s t else c < d)"

definition required_pybindgen_version :: string where
  "required_pybindgen_version = ''0.17.0.post41+ngd10fa60''"

fun removedup_seen :: "string list \<Rightarrow> string list \<Rightarrow> string list" where
  "removedup_seen seen [] = []"
| "removedup_seen seen (x # xs) = (if x \<in> set seen then removedup_seen seen xs else x # removedup_seen (x # seen) xs)"

definition removedup :: "string list \<Rightarrow> string list" where
  "removedup = removedup_seen []"

section \<open>Configuration\<close>

definition no_python :: "string \<Rightarrow> conf_run \<Rightarrow> conf_run" where
  "no_python reason = upd_run (report_optional_feature ''python'' ''Python Bindings'' False reason)"

text \<open>The loop that removes the two words of every \<open>-arch\<close> option.\<close>

fun strip_arch :: "string list \<Rightarrow> string list result" where
  "strip_arch [] = Inr []"
| "strip_arch (f # fs) =
     (if f = ''-arch'' then (case fs of [] \<Rightarrow> Inl IndexError | a # rest \<Rightarrow> strip_arch rest)
      else map_result (\<lambda>xs. f # xs) (strip_arch fs))"

definition arch_vars :: "string list" where
  "arch_vars = [''CFLAGS_PYEXT'', ''CFLAGS_PYEMBED'', ''CXXFLAGS_PYEMBED'', ''CXXFLAGS_PYEXT'', ''LINKFLAGS_PYEMBED'', ''LINKFLAGS_PYEXT'']"

definition strip_arch_var :: "wenv \<Rightarrow> string \<Rightarrow> wenv result" where
  "strip_arch_var env k =
     (case eget env k of
        EList xs \<Rightarrow> map_result (\<lambda>ys. dict_set k (EList ys) env) (strip_arch xs)
      | EStr s \<Rightarrow> Inr (dict_set k (EStr s) env)
      | EBool b \<Rightarrow> Inl TypeError)"

text \<open>Where pybindgen is.  The release directory is named after the required version, whose characters are joined with dots.\<close>

definition use_pybindgen :: "py_world \<Rightarrow> string \<Rightarrow> string \<Rightarrow> conf_run \<Rightarrow> conf_run" where
  "use_pybindgen y d how r =
     (let r = conf_msg ''Checking for pybindgen location'' (d @ how) r
      in set_run_env (dict_set ''WITH_PYBINDGEN'' (EStr (abspath (y_cwd y) d)) (run_env r)) r)"

definition pybindgen_release_dir :: string where
  "pybindgen_release_dir = path_join ''..'' (''pybindgen-'' @ join_str ''.'' (map (\<lambda>c. [c]) required_pybindgen_version))"

definition locate_pybindgen :: "py_world \<Rightarrow> conf_run \<Rightarrow> conf_run" where
  "locate_pybindgen y r =
     (let dir = path_join ''..'' ''pybindgen'';
          r = (case po_pybindgen (y_options y) of
                 Some d \<Rightarrow> if y_isdir y d then use_pybindgen y d '' (given)'' r else r
               | None \<Rightarrow> if y_isdir y dir then use_pybindgen y dir '' (guessed)'' r
                         else if y_isdir y pybindgen_release_dir then use_pybindgen y pybindgen_release_dir '' (guessed)'' r
                         else r)
      in if truth (eget (run_env r) ''WITH_PYBINDGEN'') then r else conf_msg ''Checking for pybindgen location'' ''False'' r)"

definition first_word :: "evalue \<Rightarrow> string result" where
  "first_word v = bind_result (eitems v) (\<lambda>xs. case xs of [] \<Rightarrow> Inl IndexError | x # _ \<Rightarrow> Inr x)"

text \<open>Whether two types are the same, by a program that compiles only then; the printed answer is the opposite.\<close>

definition type_program :: "string \<Rightarrow> string \<Rightarrow> string" where
  "type_program t1 t2 =
     nl @ ''#include <stdint.h>'' @ nl @ ''#include <vector>'' @ nl @ nl @ ''int main ()'' @ nl @ ''{'' @ nl @ ''   std::vector< '' @ t1 @
     '' > t = std::vector< '' @ t2 @ '' > ();'' @ nl @ ''   return 0;'' @ nl @ ''}'' @ nl"

definition type_test :: "py_world \<Rightarrow> string \<Rightarrow> string \<Rightarrow> conf_run \<Rightarrow> bool \<times> conf_run" where
  "type_test y t1 t2 r =
     (let ret = y_compiles y (type_program t1 t2)
      in (ret, conf_msg (''Checking for types '' @ t1 @ '' and '' @ t2 @ '' equivalence'') (if ret then ''no'' else ''yes'') r))"

text \<open>A call of \<open>_report_optional_feature\<close> with the arguments that the source writes: it has five parameters.\<close>

datatype report_arg = Conf_arg | Text_arg string | Flag_arg bool | None_arg

definition call_report :: "report_arg list \<Rightarrow> conf_run \<Rightarrow> conf_run result" where
  "call_report args r =
     (case args of
        [Conf_arg, Text_arg name, Text_arg caption, Flag_arg on, reason] \<Rightarrow>
          Inr (upd_run (report_optional_feature name caption on (case reason of Text_arg t \<Rightarrow> t | _ \<Rightarrow> ''None'')) r)
      | [_, _, _, _, _] \<Rightarrow> Inl AttributeError
      | _ \<Rightarrow> Inl TypeError)"

definition report_scanning :: "bool \<Rightarrow> report_arg \<Rightarrow> conf_run \<Rightarrow> conf_run result" where
  "report_scanning on reason =
     call_report [Conf_arg, Text_arg ''pygccxml'', Text_arg ''Python API Scanning Support'', Flag_arg on, reason]"

text \<open>The support for scanning; the versions are compared as lists of numbers.\<close>

fun ints_le :: "int list \<Rightarrow> int list \<Rightarrow> bool" where
  "ints_le [] ys = True"
| "ints_le (x # xs) [] = False"
| "ints_le (x # xs) (y # ys) = (if x = y then ints_le xs ys else x < y)"

definition version_numbers :: "string \<Rightarrow> int list result" where
  "version_numbers s = mapM_result py_int (split_char (CHR ''.'') s)"

definition gccxml_version :: "string \<Rightarrow> string option" where
  "gccxml_version line =
     (let p = ''GCC-XML version ''; v = drop (length p) line;
          digits = (\<lambda>cs. list_all2 (\<lambda>c d. if d then is_digit c else c = CHR ''.'') cs)
      in if startswith line p \<and> (digits v [True, False, True] \<or> digits v [True, False, True, False, True]) then Some v else None)"

text \<open>On one release of one distribution the program has another name.\<close>

definition gccxml_name :: "py_world \<Rightarrow> string result" where
  "gccxml_name y =
     (let parts = split_char (CHR ''-'') (y_platform_name y)
      in if y_system y \<noteq> ''Linux'' then Inr ''gccxml''
         else if length parts \<le> 6 then Inl IndexError
         else if parts ! 6 \<noteq> ''Ubuntu'' then Inr ''gccxml''
         else if length parts \<le> 7 then Inl IndexError
         else Inr (if parts ! 7 = ''16.04'' then ''gccxml.real'' else ''gccxml''))"

definition check_gccxml :: "py_world \<Rightarrow> conf_run \<Rightarrow> conf_run result" where
  "check_gccxml y r =
     bind_result (gccxml_name y) (\<lambda>name.
       case y_find_program y name of
         Some (gccxml # _) \<Rightarrow>
           (case gccxml_version (strip (y_gccxml_line y gccxml)) of
              None \<Rightarrow> Inl AttributeError
            | Some v \<Rightarrow> bind_result (version_numbers v) (\<lambda>numbers.
                let r = conf_msg ''Checking for gccxml version'' v r
                in if \<not> ints_le [0, 9] numbers
                   then report_scanning False (Text_arg ''gccxml too old'') (conf_warn ''gccxml too old, need version >= 0.9; automatic scanning of API definitions will not be possible'' r)
                   else report_scanning True None_arg (set_run_env (dict_set ''ENABLE_PYTHON_SCANNING'' (EBool True) (run_env r)) r)))
       | _ \<Rightarrow> report_scanning False (Text_arg ''gccxml missing'')
           (conf_warn ''gccxml missing; automatic scanning of API definitions will not be possible'' r))"

definition configure_scanning :: "py_world \<Rightarrow> conf_run \<Rightarrow> conf_run result" where
  "configure_scanning y r =
     (let r = set_run_env (dict_set ''GCC_RTTI_ABI_COMPLETE'' (EStr (if y_cxxabi y then ''True'' else ''False'')) (run_env r)) r
      in if \<not> y_has_module y (r_environ r) ''pygccxml''
         then report_scanning False (Text_arg (''Missing '' @ repr_str ''pygccxml'' @ '' Python module'')) r
         else case y_pygccxml y of
           None \<Rightarrow> Inr (upd_run (report_optional_feature ''castxml'' ''Python API Scanning Support'' False ''pygccxml Python module version is unknown'')
             (conf_warn ''pygccxml version cannot be determined'' r))
         | Some s \<Rightarrow>
             (let v = dropWhile (\<lambda>c. c = CHR ''v'') s
              in bind_result (version_numbers v) (\<lambda>numbers.
                   let r = conf_msg ''Checking for pygccxml version'' v r
                   in if \<not> ints_le [0, 9, 5] numbers
                      then report_scanning False (Text_arg ''pygccxml too old'')
                        (conf_warn (''pygccxml (found '' @ v @ '') is too old (need 0.9.5) => automatic scanning of API definitions will not be possible'') r)
                      else check_gccxml y r)))"

text \<open>The end.  Both calls of the report lack their first argument, so whatever follows is not reached.\<close>

definition choose_apidefs :: "py_world \<Rightarrow> conf_run \<Rightarrow> conf_run result" where
  "choose_apidefs y r =
     (let (long, r) = type_test y ''uint64_t'' ''unsigned long'' r;
          (long_long, r) = type_test y ''uint64_t'' ''unsigned long long'' r;
          defs = (if long then Some ''gcc-LP64'' else if long_long then Some ''gcc-ILP32'' else None);
          r = set_run_env (dict_set ''PYTHON_BINDINGS_APIDEFS'' (case defs of Some d \<Rightarrow> EStr d | None \<Rightarrow> EList []) (run_env r)) r;
          r = conf_msg ''Checking for the apidefs that can be used for Python bindings'' (case defs of Some d \<Rightarrow> d | None \<Rightarrow> ''none available'') r
      in if defs = None
         then call_report [Text_arg ''python'', Text_arg ''Python Bindings'', Flag_arg False,
                Text_arg ''No apidefs are available that can be used in this system''] r
         else bind_result (call_report [Text_arg ''python'', Text_arg ''Python Bindings'', Flag_arg True, None_arg]
                (set_run_env (dict_set ''ENABLE_PYTHON_BINDINGS'' (EBool True) (run_env r)) r)) (configure_scanning y))"

definition check_pybindgen :: "py_world \<Rightarrow> conf_run \<Rightarrow> conf_run result" where
  "check_pybindgen y r =
     (let r = locate_pybindgen y r
      in bind_result (set_pybindgen_pythonpath (y_platform y) (run_env r) (r_environ r)) (\<lambda>e.
           let r = r\<lparr>r_environ := e\<rparr>
           in if \<not> y_has_module y e ''pybindgen'' then Inr (conf_warn ''pybindgen missing => no python bindings'' r)
              else bind_result (first_word (eget (run_env r) ''PYTHON'')) (\<lambda>python.
                let version = strip (y_pybindgen_version y python);
                    r = conf_msg ''Checking for pybindgen version'' version r
                in if \<not> string_le required_pybindgen_version version
                   then Inr (no_python ''PyBindGen version not correct and newer version could not be retrieved''
                     (conf_warn (''pybindgen (found '' @ version @ ''), (need '' @ join_str ''.'' (map (\<lambda>c. [c]) required_pybindgen_version) @ '')'')
                     (conf_warn (''pybindgen (found '' @ repr_str version @ ''), (need '' @ repr_str required_pybindgen_version @ '')'') r)))
                   else choose_apidefs y (conf_msg ''PyBindGen'' ''True'' r))))"

definition find_python :: "py_world \<Rightarrow> conf_run \<Rightarrow> conf_run result" where
  "find_python y r =
     (let env = (case po_python (y_options y) of Some p \<Rightarrow> dict_set ''PYTHON'' (EStr p) (run_env r) | None \<Rightarrow> run_env r);
          (env, found) = y_load_python y env
      in if \<not> found then Inr (no_python ''The python interpreter was not found'' (set_run_env env r)) else
      let (env, new) = y_version_ok y env
      in if \<not> new then Inr (no_python ''The python found version is too low (2.3 required)'' (set_run_env env r)) else
      let (env, headers) = y_headers_ok y env
      in if \<not> headers then Inr (no_python ''Python library or headers missing'' (set_run_env env r))
         else bind_result (foldM_result strip_arch_var env arch_vars) (\<lambda>env. check_pybindgen y (set_run_env env r)))"

definition py_configure :: "py_world \<Rightarrow> conf_run \<Rightarrow> conf_run result" where
  "py_configure y r =
     (let r = set_run_env (dict_set ''ENABLE_PYTHON_BINDINGS'' (EBool False) (run_env r)) r; env = run_env r
      in if po_disable (y_options y) then Inr (no_python ''disabled by user request'' r)
         else if list_ex (\<lambda>k. truth (eget env k)) [''ENABLE_STATIC_NS3'', ''NS3_ENABLE_STATIC'', ''ENABLE_SHARED_AND_STATIC_NS3'']
         then Inr (no_python ''bindings incompatible with static build'' r)
         else bind_result (eitems (eget env ''NS3_ENABLED_MODULES'')) (\<lambda>enabled.
              bind_result (eitems (eget env ''NS3_MODULES'')) (\<lambda>available.
                if y_platform y = ''cygwin''
                then Inr (conf_warn ''Python is not supported in CygWin environment.'' (no_python (''unsupported platform '' @ repr_str ''cygwin'') r))
                else find_python y r)))"

section \<open>Headers of the modules\<close>

text \<open>What is asked of a task generator: its name, its features, the module and the headers it declares, its directory, and the
  modules it depends on.\<close>

record header_gen =
  hg_name :: string
  hg_features :: "string list"
  hg_module :: string
  hg_headers :: "string list"
  hg_path :: string
  hg_deps :: "string list"

definition declares_headers :: "header_gen \<Rightarrow> bool" where
  "declares_headers g \<longleftrightarrow> ''ns3header'' \<in> set (hg_features g)"

definition get_headers_map :: "header_gen list \<Rightarrow> (string, string) dict" where
  "get_headers_map gens =
     foldl (\<lambda>d g. foldl (\<lambda>d h. dict_set (basename h) (hg_module g) d) d (hg_headers g)) []
       (filter (\<lambda>g. declares_headers g \<and> \<not> endswith (hg_module g) ''-test'') gens)"

definition get_module_path :: "header_gen list \<Rightarrow> string \<Rightarrow> string result" where
  "get_module_path gens module =
     (case find (\<lambda>g. declares_headers g \<and> hg_module g = module) gens of Some g \<Rightarrow> Inr (hg_path g) | None \<Rightarrow> Inl ValueError)"

definition get_modules_and_headers :: "header_gen list \<Rightarrow> (string, string list \<times> string list) dict" where
  "get_modules_and_headers gens =
     foldl (\<lambda>d m. let name = drop 4 (hg_name m)
         in dict_set name (hg_deps m, map basename (concat (map hg_headers (filter (\<lambda>g. declares_headers g \<and> hg_module g = name) gens)))) d)
       [] (filter (\<lambda>m. startswith (hg_name m) ''ns3-'' \<and> \<not> endswith (hg_name m) ''-test'') gens)"

section \<open>Build\<close>

text \<open>The features that the configuration reported, and the lookup of a file of the source tree.\<close>

record py_build =
  p_disable :: bool
  p_platform :: string
  p_features :: "feature list"
  p_src :: string
  p_resource :: "string \<Rightarrow> string option"

definition link_libs :: "build_world \<Rightarrow> wenv \<Rightarrow> string list \<Rightarrow> string list result" where
  "link_libs z env uses =
     map_result (\<lambda>libs. removedup (libs @ [''-lns3-dce'']))
       (foldM_result (\<lambda>libs dep. map_result (\<lambda>xs. libs @ xs) (lib_flags env dep))
          [''-shared'', ''-Wl,--no-as-needed'', ''-o dce'', ''-L'' @ z_cwd z @ ''/build/lib''] uses)"

text \<open>The generator of the bindings, and the extension made from its output; a file that is not found would be None, which waf rejects.\<close>

definition bindgen_kw :: "py_build \<Rightarrow> string \<Rightarrow> string \<Rightarrow> string \<Rightarrow> kwargs" where
  "bindgen_kw p script defs apidefs =
     [(''features'', KStr ''command''), (''source'', KList [script, defs]),
      (''target'', KList [''ns3module.cc'', ''ns3module.h'', ''ns3modulegen.log'']),
      (''command'', KList [''NS3_ENABLED_FEATURES=${FEATURES}'', ''GCC_RTTI_ABI_COMPLETE=${GCC_RTTI_ABI_COMPLETE}'', ''${PYTHON}'', ''${SRC[0]}'',
         p_src p, apidefs, ''dce'', ''${TGT[0]}'', ''2>'', ''${TGT[2]}'']),
      (''env.FEATURES'', KStr (join_str '','' (map ft_name (filter ft_enabled (p_features p))))),
      (''dep_vars'', KList [''FEATURES'', ''GCC_RTTI_ABI_COMPLETE'']), (''name'', KStr ''pybindgen(ns3 module dce)''),
      (''module'', KStr ''dce''), (''install_path'', KNone)]"

definition extension_kw :: "build_world \<Rightarrow> string \<Rightarrow> string list \<Rightarrow> kwargs" where
  "extension_kw z ns3inc libs =
     [(''source'', KStr ''ns3module.cc''), (''target'', KStr ''ns/dce''), (''includes'', KList [''.'', ns3inc, abspath (z_cwd z) ''build/include'']),
      (''features'', KStr ''cxx cxxshlib pyext''), (''linkflags'', KList libs), (''install_path'', KStr ''${PYTHONARCHDIR}/ns''),
      (''cxxflags'', KList [''-O0'', ''-Wall'', ''-fPIC'']), (''dflags'', KList [''-g''])]"

definition dce_generate_python_bindings :: "py_build \<Rightarrow> build_world \<Rightarrow> build_state \<Rightarrow> build_state result" where
  "dce_generate_python_bindings p z st =
     bind_result (first_word (eget (b_env st) ''INCLUDES_NS3_CORE'')) (\<lambda>ns3inc.
     bind_result (eitems (eget (b_env st) ''NS3_MODULES_FOUND'')) (\<lambda>needed.
     bind_result (link_libs z (b_env st) (modules_uselib needed)) (\<lambda>libs.
       case eget (b_env st) ''PYTHON_BINDINGS_APIDEFS'' of
         EStr defs \<Rightarrow>
           (let apidefs = replace_str ''-'' ''_'' defs
            in case (p_resource p ''bindings/python/ns3modulegen-modular.py'', p_resource p (''bindings/modulegen__'' @ apidefs @ ''.py'')) of
                 (Some script, Some module) \<Rightarrow>
                   tool_gen z ''program'' (extension_kw z ns3inc libs) (add_gen False (bindgen_kw p script module apidefs) st)
               | _ \<Rightarrow> Inl Unsupported)
       | _ \<Rightarrow> Inl AttributeError)))"

definition py_build :: "py_build \<Rightarrow> build_world \<Rightarrow> build_state \<Rightarrow> proc_env \<Rightarrow> (build_state \<times> proc_env) result" where
  "py_build p z st e =
     (if p_disable p then Inr (st, e)
      else bind_result (set_pybindgen_pythonpath (p_platform p) (b_env st) e) (\<lambda>e.
        if \<not> truth (eget (b_env st) ''ENABLE_PYTHON_BINDINGS'') then Inr (st, e)
        else bind_result (if truth (eget (b_env st) ''KERNEL_STACK'')
                          then (case eget (b_env st) ''KERNEL_STACK'' of EStr d \<Rightarrow> Inr (dict_set ''KERNEL_STACK'' d e) | _ \<Rightarrow> Inl TypeError)
                          else Inr e) (\<lambda>e.
               map_result (\<lambda>st. (st, e)) (dce_generate_python_bindings p z st))))"

section \<open>Lemmas\<close>

lemma run_simps [conf_simps]:
  "r_conf (upd_run f r) = f (r_conf r)" "r_environ (upd_run f r) = r_environ r"
  "run_env (upd_run f r) = c_env (f (r_conf r))"
  "run_env (set_run_env env r) = env" "c_features (r_conf (set_run_env env r)) = c_features (r_conf r)"
  "run_env (conf_msg m t r) = run_env r" "c_features (r_conf (conf_msg m t r)) = c_features (r_conf r)"
  "run_env (conf_warn m r) = run_env r" "c_features (r_conf (conf_warn m r)) = c_features (r_conf r)"
  "run_env (r\<lparr>r_environ := e\<rparr>) = run_env r"
  by (simp_all add: run_env_def upd_run_def set_run_env_def conf_msg_def conf_warn_def conf_simps)

lemma call_report_short: "call_report [Text_arg n, c, on, reason] r = Inl TypeError"
  by (simp add: call_report_def)

lemma choose_apidefs_fails: "choose_apidefs y r = Inl TypeError"
  by (simp add: choose_apidefs_def call_report_short split: prod.splits)

text \<open>The bindings are off, and at most a report that they are off was added to the features \<open>fs\<close>.\<close>

definition bindings_off :: "feature list \<Rightarrow> conf_run \<Rightarrow> bool" where
  "bindings_off fs r \<longleftrightarrow> eget (run_env r) ''ENABLE_PYTHON_BINDINGS'' = EBool False \<and>
     (\<exists>new. c_features (r_conf r) = fs @ new \<and> length new \<le> 1 \<and> (\<forall>f \<in> set new. \<not> ft_enabled f))"

lemma no_python_off:
  assumes "eget (run_env r) ''ENABLE_PYTHON_BINDINGS'' = EBool False" "c_features (r_conf r) = fs"
  shows "bindings_off fs (no_python reason r)"
  using assms by (simp add: bindings_off_def no_python_def conf_simps run_env_def report_optional_feature_def)

lemma warn_off [simp]: "bindings_off fs (conf_warn m r) = bindings_off fs r"
  by (simp add: bindings_off_def conf_simps)

lemma quiet_off: "eget (run_env r) ''ENABLE_PYTHON_BINDINGS'' = EBool False \<Longrightarrow> c_features (r_conf r) = fs \<Longrightarrow> bindings_off fs r"
  by (simp add: bindings_off_def)

lemma locate_pybindgen_keeps:
  "eget (run_env (locate_pybindgen y r)) ''ENABLE_PYTHON_BINDINGS'' = eget (run_env r) ''ENABLE_PYTHON_BINDINGS''"
  "c_features (r_conf (locate_pybindgen y r)) = c_features (r_conf r)"
  by (simp_all add: locate_pybindgen_def use_pybindgen_def Let_def conf_simps split: option.splits)

lemma check_pybindgen_off:
  assumes "check_pybindgen y r = Inr r'" "eget (run_env r) ''ENABLE_PYTHON_BINDINGS'' = EBool False"
  shows "bindings_off (c_features (r_conf r)) r'"
proof -
  let ?l = "locate_pybindgen y r"
  consider e m where "r' = conf_warn m (?l\<lparr>r_environ := e\<rparr>)"
    | e reason m m1 m2 res where "r' = no_python reason (conf_warn m1 (conf_warn m2 (conf_msg m res (?l\<lparr>r_environ := e\<rparr>))))"
    using assms(1) unfolding check_pybindgen_def Let_def choose_apidefs_fails
    by (elim bind_resultE) (auto split: if_splits elim!: bind_resultE)
  then show ?thesis
  proof cases
    case 1
    then show ?thesis by (simp add: quiet_off conf_simps locate_pybindgen_keeps assms(2))
  next
    case 2
    show ?thesis unfolding 2 by (rule no_python_off) (simp_all add: conf_simps locate_pybindgen_keeps assms(2))
  qed
qed

lemma strip_arch_var_keeps: "strip_arch_var env k = Inr env' \<Longrightarrow> k \<noteq> l \<Longrightarrow> eget env' l = eget env l"
  by (auto simp: strip_arch_var_def conf_simps split: evalue.splits)

lemma strip_arch_vars_keep:
  "foldM_result strip_arch_var env ks = Inr env' \<Longrightarrow> l \<notin> set ks \<Longrightarrow> eget env' l = eget env l"
proof (induction ks arbitrary: env)
  case (Cons k ks)
  then obtain env1 where "strip_arch_var env k = Inr env1" "foldM_result strip_arch_var env1 ks = Inr env'" by auto
  with Cons strip_arch_var_keeps show ?case by fastforce
qed simp

text \<open>What waf's own checks store is not whether the bindings are built.\<close>

definition checks_keep :: "py_world \<Rightarrow> bool" where
  "checks_keep y \<longleftrightarrow> (\<forall>env. \<forall>check \<in> {y_load_python y, y_version_ok y, y_headers_ok y}.
     eget (fst (check env)) ''ENABLE_PYTHON_BINDINGS'' = eget env ''ENABLE_PYTHON_BINDINGS'')"

lemma find_python_off:
  assumes "find_python y r = Inr r'" "eget (run_env r) ''ENABLE_PYTHON_BINDINGS'' = EBool False" "checks_keep y"
  shows "bindings_off (c_features (r_conf r)) r'"
proof -
  define env0 where "env0 = (case po_python (y_options y) of Some p \<Rightarrow> dict_set ''PYTHON'' (EStr p) (run_env r) | None \<Rightarrow> run_env r)"
  obtain env1 b1 where one: "y_load_python y env0 = (env1, b1)" by fastforce
  obtain env2 b2 where two: "y_version_ok y env1 = (env2, b2)" by fastforce
  obtain env3 b3 where three: "y_headers_ok y env2 = (env3, b3)" by fastforce
  have off0: "eget env0 ''ENABLE_PYTHON_BINDINGS'' = EBool False"
    using assms(2) by (simp add: env0_def conf_simps split: option.splits)
  with assms(3) one two three have off: "eget env1 ''ENABLE_PYTHON_BINDINGS'' = EBool False"
    "eget env2 ''ENABLE_PYTHON_BINDINGS'' = EBool False" "eget env3 ''ENABLE_PYTHON_BINDINGS'' = EBool False"
    unfolding checks_keep_def by (metis fst_conv insertCI)+
  have off4: "eget env4 ''ENABLE_PYTHON_BINDINGS'' = EBool False" if "foldM_result strip_arch_var env3 arch_vars = Inr env4" for env4
    using strip_arch_vars_keep [OF that] off(3) by (simp add: arch_vars_def)
  consider reason env where "r' = no_python reason (set_run_env env r)" "eget env ''ENABLE_PYTHON_BINDINGS'' = EBool False"
    | env4 where "foldM_result strip_arch_var env3 arch_vars = Inr env4" "check_pybindgen y (set_run_env env4 r) = Inr r'"
    using assms(1) off unfolding find_python_def env0_def [symmetric] Let_def
    by (auto simp: one two three split: if_splits)
  then show ?thesis
  proof cases
    case 1
    then show ?thesis by (simp add: no_python_off conf_simps)
  next
    case 2
    with check_pybindgen_off [OF 2(2)] off4 show ?thesis by (simp add: conf_simps)
  qed
qed

lemma py_configure_off:
  assumes "py_configure y r = Inr r'" "checks_keep y" shows "bindings_off (c_features (r_conf r)) r'"
proof -
  define r0 where "r0 = set_run_env (dict_set ''ENABLE_PYTHON_BINDINGS'' (EBool False) (run_env r)) r"
  have r0: "eget (run_env r0) ''ENABLE_PYTHON_BINDINGS'' = EBool False" "c_features (r_conf r0) = c_features (r_conf r)"
    by (simp_all add: r0_def conf_simps)
  show ?thesis
    using assms(1) find_python_off [OF _ r0(1) assms(2)] r0
    unfolding py_configure_def r0_def [symmetric] Let_def
    by (auto split: if_splits intro!: no_python_off)
qed

text \<open>What every step keeps: a property of the environment that waf's checks, the variables of the bindings and the directory of
  pybindgen do not break.\<close>

definition py_vars :: "string list" where
  "py_vars = [''ENABLE_PYTHON_BINDINGS'', ''PYTHON''] @ arch_vars"

definition py_stable :: "py_world \<Rightarrow> (wenv \<Rightarrow> bool) \<Rightarrow> bool" where
  "py_stable y P \<longleftrightarrow> (\<forall>env. P env \<longrightarrow>
     (\<forall>check \<in> {y_load_python y, y_version_ok y, y_headers_ok y}. P (fst (check env))) \<and>
     (\<forall>k \<in> set py_vars. \<forall>v. P (dict_set k v env)) \<and> (\<forall>s. P (dict_set ''WITH_PYBINDGEN'' (EStr s) env)))"

lemma locate_pybindgen_stable:
  "py_stable y P \<Longrightarrow> P (run_env r) \<Longrightarrow> P (run_env (locate_pybindgen y r))"
  by (simp add: locate_pybindgen_def use_pybindgen_def Let_def conf_simps py_stable_def split: option.splits)

lemma check_pybindgen_stable:
  assumes "check_pybindgen y r = Inr r'" "py_stable y P" "P (run_env r)" shows "P (run_env r')"
proof -
  have "run_env r' = run_env (locate_pybindgen y r)"
    using assms(1) unfolding check_pybindgen_def Let_def choose_apidefs_fails
    by (elim bind_resultE) (auto simp: conf_simps no_python_def split: if_splits elim!: bind_resultE; simp add: run_env_def conf_msg_def upd_run_def log_error_def conf_warn_def)
  with locate_pybindgen_stable [OF assms(2,3)] show ?thesis by simp
qed

lemma strip_arch_vars_stable:
  assumes "foldM_result strip_arch_var env ks = Inr env'" "set ks \<subseteq> set py_vars" "py_stable y P" "P env" shows "P env'"
  using assms(1,4,2)
proof (induction ks arbitrary: env)
  case (Cons k ks)
  then obtain env1 where a: "strip_arch_var env k = Inr env1" "foldM_result strip_arch_var env1 ks = Inr env'" by auto
  from a(1) obtain v where "env1 = dict_set k v env" by (auto simp: strip_arch_var_def split: evalue.splits)
  with Cons.prems assms(3) have "P env1" by (auto simp: py_stable_def)
  with Cons a show ?case by simp
qed simp

lemma py_configure_stable:
  assumes "py_configure y r = Inr r'" "py_stable y P" "P (run_env r)" shows "P (run_env r')"
proof -
  define r0 where "r0 = set_run_env (dict_set ''ENABLE_PYTHON_BINDINGS'' (EBool False) (run_env r)) r"
  have p0: "P (run_env r0)" using assms(2,3) by (simp add: r0_def conf_simps py_stable_def py_vars_def)
  consider "run_env r' = run_env r0" | "find_python y r0 = Inr r'"
    using assms(1) unfolding py_configure_def r0_def [symmetric] Let_def
    by (auto simp: conf_simps no_python_def split: if_splits; simp add: run_env_def conf_simps)
  then show ?thesis
  proof cases
    case 2
    define env0 where "env0 = (case po_python (y_options y) of Some p \<Rightarrow> dict_set ''PYTHON'' (EStr p) (run_env r0) | None \<Rightarrow> run_env r0)"
    obtain env1 b1 where one: "y_load_python y env0 = (env1, b1)" by fastforce
    obtain env2 b2 where two: "y_version_ok y env1 = (env2, b2)" by fastforce
    obtain env3 b3 where three: "y_headers_ok y env2 = (env3, b3)" by fastforce
    have e0: "P env0" using p0 assms(2) by (simp add: env0_def py_stable_def py_vars_def split: option.splits)
    have e1: "P env1" using e0 assms(2) one unfolding py_stable_def by (metis fst_conv insertCI)
    have e2: "P env2" using e1 assms(2) two unfolding py_stable_def by (metis fst_conv insertCI)
    have e3: "P env3" using e2 assms(2) three unfolding py_stable_def by (metis fst_conv insertCI)
    consider env where "run_env r' = env" "P env"
      | env4 where "foldM_result strip_arch_var env3 arch_vars = Inr env4" "check_pybindgen y (set_run_env env4 r0) = Inr r'"
      using 2 e1 e2 e3 unfolding find_python_def env0_def [symmetric] Let_def
      by (auto simp: one two three conf_simps no_python_def split: if_splits; simp add: run_env_def conf_simps set_run_env_def upd_run_def)
    then show ?thesis
    proof cases
      case (2 env4)
      have "set arch_vars \<subseteq> set py_vars" by (auto simp: py_vars_def)
      from strip_arch_vars_stable [OF 2(1) this assms(2) e3] have "P env4" .
      with check_pybindgen_stable [OF 2(2) assms(2)] show ?thesis by (simp add: conf_simps)
    qed simp
  qed (simp add: p0)
qed

lemma dce_generate_env:
  "dce_generate_python_bindings p z st = Inr st' \<Longrightarrow> b_env st' = b_env st"
  unfolding dce_generate_python_bindings_def Let_def
  by (elim bind_resultE) (auto simp: build_simps split: evalue.splits option.splits dest!: tool_gen_env)

lemma py_build_env: "py_build p z st e = Inr (st', e') \<Longrightarrow> b_env st' = b_env st"
  by (auto simp: py_build_def split: if_splits evalue.splits dest: dce_generate_env)

section \<open>Properties\<close>

text \<open>C15: the Python bindings are never built.  Every configuration of the bindings that ends without an exception leaves them
  switched off, whatever the machine has, and reports at most one feature, as not enabled; the one path that switches them
  on ends in a \<open>TypeError\<close>.\<close>

theorem bindings_never_enabled:
  assumes "py_configure y r = Inr r'" "checks_keep y"
  shows "eget (run_env r') ''ENABLE_PYTHON_BINDINGS'' = EBool False \<and>
    (\<exists>new. c_features (r_conf r') = c_features (r_conf r) @ new \<and> length new \<le> 1 \<and> (\<forall>f \<in> set new. \<not> ft_enabled f))"
  using py_configure_off [OF assms] by (simp add: bindings_off_def)

text \<open>A machine with Python and an old version of pybindgen.\<close>

definition py_sample :: py_world where
  "py_sample = \<lparr>y_options = \<lparr>po_disable = False, po_python = None, po_pybindgen = None\<rparr>, y_platform = ''linux'', y_cwd = ''/dce'',
     y_isdir = (\<lambda>d. d = ''../pybindgen''), y_load_python = (\<lambda>env. (dict_set ''PYTHON'' (EList [''/usr/bin/python3'']) env, True)),
     y_version_ok = (\<lambda>env. (env, True)),
     y_headers_ok = (\<lambda>env. (dict_set ''CFLAGS_PYEXT'' (EList [''-arch'', ''i386'', ''-g'']) env, True)), y_has_module = (\<lambda>e m. m = ''pybindgen''),
     y_pybindgen_version = (\<lambda>p. ''0.15.0'' @ nl), y_compiles = (\<lambda>s. True), y_cxxabi = True, y_pygccxml = None, y_system = ''Linux'',
     y_platform_name = ''Linux'', y_find_program = (\<lambda>p. None), y_gccxml_line = (\<lambda>p. [])\<rparr>"

definition py_start :: conf_run where
  "py_start = \<lparr>r_conf = \<lparr>c_env = [], c_features = [], c_log = []\<rparr>, r_environ = []\<rparr>"

theorem bindings_never_enabled_witness:
  "\<exists>r' f. py_configure py_sample py_start = Inr r' \<and> eget (run_env r') ''CFLAGS_PYEXT'' = EList [''-g''] \<and>
     dict_get (r_environ r') ''PYTHONPATH'' = Some ''/pybindgen'' \<and>
     c_features (r_conf r') = [f] \<and> eget (run_env r') ''ENABLE_PYTHON_BINDINGS'' = EBool False \<and> \<not> ft_enabled f"
proof -
  let ?p = "py_configure py_sample py_start"
  have e: "\<not> isl ?p" "eget (run_env (projr ?p)) ''CFLAGS_PYEXT'' = EList [''-g'']" "length (c_features (r_conf (projr ?p))) = 1"
    "dict_get (r_environ (projr ?p)) ''PYTHONPATH'' = Some ''/pybindgen''" by code_simp+
  define r' where "r' = projr ?p"
  have p: "?p = Inr r'" unfolding r'_def by (rule Inr_projr [OF e(1)])
  obtain f where f: "c_features (r_conf r') = [f]" using e(3) unfolding r'_def by (auto simp: length_Suc_conv)
  have k: "checks_keep py_sample" by (simp add: checks_keep_def py_sample_def conf_simps)
  have "c_features (r_conf py_start) = []" by (simp add: py_start_def)
  with bindings_never_enabled [OF p k] f have "eget (run_env r') ''ENABLE_PYTHON_BINDINGS'' = EBool False" "\<not> ft_enabled f" by auto
  with p f e(2,4) show ?thesis unfolding r'_def [symmetric] by blast
qed

end
