(* ===== verification/Wscript_Conf.thy ===== *)
theory Wscript_Conf
  imports Wscript_Tables Bind_Waf
begin

text \<open>
  The configuration half of \<open>src/wscript\<close> and of the \<open>wscript\<close> files in \<open>src/utils\<close> and below \<open>src/myscripts\<close>: where the C library, ns-3,
  the kernel, the loader and the other parts are, and which modules of ns-3 must be there.

  The state is the \<open>conf_run\<close> of \<open>Bind_Waf\<close>.  The options, the directories, and what waf's own tools and checks do to the
  environment are the record \<open>wconf_world\<close>; the tools of \<open>src/waf-tools\<close> that \<open>configure\<close> loads configure nothing.
\<close>

section \<open>Surroundings\<close>

record wconf_options =
  wo_glibc :: "string option"
  wo_ns3 :: "string option"
  wo_mpi :: bool
  wo_kernel :: "string option"
  wo_elf :: "string option"
  wo_aspect :: "string option"

type_synonym check_args = "(string \<times> string) list"

record wconf_world =
  x_options :: wconf_options
  x_q :: conf_world
  x_py :: py_world
  x_cwd :: string
  x_exists :: "string \<Rightarrow> bool"
  x_isdir :: "string \<Rightarrow> bool"
  x_listdir :: "string \<Rightarrow> string list"
  x_load :: "string \<Rightarrow> wenv \<Rightarrow> wenv result"
  x_check :: "check_args \<Rightarrow> env_check"
  x_find :: "string \<Rightarrow> string \<Rightarrow> env_check"

section \<open>Steps\<close>

definition set_var :: "string \<Rightarrow> evalue \<Rightarrow> conf_run \<Rightarrow> conf_run" where
  "set_var k v = upd_run (upd_env (dict_set k v))"

definition append_var :: "string \<Rightarrow> string \<Rightarrow> conf_run \<Rightarrow> conf_run" where
  "append_var k v = upd_run (upd_env (wenv_append k v))"

definition prepend_var :: "string \<Rightarrow> string \<Rightarrow> conf_run \<Rightarrow> conf_run" where
  "prepend_var k v = upd_run (upd_env (\<lambda>env. dict_set k (EList (v # (case eget env k of EList xs \<Rightarrow> xs | w \<Rightarrow> [etext w]))) env))"

definition load_tool :: "wconf_world \<Rightarrow> string \<Rightarrow> conf_run \<Rightarrow> conf_run result" where
  "load_tool x t r = map_result (\<lambda>env. set_run_env env r) (x_load x t (run_env r))"

text \<open>\<open>conf.check\<close>: whether it succeeded, which an optional check ignores and which ends the configuration otherwise.\<close>

definition conf_check :: "wconf_world \<Rightarrow> check_args \<Rightarrow> conf_run \<Rightarrow> bool \<times> conf_run" where
  "conf_check x args r = (let (env, ok) = x_check x args (run_env r) in (ok, set_run_env env r))"

definition optional_check :: "wconf_world \<Rightarrow> conf_run \<Rightarrow> check_args \<Rightarrow> conf_run" where
  "optional_check x r args = snd (conf_check x args r)"

definition mandatory_check :: "wconf_world \<Rightarrow> check_args \<Rightarrow> conf_run \<Rightarrow> conf_run result" where
  "mandatory_check x args r =
     (let (ok, r) = conf_check x args r in if ok then Inr r else Inl (WafError ''The configuration failed''))"

definition report :: "string \<Rightarrow> string \<Rightarrow> bool \<Rightarrow> string \<Rightarrow> conf_run \<Rightarrow> conf_run" where
  "report name caption on reason = upd_run (report_optional_feature name caption on reason)"

text \<open>A search for modules, with the search path of the process.\<close>

definition need_modules :: "wconf_world \<Rightarrow> conf_run \<Rightarrow> string list \<times> bool \<Rightarrow> conf_run result" where
  "need_modules x r = (\<lambda>(modules, mandatory).
     map_result (\<lambda>c. r\<lparr>r_conf := c\<rparr>)
       (check_modules ((x_q x)\<lparr>q_pkg_config_path := dict_get (r_environ r) ''PKG_CONFIG_PATH''\<rparr>) modules mandatory (r_conf r)))"

section \<open>Parts of the configuration\<close>

definition use_glibc :: "wconf_world \<Rightarrow> conf_run \<Rightarrow> conf_run result" where
  "use_glibc x r =
     (case wo_glibc (x_options x) of
        None \<Rightarrow> Inl TypeError
      | Some d \<Rightarrow>
          (let dir = abspath (x_cwd x) d
           in if x_exists x dir then Inr (set_var ''GLIBC_INSTALL_DIR'' (EStr dir) r) else Inl (SystemExit 1)))"

definition join_evalue :: "string \<Rightarrow> evalue \<Rightarrow> string result" where
  "join_evalue sep v = map_result (join_str sep) (eitems v)"

definition load_compilers :: "wconf_world \<Rightarrow> conf_run \<Rightarrow> conf_run result" where
  "load_compilers x r =
     bind_result (load_tool x ''compiler_c'' r) (\<lambda>r.
     bind_result (join_evalue ''.'' (eget (run_env r) ''CC_VERSION'')) (\<lambda>cc.
       load_tool x ''compiler_cxx'' (conf_msg ''Checking for cc version'' cc r)))"

definition use_ns3 :: "wconf_world \<Rightarrow> conf_run \<Rightarrow> conf_run" where
  "use_ns3 x r =
     (case wo_ns3 (x_options x) of
        None \<Rightarrow> r
      | Some d \<Rightarrow>
          if \<not> x_isdir x d then r
          else let dir = abspath (x_cwd x) d;
                   paths = path_joins d [''lib'', ''pkgconfig''] @ '':'' @ path_joins d [''lib64'', ''pkgconfig''];
                   path = (case dict_get (r_environ r) ''PKG_CONFIG_PATH'' of None \<Rightarrow> paths | Some old \<Rightarrow> old @ '':'' @ paths);
                   r = set_var ''NS3_DIR'' (EStr dir) r
               in append_var ''NS3_EXECUTABLE_PATH'' (path_join dir ''bin'') (r\<lparr>r_environ := dict_set ''PKG_CONFIG_PATH'' path (r_environ r)\<rparr>))"

definition ns3_modules :: "(string list \<times> bool) list" where
  "ns3_modules =
     [([''core'', ''network'', ''internet''], True), ([''point-to-point'', ''tap-bridge'', ''netanim''], False),
      ([''wifi'', ''point-to-point'', ''csma'', ''mobility'', ''spectrum''], False), ([''point-to-point-layout''], False), ([''mpi'', ''lte''], False),
      ([''visualizer''], False), ([''applications'', ''internet-apps''], False), ([''fd-net-device''], False)]"

definition header_checks :: "check_args list" where
  "header_checks =
     map (\<lambda>(h, d). [(''header_name'', h), (''define_name'', d)])
       [(''stdint.h'', ''HAVE_STDINT_H''), (''inttypes.h'', ''HAVE_INTTYPES_H''), (''sys/inttypes.h'', ''HAVE_SYS_INT_TYPES_H''),
        (''sys/types.h'', ''HAVE_SYS_TYPES_H''), (''sys/stat.h'', ''HAVE_SYS_STAT_H''), (''dirent.h'', ''HAVE_DIRENT_H'')]"

definition function_checks :: "check_args list" where
  "function_checks =
     map (\<lambda>(f, m, d). [(''fragment'', f), (''msg'', m), (''define_name'', d)])
       [(''int main() {__get_cpu_features();}'' @ nl, ''Checking for glibc get_cpu_features'', ''HAVE_GETCPUFEATURES''),
        (''int main() {secure_getenv('' @ dquote @ ''test'' @ dquote @ '');}'' @ nl, ''Checking for glibc secure_getenv'', ''HAVE_SECURE_GETENV''),
        (''int main() {explicit_bzero('' @ dquote @ ''test'' @ dquote @ '', 1, 1);}'' @ nl, ''Checking for glibc explicit_bzero'', ''HAVE___EXPLICIT_BZERO'')]"

definition check_headers :: "wconf_world \<Rightarrow> conf_run \<Rightarrow> conf_run" where
  "check_headers x r =
     (let r = foldl (optional_check x) r header_checks;
          r = (if wo_mpi (x_options x) then set_var ''MPI'' (EStr ''1'') (append_var ''DEFINES'' ''DCE_MPI=1'' r) else r)
      in append_var ''LINKFLAGS'' ''-pthread'' (prepend_var ''LINKFLAGS'' ''-Wl,--no-as-needed'' r))"

definition check_functions :: "wconf_world \<Rightarrow> conf_run \<Rightarrow> conf_run" where
  "check_functions x r =
     (let r = foldl (optional_check x) r function_checks;
          (vg, r) = conf_check x [(''header_name'', ''valgrind/valgrind.h'')] r;
          (memcheck, r) = conf_check x [(''header_name'', ''valgrind/memcheck.h'')] r;
          r = (if vg \<and> memcheck then append_var ''CXXDEFINES'' ''HAVE_VALGRIND_H'' r else r)
      in append_var ''CXXFLAGS'' ''-std=c++11'' r)"

definition check_libc :: "wconf_world \<Rightarrow> conf_run \<Rightarrow> conf_run result" where
  "check_libc x r = map_result (check_functions x) (mandatory_check x [(''lib'', ''dl'')] (check_headers x r))"

definition use_kernel :: "wconf_world \<Rightarrow> conf_run \<Rightarrow> conf_run result" where
  "use_kernel x r =
     (case wo_kernel (x_options x) of
        None \<Rightarrow> Inr r
      | Some k \<Rightarrow>
          if k = [] then Inr r
          else if \<not> x_isdir x k then Inl (SystemExit 1)
          else case find (x_isdir x) (map (path_join k) [''sim'', ''lib'']) of
                 None \<Rightarrow> Inl (SystemExit 1)
               | Some d \<Rightarrow>
                   map_result (\<lambda>r. append_var ''DEFINES'' ''KERNEL_STACK=Y'' (set_var ''KERNEL_STACK'' (EStr d) r))
                     (mandatory_check x [(''header_name'', ''sim.h''), (''includes'', path_join d ''include'')] r))"

text \<open>What the \<open>configure\<close> functions of the scripts do: they load compilers, or need modules.\<close>

datatype conf_step = Load_compilers | Need "string list"

definition conf_steps :: "string \<Rightarrow> conf_step list option" where
  "conf_steps = map_of
     [(''120-demo'', []), (''app-test'', []), (''btorrent1'', [Need [''core'', ''internet'', ''point-to-point'']]), (''ccn-common'', [Load_compilers]),
      (''ccn-exp1'', [Need [''core'', ''internet'', ''point-to-point'', ''netanim'', ''flow-monitor'']]),
      (''ccn-mt1'', [Need [''core'', ''internet'', ''point-to-point'', ''applications'']]),
      (''ccn-tap-vlc'', [Need [''core'', ''internet'', ''tap-bridge'', ''point-to-point'', ''csma'']]),
      (''dce-emu-ping'', [Need [''core'', ''internet'', ''point-to-point'', ''fd-net-device'']]), (''dce-mpi-udp'', []), (''dce-wifi'', []),
      (''dce-wifi-ofdma'', []), (''iperf-multi'', [Need [''core'', ''internet'', ''point-to-point'', ''csma'']]),
      (''loaders-test'', [Need [''core'', ''internet'', ''point-to-point'']]), (''mini-debug'', []),
      (''mt2'', [Need [''core'', ''internet'', ''point-to-point'']]),
      (''mt3'', [Need [''core'', ''internet'', ''point-to-point'', ''netanim'', ''mobility'']]), (''nr-dce'', []), (''pamptcp'', []),
      (''pamptcp-link-characteristics'', []), (''ping'', [Need [''core'', ''internet'', ''point-to-point'', ''netanim'']]),
      (''ping-mt1'', [Need [''core'', ''internet'', ''point-to-point'']]), (''sleep'', [Load_compilers, Need [''core'']]),
      (''tuto1'', [Need [''core'', ''internet'', ''point-to-point'']]), (''tuto2'', [Need [''core'', ''internet'', ''point-to-point'']]),
      (''tuto3'', [Need [''core'', ''internet'', ''point-to-point'']])]"

definition both_compilers :: "wconf_world \<Rightarrow> conf_run \<Rightarrow> conf_run result" where
  "both_compilers x r = bind_result (load_tool x ''compiler_c'' r) (load_tool x ''compiler_cxx'')"

fun do_conf_step :: "wconf_world \<Rightarrow> conf_run \<Rightarrow> conf_step \<Rightarrow> conf_run result" where
  "do_conf_step x r Load_compilers = both_compilers x r"
| "do_conf_step x r (Need ms) = need_modules x r (ms, True)"

definition conf_script :: "wconf_world \<Rightarrow> conf_run \<Rightarrow> string \<Rightarrow> conf_run result" where
  "conf_script x r dir =
     (case conf_steps dir of
        None \<Rightarrow> Inl (WafError (''No wscript file in directory '' @ path_join ''myscripts'' dir))
      | Some steps \<Rightarrow> foldM_result (do_conf_step x) r steps)"

definition script_dirs :: "wconf_world \<Rightarrow> string list" where
  "script_dirs x =
     filter (\<lambda>d. \<not> startswith d ''.'' \<and> d \<noteq> ''CVS'' \<and> x_isdir x (path_join ''myscripts'' d)) (x_listdir x ''myscripts'')"

definition conf_myscripts :: "wconf_world \<Rightarrow> conf_run \<Rightarrow> conf_run result" where
  "conf_myscripts x r = foldM_result (conf_script x) r (script_dirs x)"

text \<open>The loader, the tracing library, and what else may be there.\<close>

definition use_elf_loader :: "wconf_world \<Rightarrow> conf_run \<Rightarrow> conf_run" where
  "use_elf_loader x r =
     (let r = (case wo_elf (x_options x) of
                 None \<Rightarrow> r
               | Some d \<Rightarrow> if \<not> x_isdir x d then r
                    else if x_exists x (d @ ''/ldso'') then set_var ''ELF_LOADER_PATH'' (EStr d) r
                    else conf_warn ''elf-loader does not exist'' r)
      in report ''elf-loader'' ''ELF magic loader'' (truth (eget (run_env r) ''ELF_LOADER_PATH'')) ''elf-loader not found'' r)"

definition use_aspect :: "wconf_world \<Rightarrow> conf_run \<Rightarrow> conf_run result" where
  "use_aspect x r =
     (let r = set_var ''LIB_ASPECT_PATH'' (eget (run_env r) ''PREFIX'') r;
          r = (case wo_aspect (x_options x) of
                 None \<Rightarrow> r
               | Some d \<Rightarrow> if \<not> x_isdir x d then r
                    else if x_exists x d then set_var ''LIB_ASPECT_PATH'' (EStr (abspath (x_cwd x) d)) r
                    else conf_warn ''libaspect does not exist'' r)
      in case eget (run_env r) ''LIB_ASPECT_PATH'' of
           EStr path \<Rightarrow>
             (let (have, r) = conf_check x [(''header_name'', ''hook-manager.h''), (''lib'', ''aspect dl''), (''includes'', path_join path ''include''),
                     (''libpath'', path_join path ''lib''), (''uselib_store'', ''ASPECT'')] r;
                  r = (if have then r else set_var ''LIB_ASPECT_PATH'' (EList []) r)
              in Inr (report ''libaspect'' ''Aspect-based tracing'' have ''libaspect not found'' r))
         | _ \<Rightarrow> Inl TypeError)"

definition find_tools :: "wconf_world \<Rightarrow> conf_run \<Rightarrow> conf_run" where
  "find_tools x r =
     (let r = set_var ''VALGRIND_FOUND'' (EBool False) r;
          (env, found) = x_find x ''valgrind'' ''VALGRIND'' (run_env r);
          r = set_run_env env r;
          r = (if found then set_var ''VALGRIND_FOUND'' (EBool True) r else r);
          (env, doxygen) = x_find x ''doxygen'' ''DOXYGEN'' (run_env r)
      in set_run_env env r)"

definition check_sctp :: "wconf_world \<Rightarrow> conf_run \<Rightarrow> conf_run" where
  "check_sctp x r =
     (let (have, r) = conf_check x [(''header_name'', ''netinet/sctp.h''), (''define_name'', ''HAVE_SCTP_H'')] r
      in report ''sctp'' ''sctp-tools-dev'' have ''sctp-tools (netinet/sctp.h) not found'' (set_var ''SCTP_TOOLS_FOUND'' (EBool have) r))"

section \<open>The configuration\<close>

definition before_scripts :: "wconf_world \<Rightarrow> conf_run \<Rightarrow> conf_run result" where
  "before_scripts x r =
     bind_result (use_glibc x r) (\<lambda>r.
     bind_result (load_compilers x r) (\<lambda>r.
     bind_result (foldM_result (need_modules x) (use_ns3 x r) ns3_modules) (\<lambda>r.
     bind_result (check_libc x r) (\<lambda>r.
     bind_result (use_kernel x r) (\<lambda>r.
       Inr (set_var ''NS3_ENABLED_MODULES'' (EList []) (set_var ''EXAMPLE_DIRECTORIES'' (EStr ''.'') (set_var ''ENABLE_PYTHON_BINDINGS'' (EBool False) r))))))))"

definition wscript_configure :: "wconf_world \<Rightarrow> conf_run \<Rightarrow> conf_run result" where
  "wscript_configure x r =
     bind_result (before_scripts x r) (\<lambda>r.
     bind_result (conf_myscripts x r) (\<lambda>r.
     bind_result (use_aspect x (use_elf_loader x r)) (\<lambda>r.
     bind_result (both_compilers x (check_sctp x (find_tools x r))) (\<lambda>r.
     bind_result (py_configure (x_py x) r) (\<lambda>r.
       Inr (upd_run (\<lambda>c. c\<lparr>c_log := c_log c @ print_optional_features c\<rparr>) r))))))"

text \<open>\<open>_check_compilation_flag\<close> of the same file, which nothing calls: the flags that are tried, and what is said.\<close>

definition flag_words :: "string list \<Rightarrow> string" where
  "flag_words fs =
     (let s = (if 1 < length fs then ''flags '' else ''flag '') @ join_str '' '' fs
      in ''Checking for compilation '' @ (if 28 < length s then take 28 s @ ''...'' else s) @ '' support'')"

definition root_check_compilation_flag ::
    "(string \<Rightarrow> wenv \<Rightarrow> bool result) \<Rightarrow> wenv \<Rightarrow> string \<Rightarrow> string \<Rightarrow> string list option \<Rightarrow> bool \<times> string" where
  "root_check_compilation_flag compile env flag mode linkflags =
     (let l = (if flag \<noteq> [] then [flag] else []) @ (case linkflags of None \<Rightarrow> [] | Some fs \<Rightarrow> fs);
          compiler = (if mode = ''cc'' then ''c'' else mode);
          env = wenv_append (if compiler = ''cxx'' then ''CXXFLAGS'' else ''CFLAGS'') flag env;
          env = foldl (\<lambda>env f. wenv_append ''LINKFLAGS'' f env) env (case linkflags of None \<Rightarrow> [] | Some fs \<Rightarrow> fs)
      in (compile compiler env = Inr True, flag_words l))"

end
