(* ===== verification/Config_Files.thy ===== *)
theory Config_Files
  imports Py_Literal
begin

text \<open>
  \<open>src/utils.py\<close>: reading a list or a boolean out of a Python-syntax configuration file
  (\<open>.ns3rc\<close>, \<open>examples-to-run.py\<close>, \<open>build-status.py\<close>), and the defaults of the \<open>.ns3rc\<close>
  file; with them the writer of \<open>build-status.py\<close> in \<open>src/wscript\<close>, whose lists
  \<open>test.py\<close> reads back.
\<close>

section \<open>Definitions\<close>

text \<open>\<open>if '#' in line: (line, comment) = line.split('#', 1)\<close>\<close>

definition strip_comment :: "string \<Rightarrow> string" where
  "strip_comment line = hd (split_once (CHR ''#'') line)"

text \<open>\<open>eval(s.split('=', 1)[1].strip())\<close>; the evaluated text sees no configuration variable.\<close>

definition eval_rhs :: "string \<Rightarrow> pyval result" where
  "eval_rhs s = (case split_once (CHR ''='') s of
       [_, rhs] \<Rightarrow> py_eval (\<lambda>_. None) (strip rhs)
     | _ \<Rightarrow> Inl IndexError)"

text \<open>The loop over the lines: the list text collected so far, and the flag
  \<open>parsing_multiline_list\<close>.\<close>

fun list_scan :: "string \<Rightarrow> string list \<Rightarrow> string \<Rightarrow> bool \<Rightarrow> pyval result" where
  "list_scan name [] acc multi = Inr (VList [])"
| "list_scan name (l # ls) acc multi =
     (let line = strip_comment l
      in if contains line name \<or> multi
         then let acc' = acc @ line
              in if \<not> contains acc' '']'' then list_scan name ls acc' True
                 else eval_rhs acc'
         else list_scan name ls acc multi)"

definition get_list_from_file :: "fs \<Rightarrow> string \<Rightarrow> string \<Rightarrow> pyval result" where
  "get_list_from_file fs file_path list_name =
     (if path_exists fs file_path
      then bind_result (read_file fs file_path)
             (\<lambda>text. list_scan list_name (lines_of text) [] False)
      else Inr (VList []))"

text \<open>The value found on the first line that mentions the name; \<open>None\<close> when no line does.\<close>

fun bool_scan :: "string \<Rightarrow> string list \<Rightarrow> pyval option result" where
  "bool_scan name [] = Inr None"
| "bool_scan name (l # ls) =
     (let line = strip_comment l
      in if contains line name then map_result Some (eval_rhs line) else bool_scan name ls)"

text \<open>The variable \<open>bool_found\<close> is assigned only when the file exists, and read in any case.\<close>

definition get_bool_from_file :: "fs \<Rightarrow> string \<Rightarrow> string \<Rightarrow> pyval \<Rightarrow> pyval result" where
  "get_bool_from_file fs file_path bool_name value_if_missing =
     (if path_exists fs file_path
      then bind_result (read_file fs file_path)
             (\<lambda>text. map_result (\<lambda>found. case found of None \<Rightarrow> value_if_missing | Some b \<Rightarrow> b)
                        (bool_scan bool_name (lines_of text)))
      else Inl UnboundLocalError)"

record config =
  config_file_exists :: bool
  modules_enabled :: pyval
  examples_enabled :: pyval
  tests_enabled :: pyval

text \<open>\<open>home\<close> is \<open>os.path.expanduser('~/')\<close>.\<close>

definition read_config_file :: "fs \<Rightarrow> string \<Rightarrow> config result" where
  "read_config_file fs home =
     (let name = ''.ns3rc'';
          from_file = (\<lambda>path.
            bind_result (get_list_from_file fs path ''modules_enabled'') (\<lambda>mods.
            bind_result (get_bool_from_file fs path ''examples_enabled'' (VBool False)) (\<lambda>ex.
            bind_result (get_bool_from_file fs path ''tests_enabled'' (VBool False)) (\<lambda>te.
              Inr \<lparr>config_file_exists = True,
                   modules_enabled = (if truthy mods then mods else VList [VStr ''all_modules'']),
                   examples_enabled = ex, tests_enabled = te\<rparr>))))
      in if path_exists fs name then from_file name
         else if path_exists fs (home @ name) then from_file (home @ name)
         else Inr \<lparr>config_file_exists = False, modules_enabled = VList [VStr ''all_modules''],
                   examples_enabled = VBool False, tests_enabled = VBool False\<rparr>)"

text \<open>The text that the build writes to \<open>build-status.py\<close>.\<close>

definition build_status_text :: "string list \<Rightarrow> string list \<Rightarrow> string" where
  "build_status_text programs scripts =
     ''#! /usr/bin/env python'' @ nl @ nl @
     ''# Programs that are runnable.'' @ nl @
     ''ns3_runnable_programs = '' @ repr_str_list programs @ nl @ nl @
     ''# Scripts that are runnable.'' @ nl @
     ''ns3_runnable_scripts = '' @ repr_str_list scripts @ nl @ nl"

section \<open>The scanning loops\<close>

lemma strip_comment_id: "CHR ''#'' \<notin> set l \<Longrightarrow> strip_comment l = l"
  by (simp add: strip_comment_def)

lemma strip_comment_append: "CHR ''#'' \<notin> set l \<Longrightarrow> strip_comment (l @ CHR ''#'' # c) = l"
  by (simp add: strip_comment_def)

lemma list_scan_skip:
  assumes "\<And>l. l \<in> set ls \<Longrightarrow> \<not> contains (strip_comment l) name"
  shows "list_scan name (ls @ rest) [] False = list_scan name rest [] False"
  using assms by (induction ls) auto

lemma list_scan_multi:
  assumes "\<And>k. k < length ls \<Longrightarrow> \<not> contains (acc @ concat (map strip_comment (take k ls))) '']''"
    and "contains (acc @ concat (map strip_comment ls)) '']''" and "ls \<noteq> []"
  shows "list_scan name (ls @ rest) acc True = eval_rhs (acc @ concat (map strip_comment ls))"
  using assms
proof (induction ls arbitrary: acc)
  case (Cons l ls)
  show ?case
  proof (cases "ls = []")
    case True
    with Cons.prems show ?thesis by simp
  next
    case False
    have "\<not> contains (acc @ strip_comment l) '']''"
      using Cons.prems(1) [of 1] False by simp
    moreover have "list_scan name (ls @ rest) (acc @ strip_comment l) True =
        eval_rhs ((acc @ strip_comment l) @ concat (map strip_comment ls))"
      using Cons.prems False Cons.prems(1) [of "Suc k" for k]
      by (intro Cons.IH) auto
    ultimately show ?thesis by simp
  qed
qed simp

lemma list_scan_found:
  assumes "contains (strip_comment l) name"
    and "\<And>k. k < length ls \<Longrightarrow> \<not> contains (strip_comment l @ concat (map strip_comment (take k ls))) '']''"
    and "contains (strip_comment l @ concat (map strip_comment ls)) '']''"
  shows "list_scan name (l # ls @ rest) [] False =
    eval_rhs (strip_comment l @ concat (map strip_comment ls))"
proof (cases "ls = []")
  case True
  with assms show ?thesis by simp
next
  case False
  then have "\<not> contains (strip_comment l) '']''"
    using assms(2) [of 0] by simp
  then show ?thesis
    using assms False list_scan_multi [of ls "strip_comment l" name rest] by simp
qed

section \<open>Strings of a printed list\<close>

lemma set_join_str: "set (join_str sep xs) \<subseteq> set sep \<union> \<Union> (set ` set xs)"
  by (induction xs rule: induct_list012) auto

lemma set_repr_str_list:
  "set (repr_str_list xs) \<subseteq> {CHR ''['', CHR '']'', CHR '','', CHR 0x20, CHR 0x27} \<union> \<Union> (set ` set xs)"
  using set_join_str [of "'', ''" "map repr_str xs"]
  by (auto simp: repr_str_list_def repr_str_def split: if_splits)

lemma repr_str_list_ends:
  "repr_str_list xs \<noteq> []" "hd (repr_str_list xs) = CHR ''[''" "last (repr_str_list xs) = CHR '']''"
  by (simp_all add: repr_str_list_def)

lemma strip_repr_str_list:
  "list_all is_space u \<Longrightarrow> list_all is_space v \<Longrightarrow> strip (u @ repr_str_list xs @ v) = repr_str_list xs"
  by (rule strip_surrounded) (simp_all add: repr_str_list_ends is_space_def)

lemma eval_rhs_list:
  assumes "CHR ''='' \<notin> set name" and "\<And>x. x \<in> set xs \<Longrightarrow> plain x"
  shows "eval_rhs (name @ '' = '' @ repr_str_list xs @ nl) = Inr (VList (map VStr xs))"
proof -
  have "split_once (CHR ''='') ((name @ '' '') @ CHR ''='' # ('' '' @ repr_str_list xs @ nl)) =
      [name @ '' '', '' '' @ repr_str_list xs @ nl]"
    by (rule split_once_append) (use assms(1) in auto)
  then have "split_once (CHR ''='') (name @ '' = '' @ repr_str_list xs @ nl) =
      [name @ '' '', '' '' @ repr_str_list xs @ nl]"
    by simp
  moreover have "strip ('' '' @ repr_str_list xs @ nl) = repr_str_list xs"
    by (rule strip_repr_str_list) (simp_all add: nl_def is_space_def)
  ultimately show ?thesis
    by (simp add: eval_rhs_def py_eval_repr_str_list [OF assms(2)])
qed

text \<open>A line \<open>name = [...]\<close> of plain strings is read back as that list.\<close>

definition list_line :: "string \<Rightarrow> string list \<Rightarrow> string" where
  "list_line name xs = name @ '' = '' @ repr_str_list xs @ nl"

definition listable :: "string \<Rightarrow> bool" where
  "listable x \<longleftrightarrow> plain x \<and> CHR ''#'' \<notin> set x"

lemma strip_comment_list_line:
  assumes "CHR ''#'' \<notin> set name" and "\<And>x. x \<in> set xs \<Longrightarrow> listable x"
  shows "strip_comment (list_line name xs) = list_line name xs"
  using assms set_repr_str_list [of xs]
  by (intro strip_comment_id) (auto simp: list_line_def nl_def listable_def)

lemma contains_close_list_line: "contains (list_line name xs) '']''"
  by (simp add: contains_char list_line_def repr_str_list_def)

lemma list_scan_list_line:
  assumes "\<And>l. l \<in> set ls \<Longrightarrow> \<not> contains (strip_comment l) name"
    and "CHR ''#'' \<notin> set name" "CHR ''='' \<notin> set name" and "\<And>x. x \<in> set xs \<Longrightarrow> listable x"
  shows "list_scan name (ls @ list_line name xs # rest) [] False = Inr (VList (map VStr xs))"
proof -
  have "contains (strip_comment (list_line name xs)) name"
    using strip_comment_list_line [OF assms(2,4)] contains_self [of "[]" name]
    by (simp add: list_line_def)
  then have "list_scan name (list_line name xs # [] @ rest) [] False = eval_rhs (list_line name xs)"
    using strip_comment_list_line [OF assms(2,4)] contains_close_list_line
    by (subst list_scan_found) auto
  moreover have "eval_rhs (list_line name xs) = Inr (VList (map VStr xs))"
    unfolding list_line_def using assms(3,4)
    by (intro eval_rhs_list) (auto simp: listable_def)
  moreover have "list_scan name (ls @ list_line name xs # rest) [] False =
      list_scan name (list_line name xs # rest) [] False"
    by (rule list_scan_skip) (rule assms(1))
  ultimately show ?thesis by simp
qed

lemma contains_repr_str_list:
  assumes "p \<noteq> []" "set p \<inter> {CHR ''['', CHR '']'', CHR '','', CHR 0x20, CHR 0x27} = {}"
  shows "contains (repr_str_list xs) p \<longleftrightarrow> (\<exists>x \<in> set xs. contains x p)"
proof -
  have items: "contains (join_str '', '' (map repr_str xs) @ [c]) p \<longleftrightarrow> (\<exists>x \<in> set xs. contains x p)"
    if "c \<notin> set p" for c
  proof (induction xs rule: induct_list012)
    case 1
    with assms that show ?case by (simp add: contains_Cons_sep contains_Nil)
  next
    case (2 x)
    with assms that show ?case
      by (simp add: repr_str_def contains_Cons_sep contains_sep contains_Nil)
  next
    case (3 x y zs)
    from assms have "CHR 0x27 \<notin> set p" "CHR '','' \<notin> set p" "CHR '' '' \<notin> set p" by auto
    with 3 assms(1) show ?case
      by (simp add: repr_str_def contains_Cons_sep contains_sep)
  qed
  from assms show ?thesis
    by (simp add: repr_str_list_def contains_Cons_sep items)
qed

lemma repr_line_no_newline:
  assumes "\<forall>x \<in> set xs. listable x" "CHR 0x0A \<notin> set name"
  shows "CHR 0x0A \<notin> set (name @ '' = '' @ repr_str_list xs)"
  using assms set_repr_str_list [of xs] plain_charD(3)
  by (fastforce simp: listable_def plain_def list_all_iff)

lemma lines_of_build_status:
  assumes "\<forall>x \<in> set programs. listable x" "\<forall>x \<in> set scripts. listable x"
  shows "lines_of (build_status_text programs scripts) =
    [''#! /usr/bin/env python'' @ nl, nl, ''# Programs that are runnable.'' @ nl] @
    list_line ''ns3_runnable_programs'' programs #
    [nl, ''# Scripts that are runnable.'' @ nl] @
    list_line ''ns3_runnable_scripts'' scripts # [nl]"
proof -
  let ?ls = "[''#! /usr/bin/env python'', [], ''# Programs that are runnable.'',
    ''ns3_runnable_programs'' @ '' = '' @ repr_str_list programs, [], ''# Scripts that are runnable.'',
    ''ns3_runnable_scripts'' @ '' = '' @ repr_str_list scripts, []]"
  have "build_status_text programs scripts = concat (map (\<lambda>l. l @ [CHR 0x0A]) ?ls)"
    by (simp add: build_status_text_def nl_def)
  moreover have "CHR 0x0A \<notin> set l" if "l \<in> set ?ls" for l
    using that repr_line_no_newline [OF assms(1), of "''ns3_runnable_programs''"]
      repr_line_no_newline [OF assms(2), of "''ns3_runnable_scripts''"] by auto
  ultimately have "lines_of (build_status_text programs scripts) = map (\<lambda>l. l @ [CHR 0x0A]) ?ls"
    using lines_of_concat [of ?ls] by metis
  then show ?thesis by (simp add: list_line_def nl_def)
qed

lemma header_lines:
  "\<not> contains (strip_comment (''#! /usr/bin/env python'' @ nl)) ''ns3_runnable_programs''"
  "\<not> contains (strip_comment (''# Programs that are runnable.'' @ nl)) ''ns3_runnable_programs''"
  "\<not> contains (strip_comment nl) ''ns3_runnable_programs''"
  "\<not> contains (strip_comment (''#! /usr/bin/env python'' @ nl)) ''ns3_runnable_scripts''"
  "\<not> contains (strip_comment (''# Programs that are runnable.'' @ nl)) ''ns3_runnable_scripts''"
  "\<not> contains (strip_comment (''# Scripts that are runnable.'' @ nl)) ''ns3_runnable_scripts''"
  "\<not> contains (strip_comment nl) ''ns3_runnable_scripts''"
  by code_simp+

lemma contains_list_line:
  assumes "p \<noteq> []" "set p \<inter> {CHR ''['', CHR '']'', CHR '','', CHR 0x20, CHR 0x27, CHR ''='', CHR 0x0A} = {}"
  shows "contains (list_line name xs) p \<longleftrightarrow> contains name p \<or> (\<exists>x \<in> set xs. contains x p)"
proof -
  from assms(2) have seps: "CHR '' '' \<notin> set p" "CHR ''='' \<notin> set p" "CHR 0x0A \<notin> set p"
    and "set p \<inter> {CHR ''['', CHR '']'', CHR '','', CHR 0x20, CHR 0x27} = {}" by auto
  then show ?thesis
    using assms(1)
    by (simp add: list_line_def nl_def contains_sep contains_Cons_sep contains_Nil contains_repr_str_list)
qed

lemma programs_line_no_scripts:
  assumes "\<forall>x \<in> set programs. listable x \<and> \<not> contains x ''ns3_runnable_scripts''"
  shows "\<not> contains (strip_comment (list_line ''ns3_runnable_programs'' programs)) ''ns3_runnable_scripts''"
proof -
  have "strip_comment (list_line ''ns3_runnable_programs'' programs) =
      list_line ''ns3_runnable_programs'' programs"
    using assms by (intro strip_comment_list_line) auto
  moreover have "\<not> contains ''ns3_runnable_programs'' ''ns3_runnable_scripts''"
    by code_simp
  moreover have "contains (list_line ''ns3_runnable_programs'' programs) ''ns3_runnable_scripts'' \<longleftrightarrow>
      contains ''ns3_runnable_programs'' ''ns3_runnable_scripts'' \<or>
      (\<exists>x \<in> set programs. contains x ''ns3_runnable_scripts'')"
    by (rule contains_list_line) simp_all
  ultimately show ?thesis
    using assms by metis
qed

text \<open>Both lists of a status file.\<close>

lemma status_read_back:
  assumes "fs path = Some (FileNode (build_status_text programs scripts))"
    and "\<forall>x \<in> set programs. listable x \<and> \<not> contains x ''ns3_runnable_scripts''"
    and "\<forall>x \<in> set scripts. listable x"
  shows "get_list_from_file fs path ''ns3_runnable_programs'' = Inr (VList (map VStr programs)) \<and>
         get_list_from_file fs path ''ns3_runnable_scripts'' = Inr (VList (map VStr scripts))"
proof -
  let ?pl = "list_line ''ns3_runnable_programs'' programs"
  let ?sl = "list_line ''ns3_runnable_scripts'' scripts"
  let ?h1 = "[''#! /usr/bin/env python'' @ nl, nl, ''# Programs that are runnable.'' @ nl]"
  let ?h2 = "[nl, ''# Scripts that are runnable.'' @ nl]"
  have lines: "lines_of (build_status_text programs scripts) = ?h1 @ ?pl # ?h2 @ ?sl # [nl]"
    using assms(2,3) by (intro lines_of_build_status) auto
  have scan: "get_list_from_file fs path name = list_scan name (?h1 @ ?pl # ?h2 @ ?sl # [nl]) [] False"
    for name
    using assms(1) lines by (simp add: get_list_from_file_def path_exists_def read_file_def)
  have "list_scan ''ns3_runnable_programs'' (?h1 @ ?pl # ?h2 @ ?sl # [nl]) [] False =
      Inr (VList (map VStr programs))"
    using assms(2) header_lines by (intro list_scan_list_line) auto
  moreover have "list_scan ''ns3_runnable_scripts'' ((?h1 @ ?pl # ?h2) @ ?sl # [nl]) [] False =
      Inr (VList (map VStr scripts))"
    using assms(2,3) header_lines programs_line_no_scripts [of programs]
    by (intro list_scan_list_line) auto
  ultimately show ?thesis by (simp add: scan)
qed

section \<open>What the readers return\<close>



text \<open>C5: the two lists that the build writes to \<open>build-status.py\<close> are the lists that
  \<open>test.py\<close> reads back, for program and script names of plain characters without a hash sign.\<close>

theorem build_status_roundtrip:
  assumes "fs path = Some (FileNode (build_status_text programs scripts))"
    and "\<forall>x \<in> set programs. listable x \<and> \<not> contains x ''ns3_runnable_scripts''"
    and "\<forall>x \<in> set scripts. listable x"
  shows "get_list_from_file fs path ''ns3_runnable_programs'' = Inr (VList (map VStr programs)) \<and>
         get_list_from_file fs path ''ns3_runnable_scripts'' = Inr (VList (map VStr scripts))"
  using assms by (rule status_read_back)

theorem build_status_roundtrip_witness:
  "get_list_from_file
     (\<lambda>p. if p = ''b'' then Some (FileNode (build_status_text [''dce-ping'', ''test-runner''] [''a.py''])) else None)
     ''b'' ''ns3_runnable_scripts'' = Inr (VList [VStr ''a.py''])"
proof -
  have "listable ''dce-ping''" "listable ''test-runner''" "listable ''a.py''"
    "\<not> contains ''dce-ping'' ''ns3_runnable_scripts''"
    "\<not> contains ''test-runner'' ''ns3_runnable_scripts''"
    by code_simp+
  then show ?thesis
    using build_status_roundtrip [where path = "''b''" and programs = "[''dce-ping'', ''test-runner'']"
        and scripts = "[''a.py'']" and fs = "\<lambda>p. if p = ''b'' then Some (FileNode
          (build_status_text [''dce-ping'', ''test-runner''] [''a.py''])) else None"]
    by (simp del: not_None_eq)
qed

text \<open>The boolean reader.  In an existing file it returns the value on the first line that
  mentions the name outside a comment, or the given default when there is none; for a file
  that does not exist it raises instead of returning the default.\<close>

theorem get_bool_from_file_cases:
  "get_bool_from_file fs path name dflt =
     (case fs path of
        None \<Rightarrow> Inl UnboundLocalError
      | Some DirNode \<Rightarrow> Inl IsADirectoryError
      | Some (FileNode txt) \<Rightarrow>
          (case find (\<lambda>l. contains (strip_comment l) name) (lines_of txt) of
             None \<Rightarrow> Inr dflt
           | Some l \<Rightarrow> eval_rhs (strip_comment l)))"
proof -
  have scan: "bool_scan name ls = (case find (\<lambda>l. contains (strip_comment l) name) ls of
      None \<Rightarrow> Inr None | Some l \<Rightarrow> map_result Some (eval_rhs (strip_comment l)))" for ls
    by (induction ls) auto
  have "map_result (\<lambda>found. case found of None \<Rightarrow> d | Some b \<Rightarrow> b) (map_result Some m) = m" for d and m :: "pyval result"
    by (cases m) auto
  then show ?thesis
    by (auto simp: get_bool_from_file_def path_exists_def read_file_def scan
        split: option.splits fnode.splits)
qed

text \<open>The \<open>.ns3rc\<close> file.  Without one in the working directory or the home directory the
  built-in defaults come back; a file in the working directory hides the one at home; a file
  without a module list enables all modules; neither reader of a boolean can meet a missing file.\<close>

theorem read_config_file_spec:
  "read_config_file fs home =
     (if fs ''.ns3rc'' = None \<and> fs (home @ ''.ns3rc'') = None
      then Inr \<lparr>config_file_exists = False, modules_enabled = VList [VStr ''all_modules''],
                examples_enabled = VBool False, tests_enabled = VBool False\<rparr>
      else let path = (if fs ''.ns3rc'' \<noteq> None then ''.ns3rc'' else home @ ''.ns3rc'')
           in (case fs path of
                 Some (FileNode txt) \<Rightarrow>
                   bind_result (list_scan ''modules_enabled'' (lines_of txt) [] False) (\<lambda>mods.
                   bind_result (bool_scan ''examples_enabled'' (lines_of txt)) (\<lambda>ex.
                   bind_result (bool_scan ''tests_enabled'' (lines_of txt)) (\<lambda>te.
                     Inr \<lparr>config_file_exists = True,
                          modules_enabled = (if truthy mods then mods else VList [VStr ''all_modules'']),
                          examples_enabled = (case ex of None \<Rightarrow> VBool False | Some b \<Rightarrow> b),
                          tests_enabled = (case te of None \<Rightarrow> VBool False | Some b \<Rightarrow> b)\<rparr>)))
               | _ \<Rightarrow> Inl IsADirectoryError))"
proof -
  have bind_map: "bind_result (map_result f m) g = bind_result m (\<lambda>x. g (f x))"
    for f :: "pyval option \<Rightarrow> pyval" and m and g :: "pyval \<Rightarrow> config result"
    by (cases m) auto
  show ?thesis
    by (auto simp: read_config_file_def get_list_from_file_def get_bool_from_file_def
        path_exists_def read_file_def bind_map Let_def split: option.splits fnode.splits)
qed

end
