(* ===== verification/Wscript_Build.thy ===== *)
theory Wscript_Build
  imports Wscript_Tables Bind_Waf Config_Files
begin

text \<open>
  The build half of \<open>src/wscript\<close> and of the \<open>wscript\<close> files in \<open>src/utils\<close> and below \<open>src/myscripts\<close>: which
  modules, tests, examples and scripts are declared, which programs are listed as runnable, the status file that the test
  runner reads, and what \<open>--run\<close> and the other commands of waf do.

  The state is the \<open>build_state\<close> of \<open>Ns3waf_Build\<close>.  \<open>script_world\<close> adds the directory listings, and what
  the \<open>wscript\<close> of the Python bindings asks.
\<close>

section \<open>Helpers\<close>

record script_world =
  v_z :: build_world
  v_listdir :: "string \<Rightarrow> string list"
  v_isdir :: "string \<Rightarrow> bool"
  v_py :: py_build
  v_environ :: proc_env

definition build_netlink :: "build_world \<Rightarrow> build_state \<Rightarrow> build_state result" where
  "build_netlink z st =
     map_result snd (create_module z ''netlink''
       [(''needed'', KList [''internet'', ''core'']), (''source'', KList netlink_source), (''headers'', KList netlink_headers)] st)"

text \<open>The flags of what runs inside the emulator.\<close>

definition dce_kw :: "build_world \<Rightarrow> kwargs \<Rightarrow> kwargs result" where
  "dce_kw z kw =
     (let mcmodel = (if z_machine z = ''x86_64'' then [''-mcmodel=large''] else [])
      in bind_result (kextend ''cxxflags'' ([''-fpie''] @ mcmodel @ [''-U_FORTIFY_SOURCE'', ''-Wno-deprecated-declarations'']) kw) (\<lambda>kw.
         bind_result (kextend ''cflags'' ([''-fpie''] @ mcmodel @ [''-U_FORTIFY_SOURCE'']) kw)
           (kextend ''linkflags'' [''-pie'', ''-lrt'', ''-rdynamic''])))"

definition visible_entry :: "string \<Rightarrow> bool" where
  "visible_entry d \<longleftrightarrow> \<not> startswith d ''.'' \<and> d \<noteq> ''CVS''"

section \<open>Tests and examples\<close>

definition runner_test_sources :: "script_world \<Rightarrow> wenv \<Rightarrow> string list" where
  "runner_test_sources v env =
     ''test/dce-manager-test.cc'' #
     (if truth (eget env ''KERNEL_STACK'') then [''test/dce-cradle-test.cc'', ''test/dce-mptcp-test.cc''] else []) @
     map (\<lambda>s. ''test/addons/'' @ s) (filter (\<lambda>s. visible_entry s \<and> endswith s ''.cc'') (v_listdir v ''test/addons''))"

definition add_dce_test :: "build_world \<Rightarrow> ns3module \<Rightarrow> build_state \<Rightarrow> string \<times> string list \<Rightarrow> build_state result" where
  "add_dce_test z m st = (\<lambda>(name, uselib).
     bind_result (dce_kw z [(''target'', KStr (''bin_dce/'' @ name)), (''source'', KList [''test/'' @ name @ ''.cc'']),
        (''use'', KList (uselib @ [''lib/test'']))]) (\<lambda>kw.
       map_result (install_files ''${PREFIX}/bin_dce'' [''build/bin_dce/'' @ name]) (add_test z m [] kw st)))"

definition build_dce_tests :: "script_world \<Rightarrow> ns3module \<Rightarrow> build_state \<Rightarrow> build_state result" where
  "build_dce_tests v m st =
     bind_result (add_runner_test (v_z v) m [''core'', ''dce'', ''internet'', ''applications''] None
        [(''source'', KList (runner_test_sources v (b_env st)))] st) (\<lambda>st.
     bind_result (add_test (v_z v) m [] [(''features'', KStr ''cxx cxxshlib''), (''source'', KList [''test/test-macros.cc'']),
        (''target'', KStr ''lib/test''), (''linkflags'', KList [''-Wl,-soname=libtest.so''])] st) (\<lambda>st.
       foldM_result (add_dce_test (v_z v) m) (install_files ''${PREFIX}/lib'' [''lib/libtest.so''] st) dce_tests))"

definition add_dce_program :: "build_world \<Rightarrow> ns3module \<Rightarrow> build_state \<Rightarrow> string \<times> string list \<Rightarrow> build_state result" where
  "add_dce_program z m st = (\<lambda>(name, lib).
     bind_result (dce_kw z [(''target'', KStr (''bin_dce/'' @ name)), (''source'', KList [''example/'' @ name @ ''.cc'']), (''lib'', KList lib)]) (\<lambda>kw.
       map_result (install_files ''${PREFIX}/bin_dce'' [''bin_dce/'' @ name]) (add_example z m [] kw st)))"

definition add_plain_example :: "build_world \<Rightarrow> ns3module \<Rightarrow> build_state \<Rightarrow> string list \<times> string \<times> string list \<Rightarrow> build_state result" where
  "add_plain_example z m st = (\<lambda>(needed, target, source).
     add_example z m needed [(''target'', KStr target), (''source'', KList source)] st)"

definition build_dce_examples :: "build_world \<Rightarrow> ns3module \<Rightarrow> build_state \<Rightarrow> build_state result" where
  "build_dce_examples z m st =
     bind_result (foldM_result (add_dce_program z m) st
        (dce_programs @ (if truth (eget (b_env st) ''SCTP_TOOLS_FOUND'') then sctp_programs else []))) (\<lambda>st.
     bind_result (foldM_result (add_plain_example z m) st dce_examples) (\<lambda>st.
       if truth (eget (b_env st) ''LIB_ASPECT_PATH'')
       then add_example z m [''core'', ''network'', ''internet'', ''dce'', ''point-to-point'', ''csma'', ''applications'']
              [(''target'', KStr ''bin/dce-debug-aspect''), (''use'', KList [''ASPECT'']), (''source'', KList [''example/dce-debug-aspect.cc''])] st
       else Inr st))"

definition build_dce_kernel_examples :: "build_world \<Rightarrow> ns3module \<Rightarrow> build_state \<Rightarrow> build_state result" where
  "build_dce_kernel_examples z m st =
     bind_result (foldM_result (add_plain_example z m) st kernel_examples) (\<lambda>st.
     bind_result (if truth (eget (b_env st) ''SCTP_TOOLS_FOUND'')
        then add_plain_example z m st ([''core'', ''network'', ''dce'', ''point-to-point''], ''bin/dce-sctp-simple'', [''example/dce-sctp-simple.cc''])
        else Inr st) (\<lambda>st.
       add_plain_example z m st ([''core'', ''network'', ''dce'', ''wifi'', ''point-to-point'', ''csma'', ''mobility''],
         ''bin/dce-freebsd'', [''example/dce-freebsd.cc''])))"

section \<open>Scripts\<close>

text \<open>Unlike an example, a script is listed under \<open>name\<close>, which all callers set to \<open>dce\<close>.\<close>

definition build_a_script :: "string \<Rightarrow> string list \<Rightarrow> kwargs \<Rightarrow> build_state \<Rightarrow> build_state result" where
  "build_a_script name needed kw st =
     bind_result (modules_found (b_env st) (filter (\<lambda>i. i \<noteq> name) needed)) (\<lambda>found.
       if \<not> found then Inr st
       else bind_result (kplus kw ''use'' (modules_uselib needed)) (\<lambda>uses.
         let kw = dict_set ''use'' (KList uses) kw;
             kw = (if dict_has kw ''features'' then kw else dict_set ''features'' (KStr ''cxx cxxprogram'') kw)
         in map_result (\<lambda>kw. upd_benv (wenv_append ''NS3_RUNNABLE_PROGRAMS'' name) (mark_last (add_gen False kw st)))
              (if truth (eget (b_env st) ''NS3_ENABLE_STATIC'') then foldM_result (static_linkflags (b_env st)) kw uses else Inr kw)))"

definition suffixed_lib :: "wenv \<Rightarrow> string \<Rightarrow> string result" where
  "suffixed_lib env lib = (case eget env ''LIB_SUFFIX'' of EStr s \<Rightarrow> Inr (lib @ s) | _ \<Rightarrow> Inl TypeError)"

definition optional_list :: "string \<Rightarrow> string list \<Rightarrow> kwargs" where
  "optional_list k xs = (if xs = [] then [] else [(k, KList xs)])"

primrec run_step :: "build_world \<Rightarrow> build_state \<Rightarrow> script_step \<Rightarrow> build_state result" where
  "run_step z st (Script c) =
     bind_result (mapM_result (suffixed_lib (b_env st)) (sc_libs c)) (\<lambda>libs.
       build_a_script ''dce'' (sc_needed c)
         ([(''target'', KStr (sc_target c)), (''source'', KList (sc_source c))] @ optional_list ''lib'' libs @
          optional_list ''linkflags'' (sc_linkflags c)) st)"
| "run_step z st (Program kind kw) = tool_gen z kind kw st"
| "run_step z st (When_set k s) = (if truth (eget (b_env st) k) then run_step z st s else Inr st)"

definition recurse_script :: "build_world \<Rightarrow> build_state \<Rightarrow> string \<Rightarrow> build_state result" where
  "recurse_script z st dir =
     (case myscript_steps z dir of
        None \<Rightarrow> Inl (WafError (''No wscript file in directory '' @ path_join ''myscripts'' dir))
      | Some steps \<Rightarrow> foldM_result (run_step z) st steps)"

definition is_script_dir :: "script_world \<Rightarrow> string \<Rightarrow> bool" where
  "is_script_dir v d \<longleftrightarrow> v_isdir v (path_join ''myscripts'' d)"

definition add_scratch :: "script_world \<Rightarrow> build_state \<Rightarrow> string \<Rightarrow> build_state result" where
  "add_scratch v st d =
     (if is_script_dir v d then recurse_script (v_z v) st d
      else if endswith d ''.cc''
      then bind_result (eplus (eget (b_env st) ''NS3_MODULES_FOUND'') [''dce'']) (\<lambda>needed.
             build_a_script ''dce'' needed [(''target'', KStr (''bin/'' @ splitext_root d)), (''source'', KList [path_join ''myscripts'' d])] st)
      else Inr st)"

definition add_myscripts :: "script_world \<Rightarrow> build_state \<Rightarrow> build_state result" where
  "add_myscripts v st =
     (let dirs = filter visible_entry (v_listdir v ''myscripts'');
          submodule = (\<lambda>d. is_script_dir v d \<and> startswith d ''ns-3-dce-'')
      in bind_result (foldM_result (recurse_script (v_z v)) st (filter submodule dirs)) (\<lambda>st.
           foldM_result (add_scratch v) st (filter (\<lambda>d. \<not> submodule d) dirs)))"

text \<open>\<open>src/utils/wscript\<close>.\<close>

definition loader_path :: "build_world \<Rightarrow> wenv \<Rightarrow> string result" where
  "loader_path z env = (case eget env ''ELF_LOADER_PATH'' of EStr p \<Rightarrow> Inr (abspath (z_cwd z) (p @ ''/ldso'')) | _ \<Rightarrow> Inl TypeError)"

definition build_utils :: "build_world \<Rightarrow> build_state \<Rightarrow> build_state result" where
  "build_utils z st =
     (if \<not> truth (eget (b_env st) ''ELF_LOADER_PATH'') then Inr st
      else bind_result (loader_path z (b_env st)) (\<lambda>linkerpath.
        map_result (\<lambda>st. upd_benv (wenv_append ''NS3_RUNNABLE_PROGRAMS'' ''dce-runner'') (install_files ''${PREFIX}/bin'' [''../bin/dce-runner''] st))
          (tool_gen z ''program'' [(''source'', KStr ''dce-runner.c''), (''target'', KStr ''../bin/dce-runner''), (''cflags'', KList [''-fPIC'']),
             (''linkflags'', KList [''-pie'', ''-ldl'', ''-Wl,--dynamic-linker='' @ linkerpath]), (''is_ns3_program'', KBool True)] st)))"

section \<open>The build\<close>

definition start_lists :: "build_state \<Rightarrow> build_state" where
  "start_lists st =
     foldl (\<lambda>st k. upd_benv (dict_set k (EList [])) st) st
       [''NS3_MODULES_WITH_TEST_LIBRARIES'', ''NS3_ENABLED_MODULE_TEST_LIBRARIES'', ''NS3_SCRIPT_DEPENDENCIES'',
        ''NS3_RUNNABLE_PROGRAMS'', ''NS3_RUNNABLE_SCRIPTS'']"

text \<open>Flags for the C library that is installed at \<open>sysroot\<close>.\<close>

definition extra_cflags_root :: "string \<Rightarrow> string list" where
  "extra_cflags_root sysroot =
     [''-L'' @ sysroot @ ''/usr/lib64'', ''-I'' @ sysroot @ ''/include'', ''--sysroot='' @ sysroot, ''-Wl,--start-group'',
      ''-Wl,-rpath='' @ sysroot @ ''/lib64'', ''-Wl,-rpath-link=/usr/lib/x86_64-linux-gnu'',
      ''-Wl,--dynamic-linker='' @ sysroot @ ''/lib64/ld-2.31.so'']"

definition wl_end_group :: "string list" where "wl_end_group = [''-Wl,--end-group'']"

definition sysroot_of :: "wenv \<Rightarrow> string result" where
  "sysroot_of env = (case eget env ''GLIBC_INSTALL_DIR'' of EStr d \<Rightarrow> Inr d | _ \<Rightarrow> Inl TypeError)"

definition append_each :: "string \<Rightarrow> string list \<Rightarrow> build_state \<Rightarrow> build_state" where
  "append_each k xs st = foldl (\<lambda>st x. upd_benv (wenv_append k x) st) st xs"

text \<open>The sources, headers and include directories that a kernel adds; the directory is a string when it is set.\<close>

definition kernel_parts :: "wenv \<Rightarrow> (string list \<times> string list \<times> string list) result" where
  "kernel_parts env =
     (if truth (eget env ''KERNEL_STACK'')
      then (case eget env ''KERNEL_STACK'' of EStr d \<Rightarrow> Inr (kernel_source_files, kernel_header_files, [d]) | _ \<Rightarrow> Inl Unsupported)
      else Inr ([], [], []))"

definition create_dce :: "build_world \<Rightarrow> build_state \<Rightarrow> (ns3module \<times> build_state) result" where
  "create_dce z st =
     bind_result (kernel_parts (b_env st)) (\<lambda>(source, headers, includes).
     bind_result (sysroot_of (b_env st)) (\<lambda>sysroot.
       let root = extra_cflags_root sysroot; st = append_each ''LINKFLAGS'' (root @ wl_end_group) st
       in create_module z ''dce''
            [(''source'', KList (dce_source @ source)), (''headers'', KList (dce_headers @ headers)),
             (''use'', KList (modules_uselib [''core'', ''network'', ''internet'', ''netlink''])), (''includes'', KList includes),
             (''cxxflags'', KList (root @ [''-Wno-deprecated-declarations''] @ wl_end_group)), (''lib'', KList [''dl''])] st))"

definition netlink_runner_test :: "build_world \<Rightarrow> ns3module \<Rightarrow> build_state \<Rightarrow> build_state result" where
  "netlink_runner_test z m =
     add_runner_test z m [''internet'', ''point-to-point'', ''core'', ''dce''] (Some ''netlink'')
       [(''use'', KList (modules_uselib [''core'', ''network'', ''internet'', ''netlink''])), (''includes'', KList [''netlink'']),
        (''source'', KList [''test/netlink-socket-test.cc''])]"

text \<open>The test runner, with the loader of its own when there is one.\<close>

definition add_test_runner :: "build_world \<Rightarrow> ns3module \<Rightarrow> string \<Rightarrow> string list \<Rightarrow> build_state \<Rightarrow> build_state result" where
  "add_test_runner z m target linkflags st =
     bind_result (eitems (eget (b_env st) ''NS3_ENABLED_MODULE_TEST_LIBRARIES'')) (\<lambda>libs.
     bind_result (eplus (eget (b_env st) ''NS3_MODULES_FOUND'') [''dce'']) (\<lambda>needed.
       add_example z m needed [(''target'', KStr target), (''source'', KList [''utils/test-runner.cc'']), (''use'', KList libs),
         (''linkflags'', KList linkflags)] st))"

definition build_test_runner :: "build_world \<Rightarrow> ns3module \<Rightarrow> build_state \<Rightarrow> build_state result" where
  "build_test_runner z m st =
     bind_result (add_test_runner z m ''bin/test-runner'' [] st) (\<lambda>st.
       let st = upd_benv (wenv_append ''NS3_RUNNABLE_PROGRAMS'' ''bin/test-runner'') st
       in if \<not> truth (eget (b_env st) ''ELF_LOADER_PATH'') then Inr st
          else bind_result (loader_path z (b_env st)) (\<lambda>p.
                 add_test_runner z m ''bin/test-runner-vdl'' [''-Wl,--dynamic-linker='' @ p] st))"

text \<open>The generator of version scripts, and the small libraries that replace those of the C library: target, sources, setup
  function, version script and name.\<close>

definition version_gens :: "build_world \<Rightarrow> build_state \<Rightarrow> build_state result" where
  "version_gens z st =
     map_result (add_gen False
        [(''source'', KList [''dcemakeversion'', ''model/libc-ns3.version'', ''model/libpthread-ns3.version'', ''model/librt-ns3.version'',
            ''model/libm-ns3.version'', ''model/libdl-ns3.version'']),
         (''target'', KList [''model/libc.version'', ''model/libpthread.version'', ''model/librt.version'', ''model/libm.version'', ''model/libdl.version'']),
         (''rule'', KStr ''${SRC[0].abspath()} ${SRC[1].abspath()}  ${SRC[2].abspath()}  ${SRC[3].abspath()} ${SRC[4].abspath()}  ${SRC[5].abspath()}'')])
       (tool_gen z ''program'' [(''source'', KStr ''utils/dcemakeversion.c''), (''name'', KStr ''dcemakeversion''),
          (''target'', KStr ''dcemakeversion''), (''cflags'', KList [''-g'']), (''linkflags'', KList [''-lpthread'', ''-lrt'', ''-lm'', ''-ldl''])]
          (set_group ''dce_version_files'' st))"

definition ns3_libraries :: "(string \<times> string list \<times> string \<times> string \<times> string) list" where
  "ns3_libraries =
     [(''lib/c-ns3'', [''model/libc.cc'', ''model/libc-setup.cc'', ''model/libc-global-variables.cc''], ''libc_setup'', ''libc.version'', ''libc.so.6''),
      (''lib/pthread-ns3'', [''model/libc.cc'', ''model/libc-setup.cc''], ''libpthread_setup'', ''libpthread.version'', ''libpthread.so.0''),
      (''lib/rt-ns3'', [''model/libc.cc'', ''model/libc-setup.cc''], ''librt_setup'', ''librt.version'', ''librt.so.1''),
      (''lib/m-ns3'', [''model/libc.cc'', ''model/libc-setup.cc''], ''libm_setup'', ''libm.version'', ''libm.so.6''),
      (''lib/dl-ns3'', [''model/libc.cc'', ''model/libc-setup.cc''], ''libdl_setup'', ''libdl.version'', ''libdl.so.2'')]"

definition add_ns3_library :: "build_world \<Rightarrow> string \<Rightarrow> build_state \<Rightarrow> string \<times> string list \<times> string \<times> string \<times> string \<Rightarrow> build_state result" where
  "add_ns3_library z sysroot st = (\<lambda>(target, source, setup, version, soname).
     tool_gen z ''shlib'' [(''source'', KList source), (''target'', KStr target),
       (''cxxflags'', KList (extra_cflags_root sysroot @ [''-g'', ''-fno-profile-arcs'', ''-fno-test-coverage'', ''-Wno-builtin-declaration-mismatch''] @ wl_end_group)),
       (''defines'', KList [''LIBSETUP='' @ setup]),
       (''linkflags'', KList [''-nostdlib'', ''-fno-profile-arcs'', ''-Wl,--version-script='' @ path_join ''model'' version, ''-Wl,-soname='' @ soname])] st)"

definition written_status :: "wenv \<Rightarrow> string result" where
  "written_status env =
     (case (eget env ''NS3_RUNNABLE_PROGRAMS'', eget env ''NS3_RUNNABLE_SCRIPTS'') of
        (EList programs, EList scripts) \<Rightarrow> Inr (build_status_text programs scripts) | _ \<Rightarrow> Inl Unsupported)"

text \<open>\<open>build\<close> up to the status file, whose text is the second component.\<close>

definition build_modules :: "script_world \<Rightarrow> build_state \<Rightarrow> (ns3module \<times> build_state) result" where
  "build_modules v st =
     bind_result (build_netlink (v_z v) (set_group ''ns3modulebuild'' (start_lists st))) (create_dce (v_z v))"

definition build_programs :: "script_world \<Rightarrow> ns3module \<Rightarrow> build_state \<Rightarrow> build_state result" where
  "build_programs v m st =
     bind_result (add_myscripts v st) (\<lambda>st.
     bind_result (build_dce_tests v m st) (\<lambda>st.
     bind_result (build_dce_examples (v_z v) m st) (\<lambda>st.
     bind_result (netlink_runner_test (v_z v) m st) (\<lambda>st.
     bind_result (if truth (eget (b_env st) ''KERNEL_STACK'') then build_dce_kernel_examples (v_z v) m st else Inr st)
       (build_test_runner (v_z v) m)))))"

definition build_libraries :: "script_world \<Rightarrow> build_state \<Rightarrow> build_state result" where
  "build_libraries v st =
     bind_result (version_gens (v_z v) st) (\<lambda>st.
     bind_result (sysroot_of (b_env st)) (\<lambda>sysroot.
       foldM_result (add_ns3_library (v_z v) sysroot) (set_group ''dce_use_version_files'' st) ns3_libraries))"

definition wscript_build :: "script_world \<Rightarrow> build_state \<Rightarrow> (build_state \<times> proc_env \<times> string) result" where
  "wscript_build v st =
     bind_result (build_modules v st) (\<lambda>(m, st).
     bind_result (build_programs v m st) (\<lambda>st.
     bind_result (build_libraries v st) (\<lambda>st.
     bind_result (build_utils (v_z v) st) (\<lambda>st.
     bind_result (py_build (v_py v) (v_z v) st (v_environ v)) (\<lambda>(st, e).
       map_result (\<lambda>s. (st, e, s)) (written_status (b_env st)))))))"

section \<open>Running programs, and the other commands\<close>

text \<open>The end of \<open>build\<close> for \<open>--run\<close>: the targets, and the program that gets the visualizer.\<close>

definition run_targets :: "bld \<Rightarrow> string \<Rightarrow> bool \<Rightarrow> string \<Rightarrow> (string \<times> taskgen option) result" where
  "run_targets b run visualize targets =
     (if run = [] then Inr (targets, None)
      else bind_result (get_run_program b run (Some (get_command_template b []))) (\<lambda>(program_name, _).
        let targets = targets @ '','' @ basename program_name
        in if visualize then map_result (\<lambda>obj. (targets, Some obj)) (find_program b program_name)
           else Inr (targets, None)))"

text \<open>\<open>shutdown\<close>; there is no build context when nothing was built.\<close>

definition shutdown :: "bld option \<Rightarrow> string \<Rightarrow> string \<Rightarrow> bool \<Rightarrow> unit result" where
  "shutdown b run pyrun visualize =
     (case b of
        None \<Rightarrow> Inr ()
      | Some b \<Rightarrow>
          if run \<noteq> [] then bind_result (run_program b run (Some (get_command_template b [])) None visualize) (\<lambda>_. Inl (SystemExit 0))
          else if pyrun \<noteq> [] then bind_result (run_python_program b pyrun visualize) (\<lambda>_. Inl (SystemExit 0))
          else Inr ())"

text \<open>\<open>Ns3ShellContext.execute\<close> after the build.\<close>

definition shell_execute :: "bld \<Rightarrow> int result" where
  "shell_execute b =
     (let get = (\<lambda>k d. case dict_get (bl_environ b) k of Some v \<Rightarrow> v | None \<Rightarrow> d);
          shell = (if bl_platform b = ''win32'' then get ''COMSPEC'' ''cmd.exe'' else get ''SHELL'' ''/bin/sh'');
          sep = pathsep (bl_platform b)
      in run_argv b [shell]
           (Some [(''NS3_MODULE_PATH'', join_str sep (bl_module_path b)), (''NS3_EXECUTABLE_PATH'', join_str sep (bl_executable_path b))]) None False)"

text \<open>The documentation: the directories are built in turn until one fails, given the exit code of \<open>make\<close>.\<close>

definition sphinx_dir_opt :: "string \<Rightarrow> string \<Rightarrow> string" where
  "sphinx_dir_opt cwd path =
     (if path = ''./doc'' then ''BUILDDIR='' @ cwd @ ''/doc/build/''
      else ''BUILDDIR='' @ cwd @ ''/doc/build-'' @ replace_str ''ns-3-dce-'' [] (basename (replace_str ''/doc'' [] path)))"

definition sphinx_execute :: "(string list \<Rightarrow> string \<Rightarrow> int) \<Rightarrow> string \<Rightarrow> string list \<Rightarrow> string list result" where
  "sphinx_execute run_make cwd script_docs =
     foldM_result (\<lambda>done path.
       if run_make [''make'', ''SPHINXOPTS=-N'', ''-k'', sphinx_dir_opt cwd path, ''html'', ''singlehtml'', ''latexpdf''] path \<noteq> 0
       then Inl (SystemExit 1) else Inr (done @ [path])) [] (''./doc'' # script_docs)"

definition doc_commands :: "string list \<Rightarrow> string list" where
  "doc_commands commands = [''doxygen'', ''sphinx''] @ commands"

definition doxygen :: "(string list \<Rightarrow> int) \<Rightarrow> string option \<Rightarrow> unit result" where
  "doxygen popen program =
     (case program of
        None \<Rightarrow> Inl (SystemExit 1)
      | Some p \<Rightarrow> if popen [p, path_join ''doc'' ''doxygen.conf''] \<noteq> 0 then Inl (SystemExit 1) else Inr ())"

section \<open>What a step does to the environment\<close>

text \<open>An environment in which some programs were added to the runnable ones.\<close>

definition listed :: "string list \<Rightarrow> wenv \<Rightarrow> wenv" where
  "listed ps env = foldl (\<lambda>e p. wenv_append ''NS3_RUNNABLE_PROGRAMS'' p e) env ps"

lemma listed_simps [simp]:
  "listed [] env = env" "listed ps (listed qs env) = listed (qs @ ps) env"
  by (simp_all add: listed_def)

lemma listed_one: "wenv_append ''NS3_RUNNABLE_PROGRAMS'' p env = listed [p] env"
  by (simp add: listed_def)

lemma eget_listed_other [simp]: "k \<noteq> ''NS3_RUNNABLE_PROGRAMS'' \<Longrightarrow> eget (listed ps env) k = eget env k"
  by (induction ps arbitrary: env) (auto simp: listed_def conf_simps)

lemma eget_listed [simp]:
  "eget env ''NS3_RUNNABLE_PROGRAMS'' = EList xs \<Longrightarrow> eget (listed ps env) ''NS3_RUNNABLE_PROGRAMS'' = EList (xs @ ps)"
  by (induction ps arbitrary: env xs) (auto simp: listed_def conf_simps wenv_append_def)

lemma install_files_env [simp]: "b_env (install_files d fs st) = b_env st"
  by (simp add: build_simps)

lemma static_linkflags_keeps:
  "static_linkflags env kw m = Inr kw' \<Longrightarrow> k \<noteq> ''linkflags'' \<Longrightarrow> dict_get kw' k = dict_get kw k"
  by (auto simp: static_linkflags_def Let_def split: if_splits kval.splits)

lemma all_static_linkflags_keep:
  "foldM_result (static_linkflags env) kw ms = Inr kw' \<Longrightarrow> k \<noteq> ''linkflags'' \<Longrightarrow> dict_get kw' k = dict_get kw k"
  by (induction ms arbitrary: kw) (auto simp: static_linkflags_keeps)

lemma add_program_env:
  assumes "add_program kw st = Inr st'" "dict_get kw ''target'' = Some (KStr t)"
  shows "b_env st' = (if contains t ''bin_dce'' then b_env st else listed [basename t] (b_env st))"
  using assms by (auto simp: add_program_def Let_def build_simps program_target_def listed_one split: if_splits)

definition needs_met :: "string \<Rightarrow> string list \<Rightarrow> string list \<Rightarrow> bool" where
  "needs_met name found needed \<longleftrightarrow> list_all (\<lambda>m. m = name \<or> m \<in> set found) needed"

lemma needs_met_filter: "set (filter (\<lambda>i. i \<noteq> name) needed) \<subseteq> set found \<longleftrightarrow> needs_met name found needed"
  by (auto simp: needs_met_def list_all_iff)

lemma add_example_env:
  assumes "add_example z m needed kw st = Inr st'" "eget (b_env st) ''NS3_MODULES_FOUND'' = EList found"
    and "dict_get kw ''target'' = Some (KStr t)"
  shows "b_env st' = (if m_needed_ok m \<and> truth (eget (b_env st) ''NS3_ENABLE_EXAMPLES'') \<and> needs_met (m_name m) found needed \<and>
      \<not> contains t ''bin_dce'' then listed [basename t] (b_env st) else b_env st)"
proof (cases "m_needed_ok m \<and> truth (eget (b_env st) ''NS3_ENABLE_EXAMPLES'') \<and> needs_met (m_name m) found needed")
  case True
  with assms(1) obtain uses kw2 where "(if truth (eget (b_env st) ''NS3_ENABLE_STATIC'')
      then foldM_result (static_linkflags (b_env st)) (dict_set ''use'' (KList uses) kw) uses
      else Inr (dict_set ''use'' (KList uses) kw)) = Inr kw2" and p: "add_program kw2 st = Inr st'"
    unfolding add_example_def modules_found_iff [OF assms(2)] needs_met_filter Let_def by (auto simp: Let_def)
  then have "dict_get kw2 ''target'' = Some (KStr t)"
    using assms(3) by (auto split: if_splits dest: all_static_linkflags_keep [where k = "''target''"])
  from add_program_env [OF p this] True show ?thesis by simp
next
  case False
  then show ?thesis using assms(1) unfolding add_example_def modules_found_iff [OF assms(2)] needs_met_filter
    by (auto split: if_splits)
qed

lemma add_objects_env: "foldM_result (add_object z kw) st srcs = Inr st' \<Longrightarrow> b_env st' = b_env st"
  using add_objects_state by blast

lemma declare_test_env:
  assumes "declare_test z kw st = Inr st'" "dict_get kw ''target'' = Some (KStr t)"
  shows "b_env st' = (if contains t ''bin_dce'' then b_env st else listed [basename t] (b_env st))"
proof -
  from assms(1) obtain srcs st1 kw1 kw2 where o: "foldM_result (add_object z kw) st (butlast srcs) = Inr st1"
    and k1: "kextend ''use'' (map (\<lambda>s. s @ ''_object'') (butlast srcs)) kw = Inr kw1"
    and k2: "kextend ''defines'' [source_dir_define z (last srcs)] (dict_set ''source'' (last_source kw1 srcs) kw1) = Inr kw2"
    and p: "add_program (dict_set ''install_path'' KNone kw2) st1 = Inr st'"
    unfolding declare_test_def by (elim bind_resultE) (auto split: if_splits)
  from k1 k2 assms(2) have "dict_get (dict_set ''install_path'' KNone kw2) ''target'' = Some (KStr t)"
    by (auto simp: kextend_def)
  from add_program_env [OF p this] add_objects_env [OF o] show ?thesis by simp
qed

lemma add_test_env:
  assumes "add_test z m needed kw st = Inr st'" "eget (b_env st) ''NS3_MODULES_FOUND'' = EList found"
    and "dict_get kw ''target'' = Some (KStr t)"
  shows "b_env st' = (if m_needed_ok m \<and> truth (eget (b_env st) ''NS3_ENABLE_TESTS'') \<and> needs_met (m_name m) found needed \<and>
      \<not> contains t ''bin_dce'' then listed [basename t] (b_env st) else b_env st)"
proof (cases "m_needed_ok m \<and> truth (eget (b_env st) ''NS3_ENABLE_TESTS'') \<and> needs_met (m_name m) found needed")
  case True
  with assms(1) obtain kw1 kw2 where k: "kextend ''use'' (modules_uselib needed) kw = Inr kw1" "kextend ''includes'' (m_source_dirs m) kw1 = Inr kw2"
    and d: "declare_test z kw2 st = Inr st'"
    unfolding add_test_def modules_found_iff [OF assms(2)] needs_met_filter by auto
  from k assms(3) have "dict_get kw2 ''target'' = Some (KStr t)" by (auto simp: kextend_def)
  from declare_test_env [OF d this] True show ?thesis by simp
next
  case False
  then show ?thesis using assms(1) unfolding add_test_def modules_found_iff [OF assms(2)] needs_met_filter
    by (auto split: if_splits)
qed

lemma dce_kw_keeps: "dce_kw z kw = Inr kw' \<Longrightarrow> k \<notin> {''cxxflags'', ''cflags'', ''linkflags''} \<Longrightarrow> dict_get kw' k = dict_get kw k"
  by (auto simp: dce_kw_def Let_def kextend_def)

section \<open>What the build lists\<close>

text \<open>Programs were added to the runnable ones, and nothing else was changed but the list of test libraries.\<close>

definition built :: "wenv \<Rightarrow> string list \<Rightarrow> wenv \<Rightarrow> bool" where
  "built e ps e' \<longleftrightarrow>
     (\<forall>xs. eget e ''NS3_RUNNABLE_PROGRAMS'' = EList xs \<longrightarrow> eget e' ''NS3_RUNNABLE_PROGRAMS'' = EList (xs @ ps)) \<and>
     (\<forall>k. k \<notin> {''NS3_RUNNABLE_PROGRAMS'', ''NS3_ENABLED_MODULE_TEST_LIBRARIES''} \<longrightarrow> eget e' k = eget e k)"

lemma built_refl [simp]: "built e [] e"
  by (simp add: built_def)

lemma built_listed [simp]: "built e ps (listed ps e)"
  by (simp add: built_def)

lemma built_trans: "built e ps e' \<Longrightarrow> built e' qs e'' \<Longrightarrow> built e (ps @ qs) e''"
  by (simp add: built_def)

lemma built_eget: "built e ps e' \<Longrightarrow> k \<notin> {''NS3_RUNNABLE_PROGRAMS'', ''NS3_ENABLED_MODULE_TEST_LIBRARIES''} \<Longrightarrow> eget e' k = eget e k"
  by (simp add: built_def)

lemma built_fold:
  assumes "foldM_result f st xs = Inr st'" "I (b_env st)"
    and step: "\<And>st x st'. x \<in> set xs \<Longrightarrow> I (b_env st) \<Longrightarrow> f st x = Inr st' \<Longrightarrow> built (b_env st) (names x) (b_env st')"
    and inv: "\<And>e ps e'. I e \<Longrightarrow> built e ps e' \<Longrightarrow> I e'"
  shows "built (b_env st) (concat (map names xs)) (b_env st')"
  using assms(1-3)
proof (induction xs arbitrary: st)
  case (Cons x xs)
  then obtain st1 where a: "f st x = Inr st1" "foldM_result f st1 xs = Inr st'" by auto
  have b: "built (b_env st) (names x) (b_env st1)" using Cons.prems a(1) by simp
  have "built (b_env st1) (concat (map names xs)) (b_env st')"
    using Cons.IH [OF a(2)] inv [OF Cons.prems(2) b] Cons.prems(3) by simp
  with b show ?case by (auto intro: built_trans)
qed simp

text \<open>The environments in which the programs of the emulator are declared.\<close>

definition ready :: "string list \<Rightarrow> bool \<Rightarrow> bool \<Rightarrow> wenv \<Rightarrow> bool" where
  "ready found examples tests e \<longleftrightarrow> eget e ''NS3_MODULES_FOUND'' = EList found \<and>
     truth (eget e ''NS3_ENABLE_EXAMPLES'') = examples \<and> truth (eget e ''NS3_ENABLE_TESTS'') = tests"

definition is_dce :: "ns3module \<Rightarrow> bool" where
  "is_dce m \<longleftrightarrow> m_needed_ok m \<and> m_name m = ''dce''"

lemma ready_built: "ready found ex ts e \<Longrightarrow> built e ps e' \<Longrightarrow> ready found ex ts e'"
  by (simp add: ready_def built_def)

lemma ready_fold:
  assumes "foldM_result f st xs = Inr st'" "ready found ex ts (b_env st)"
    and "\<And>st x st'. x \<in> set xs \<Longrightarrow> ready found ex ts (b_env st) \<Longrightarrow> f st x = Inr st' \<Longrightarrow> built (b_env st) (names x) (b_env st')"
  shows "built (b_env st) (concat (map names xs)) (b_env st')"
  using assms(1)
  by (rule built_fold [where I = "ready found ex ts"]) (auto intro: assms(2,3) ready_built)

definition example_name :: "string list \<Rightarrow> string list \<times> string \<times> string list \<Rightarrow> string list" where
  "example_name found = (\<lambda>(needed, target, source). if needs_met ''dce'' found needed then [basename target] else [])"

definition example_names :: "bool \<Rightarrow> string list \<Rightarrow> (string list \<times> string \<times> string list) list \<Rightarrow> string list" where
  "example_names enabled found es = (if enabled then concat (map (example_name found) es) else [])"

lemma plain_example_built:
  assumes "add_plain_example z m st (needed, target, source) = Inr st'" "ready found ex ts (b_env st)" "is_dce m" "\<not> contains target ''bin_dce''"
  shows "built (b_env st) (example_names ex found [(needed, target, source)]) (b_env st')"
  using add_example_env [of z m needed _ st st' found target] assms
  by (auto simp: add_plain_example_def ready_def is_dce_def example_names_def example_name_def dict_get_def)

lemma plain_examples_built:
  assumes "foldM_result (add_plain_example z m) st es = Inr st'" "ready found ex ts (b_env st)" "is_dce m"
    and "list_all (\<lambda>(n, t, s). \<not> contains t ''bin_dce'') es"
  shows "built (b_env st) (example_names ex found es) (b_env st')"
proof -
  have "built (b_env st) (concat (map (\<lambda>x. example_names ex found [x]) es)) (b_env st')"
  proof (rule ready_fold [OF assms(1,2)])
    fix st x st' assume "x \<in> set es" "ready found ex ts (b_env st)" "add_plain_example z m st x = Inr st'"
    with assms(3,4) plain_example_built show "built (b_env st) (example_names ex found [x]) (b_env st')"
      by (cases x) (auto simp: list_all_iff)
  qed
  moreover have "concat (map (\<lambda>x. example_names ex found [x]) es) = example_names ex found es"
    by (induction es) (auto simp: example_names_def)
  ultimately show ?thesis by simp
qed

lemma bin_dce_target: "contains (''bin_dce/'' @ name) ''bin_dce''"
  using contains_self [of "[]" "''bin_dce''" "CHR ''/'' # name"] by simp

lemma dce_program_built:
  assumes "add_dce_program z m st (name, lib) = Inr st'" "ready found ex ts (b_env st)"
  shows "built (b_env st) [] (b_env st')"
proof -
  from assms(1) obtain kw st1 where k: "dce_kw z [(''target'', KStr (''bin_dce/'' @ name)), (''source'', KList [''example/'' @ name @ ''.cc'']), (''lib'', KList lib)] = Inr kw"
    and a: "add_example z m [] kw st = Inr st1" and st': "b_env st' = b_env st1" by (auto simp: add_dce_program_def)
  have "dict_get kw ''target'' = Some (KStr (''bin_dce/'' @ name))" using dce_kw_keeps [OF k, of "''target''"] by (simp add: dict_get_def)
  from add_example_env [OF a _ this] assms(2) st' show ?thesis by (simp add: ready_def bin_dce_target del: append.simps)
qed

lemma dce_test_built:
  assumes "add_dce_test z m st (name, uselib) = Inr st'" "ready found ex ts (b_env st)"
  shows "built (b_env st) [] (b_env st')"
proof -
  from assms(1) obtain kw st1 where k: "dce_kw z [(''target'', KStr (''bin_dce/'' @ name)), (''source'', KList [''test/'' @ name @ ''.cc'']),
      (''use'', KList (uselib @ [''lib/test'']))] = Inr kw"
    and a: "add_test z m [] kw st = Inr st1" and st': "b_env st' = b_env st1" by (auto simp: add_dce_test_def)
  have "dict_get kw ''target'' = Some (KStr (''bin_dce/'' @ name))" using dce_kw_keeps [OF k, of "''target''"] by (simp add: dict_get_def)
  from add_test_env [OF a _ this] assms(2) st' show ?thesis by (simp add: ready_def bin_dce_target del: append.simps)
qed

lemma dce_programs_built:
  assumes "foldM_result (add_dce_program z m) st ps = Inr st'" "ready found ex ts (b_env st)"
  shows "built (b_env st) [] (b_env st')"
proof -
  have "built (b_env st) (concat (map (\<lambda>_. []) ps)) (b_env st')"
    using assms by (rule ready_fold) (metis dce_program_built surj_pair)
  moreover have "concat (map (\<lambda>_. []) ps) = ([] :: string list)" by simp
  ultimately show ?thesis by (simp only:)
qed

lemma dce_tests_built:
  assumes "foldM_result (add_dce_test z m) st ps = Inr st'" "ready found ex ts (b_env st)"
  shows "built (b_env st) [] (b_env st')"
proof -
  have "built (b_env st) (concat (map (\<lambda>_. []) ps)) (b_env st')"
    using assms by (rule ready_fold) (metis dce_test_built surj_pair)
  moreover have "concat (map (\<lambda>_. []) ps) = ([] :: string list)" by simp
  ultimately show ?thesis by (simp only:)
qed

lemma runner_test_built:
  assumes "add_runner_test z m needed name kw st = Inr st'" "t = m_name m @ ''-test'' @ (case name of Some n \<Rightarrow> ''-'' @ n | None \<Rightarrow> [])"
    and "\<not> contains t ''bin_dce''"
  shows "built (b_env st) [basename t] (b_env st')"
proof -
  from assms obtain kw' st1 out where b: "build_library z t kw' st = Inr st1"
    and st': "st' = upd_benv (wenv_append ''NS3_RUNNABLE_PROGRAMS'' (basename t))
      (upd_benv (wenv_append ''NS3_ENABLED_MODULE_TEST_LIBRARIES'' (out @ ''/lib/ns3-'' @ t)) st1)"
    unfolding add_runner_test_def Let_def assms(2) [symmetric] by (auto simp del: append.simps)
  have "b_env st1 = b_env st" using build_library_state [OF b] by simp
  then show ?thesis by (auto simp: st' built_def build_simps listed_one conf_simps eget_append [OF not_sym] simp del: append.simps)
qed

text \<open>Scripts are listed as \<open>dce\<close> only.\<close>

lemma build_a_script_env:
  assumes "build_a_script name needed kw st = Inr st'"
  shows "b_env st' \<in> {b_env st, listed [name] (b_env st)}"
  using assms by (auto simp: build_a_script_def Let_def build_simps listed_one split: if_splits)

definition scripts_only :: "wenv \<Rightarrow> wenv \<Rightarrow> bool" where
  "scripts_only e e' \<longleftrightarrow> (\<exists>n. e' = listed (replicate n ''dce'') e)"

lemma scripts_only_refl [simp]: "scripts_only e e"
  unfolding scripts_only_def by (rule exI [of _ 0]) simp

lemma scripts_only_trans: "scripts_only e e' \<Longrightarrow> scripts_only e' e'' \<Longrightarrow> scripts_only e e''"
  unfolding scripts_only_def by (auto simp flip: replicate_add)

lemma scripts_only_one: "e' \<in> {e, listed [''dce''] e} \<Longrightarrow> scripts_only e e'"
proof -
  have "scripts_only e (listed [''dce''] e)" unfolding scripts_only_def by (rule exI [of _ 1]) simp
  then show "e' \<in> {e, listed [''dce''] e} \<Longrightarrow> scripts_only e e'" by auto
qed

lemma scripts_only_fold:
  assumes "foldM_result f st xs = Inr st'" "\<And>st x st'. f st x = Inr st' \<Longrightarrow> scripts_only (b_env st) (b_env st')"
  shows "scripts_only (b_env st) (b_env st')"
  using assms(1) by (rule foldM_result_invariant) (auto intro: scripts_only_trans dest: assms(2))

lemma build_script_scripts: "build_a_script ''dce'' needed kw st = Inr st' \<Longrightarrow> scripts_only (b_env st) (b_env st')"
  by (rule scripts_only_one) (rule build_a_script_env)

lemma run_step_scripts: "run_step z st s = Inr st' \<Longrightarrow> scripts_only (b_env st) (b_env st')"
proof (induction s)
  case (Script c)
  then obtain kw where "build_a_script ''dce'' (sc_needed c) kw st = Inr st'" by auto
  then show ?case by (rule build_script_scripts)
next
  case (Program kind kw)
  then show ?case by (simp add: tool_gen_env)
qed (simp split: if_splits)

lemma recurse_scripts: "recurse_script z st d = Inr st' \<Longrightarrow> scripts_only (b_env st) (b_env st')"
  by (auto simp: recurse_script_def split: option.splits intro: scripts_only_fold run_step_scripts)

lemma add_scratch_scripts: "add_scratch v st d = Inr st' \<Longrightarrow> scripts_only (b_env st) (b_env st')"
  by (auto simp: add_scratch_def split: if_splits intro: recurse_scripts build_script_scripts)

lemma add_myscripts_scripts:
  assumes "add_myscripts v st = Inr st'" shows "scripts_only (b_env st) (b_env st')"
proof -
  from assms obtain st1 xs ys where "foldM_result (recurse_script (v_z v)) st xs = Inr st1" "foldM_result (add_scratch v) st1 ys = Inr st'"
    by (auto simp: add_myscripts_def Let_def)
  then show ?thesis by (meson scripts_only_fold recurse_scripts add_scratch_scripts scripts_only_trans)
qed

text \<open>The two modules.\<close>

definition found_after :: "string list \<Rightarrow> string list" where
  "found_after old = old @ (if ''internet'' \<in> set old \<and> ''core'' \<in> set old then [''netlink''] else []) @ [''dce'']"

definition build_lists :: "string list" where
  "build_lists = [''NS3_MODULES_WITH_TEST_LIBRARIES'', ''NS3_ENABLED_MODULE_TEST_LIBRARIES'', ''NS3_SCRIPT_DEPENDENCIES'',
     ''NS3_RUNNABLE_PROGRAMS'', ''NS3_RUNNABLE_SCRIPTS'']"

lemma start_lists_env:
  "eget (b_env (start_lists st)) k = (if k \<in> set build_lists then EList [] else eget (b_env st) k)"
  by (simp add: start_lists_def build_lists_def build_simps conf_simps)

lemma append_each_env: "k \<noteq> l \<Longrightarrow> eget (b_env (append_each l xs st)) k = eget (b_env st) k"
  by (induction xs arbitrary: st) (auto simp: append_each_def build_simps conf_simps)

lemma build_modules_env:
  assumes "build_modules v st = Inr (m, st')" "eget (b_env st) ''NS3_MODULES_FOUND'' = EList old"
  shows "is_dce m \<and> eget (b_env st') ''NS3_MODULES_FOUND'' = EList (found_after old) \<and>
    (\<forall>k. k \<notin> {''NS3_MODULES_FOUND'', ''LINKFLAGS''} \<longrightarrow>
       eget (b_env st') k = (if k \<in> set build_lists then EList [] else eget (b_env st) k))"
proof -
  let ?s = "set_group ''ns3modulebuild'' (start_lists st)"
  from assms(1) obtain st1 where n: "build_netlink (v_z v) ?s = Inr st1" and d: "create_dce (v_z v) st1 = Inr (m, st')"
    by (auto simp: build_modules_def)
  have s: "eget (b_env ?s) ''NS3_MODULES_FOUND'' = EList old"
    using assms(2) start_lists_env [of st "''NS3_MODULES_FOUND''"] by (simp add: build_simps build_lists_def)
  from n obtain m1 where "create_module (v_z v) ''netlink''
      [(''needed'', KList [''internet'', ''core'']), (''source'', KList netlink_source), (''headers'', KList netlink_headers)] ?s = Inr (m1, st1)"
    by (auto simp: build_netlink_def)
  note one = create_module_env [OF this _ s, of "[''internet'', ''core'']", unfolded needed_of_def dict_get_def]
  let ?old = "old @ (if ''internet'' \<in> set old \<and> ''core'' \<in> set old then [''netlink''] else [])"
  have e1: "eget (b_env st1) k = (if k = ''NS3_MODULES_FOUND'' then EList ?old else eget (b_env ?s) k)" for k
    using one s by (auto simp: conf_simps)
  from d obtain src hdr inc root where
    "create_module (v_z v) ''dce'' [(''source'', KList (dce_source @ src)), (''headers'', KList (dce_headers @ hdr)),
       (''use'', KList (modules_uselib [''core'', ''network'', ''internet'', ''netlink''])), (''includes'', KList inc),
       (''cxxflags'', KList (root @ [''-Wno-deprecated-declarations''] @ wl_end_group)), (''lib'', KList [''dl''])]
       (append_each ''LINKFLAGS'' (root @ wl_end_group) st1) = Inr (m, st')"
    unfolding create_dce_def Let_def by (elim bind_resultE) (auto elim!: bind_resultE)
  note two = create_module_env [OF this, of "[]" ?old, unfolded needed_of_def dict_get_def]
  have "is_dce m \<and> b_env st' = dict_set ''NS3_MODULES_FOUND'' (EList (?old @ [''dce''])) (b_env (append_each ''LINKFLAGS'' (root @ wl_end_group) st1))"
    using two e1 [of "''NS3_MODULES_FOUND''"] by (simp add: is_dce_def append_each_env)
  then show ?thesis using e1 start_lists_env [of st] by (simp add: conf_simps append_each_env found_after_def build_simps)
qed

text \<open>The tests and the examples.\<close>

lemma build_dce_tests_built:
  assumes "build_dce_tests v m st = Inr st'" "ready found ex ts (b_env st)" "is_dce m"
  shows "built (b_env st) (''dce-test'' # (if ts then [''test''] else [])) (b_env st')"
proof -
  from assms(1) obtain kw st1 st2 where r: "add_runner_test (v_z v) m [''core'', ''dce'', ''internet'', ''applications''] None kw st = Inr st1"
    and t: "add_test (v_z v) m [] [(''features'', KStr ''cxx cxxshlib''), (''source'', KList [''test/test-macros.cc'']),
        (''target'', KStr ''lib/test''), (''linkflags'', KList [''-Wl,-soname=libtest.so''])] st1 = Inr st2"
    and f: "foldM_result (add_dce_test (v_z v) m) (install_files ''${PREFIX}/lib'' [''lib/libtest.so''] st2) dce_tests = Inr st'"
    unfolding build_dce_tests_def by (elim bind_resultE)
  have name: "\<not> contains ''dce-test'' ''bin_dce''" "basename ''dce-test'' = ''dce-test''" "\<not> contains ''lib/test'' ''bin_dce''" "basename ''lib/test'' = ''test''"
    by code_simp+
  have one: "built (b_env st) [''dce-test''] (b_env st1)"
    using runner_test_built [OF r, of "''dce-test''"] assms(3) name by (simp add: is_dce_def)
  note r1 = ready_built [OF assms(2) one]
  have two: "built (b_env st1) (if ts then [''test''] else []) (b_env st2)"
    using add_test_env [OF t, of found "''lib/test''"] r1 assms(3) name by (simp add: ready_def is_dce_def dict_get_def needs_met_def)
  have "built (b_env st2) [] (b_env st')"
    using dce_tests_built [OF f] ready_built [OF r1 two] by simp
  from built_trans [OF one built_trans [OF two this]] show ?thesis by simp
qed

definition aspect_example :: "string list \<times> string \<times> string list" where
  "aspect_example = ([''core'', ''network'', ''internet'', ''dce'', ''point-to-point'', ''csma'', ''applications''], ''bin/dce-debug-aspect'',
     [''example/dce-debug-aspect.cc''])"

definition set_in :: "wenv \<Rightarrow> string \<Rightarrow> bool" where
  "set_in e k = truth (eget e k)"

lemma set_in_built: "built e ps e' \<Longrightarrow> k \<notin> {''NS3_RUNNABLE_PROGRAMS'', ''NS3_ENABLED_MODULE_TEST_LIBRARIES''} \<Longrightarrow> set_in e' k = set_in e k"
  by (simp add: set_in_def built_eget)

lemma table_targets: "list_all (\<lambda>(n, t, s). \<not> contains t ''bin_dce'') (dce_examples @ kernel_examples @ [aspect_example])"
  by code_simp

lemma build_dce_examples_built:
  assumes "build_dce_examples z m st = Inr st'" "ready found ex ts (b_env st)" "is_dce m"
  shows "built (b_env st) (example_names ex found (dce_examples @ (if set_in (b_env st) ''LIB_ASPECT_PATH'' then [aspect_example] else []))) (b_env st')"
proof -
  from assms(1) obtain ps st1 st2 where p: "foldM_result (add_dce_program z m) st ps = Inr st1"
    and e: "foldM_result (add_plain_example z m) st1 dce_examples = Inr st2"
    and a: "(if truth (eget (b_env st2) ''LIB_ASPECT_PATH'')
       then add_example z m [''core'', ''network'', ''internet'', ''dce'', ''point-to-point'', ''csma'', ''applications'']
              [(''target'', KStr ''bin/dce-debug-aspect''), (''use'', KList [''ASPECT'']), (''source'', KList [''example/dce-debug-aspect.cc''])] st2
       else Inr st2) = Inr st'"
    unfolding build_dce_examples_def by (elim bind_resultE)
  have one: "built (b_env st) [] (b_env st1)" using dce_programs_built [OF p assms(2)] .
  note r1 = ready_built [OF assms(2) one]
  have two: "built (b_env st1) (example_names ex found dce_examples) (b_env st2)"
    using plain_examples_built [OF e r1 assms(3)] table_targets by simp
  note r2 = ready_built [OF r1 two]
  have nb: "\<not> contains ''bin/dce-debug-aspect'' ''bin_dce''" by code_simp
  have three: "built (b_env st2) (example_names ex found (if set_in (b_env st2) ''LIB_ASPECT_PATH'' then [aspect_example] else [])) (b_env st')"
  proof (cases "truth (eget (b_env st2) ''LIB_ASPECT_PATH'')")
    case True
    with a have "add_example z m [''core'', ''network'', ''internet'', ''dce'', ''point-to-point'', ''csma'', ''applications'']
              [(''target'', KStr ''bin/dce-debug-aspect''), (''use'', KList [''ASPECT'']), (''source'', KList [''example/dce-debug-aspect.cc''])] st2 = Inr st'"
      by simp
    from add_example_env [OF this, of found "''bin/dce-debug-aspect''"] r2 assms(3) nb True show ?thesis
      by (simp add: ready_def is_dce_def dict_get_def set_in_def example_names_def example_name_def aspect_example_def)
  next
    case False
    with a show ?thesis by (simp add: set_in_def example_names_def)
  qed
  from built_trans [OF one built_trans [OF two three]] show ?thesis
    using set_in_built [OF one] set_in_built [OF two] by (simp add: example_names_def split: if_splits)
qed

definition sctp_example :: "string list \<times> string \<times> string list" where
  "sctp_example = ([''core'', ''network'', ''dce'', ''point-to-point''], ''bin/dce-sctp-simple'', [''example/dce-sctp-simple.cc''])"

definition freebsd_example :: "string list \<times> string \<times> string list" where
  "freebsd_example = ([''core'', ''network'', ''dce'', ''wifi'', ''point-to-point'', ''csma'', ''mobility''], ''bin/dce-freebsd'', [''example/dce-freebsd.cc''])"

lemma foldM_snoc: "foldM_result f st (xs @ [x]) = bind_result (foldM_result f st xs) (\<lambda>st. f st x)"
  by (induction xs arbitrary: st) (auto simp: bind_result_assoc bind_result_def split: sum.splits)

text \<open>The examples for the kernel are one list, in which one entry depends on the environment.\<close>

lemma kernel_examples_built:
  assumes "build_dce_kernel_examples z m st = Inr st'" "ready found ex ts (b_env st)" "is_dce m"
  shows "built (b_env st)
    (example_names ex found (kernel_examples @ (if set_in (b_env st) ''SCTP_TOOLS_FOUND'' then [sctp_example] else []) @ [freebsd_example])) (b_env st')"
proof -
  from assms(1) obtain st1 st2 where e: "foldM_result (add_plain_example z m) st kernel_examples = Inr st1"
    and s: "(if truth (eget (b_env st1) ''SCTP_TOOLS_FOUND'') then add_plain_example z m st1 sctp_example else Inr st1) = Inr st2"
    and f: "add_plain_example z m st2 freebsd_example = Inr st'"
    unfolding build_dce_kernel_examples_def sctp_example_def freebsd_example_def by (elim bind_resultE)
  have nb: "\<not> contains ''bin/dce-sctp-simple'' ''bin_dce''" "\<not> contains ''bin/dce-freebsd'' ''bin_dce''" by code_simp+
  have one: "built (b_env st) (example_names ex found kernel_examples) (b_env st1)"
    using plain_examples_built [OF e assms(2,3)] table_targets by simp
  note r1 = ready_built [OF assms(2) one]
  have two: "built (b_env st1) (example_names ex found (if set_in (b_env st1) ''SCTP_TOOLS_FOUND'' then [sctp_example] else [])) (b_env st2)"
    using s r1 assms(3) nb unfolding sctp_example_def set_in_def
    by (auto simp: example_names_def [of ex found "[]"] split: if_splits dest: plain_example_built)
  note r2 = ready_built [OF r1 two]
  have "built (b_env st2) (example_names ex found [freebsd_example]) (b_env st')"
    using plain_example_built [OF f [unfolded freebsd_example_def] r2 assms(3) nb(2)] by (simp add: freebsd_example_def)
  from built_trans [OF one built_trans [OF two this]] show ?thesis
    using set_in_built [OF one] by (simp add: example_names_def split: if_splits)
qed

text \<open>The test runner and the loader.\<close>

definition runner_names :: "wenv \<Rightarrow> bool \<Rightarrow> string list" where
  "runner_names e examples =
     (if examples then [''test-runner''] else []) @ ''bin/test-runner'' #
     (if set_in e ''ELF_LOADER_PATH'' \<and> examples then [''test-runner-vdl''] else [])"

lemma test_runner_built:
  assumes "add_test_runner z m target flags st = Inr st'" "ready found ex ts (b_env st)" "is_dce m" "\<not> contains target ''bin_dce''"
  shows "built (b_env st) (if ex then [basename target] else []) (b_env st')"
proof -
  from assms(1,2) obtain libs where a: "add_example z m (found @ [''dce'']) [(''target'', KStr target), (''source'', KList [''utils/test-runner.cc'']),
      (''use'', KList libs), (''linkflags'', KList flags)] st = Inr st'"
    unfolding add_test_runner_def by (elim bind_resultE) (simp add: ready_def)
  have "needs_met ''dce'' found (found @ [''dce''])" by (simp add: needs_met_def list_all_iff)
  with add_example_env [OF a, of found target] assms(2-4) show ?thesis by (simp add: ready_def is_dce_def dict_get_def)
qed

lemma build_test_runner_built:
  assumes "build_test_runner z m st = Inr st'" "ready found ex ts (b_env st)" "is_dce m"
  shows "built (b_env st) (runner_names (b_env st) ex) (b_env st')"
proof -
  let ?up = "upd_benv (wenv_append ''NS3_RUNNABLE_PROGRAMS'' ''bin/test-runner'')"
  from assms(1) obtain st1 where a: "add_test_runner z m ''bin/test-runner'' [] st = Inr st1"
    and b: "(if \<not> truth (eget (b_env (?up st1)) ''ELF_LOADER_PATH'') then Inr (?up st1)
          else bind_result (loader_path z (b_env (?up st1))) (\<lambda>p.
                 add_test_runner z m ''bin/test-runner-vdl'' [''-Wl,--dynamic-linker='' @ p] (?up st1))) = Inr st'"
    unfolding build_test_runner_def Let_def by (elim bind_resultE)
  have name: "\<not> contains ''bin/test-runner'' ''bin_dce''" "basename ''bin/test-runner'' = ''test-runner''"
    "\<not> contains ''bin/test-runner-vdl'' ''bin_dce''" "basename ''bin/test-runner-vdl'' = ''test-runner-vdl''" by code_simp+
  have one: "built (b_env st) (if ex then [''test-runner''] else []) (b_env st1)"
    using test_runner_built [OF a assms(2,3) name(1)] by (simp only: name(2))
  have two: "built (b_env st1) [''bin/test-runner''] (b_env (?up st1))" by (simp add: build_simps listed_one)
  note r2 = ready_built [OF ready_built [OF assms(2) one] two]
  have three: "built (b_env (?up st1)) (if set_in (b_env (?up st1)) ''ELF_LOADER_PATH'' \<and> ex then [''test-runner-vdl''] else []) (b_env st')"
  proof (cases "truth (eget (b_env (?up st1)) ''ELF_LOADER_PATH'')")
    case True
    with b obtain flags where "add_test_runner z m ''bin/test-runner-vdl'' flags (?up st1) = Inr st'" by auto
    from test_runner_built [OF this r2 assms(3) name(3)] True show ?thesis by (simp only: name(4) set_in_def simp_thms)
  next
    case False
    with b show ?thesis by (simp add: set_in_def)
  qed
  from built_trans [OF one built_trans [OF two three]] show ?thesis
    using set_in_built [OF one] set_in_built [OF two] by (simp add: runner_names_def)
qed

lemma tool_gens_env: "foldM_result (add_ns3_library z sysroot) st ls = Inr st' \<Longrightarrow> b_env st' = b_env st"
  by (rule foldM_result_invariant [where I = "\<lambda>s. b_env s = b_env st"])
     (auto simp: add_ns3_library_def split: prod.splits dest!: tool_gen_env)

lemma build_libraries_env:
  assumes "build_libraries v st = Inr st'" shows "b_env st' = b_env st"
proof -
  from assms obtain st1 sysroot where g: "version_gens (v_z v) st = Inr st1"
    and f: "foldM_result (add_ns3_library (v_z v) sysroot) (set_group ''dce_use_version_files'' st1) ns3_libraries = Inr st'"
    unfolding build_libraries_def by (elim bind_resultE)
  have "b_env st1 = b_env st" using g by (auto simp: version_gens_def build_simps dest: tool_gen_env)
  with tool_gens_env [OF f] show ?thesis by (simp add: build_simps)
qed

lemma build_utils_built:
  assumes "build_utils z st = Inr st'"
  shows "built (b_env st) (if set_in (b_env st) ''ELF_LOADER_PATH'' then [''dce-runner''] else []) (b_env st')"
proof (cases "truth (eget (b_env st) ''ELF_LOADER_PATH'')")
  case True
  with assms obtain kw st1 where "tool_gen z ''program'' kw st = Inr st1"
    "st' = upd_benv (wenv_append ''NS3_RUNNABLE_PROGRAMS'' ''dce-runner'') (install_files ''${PREFIX}/bin'' [''../bin/dce-runner''] st1)"
    by (auto simp: build_utils_def)
  with True tool_gen_env show ?thesis by (simp add: set_in_def build_simps listed_one)
next
  case False
  with assms show ?thesis by (simp add: set_in_def build_utils_def)
qed

text \<open>What the build lists after the scripts, from the environment it starts with.\<close>

definition own_programs :: "wenv \<Rightarrow> bool \<Rightarrow> bool \<Rightarrow> string list \<Rightarrow> string list" where
  "own_programs e examples tests found =
     ''dce-test'' # (if tests then [''test''] else []) @
     example_names examples found (dce_examples @ (if set_in e ''LIB_ASPECT_PATH'' then [aspect_example] else [])) @ [''dce-test-netlink''] @
     (if set_in e ''KERNEL_STACK''
      then example_names examples found (kernel_examples @ (if set_in e ''SCTP_TOOLS_FOUND'' then [sctp_example] else []) @ [freebsd_example])
      else []) @ runner_names e examples"

definition program_list :: "wenv \<Rightarrow> string list \<Rightarrow> string list" where
  "program_list e found =
     own_programs e (set_in e ''NS3_ENABLE_EXAMPLES'') (set_in e ''NS3_ENABLE_TESTS'') found @
     (if set_in e ''ELF_LOADER_PATH'' then [''dce-runner''] else [])"

lemma build_programs_built:
  assumes "build_programs v m st = Inr st'" "ready found ex ts (b_env st)" "is_dce m"
  shows "\<exists>n. built (b_env st) (replicate n ''dce'' @ own_programs (b_env st) ex ts found) (b_env st')"
proof -
  from assms(1) obtain s1 s2 s3 s4 s5 where scripts: "add_myscripts v st = Inr s1" and tests: "build_dce_tests v m s1 = Inr s2"
    and exs: "build_dce_examples (v_z v) m s2 = Inr s3" and nl: "netlink_runner_test (v_z v) m s3 = Inr s4"
    and k: "(if truth (eget (b_env s4) ''KERNEL_STACK'') then build_dce_kernel_examples (v_z v) m s4 else Inr s4) = Inr s5"
    and r: "build_test_runner (v_z v) m s5 = Inr st'"
    unfolding build_programs_def by (elim bind_resultE)
  from add_myscripts_scripts [OF scripts] obtain n where "b_env s1 = listed (replicate n ''dce'') (b_env st)"
    by (auto simp: scripts_only_def)
  then have one: "built (b_env st) (replicate n ''dce'') (b_env s1)" by simp
  note r1 = ready_built [OF assms(2) one]
  note two = build_dce_tests_built [OF tests r1 assms(3)]
  note r2 = ready_built [OF r1 two]
  note three = build_dce_examples_built [OF exs r2 assms(3)]
  note r3 = ready_built [OF r2 three]
  have name: "\<not> contains ''dce-test-netlink'' ''bin_dce''" "basename ''dce-test-netlink'' = ''dce-test-netlink''" by code_simp+
  have four: "built (b_env s3) [''dce-test-netlink''] (b_env s4)"
    using runner_test_built [OF nl [unfolded netlink_runner_test_def], of "''dce-test-netlink''"] assms(3) name by (simp add: is_dce_def)
  note r4 = ready_built [OF r3 four]
  have five: "built (b_env s4) (if set_in (b_env s4) ''KERNEL_STACK'' then example_names ex found
      (kernel_examples @ (if set_in (b_env s4) ''SCTP_TOOLS_FOUND'' then [sctp_example] else []) @ [freebsd_example]) else []) (b_env s5)"
    using k kernel_examples_built [OF _ r4 assms(3), of "v_z v" s5] by (cases "set_in (b_env s4) ''KERNEL_STACK''") (simp_all add: set_in_def)
  note r5 = ready_built [OF r4 five]
  note six = build_test_runner_built [OF r r5 assms(3)]
  have same: "set_in (b_env s2) k = set_in (b_env st) k" "set_in (b_env s4) k = set_in (b_env st) k" "set_in (b_env s5) k = set_in (b_env st) k"
    if "k \<in> {''KERNEL_STACK'', ''SCTP_TOOLS_FOUND'', ''LIB_ASPECT_PATH'', ''ELF_LOADER_PATH''}" for k
    using that set_in_built [OF one, of k] set_in_built [OF two, of k] set_in_built [OF three, of k] set_in_built [OF four, of k]
      set_in_built [OF five, of k] by auto
  note all = built_trans [OF one built_trans [OF two built_trans [OF three built_trans [OF four built_trans [OF five six]]]]]
  have "runner_names (b_env s5) ex = runner_names (b_env st) ex" by (simp add: runner_names_def same)
  with all show ?thesis by (intro exI [of _ n]) (simp add: same own_programs_def cong: if_cong)
qed

end
