(* ===== verification/Wscript_Total.thy ===== *)
theory Wscript_Total
  imports Wscript_Build
begin

text \<open>
  A configured tree builds: every step of the build half of \<open>src/wscript\<close> returns, for any set of modules that were found, with or
  without a kernel, a loader, examples and tests.  With \<open>Wscript_Build\<close>, which says what a build that returns lists,
  this determines the status file.

  \<open>prepared\<close> is what the steps need of the environment and keep; \<open>goes\<close> says that a step returns and keeps it.
\<close>

section \<open>What a build needs\<close>

text \<open>The types of the variables that the configuration sets.  Static builds are left out.\<close>

definition string_if_set :: "wenv \<Rightarrow> string \<Rightarrow> bool" where
  "string_if_set e k \<longleftrightarrow> (truth (eget e k) \<longrightarrow> (\<exists>s. eget e k = EStr s))"

definition soname_ok :: "wenv \<Rightarrow> bool" where
  "soname_ok e \<longleftrightarrow> (truth (eget e ''WL_SONAME_SUPPORTED'') \<longrightarrow>
     (\<exists>p. eget e ''cshlib_PATTERN'' = EStr p \<and> (\<forall>n. \<exists>r. format_one n p False = Inr r)))"

definition configured :: "wenv \<Rightarrow> bool" where
  "configured e \<longleftrightarrow> (\<exists>ms. eget e ''NS3_MODULES_FOUND'' = EList ms) \<and> \<not> truth (eget e ''NS3_ENABLE_STATIC'') \<and> soname_ok e \<and>
     (\<exists>s. eget e ''GLIBC_INSTALL_DIR'' = EStr s) \<and> (\<exists>s. eget e ''LIB_SUFFIX'' = EStr s) \<and>
     string_if_set e ''KERNEL_STACK'' \<and> string_if_set e ''ELF_LOADER_PATH'' \<and> \<not> truth (eget e ''ENABLE_PYTHON_BINDINGS'') \<and>
     string_if_set e ''WITH_PYBINDGEN''"

definition prepared :: "wenv \<Rightarrow> bool" where
  "prepared e \<longleftrightarrow> configured e \<and> (\<exists>xs. eget e ''NS3_ENABLED_MODULE_TEST_LIBRARIES'' = EList xs) \<and>
     (\<exists>xs. eget e ''NS3_RUNNABLE_PROGRAMS'' = EList xs) \<and> eget e ''NS3_RUNNABLE_SCRIPTS'' = EList []"

text \<open>What the build tool answers: it finds the features of every source, and builds somewhere.\<close>

definition tool_ok :: "build_world \<Rightarrow> bool" where
  "tool_ok z \<longleftrightarrow> z_out_dir z \<noteq> [] \<and> (\<forall>s k. \<exists>f. z_sniff z s k = Inr f)"

definition goes :: "build_state result \<Rightarrow> bool" where
  "goes m \<longleftrightarrow> (\<exists>st. m = Inr st \<and> prepared (b_env st))"

lemma goes_Inr [simp]: "goes (Inr st) \<longleftrightarrow> prepared (b_env st)"
  by (simp add: goes_def)

lemma goes_bind: "goes m \<Longrightarrow> (\<And>st. prepared (b_env st) \<Longrightarrow> goes (f st)) \<Longrightarrow> goes (bind_result m f)"
  by (auto simp: goes_def)

lemma goes_map: "goes m \<Longrightarrow> (\<And>st. prepared (b_env st) \<Longrightarrow> prepared (b_env (f st))) \<Longrightarrow> goes (map_result f m)"
  by (auto simp: goes_def)

lemma goes_fold:
  assumes "\<And>st x. x \<in> set xs \<Longrightarrow> prepared (b_env st) \<Longrightarrow> goes (f st x)" "prepared (b_env st)"
  shows "goes (foldM_result f st xs)"
  using assms by (induction xs arbitrary: st) (auto intro: goes_bind)

lemma prepared_listed: "prepared e \<Longrightarrow> prepared (listed ps e)"
  by (auto simp: prepared_def configured_def soname_ok_def string_if_set_def)

lemma prepared_found: "prepared e \<Longrightarrow> prepared (dict_set ''NS3_MODULES_FOUND'' (EList ms) e)"
  by (simp add: prepared_def configured_def soname_ok_def string_if_set_def conf_simps)

lemma prepared_linkflags: "prepared e \<Longrightarrow> prepared (wenv_append ''LINKFLAGS'' x e)"
  by (simp add: prepared_def configured_def soname_ok_def string_if_set_def conf_simps)

lemma prepared_test_library: "prepared e \<Longrightarrow> prepared (wenv_append ''NS3_ENABLED_MODULE_TEST_LIBRARIES'' x e)"
  by (simp add: prepared_def configured_def soname_ok_def string_if_set_def conf_simps wenv_append_def)

section \<open>Keyword arguments\<close>

definition lists_in :: "kwargs \<Rightarrow> string list \<Rightarrow> bool" where
  "lists_in kw ks \<longleftrightarrow> (\<forall>k \<in> set ks. dict_get kw k = None \<or> (\<exists>xs. dict_get kw k = Some (KList xs)))"

lemma kextend_list: "lists_in kw [k] \<Longrightarrow> \<exists>ys. kextend k xs kw = Inr (dict_set k (KList ys) kw)"
  by (auto simp: lists_in_def kextend_def kplus_def)

lemma kplus_list: "lists_in kw [k] \<Longrightarrow> \<exists>ys. kplus kw k xs = Inr ys"
  by (auto simp: lists_in_def kplus_def)

lemma lists_in_set [simp]: "lists_in (dict_set k (KList ys) kw) ks \<longleftrightarrow> lists_in kw (filter (\<lambda>l. l \<noteq> k) ks)"
  by (auto simp: lists_in_def)

lemma lists_in_other: "k \<notin> set ks \<Longrightarrow> lists_in (dict_set k v kw) ks \<longleftrightarrow> lists_in kw ks"
  by (auto simp: lists_in_def)

lemma lists_in_sub: "lists_in kw ks \<Longrightarrow> set ls \<subseteq> set ks \<Longrightarrow> lists_in kw ls"
  by (auto simp: lists_in_def)

section \<open>Modules, programs and tests\<close>

definition library_keys :: "string list" where
  "library_keys = [''cxxflags'', ''cflags'', ''linkflags'', ''ccdefines'', ''cxxdefines'', ''includes'']"

lemma kextend_bind:
  assumes "lists_in kw ks" "k \<in> set ks" "\<And>ys. lists_in (dict_set k (KList ys) kw) ks \<Longrightarrow> \<exists>r. f (dict_set k (KList ys) kw) = Inr r"
  shows "\<exists>r. bind_result (kextend k xs kw) f = Inr r"
proof -
  have "lists_in kw [k]" using assms(1,2) by (simp add: lists_in_def)
  then obtain ys where "kextend k xs kw = Inr (dict_set k (KList ys) kw)" using kextend_list by blast
  moreover have "lists_in (dict_set k (KList ys) kw) ks" using assms(1) by (auto simp: lists_in_def)
  ultimately show ?thesis using assms(3) by simp
qed

lemma library_kwargs_ok:
  assumes "lists_in kw library_keys" shows "\<exists>kw'. library_kwargs lf cf inc kw = Inr kw'"
proof -
  have last: "\<exists>r. kextend ''includes'' inc kw = Inr r" if "lists_in kw library_keys" for kw
    using kextend_bind [OF that, of "''includes''" Inr inc] by (simp add: library_keys_def)
  show ?thesis
    unfolding library_kwargs_def using assms
    by (intro kextend_bind [where ks = library_keys] last) (simp_all add: library_keys_def)
qed

lemma library_flags_ok:
  assumes "configured e" shows "\<exists>fs. library_flags z e name = Inr fs"
proof -
  have "\<exists>r. c_libname e n = Inr r" if "truth (eget e ''WL_SONAME_SUPPORTED'')" for n
    using assms that by (auto simp: configured_def soname_ok_def c_libname_def eformat_def)
  then show ?thesis by (cases "is_gcc [''gcc'', ''icc''] e \<and> truth (eget e ''WL_SONAME_SUPPORTED'')") (auto simp: library_flags_def)
qed

lemma out_relpath_ok: "tool_ok z \<Longrightarrow> \<exists>r. out_relpath z = Inr r"
  by (simp add: tool_ok_def out_relpath_def relpath_def Let_def)

lemma build_library_goes:
  assumes "tool_ok z" "prepared (b_env st)" "dict_get kw ''source'' = Some (KList src)" "lists_in kw library_keys"
  shows "goes (build_library z name kw st)"
proof -
  let ?e = "b_env st" and ?st = "set_group ''ns3modulebuild'' (say (''Building library '' @ name) st)"
  have e: "b_env ?st = ?e" by (simp add: build_simps)
  obtain out where out: "out_relpath z = Inr out" using out_relpath_ok [OF assms(1)] by blast
  have "configured ?e" using assms(2) by (simp add: prepared_def)
  then obtain lf cf where fl: "library_flags z ?e name = Inr (lf, cf)" using library_flags_ok by (metis surj_pair)
  let ?kind = "if truth (eget ?e ''NS3_ENABLE_STATIC'') then ''stlib'' else ''shlib''"
  obtain fs where fs: "z_sniff z (KList src) ?kind = Inr fs" using assms(1) unfolding tool_ok_def by metis
  let ?t = "path_joins out [''lib'', ''ns3-'' @ name]"
  have "lists_in (dict_set ''target'' (KStr ?t) (dict_set ''features'' fs kw)) library_keys"
    using assms(4) by (simp add: lists_in_other library_keys_def)
  from library_kwargs_ok [OF this] obtain kw' where
    kw': "library_kwargs lf cf (uniq (map dirname src)) (dict_set ''target'' (KStr ?t) (dict_set ''features'' fs kw)) = Inr kw'" ..
  show ?thesis
    unfolding build_library_def Let_def assms(3) option.case kval.case dirs_of_def kitems.simps map_result_simps bind_result_simps out e fl
      prod.case fs kw'
    using assms(2) by (simp add: build_simps)
qed

lemma build_headers_goes:
  assumes "tool_ok z" "prepared (b_env st)" "hs \<in> {None, Some KNone} \<or> (\<exists>xs. hs = Some (KList xs))"
  shows "goes (build_headers z name hs st)"
  using assms out_relpath_ok [OF assms(1)] by (auto simp: build_headers_def Let_def build_simps simp del: append.simps)

lemma create_module_goes:
  assumes "tool_ok z" "prepared (b_env st)" "dict_get kw ''source'' = Some (KList src)" "lists_in kw (''use'' # library_keys)"
    and "needed_of kw = Inr needed" "dict_get kw ''headers'' \<in> {None, Some KNone} \<or> (\<exists>xs. dict_get kw ''headers'' = Some (KList xs))"
  shows "\<exists>m st'. create_module z name kw st = Inr (m, st') \<and> prepared (b_env st')"
proof -
  obtain old where old: "eget (b_env st) ''NS3_MODULES_FOUND'' = EList old" using assms(2) by (auto simp: prepared_def configured_def)
  have "lists_in kw [''use'']" using assms(4) by (simp add: lists_in_def)
  from kextend_list [OF this] obtain ys where use: "kextend ''use'' (modules_uselib needed) kw = Inr (dict_set ''use'' (KList ys) kw)" by blast
  let ?kw = "dict_set ''use'' (KList ys) kw"
  have kw: "dict_get ?kw ''source'' = Some (KList src)" "lists_in ?kw library_keys" "dict_get ?kw ''headers'' = dict_get kw ''headers''"
    using assms(3,4) by (auto simp: lists_in_def library_keys_def)
  have "goes (declare_module z name needed kw st)"
    unfolding declare_module_def use bind_result_simps
  proof (intro goes_bind build_library_goes [OF assms(1,2) kw(1,2)])
    fix st :: build_state assume "prepared (b_env st)"
    with assms(1,6) show "goes (build_headers z name (dict_get ?kw ''headers'') st)" by (simp only: kw(3) build_headers_goes)
  next
    fix st :: build_state assume p: "prepared (b_env st)"
    then obtain ms where "eget (b_env st) ''NS3_MODULES_FOUND'' = EList ms" by (auto simp: prepared_def configured_def)
    with p show "goes (let st = build_pkgconfig name st in map_result (\<lambda>all. upd_benv (dict_set ''NS3_MODULES_FOUND'' (EList all)) st)
        (eplus (eget (b_env st) ''NS3_MODULES_FOUND'') [name]))"
      by (simp add: Let_def build_pkgconfig_state build_simps prepared_found)
  qed
  then obtain st' where d: "declare_module z name needed kw st = Inr st'" "prepared (b_env st')" by (auto simp: goes_def)
  show ?thesis
    unfolding create_module_def assms(3) option.case dirs_of_def kitems.simps map_result_simps bind_result_simps assms(5)
      modules_found_iff [OF old] Let_def
    using d assms(2) by simp
qed

lemma add_program_goes:
  assumes "prepared (b_env st)" "dict_get kw ''target'' = Some (KStr t)"
  shows "goes (add_program kw st)"
  using assms by (simp add: add_program_def Let_def program_target_def build_simps listed_one prepared_listed)

lemma add_example_goes:
  assumes "prepared (b_env st)" "dict_get kw ''target'' = Some (KStr t)" "lists_in kw [''use'']"
  shows "goes (add_example z m needed kw st)"
proof -
  obtain old where old: "eget (b_env st) ''NS3_MODULES_FOUND'' = EList old" and s: "\<not> truth (eget (b_env st) ''NS3_ENABLE_STATIC'')"
    using assms(1) by (auto simp: prepared_def configured_def)
  obtain ys where ys: "kplus kw ''use'' (modules_uselib needed) = Inr ys" using kplus_list [OF assms(3)] by blast
  have "goes (add_program (dict_set ''use'' (KList ys) kw) st)" using assms by (intro add_program_goes) auto
  then show ?thesis
    using assms(1) by (simp add: add_example_def modules_found_iff [OF old] s ys Let_def)
qed

lemma build_a_script_goes:
  assumes "prepared (b_env st)" "lists_in kw [''use'']"
  shows "goes (build_a_script name needed kw st)"
proof -
  obtain old where old: "eget (b_env st) ''NS3_MODULES_FOUND'' = EList old" and s: "\<not> truth (eget (b_env st) ''NS3_ENABLE_STATIC'')"
    using assms(1) by (auto simp: prepared_def configured_def)
  obtain ys where "kplus kw ''use'' (modules_uselib needed) = Inr ys" using kplus_list [OF assms(2)] by blast
  then show ?thesis
    using assms(1) by (simp add: build_a_script_def modules_found_iff [OF old] s Let_def build_simps listed_one prepared_listed)
qed

lemma tool_gen_goes:
  assumes "tool_ok z" "prepared (b_env st)" "dict_has kw ''source''"
  shows "goes (tool_gen z kind kw st)"
proof -
  from assms(3) obtain src where src: "dict_get kw ''source'' = Some src" by (auto simp: dict_has_def)
  obtain f where "z_sniff z src kind = Inr f" using assms(1) by (auto simp: tool_ok_def)
  with src assms(2) show ?thesis by (simp add: tool_gen_def build_simps)
qed

lemma add_objects_goes:
  assumes "prepared (b_env st)" "lists_in kw [''defines'']"
  shows "goes (foldM_result (add_object z kw) st srcs)"
proof (rule goes_fold [OF _ assms(1)])
  fix st :: build_state and src assume "prepared (b_env st)"
  moreover have "lists_in (dict_set ''target'' (KStr (src @ ''_object'')) (dict_set ''source'' (KList [src]) kw)) [''defines'']"
    using assms(2) by (simp add: lists_in_def)
  note kextend_list [OF this, of "[source_dir_define z src]"]
  ultimately show "goes (add_object z kw st src)" by (auto simp: add_object_def build_simps)
qed

lemma declare_test_goes:
  assumes "prepared (b_env st)" "dict_get kw ''source'' = Some (KList srcs)" "srcs \<noteq> []" "dict_get kw ''target'' = Some (KStr t)"
    and "lists_in kw [''use'', ''defines'']"
  shows "goes (declare_test z kw st)"
proof -
  have l: "lists_in kw [''use'']" "lists_in kw [''defines'']" using assms(5) by (simp_all add: lists_in_def)
  obtain us where us: "kextend ''use'' (map (\<lambda>s. s @ ''_object'') (butlast srcs)) kw = Inr (dict_set ''use'' (KList us) kw)"
    using kextend_list [OF l(1)] by blast
  let ?kw = "dict_set ''source'' (last_source (dict_set ''use'' (KList us) kw) srcs) (dict_set ''use'' (KList us) kw)"
  have "lists_in ?kw [''defines'']" using l(2) by (simp add: lists_in_def)
  then obtain ds where ds: "kextend ''defines'' [source_dir_define z (last srcs)] ?kw = Inr (dict_set ''defines'' (KList ds) ?kw)"
    using kextend_list by blast
  let ?kw2 = "dict_set ''install_path'' KNone (dict_set ''defines'' (KList ds) ?kw)"
  have t: "dict_get ?kw2 ''target'' = Some (KStr t)" using assms(4) by simp
  have src: "test_sources kw = Inr srcs" using assms(2) by (simp add: test_sources_def)
  show ?thesis
    unfolding declare_test_def src bind_result_simps
  proof (rule goes_bind [OF add_objects_goes [OF assms(1) l(2)]])
    fix st :: build_state assume "prepared (b_env st)"
    from add_program_goes [OF this t] show "goes (bind_result (kextend ''use'' (map (\<lambda>s. s @ ''_object'') (butlast srcs)) kw) (\<lambda>kw.
       if srcs = [] then Inl IndexError
       else bind_result (kextend ''defines'' [source_dir_define z (last srcs)] (dict_set ''source'' (last_source kw srcs) kw)) (\<lambda>kw.
              add_program (dict_set ''install_path'' KNone kw) st)))"
      unfolding us bind_result_simps if_not_P [OF assms(3)] ds .
  qed
qed

lemma add_test_goes:
  assumes "prepared (b_env st)" "dict_get kw ''source'' = Some (KList srcs)" "srcs \<noteq> []" "dict_get kw ''target'' = Some (KStr t)"
    and "lists_in kw [''use'', ''defines'', ''includes'']"
  shows "goes (add_test z m needed kw st)"
proof -
  obtain old where old: "eget (b_env st) ''NS3_MODULES_FOUND'' = EList old" using assms(1) by (auto simp: prepared_def configured_def)
  have "lists_in kw [''use'']" using assms(5) by (simp add: lists_in_def)
  then obtain us where us: "kextend ''use'' (modules_uselib needed) kw = Inr (dict_set ''use'' (KList us) kw)" using kextend_list by blast
  have "lists_in (dict_set ''use'' (KList us) kw) [''includes'']" using assms(5) by (simp add: lists_in_def)
  then obtain incs where incs: "kextend ''includes'' (m_source_dirs m) (dict_set ''use'' (KList us) kw) =
      Inr (dict_set ''includes'' (KList incs) (dict_set ''use'' (KList us) kw))" using kextend_list by blast
  have "goes (declare_test z (dict_set ''includes'' (KList incs) (dict_set ''use'' (KList us) kw)) st)"
    using assms by (intro declare_test_goes) (auto simp: lists_in_def)
  then show ?thesis
    using assms(1) by (simp add: add_test_def modules_found_iff [OF old] us incs)
qed

lemma add_runner_test_goes:
  assumes "tool_ok z" "prepared (b_env st)" "dict_get kw ''source'' = Some (KList src)" "lists_in kw (''use'' # library_keys)"
  shows "goes (add_runner_test z m needed name kw st)"
proof -
  let ?t = "m_name m @ ''-test'' @ (case name of Some n \<Rightarrow> ''-'' @ n | None \<Rightarrow> [])"
  let ?kw = "dict_set ''target'' (KStr ?t) kw"
  have "lists_in ?kw [''use'']" using assms(4) by (simp add: lists_in_def)
  then obtain us where us: "kextend ''use'' (modules_uselib needed) ?kw = Inr (dict_set ''use'' (KList us) ?kw)" using kextend_list by blast
  obtain out where out: "out_relpath z = Inr out" using out_relpath_ok [OF assms(1)] by blast
  have kw: "dict_get (dict_set ''use'' (KList us) ?kw) ''source'' = Some (KList src)" "lists_in (dict_set ''use'' (KList us) ?kw) library_keys"
    using assms(3,4) by (auto simp: lists_in_def library_keys_def)
  show ?thesis
    unfolding add_runner_test_def Let_def us bind_result_simps out
    by (rule goes_bind [OF build_library_goes [OF assms(1,2) kw]])
      (simp add: build_simps listed_one prepared_listed prepared_test_library del: append.simps)
qed

section \<open>The steps of the build\<close>

primrec step_ok :: "script_step \<Rightarrow> bool" where
  "step_ok (Script c) = True"
| "step_ok (Program kind kw) = dict_has kw ''source''"
| "step_ok (When_set k s) = step_ok s"

lemma run_step_goes:
  assumes "tool_ok z" "prepared (b_env st)"
  shows "step_ok s \<Longrightarrow> goes (run_step z st s)"
proof (induction s)
  case (Script c)
  obtain suf where suf: "eget (b_env st) ''LIB_SUFFIX'' = EStr suf" using assms(2) by (auto simp: prepared_def configured_def)
  have "\<exists>libs. mapM_result (suffixed_lib (b_env st)) xs = Inr libs" for xs
    by (induction xs) (auto simp: suffixed_lib_def suf)
  moreover have "lists_in ([(''target'', KStr (sc_target c)), (''source'', KList (sc_source c))] @ optional_list ''lib'' libs @
      optional_list ''linkflags'' (sc_linkflags c)) [''use'']" for libs
    by (simp add: lists_in_def dict_get_def optional_list_def)
  note build_a_script_goes [OF assms(2) this]
  ultimately show ?case by (metis bind_result_simps(2) run_step.simps(1))
qed (use assms in \<open>simp_all add: tool_gen_goes\<close>)

lemmas steps_defs =
  steps_120_demo_def steps_app_test_def steps_btorrent1_def steps_ccn_common_def steps_ccn_exp1_def steps_ccn_mt1_def
  steps_ccn_tap_vlc_def steps_dce_emu_ping_def steps_dce_mpi_udp_def steps_dce_wifi_def steps_dce_wifi_ofdma_def
  steps_iperf_multi_def steps_loaders_test_def steps_mini_debug_def steps_mt2_def steps_mt3_def steps_nr_dce_def
  steps_pamptcp_def steps_pamptcp_link_characteristics_def steps_ping_def steps_ping_mt1_def steps_sleep_def
  steps_tuto1_def steps_tuto2_def steps_tuto3_def

lemma steps_tables_ok: "list_all (list_all step_ok) [steps_120_demo z, steps_app_test z, steps_btorrent1 z, steps_ccn_common z, steps_ccn_exp1 z, steps_ccn_mt1 z, steps_ccn_tap_vlc z, steps_dce_emu_ping z, steps_dce_mpi_udp z, steps_dce_wifi z, steps_dce_wifi_ofdma z, steps_iperf_multi z, steps_loaders_test z, steps_mini_debug z, steps_mt2 z, steps_mt3 z, steps_nr_dce z, steps_pamptcp z, steps_pamptcp_link_characteristics z, steps_ping z, steps_ping_mt1 z, steps_sleep z, steps_tuto1 z, steps_tuto2 z, steps_tuto3 z]"
  by (simp add: steps_defs dict_has_def dict_get_def)

lemma table_steps_ok:
  assumes "myscript_steps z d = Some ss" shows "list_all step_ok ss"
  using map_of_SomeD [OF assms [unfolded myscript_steps_def]] steps_tables_ok [of z]
  by (auto simp only: list.set list.pred_inject prod.inject insert_iff empty_iff)

definition scripts_known :: "script_world \<Rightarrow> bool" where
  "scripts_known v \<longleftrightarrow> (\<forall>d \<in> set (v_listdir v ''myscripts''). visible_entry d \<and> is_script_dir v d \<longrightarrow> myscript_steps (v_z v) d \<noteq> None)"

lemma recurse_script_goes:
  assumes "tool_ok z" "prepared (b_env st)" "myscript_steps z d \<noteq> None"
  shows "goes (recurse_script z st d)"
proof -
  from assms(3) obtain ss where ss: "myscript_steps z d = Some ss" by auto
  have "goes (foldM_result (run_step z) st ss)"
    using table_steps_ok [OF ss] assms(1,2) by (intro goes_fold run_step_goes) (auto simp: list_all_iff)
  with ss show ?thesis by (simp add: recurse_script_def)
qed

lemma add_scratch_goes:
  assumes "tool_ok (v_z v)" "prepared (b_env st)" "is_script_dir v d \<longrightarrow> myscript_steps (v_z v) d \<noteq> None"
  shows "goes (add_scratch v st d)"
proof -
  obtain old where old: "eget (b_env st) ''NS3_MODULES_FOUND'' = EList old" using assms(2) by (auto simp: prepared_def configured_def)
  have l: "lists_in [(''target'', KStr t), (''source'', src)] [''use'']" for t src by (simp add: lists_in_def dict_get_def)
  show ?thesis
    using assms recurse_script_goes build_a_script_goes [OF assms(2) l] by (simp add: add_scratch_def old)
qed

lemma add_myscripts_goes:
  assumes "tool_ok (v_z v)" "prepared (b_env st)" "scripts_known v"
  shows "goes (add_myscripts v st)"
  unfolding add_myscripts_def Let_def using assms
  by (intro goes_bind goes_fold recurse_script_goes add_scratch_goes) (auto simp: scripts_known_def)

text \<open>The tests.\<close>

lemma dce_kw_ok:
  assumes "lists_in kw [''cxxflags'', ''cflags'', ''linkflags'']"
  shows "\<exists>kw'. dce_kw z kw = Inr kw' \<and> (\<forall>k. k \<notin> {''cxxflags'', ''cflags'', ''linkflags''} \<longrightarrow> dict_get kw' k = dict_get kw k)"
proof -
  have last: "\<exists>r. kextend ''linkflags'' xs kw = Inr r" if "lists_in kw [''cxxflags'', ''cflags'', ''linkflags'']" for kw xs
    using kextend_bind [OF that, of "''linkflags''" Inr xs] by simp
  have "\<exists>kw'. dce_kw z kw = Inr kw'"
    unfolding dce_kw_def Let_def using assms by (intro kextend_bind [where ks = "[''cxxflags'', ''cflags'', ''linkflags'']"] last) simp_all
  then show ?thesis using dce_kw_keeps by blast
qed

lemma add_dce_test_goes:
  assumes "prepared (b_env st)" shows "goes (add_dce_test z m st (name, uselib))"
proof -
  let ?kw = "[(''target'', KStr (''bin_dce/'' @ name)), (''source'', KList [''test/'' @ name @ ''.cc'']), (''use'', KList (uselib @ [''lib/test'']))]"
  have "lists_in ?kw [''cxxflags'', ''cflags'', ''linkflags'']" by (simp add: lists_in_def dict_get_def)
  from dce_kw_ok [OF this] obtain kw where k: "dce_kw z ?kw = Inr kw"
    and same: "\<And>k. k \<notin> {''cxxflags'', ''cflags'', ''linkflags''} \<Longrightarrow> dict_get kw k = dict_get ?kw k" by blast
  have kw: "dict_get kw ''source'' = Some (KList [''test/'' @ name @ ''.cc''])" "dict_get kw ''target'' = Some (KStr (''bin_dce/'' @ name))"
    by (simp_all add: same) (simp_all add: dict_get_def)
  have "lists_in kw [''use'', ''defines'', ''includes'']" by (simp add: lists_in_def same) (simp add: dict_get_def)
  then have "goes (add_test z m [] kw st)" by (intro add_test_goes [OF assms kw(1) _ kw(2)]) simp_all
  then show ?thesis by (auto simp: add_dce_test_def k goes_def build_simps simp del: append.simps)
qed

lemma build_dce_tests_goes:
  assumes "tool_ok (v_z v)" "prepared (b_env st)"
  shows "goes (build_dce_tests v m st)"
  unfolding build_dce_tests_def
proof (intro goes_bind)
  show "goes (add_runner_test (v_z v) m [''core'', ''dce'', ''internet'', ''applications''] None [(''source'', KList (runner_test_sources v (b_env st)))] st)"
    using assms by (rule add_runner_test_goes) (simp_all add: dict_get_def lists_in_def library_keys_def)
next
  fix st1 :: build_state assume "prepared (b_env st1)"
  then show "goes (add_test (v_z v) m [] [(''features'', KStr ''cxx cxxshlib''), (''source'', KList [''test/test-macros.cc'']),
        (''target'', KStr ''lib/test''), (''linkflags'', KList [''-Wl,-soname=libtest.so''])] st1)"
    by (rule add_test_goes [where srcs = "[''test/test-macros.cc'']" and t = "''lib/test''"]) (simp_all add: dict_get_def lists_in_def)
next
  fix st2 :: build_state assume "prepared (b_env st2)"
  then show "goes (foldM_result (add_dce_test (v_z v) m) (install_files ''${PREFIX}/lib'' [''lib/libtest.so''] st2) dce_tests)"
    by (intro goes_fold) (auto simp: build_simps intro: add_dce_test_goes)
qed

text \<open>The examples.\<close>

lemma add_dce_program_goes:
  assumes "prepared (b_env st)" shows "goes (add_dce_program z m st (name, lib))"
proof -
  let ?kw = "[(''target'', KStr (''bin_dce/'' @ name)), (''source'', KList [''example/'' @ name @ ''.cc'']), (''lib'', KList lib)]"
  have "lists_in ?kw [''cxxflags'', ''cflags'', ''linkflags'']" by (simp add: lists_in_def dict_get_def)
  from dce_kw_ok [OF this] obtain kw where k: "dce_kw z ?kw = Inr kw"
    and same: "\<And>k. k \<notin> {''cxxflags'', ''cflags'', ''linkflags''} \<Longrightarrow> dict_get kw k = dict_get ?kw k" by blast
  have t: "dict_get kw ''target'' = Some (KStr (''bin_dce/'' @ name))" by (simp add: same) (simp add: dict_get_def)
  have "lists_in kw [''use'']" by (simp add: lists_in_def same) (simp add: dict_get_def)
  then have "goes (add_example z m [] kw st)" by (rule add_example_goes [OF assms t])
  then show ?thesis by (auto simp: add_dce_program_def k goes_def build_simps simp del: append.simps)
qed

lemma add_plain_example_goes: "prepared (b_env st) \<Longrightarrow> goes (add_plain_example z m st (needed, target, source))"
  by (simp add: add_plain_example_def add_example_goes lists_in_def dict_get_def)

lemma build_dce_examples_goes:
  assumes "prepared (b_env st)" shows "goes (build_dce_examples z m st)"
  unfolding build_dce_examples_def
proof (intro goes_bind)
  show "goes (foldM_result (add_dce_program z m) st (dce_programs @ (if truth (eget (b_env st) ''SCTP_TOOLS_FOUND'') then sctp_programs else [])))"
    using assms by (rule goes_fold [rotated]) (auto intro: add_dce_program_goes)
next
  fix st1 :: build_state assume "prepared (b_env st1)"
  then show "goes (foldM_result (add_plain_example z m) st1 dce_examples)"
    by (rule goes_fold [rotated]) (auto intro: add_plain_example_goes)
next
  fix st2 :: build_state assume p: "prepared (b_env st2)"
  let ?kw = "[(''target'', KStr ''bin/dce-debug-aspect''), (''use'', KList [''ASPECT'']), (''source'', KList [''example/dce-debug-aspect.cc''])]"
  have "goes (add_example z m needed ?kw st2)" for needed
    by (rule add_example_goes [OF p, of _ "''bin/dce-debug-aspect''"]) (simp_all add: lists_in_def dict_get_def)
  with p show "goes (if truth (eget (b_env st2) ''LIB_ASPECT_PATH'')
     then add_example z m [''core'', ''network'', ''internet'', ''dce'', ''point-to-point'', ''csma'', ''applications''] ?kw st2 else Inr st2)"
    by simp
qed

lemma build_dce_kernel_examples_goes:
  assumes "prepared (b_env st)" shows "goes (build_dce_kernel_examples z m st)"
  unfolding build_dce_kernel_examples_def
proof (intro goes_bind add_plain_example_goes)
  show "goes (foldM_result (add_plain_example z m) st kernel_examples)"
    using assms by (rule goes_fold [rotated]) (auto intro: add_plain_example_goes)
qed (simp add: add_plain_example_goes)

lemma netlink_runner_test_goes:
  "tool_ok z \<Longrightarrow> prepared (b_env st) \<Longrightarrow> goes (netlink_runner_test z m st)"
  unfolding netlink_runner_test_def by (rule add_runner_test_goes) (simp_all add: dict_get_def lists_in_def library_keys_def)

text \<open>The runner, the libraries and the loader.\<close>

lemma loader_path_ok: "prepared e \<Longrightarrow> truth (eget e ''ELF_LOADER_PATH'') \<Longrightarrow> \<exists>p. loader_path z e = Inr p"
  by (auto simp: prepared_def configured_def string_if_set_def loader_path_def)

lemma add_test_runner_goes:
  assumes "prepared (b_env st)" shows "goes (add_test_runner z m target flags st)"
proof -
  obtain libs where libs: "eget (b_env st) ''NS3_ENABLED_MODULE_TEST_LIBRARIES'' = EList libs" using assms by (auto simp: prepared_def)
  obtain old where old: "eget (b_env st) ''NS3_MODULES_FOUND'' = EList old" using assms by (auto simp: prepared_def configured_def)
  show ?thesis
    unfolding add_test_runner_def libs old eitems.simps eplus.simps bind_result_simps
    by (rule add_example_goes [OF assms, of _ target]) (simp_all add: lists_in_def dict_get_def)
qed

lemma build_test_runner_goes:
  assumes "prepared (b_env st)" shows "goes (build_test_runner z m st)"
  unfolding build_test_runner_def Let_def
proof (rule goes_bind [OF add_test_runner_goes [OF assms]])
  fix st1 :: build_state assume "prepared (b_env st1)"
  then have p: "prepared (b_env (upd_benv (wenv_append ''NS3_RUNNABLE_PROGRAMS'' ''bin/test-runner'') st1))"
    by (simp add: build_simps listed_one prepared_listed)
  have "goes (bind_result (loader_path z e) (\<lambda>p. add_test_runner z m ''bin/test-runner-vdl'' [''-Wl,--dynamic-linker='' @ p]
      (upd_benv (wenv_append ''NS3_RUNNABLE_PROGRAMS'' ''bin/test-runner'') st1)))"
    if "prepared e" "truth (eget e ''ELF_LOADER_PATH'')" for e
    using loader_path_ok [OF that, of z] add_test_runner_goes [OF p] by (auto simp del: append.simps)
  with p show "goes (if \<not> truth (eget (b_env (upd_benv (wenv_append ''NS3_RUNNABLE_PROGRAMS'' ''bin/test-runner'') st1)) ''ELF_LOADER_PATH'')
      then Inr (upd_benv (wenv_append ''NS3_RUNNABLE_PROGRAMS'' ''bin/test-runner'') st1)
      else bind_result (loader_path z (b_env (upd_benv (wenv_append ''NS3_RUNNABLE_PROGRAMS'' ''bin/test-runner'') st1)))
        (\<lambda>p. add_test_runner z m ''bin/test-runner-vdl'' [''-Wl,--dynamic-linker='' @ p]
          (upd_benv (wenv_append ''NS3_RUNNABLE_PROGRAMS'' ''bin/test-runner'') st1)))"
    by (simp only: goes_Inr split: if_split) blast
qed

lemma sysroot_ok: "prepared e \<Longrightarrow> \<exists>s. sysroot_of e = Inr s"
  by (auto simp: prepared_def configured_def sysroot_of_def)

lemma build_libraries_goes:
  assumes "tool_ok (v_z v)" "prepared (b_env st)" shows "goes (build_libraries v st)"
  unfolding build_libraries_def
proof (rule goes_bind)
  have p: "prepared (b_env (set_group g st))" for g using assms(2) by (simp add: build_simps)
  show "goes (version_gens (v_z v) st)"
    unfolding version_gens_def
    by (rule goes_map [OF tool_gen_goes [OF assms(1) p]]) (simp_all add: build_simps dict_has_def dict_get_def)
next
  fix st1 :: build_state assume p: "prepared (b_env st1)"
  from sysroot_ok [OF p] obtain sysroot where s: "sysroot_of (b_env st1) = Inr sysroot" ..
  have "goes (foldM_result (add_ns3_library (v_z v) sysroot) (set_group ''dce_use_version_files'' st1) ns3_libraries)"
  proof (rule goes_fold)
    fix st2 :: build_state and x assume "prepared (b_env st2)"
    with assms(1) show "goes (add_ns3_library (v_z v) sysroot st2 x)"
      by (cases x) (simp add: add_ns3_library_def tool_gen_goes dict_has_def dict_get_def del: append.simps)
  qed (simp add: p build_simps)
  with s show "goes (bind_result (sysroot_of (b_env st1)) (\<lambda>sysroot. foldM_result (add_ns3_library (v_z v) sysroot)
      (set_group ''dce_use_version_files'' st1) ns3_libraries))" by simp
qed

lemma build_utils_goes:
  assumes "tool_ok z" "prepared (b_env st)" shows "goes (build_utils z st)"
proof (cases "truth (eget (b_env st) ''ELF_LOADER_PATH'')")
  case True
  from loader_path_ok [OF assms(2) True] obtain p where p: "loader_path z (b_env st) = Inr p" ..
  let ?kw = "[(''source'', KStr ''dce-runner.c''), (''target'', KStr ''../bin/dce-runner''), (''cflags'', KList [''-fPIC'']),
     (''linkflags'', KList [''-pie'', ''-ldl'', ''-Wl,--dynamic-linker='' @ p]), (''is_ns3_program'', KBool True)]"
  have "goes (tool_gen z ''program'' ?kw st)" using assms by (rule tool_gen_goes) (simp add: dict_has_def dict_get_def)
  with True p show ?thesis by (auto simp: build_utils_def goes_def build_simps listed_one prepared_listed simp del: append.simps)
next
  case False
  then show ?thesis using assms(2) by (simp add: build_utils_def)
qed

section \<open>The whole build\<close>

lemma append_each_goes: "prepared (b_env st) \<Longrightarrow> prepared (b_env (append_each ''LINKFLAGS'' xs st))"
  by (induction xs arbitrary: st) (simp_all add: append_each_def build_simps prepared_linkflags)

lemma build_modules_goes:
  assumes "tool_ok (v_z v)" "configured (b_env st)"
  shows "\<exists>m st'. build_modules v st = Inr (m, st') \<and> prepared (b_env st')"
proof -
  let ?s = "set_group ''ns3modulebuild'' (start_lists st)"
  have p: "prepared (b_env ?s)"
    using assms(2) by (simp add: prepared_def configured_def soname_ok_def string_if_set_def build_simps start_lists_env build_lists_def)
  have "\<exists>m st'. create_module (v_z v) ''netlink'' [(''needed'', KList [''internet'', ''core'']), (''source'', KList netlink_source),
      (''headers'', KList netlink_headers)] ?s = Inr (m, st') \<and> prepared (b_env st')"
    using assms(1) p by (rule create_module_goes) (simp_all add: dict_get_def lists_in_def library_keys_def needed_of_def)
  then obtain st1 where n: "build_netlink (v_z v) ?s = Inr st1" and p1: "prepared (b_env st1)" by (auto simp: build_netlink_def)
  from sysroot_ok [OF p1] obtain sysroot where s: "sysroot_of (b_env st1) = Inr sysroot" ..
  have "\<exists>k. kernel_parts (b_env st1) = Inr k"
    using p1 by (auto simp: kernel_parts_def prepared_def configured_def string_if_set_def)
  then obtain src hdr inc where k: "kernel_parts (b_env st1) = Inr (src, hdr, inc)" by (metis surj_pair)
  have "\<exists>m st'. create_dce (v_z v) st1 = Inr (m, st') \<and> prepared (b_env st')"
    unfolding create_dce_def k s bind_result_simps prod.case Let_def
    using assms(1) append_each_goes [OF p1]
    by (rule create_module_goes) (simp_all add: dict_get_def lists_in_def library_keys_def needed_of_def)
  with n show ?thesis by (auto simp: build_modules_def)
qed

lemma build_programs_goes:
  assumes "tool_ok (v_z v)" "prepared (b_env st)" "scripts_known v"
  shows "goes (build_programs v m st)"
  unfolding build_programs_def
proof (intro goes_bind add_myscripts_goes [OF assms] build_test_runner_goes)
  fix st1 :: build_state assume p: "prepared (b_env st1)"
  show "goes (build_dce_tests v m st1)" by (rule build_dce_tests_goes [OF assms(1) p])
  show "goes (build_dce_examples (v_z v) m st1)" by (rule build_dce_examples_goes [OF p])
  show "goes (netlink_runner_test (v_z v) m st1)" by (rule netlink_runner_test_goes [OF assms(1) p])
  show "goes (if truth (eget (b_env st1) ''KERNEL_STACK'') then build_dce_kernel_examples (v_z v) m st1 else Inr st1)"
    using p build_dce_kernel_examples_goes by simp
qed

lemma wscript_build_returns:
  assumes "configured (b_env st)" "tool_ok (v_z v)" "scripts_known v"
  shows "\<exists>st' e status. wscript_build v st = Inr (st', e, status)"
proof -
  from build_modules_goes [OF assms(2,1)] obtain m s1 where m: "build_modules v st = Inr (m, s1)" and p1: "prepared (b_env s1)" by blast
  from build_programs_goes [OF assms(2) p1 assms(3)] obtain s2 where s2: "build_programs v m s1 = Inr s2" and p2: "prepared (b_env s2)"
    by (auto simp: goes_def)
  from build_libraries_goes [OF assms(2) p2] obtain s3 where s3: "build_libraries v s2 = Inr s3" and p3: "prepared (b_env s3)"
    by (auto simp: goes_def)
  from build_utils_goes [OF assms(2) p3] obtain s4 where s4: "build_utils (v_z v) s3 = Inr s4" and p4: "prepared (b_env s4)"
    by (auto simp: goes_def)
  have "\<exists>e. set_pybindgen_pythonpath (p_platform (v_py v)) (b_env s4) (v_environ v) = Inr e"
    using p4 by (auto simp: set_pybindgen_pythonpath_def prepared_def configured_def string_if_set_def)
  moreover have "\<not> truth (eget (b_env s4) ''ENABLE_PYTHON_BINDINGS'')" using p4 by (simp add: prepared_def configured_def)
  ultimately obtain e where py: "py_build (v_py v) (v_z v) s4 (v_environ v) = Inr (s4, e)" by (cases "p_disable (v_py v)") (auto simp: py_build_def)
  obtain status where "written_status (b_env s4) = Inr status" using p4 by (auto simp: prepared_def written_status_def)
  then show ?thesis by (simp add: wscript_build_def m s2 s3 s4 py)
qed

text \<open>What a build that returns has listed.\<close>

lemma runnable_programs:
  assumes "wscript_build v st = Inr (st', e, status)" "eget (b_env st) ''NS3_MODULES_FOUND'' = EList old"
  shows "\<exists>n. status = build_status_text (replicate n ''dce'' @ program_list (b_env st) (found_after old)) []"
proof -
  from assms(1) obtain x s2 s3 s4 y where x: "build_modules v st = Inr x" and progs: "build_programs v (fst x) (snd x) = Inr s2"
    and libs: "build_libraries v s2 = Inr s3" and utils: "build_utils (v_z v) s3 = Inr s4"
    and y: "py_build (v_py v) (v_z v) s4 (v_environ v) = Inr y"
    and status: "map_result (\<lambda>s. (fst y, snd y, s)) (written_status (b_env (fst y))) = Inr (st', e, status)"
    unfolding wscript_build_def split_beta by (elim bind_resultE)
  define m where "m = fst x"
  define s1 where "s1 = snd x"
  have mods: "build_modules v st = Inr (m, s1)" and py: "py_build (v_py v) (v_z v) s4 (v_environ v) = Inr (fst y, snd y)"
    using x y by (simp_all add: m_def s1_def)
  note progs = progs [folded m_def s1_def]
  let ?ex = "set_in (b_env st) ''NS3_ENABLE_EXAMPLES''" and ?ts = "set_in (b_env st) ''NS3_ENABLE_TESTS''"
  note start = build_modules_env [OF mods assms(2)]
  have other: "eget (b_env s1) k = (if k \<in> set build_lists then EList [] else eget (b_env st) k)"
    if "k \<notin> {''NS3_MODULES_FOUND'', ''LINKFLAGS''}" for k
    using start that by blast
  have same: "set_in (b_env s1) k = set_in (b_env st) k"
    if "k \<in> {''KERNEL_STACK'', ''SCTP_TOOLS_FOUND'', ''LIB_ASPECT_PATH'', ''ELF_LOADER_PATH'', ''NS3_ENABLE_EXAMPLES'', ''NS3_ENABLE_TESTS''}" for k
    using that by (elim insertE emptyE) (simp_all add: set_in_def build_lists_def other)
  have empty: "eget (b_env s1) ''NS3_RUNNABLE_PROGRAMS'' = EList []" "eget (b_env s1) ''NS3_RUNNABLE_SCRIPTS'' = EList []"
    by (simp_all add: build_lists_def other)
  have "eget (b_env s1) ''NS3_MODULES_FOUND'' = EList (found_after old)" and dce: "is_dce m" using start by blast+
  then have "ready (found_after old) ?ex ?ts (b_env s1)"
    using same by (simp add: ready_def flip: set_in_def)
  from build_programs_built [OF progs this dce] obtain n where
    ps: "built (b_env s1) (replicate n ''dce'' @ own_programs (b_env s1) ?ex ?ts (found_after old)) (b_env s2)" ..
  have own: "own_programs (b_env s1) ex ts found = own_programs (b_env st) ex ts found" for ex ts found
    by (simp add: own_programs_def runner_names_def same)
  have s3: "b_env s3 = b_env s2" using build_libraries_env [OF libs] .
  have "set_in (b_env s3) ''ELF_LOADER_PATH'' = set_in (b_env st) ''ELF_LOADER_PATH''"
    using set_in_built [OF ps, of "''ELF_LOADER_PATH''"] same s3 by simp
  with build_utils_built [OF utils] have "built (b_env s2) (if set_in (b_env st) ''ELF_LOADER_PATH'' then [''dce-runner''] else []) (b_env s4)"
    by (simp only: s3)
  from built_trans [OF ps this] have all: "built (b_env s1) (replicate n ''dce'' @ program_list (b_env st) (found_after old)) (b_env s4)"
    by (simp only: append_assoc own program_list_def)
  then have "eget (b_env s4) ''NS3_RUNNABLE_PROGRAMS'' = EList (replicate n ''dce'' @ program_list (b_env st) (found_after old))"
    "eget (b_env s4) ''NS3_RUNNABLE_SCRIPTS'' = EList []"
    using empty by (simp_all add: built_def)
  with status py_build_env [OF py] show ?thesis by (auto simp: written_status_def)
qed

section \<open>Properties\<close>


text \<open>A configuration with examples and a loader, and one directory of scripts.\<close>

definition build_env_sample :: wenv where
  "build_env_sample =
     [(''NS3_MODULES_FOUND'', EList [''core'', ''network'', ''internet'', ''point-to-point'']), (''LIB_SUFFIX'', EStr ''debug''),
      (''NS3_ENABLE_EXAMPLES'', EBool True), (''NS3_ENABLE_TESTS'', EBool False), (''GLIBC_INSTALL_DIR'', EStr ''/glibc''),
      (''ELF_LOADER_PATH'', EStr ''/elf'')]"

definition script_sample :: script_world where
  "script_sample = \<lparr>v_z = \<lparr>z_cwd = ''/dce'', z_out_dir = ''/dce/build'', z_path = [], z_machine = ''x86_64'', z_sniff = (\<lambda>s k. Inr (KStr k))\<rparr>,
     v_listdir = (\<lambda>d. if d = ''myscripts'' then [''.git'', ''mt2'', ''note.txt''] else []), v_isdir = (\<lambda>d. d = ''myscripts/mt2''),
     v_py = \<lparr>p_disable = False, p_platform = ''linux'', p_features = [], p_src = ''/dce'', p_resource = (\<lambda>f. None)\<rparr>, v_environ = []\<rparr>"

definition build_start :: build_state where
  "build_start = \<lparr>b_env = build_env_sample, b_group = [], b_gens = [], b_installs = [], b_log = []\<rparr>"

lemma sample_ready:
  "configured (b_env build_start)" "tool_ok (v_z script_sample)" "scripts_known script_sample"
proof -
  show "configured (b_env build_start)"
    by (simp add: configured_def soname_ok_def string_if_set_def build_start_def build_env_sample_def eget_def dict_get_def)
  show "tool_ok (v_z script_sample)" by (simp add: tool_ok_def script_sample_def)
  have "visible_entry d \<and> is_script_dir script_sample d \<longrightarrow> myscript_steps z d \<noteq> None" if "d \<in> {''.git'', ''mt2'', ''note.txt''}" for d z
    using that by (auto simp: visible_entry_def is_script_dir_def script_sample_def startswith_def path_join_def myscript_steps_def)
  then show "scripts_known script_sample" by (simp add: scripts_known_def script_sample_def)
qed


end
