(* ===== verification/Wscript_Whole.thy ===== *)
theory Wscript_Whole
  imports Wscript_Conf Wscript_Total
begin

text \<open>
  From the configuration to the build: every variable that the build of \<open>src/wscript\<close> reads was given a value of the right type
  by its \<open>configure\<close>, so a tree that could be configured builds; and the modules that the scripts need are there.

  \<open>typed\<close> says which kinds of values some variables have.  Every step of the configuration keeps it.
\<close>

section \<open>Kinds of values\<close>

datatype kind = List_kind | Str_kind | Str_if_set | Unset_kind | Pattern_kind

fun has_kind :: "kind \<Rightarrow> evalue \<Rightarrow> bool" where
  "has_kind List_kind v \<longleftrightarrow> (\<exists>xs. v = EList xs)"
| "has_kind Str_kind v \<longleftrightarrow> (\<exists>s. v = EStr s)"
| "has_kind Str_if_set v \<longleftrightarrow> (truth v \<longrightarrow> (\<exists>s. v = EStr s))"
| "has_kind Unset_kind v \<longleftrightarrow> \<not> truth v"
| "has_kind Pattern_kind v \<longleftrightarrow> (\<exists>p. v = EStr p \<and> (\<forall>n. \<exists>r. format_one n p False = Inr r))"

definition first_types :: "(string \<times> kind) list" where
  "first_types = [(''NS3_MODULES_FOUND'', List_kind), (''KERNEL_STACK'', Str_if_set), (''ELF_LOADER_PATH'', Str_if_set), (''WITH_PYBINDGEN'', Str_if_set),
     (''PREFIX'', Str_kind)]"

definition glibc_types :: "(string \<times> kind) list" where
  "glibc_types = (''GLIBC_INSTALL_DIR'', Str_kind) # first_types"

definition compiler_types :: "(string \<times> kind) list" where
  "compiler_types = (''cshlib_PATTERN'', Pattern_kind) # glibc_types"

definition ns3_types :: "(string \<times> kind) list" where
  "ns3_types = (''NS3_DIR'', Str_kind) # compiler_types"

definition all_types :: "(string \<times> kind) list" where
  "all_types = (''LIB_SUFFIX'', Str_kind) # (''NS3_ENABLE_STATIC'', Unset_kind) # (''NS3_CHECK_MODULE_ONCE'', Str_kind) # ns3_types"

lemmas types_defs = all_types_def ns3_types_def compiler_types_def glibc_types_def first_types_def

definition typed :: "(string \<times> kind) list \<Rightarrow> wenv \<Rightarrow> bool" where
  "typed T env \<longleftrightarrow> (\<forall>(k, t) \<in> set T. has_kind t (eget env k))"

lemma typed_Cons [simp]: "typed ((k, t) # T) env \<longleftrightarrow> has_kind t (eget env k) \<and> typed T env"
  by (simp add: typed_def)

lemma typed_set: "typed T env \<Longrightarrow> (\<And>t. (k, t) \<in> set T \<Longrightarrow> has_kind t v) \<Longrightarrow> typed T (dict_set k v env)"
  by (auto simp: typed_def conf_simps)

lemma typed_other: "typed T env \<Longrightarrow> k \<notin> fst ` set T \<Longrightarrow> typed T (dict_set k v env)"
  by (rule typed_set) force+

lemma typed_append: "typed T env \<Longrightarrow> k \<notin> fst ` set T \<Longrightarrow> typed T (wenv_append k v env)"
  unfolding wenv_append_def by (rule typed_other)

lemma typed_update:
  assumes "typed T env" "fst ` set T \<inter> fst ` set e = {}" shows "typed T (dict_update env e)"
proof -
  have "eget (dict_update env e) k = eget env k" if "(k, t) \<in> set T" for k t
  proof (rule eget_update_other)
    from that have "k \<in> fst ` set T" by force
    with assms(2) show "k \<notin> fst ` set e" by blast
  qed
  with assms(1) show ?thesis by (auto simp: typed_def)
qed

lemma typed_configured: "typed all_types env \<Longrightarrow> \<not> truth (eget env ''ENABLE_PYTHON_BINDINGS'') \<Longrightarrow> configured env"
  unfolding types_defs typed_Cons has_kind.simps configured_def soname_ok_def string_if_set_def
  by (elim conjE, intro conjI; (assumption | rule impI, assumption))

text \<open>What the tools of waf do to the environment keeps the kinds and the modules that were found, and the compilers set the pattern
  for names of libraries.\<close>

definition tool_keeps :: "(wenv \<Rightarrow> wenv) \<Rightarrow> bool" where
  "tool_keeps f \<longleftrightarrow> (\<forall>env. eget (f env) ''NS3_MODULES_FOUND'' = eget env ''NS3_MODULES_FOUND'' \<and>
     eget (f env) ''ENABLE_PYTHON_BINDINGS'' = eget env ''ENABLE_PYTHON_BINDINGS'' \<and>
     dict_has (f env) ''NS3_CHECK_MODULE_ONCE'' = dict_has env ''NS3_CHECK_MODULE_ONCE'' \<and>
     (\<forall>(k, t) \<in> set all_types. has_kind t (eget env k) \<longrightarrow> has_kind t (eget (f env) k)))"

definition tools_keep :: "wconf_world \<Rightarrow> bool" where
  "tools_keep x \<longleftrightarrow>
     (\<forall>args. tool_keeps (\<lambda>env. fst (x_check x args env))) \<and> (\<forall>p v. tool_keeps (\<lambda>env. fst (x_find x p v env))) \<and>
     tool_keeps (\<lambda>env. fst (y_load_python (x_py x) env)) \<and> tool_keeps (\<lambda>env. fst (y_version_ok (x_py x) env)) \<and>
     tool_keeps (\<lambda>env. fst (y_headers_ok (x_py x) env)) \<and>
     (\<forall>t. tool_keeps (\<lambda>env. case x_load x t env of Inr env' \<Rightarrow> env' | Inl _ \<Rightarrow> env)) \<and>
     (\<forall>env env'. x_load x ''compiler_c'' env = Inr env' \<longrightarrow> has_kind Pattern_kind (eget env' ''cshlib_PATTERN''))"

text \<open>A package file describes one module, and the core has one package file.\<close>

definition packages_ok :: "conf_world \<Rightarrow> bool" where
  "packages_ok q \<longleftrightarrow> \<not> o_static (q_options q) \<and>
     (\<forall>p. \<exists>f v. q_glob q p = [f] \<and> search_version (basename f) = Some v) \<and>
     (\<forall>r vars. q_check_cfg q r = Pkg_found vars \<longrightarrow> fst ` set vars \<inter> ({''NS3_MODULES_FOUND'', ''NS3_VERSION''} \<union> fst ` set all_types) = {})"

lemma tool_keeps_typed: "tool_keeps f \<Longrightarrow> set T \<subseteq> set all_types \<Longrightarrow> typed T env \<Longrightarrow> typed T (f env)"
  by (fastforce simp: tool_keeps_def typed_def)

section \<open>What a search for modules keeps\<close>

text \<open>The kinds are kept, the modules found are exactly \<open>ms\<close>, or more of them.\<close>

definition found_env :: "wenv \<Rightarrow> string list" where
  "found_env env = (case eget env ''NS3_MODULES_FOUND'' of EList ms \<Rightarrow> ms | _ \<Rightarrow> [])"

definition keeps :: "(string \<times> kind) list \<Rightarrow> wenv \<Rightarrow> wenv \<Rightarrow> bool" where
  "keeps T env env' \<longleftrightarrow> eget env' ''NS3_MODULES_FOUND'' = eget env ''NS3_MODULES_FOUND'' \<and> (typed T env \<longrightarrow> typed T env')"

lemma keeps_refl [simp]: "keeps T env env"
  by (simp add: keeps_def)

lemma keeps_trans: "keeps T a b \<Longrightarrow> keeps T b c \<Longrightarrow> keeps T a c"
  by (simp add: keeps_def)

definition free_key :: "string \<Rightarrow> bool" where
  "free_key k \<longleftrightarrow> k \<noteq> ''NS3_MODULES_FOUND'' \<and> k \<notin> fst ` set all_types"

lemma keeps_set: "free_key k \<Longrightarrow> set T \<subseteq> set all_types \<Longrightarrow> keeps T env (dict_set k v env)"
  by (auto simp: keeps_def free_key_def conf_simps intro!: typed_other dest: subsetD)

lemma keeps_append: "free_key k \<Longrightarrow> set T \<subseteq> set all_types \<Longrightarrow> keeps T env (wenv_append k v env)"
  unfolding wenv_append_def by (rule keeps_set)

lemma free_keys:
  "list_all free_key [''LINKFLAGS'', ''NS3_MODULE_PATH'', ''WL_SONAME_SUPPORTED'', ''DEFINES'', ''CFLAGS'', ''CXXFLAGS'', ''NS3_ENABLE_EXAMPLES'',
     ''NS3_ENABLE_TESTS'', ''NS3_VERSION'', ''NS3_EXECUTABLE_PATH'', ''MPI'', ''CXXDEFINES'',
     ''ENABLE_PYTHON_BINDINGS'', ''EXAMPLE_DIRECTORIES'', ''NS3_ENABLED_MODULES'', ''LIB_ASPECT_PATH'', ''VALGRIND_FOUND'', ''SCTP_TOOLS_FOUND'',
     ''PYTHON'', ''PYTHON_BINDINGS_APIDEFS'']"
  by (simp add: free_key_def types_defs)

lemmas free_key_list = free_keys [unfolded list.pred_inject]


lemma check_win32_keeps:
  assumes "check_win32 q st = Inr st'" "set T \<subseteq> set all_types" shows "keeps T (c_env st) (c_env st')"
proof -
  have app: "keeps T env (wenv_append k v env)" if "k \<in> {''LINKFLAGS'', ''NS3_MODULE_PATH''}" for k v env
    using that free_key_list assms(2) by (intro keeps_append) auto
  have set: "keeps T env (dict_set ''WL_SONAME_SUPPORTED'' v env)" for v env
    using free_key_list assms(2) by (intro keeps_set) auto
  show ?thesis
  proof (cases "is_gcc [''gcc'', ''icc''] (c_env st)")
    case False
    with assms(1) show ?thesis by (simp add: check_win32_def)
  next
    case True
    define st1 where "st1 = (if q_platform q = ''win32'' then upd_env (wenv_append ''LINKFLAGS'' ''-Wl,--enable-runtime-pseudo-reloc'') st
                  else if q_platform q = ''cygwin'' then upd_env (wenv_append ''LINKFLAGS'' ''-Wl,--enable-auto-import'') st else st)"
    have one: "keeps T (c_env st) (c_env st1)" by (simp add: st1_def conf_simps app)
    from assms(1) True obtain loc where st': "st' =
        (let st = (if loc \<noteq> [] then upd_env (wenv_append ''NS3_MODULE_PATH'' loc) st1 else st1)
         in if startswith (q_platform q) ''linux'' \<and> check_compilation_flag q ''-Wl,--soname=foo'' ''cxx''
            then upd_env (dict_set ''WL_SONAME_SUPPORTED'' (EBool True)) st else st)"
      unfolding check_win32_def st1_def [symmetric] Let_def by (auto simp del: append.simps)
    have "keeps T (c_env st1) (c_env st')"
      using app [of "''NS3_MODULE_PATH''" "c_env st1" loc] by (auto simp: st' Let_def conf_simps set intro: keeps_trans)
    with one show ?thesis by (rule keeps_trans)
  qed
qed


lemma check_static_typed:
  assumes "\<not> o_static (q_options q)" "typed ns3_types (c_env st)" "has_kind Str_kind (eget (c_env st) ''NS3_CHECK_MODULE_ONCE'')"
  shows "typed all_types (c_env (check_static q st)) \<and>
    eget (c_env (check_static q st)) ''NS3_MODULES_FOUND'' = eget (c_env st) ''NS3_MODULES_FOUND''"
proof -
  have e: "c_env (check_static q st) = dict_set ''LIB_SUFFIX'' (EStr (if o_opt (q_options q) then ''optimized'' else ''debug''))
      (dict_set ''NS3_ENABLE_STATIC'' (EBool False) (c_env st))"
    using assms(1) by (simp add: check_static_def choose_static_def no_static_def conf_simps Let_def)
  have "typed ns3_types (dict_set ''LIB_SUFFIX'' v (dict_set ''NS3_ENABLE_STATIC'' w (c_env st)))" for v w
    by (intro typed_other assms(2)) (simp_all add: types_defs)
  then show ?thesis using assms(3) unfolding e all_types_def by (simp add: conf_simps)
qed

lemma append_all_keeps:
  "list_all (\<lambda>(k, v). free_key k) kvs \<Longrightarrow> set T \<subseteq> set all_types \<Longrightarrow> keeps T (c_env st) (c_env (append_all kvs st))"
proof (induction kvs arbitrary: st)
  case (Cons kv kvs)
  obtain k v where kv: "kv = (k, v)" by fastforce
  with Cons.prems have "keeps T (c_env st) (c_env (upd_env (wenv_append k v) st))" by (simp add: conf_simps keeps_append)
  moreover have "keeps T (c_env (upd_env (wenv_append k v) st)) (c_env (append_all kvs (upd_env (wenv_append k v) st)))"
    using Cons by (simp add: kv)
  ultimately show ?case by (simp add: append_all_def kv) (rule keeps_trans)
qed (simp add: append_all_def)

lemma feature_steps_keep:
  assumes "set T \<subseteq> set all_types"
  shows "keeps T (c_env st) (c_env (log_feature on st))" "keeps T (c_env st) (c_env (assert_feature on st))"
    "keeps T (c_env st) (c_env (coverage_feature on st))"
    "free_key v \<Longrightarrow> keeps T (c_env st) (c_env (switch_feature n c r v on st))"
    "debug_feature on st = Inr st' \<Longrightarrow> keeps T (c_env st) (c_env st')"
proof -
  have r: "keeps T (c_env st) (c_env (append_all kvs (report_optional_feature n c b t st)))" if "list_all (\<lambda>(k, v). free_key k) kvs" for kvs n c b t
    using append_all_keeps [OF that assms, of "report_optional_feature n c b t st"] by (simp add: conf_simps)
  show "keeps T (c_env st) (c_env (log_feature on st))" "keeps T (c_env st) (c_env (assert_feature on st))"
    "keeps T (c_env st) (c_env (coverage_feature on st))"
    unfolding log_feature_def assert_feature_def coverage_feature_def using r free_key_list by (simp_all add: conf_simps del: append.simps)
  show "keeps T (c_env st) (c_env (switch_feature n c r v on st))" if "free_key v"
    using keeps_set [OF that assms] by (simp add: switch_feature_def conf_simps)
  show "keeps T (c_env st) (c_env st')" if "debug_feature on st = Inr st'"
  proof (cases on)
    case True
    have one: "keeps T (c_env s) (c_env s')" if "add_debug_flag k s = Inr s'" "k \<in> {''CXXFLAGS'', ''CFLAGS''}" for k s s'
      using that free_key_list assms by (auto simp: add_debug_flag_def conf_simps intro: keeps_set)
    from that True obtain s1 s2 where "add_debug_flag ''CXXFLAGS'' st = Inr s1" "add_debug_flag ''CFLAGS'' s1 = Inr s2"
      "c_env st' = c_env s2" by (auto simp: debug_feature_def conf_simps)
    with one [of "''CXXFLAGS''" st s1] one [of "''CFLAGS''" s1 s2] show ?thesis by (auto intro: keeps_trans)
  qed (use that in \<open>auto simp: debug_feature_def conf_simps\<close>)
qed

lemma check_features_keeps:
  assumes "check_features opt st = Inr st'" "set T \<subseteq> set all_types" shows "keeps T (c_env st) (c_env st')"
proof -
  note k = feature_steps_keep [OF assms(2)]
  have "free_key ''NS3_ENABLE_TESTS''" "free_key ''NS3_ENABLE_EXAMPLES''" using free_key_list by simp_all
  with k(5) [OF assms(1) [unfolded check_features_def]] show ?thesis by (meson k(1-4) keeps_trans)
qed

lemma check_once_typed:
  assumes "check_once q st = Inr st'" "\<not> o_static (q_options q)" "typed ns3_types (c_env st)"
    and "typed all_types (c_env st) \<or> \<not> dict_has (c_env st) ''NS3_CHECK_MODULE_ONCE''"
  shows "typed all_types (c_env st') \<and> eget (c_env st') ''NS3_MODULES_FOUND'' = eget (c_env st) ''NS3_MODULES_FOUND''"
proof (cases "dict_has (c_env st) ''NS3_CHECK_MODULE_ONCE''")
  case True
  with assms show ?thesis by (simp add: check_once_def)
next
  case False
  let ?T = "(''NS3_CHECK_MODULE_ONCE'', Str_kind) # ns3_types"
  define st0 where "st0 = upd_env (dict_set ''NS3_CHECK_MODULE_ONCE'' (EStr [])) st"
  have T: "set ?T \<subseteq> set all_types" by (auto simp: all_types_def)
  from assms(1) False obtain st1 where w: "check_win32 q st0 = Inr st1" and f: "check_features (q_options q) (check_static q st1) = Inr st'"
    by (auto simp: check_once_def st0_def split: if_splits)
  have "typed ns3_types (c_env st0)" unfolding st0_def upd_env_simps by (rule typed_other [OF assms(3)]) (simp add: types_defs)
  then have "typed ?T (c_env st0)" "eget (c_env st0) ''NS3_MODULES_FOUND'' = eget (c_env st) ''NS3_MODULES_FOUND''"
    by (simp_all add: st0_def conf_simps)
  with check_win32_keeps [OF w T] have "typed ?T (c_env st1)" "eget (c_env st1) ''NS3_MODULES_FOUND'' = eget (c_env st) ''NS3_MODULES_FOUND''"
    by (simp_all only: keeps_def)
  with check_static_typed [OF assms(2), of st1] check_features_keeps [OF f, of all_types] show ?thesis by (simp add: keeps_def)
qed

text \<open>The search itself: every module that is found is added, and the kinds are kept.\<close>

lemma found_package:
  assumes "packages_ok q" "q_check_cfg q req = Pkg_found vars" "typed all_types (c_env st)"
  shows "typed all_types (dict_update (c_env st) vars)"
    and "static_libraries p m (upd_env (\<lambda>env. dict_update env vars) st) = Inr (upd_env (\<lambda>env. dict_update env vars) st)"
proof -
  from assms(1,2) have "fst ` set all_types \<inter> fst ` set vars = {}" unfolding packages_ok_def by blast
  with assms(3) show t: "typed all_types (dict_update (c_env st) vars)" by (rule typed_update)
  then have "\<not> truth (eget (dict_update (c_env st) vars) ''NS3_ENABLE_STATIC'')" by (simp add: all_types_def)
  then show "static_libraries p m (upd_env (\<lambda>env. dict_update env vars) st) = Inr (upd_env (\<lambda>env. dict_update env vars) st)"
    by (simp add: static_libraries_def conf_simps)
qed

lemma find_modules_typed:
  "find_modules q d p mand ms st found = Inr (st', found') \<Longrightarrow> packages_ok q \<Longrightarrow> typed all_types (c_env st) \<Longrightarrow> typed all_types (c_env st')"
proof (induction ms arbitrary: st found)
  case (Cons m ms)
  from Cons.prems(1) obtain known where k: "ehas (eget (c_env st) ''NS3_MODULES_FOUND'') m = Inr known" by auto
  show ?case
  proof (cases known)
    case True
    with Cons k show ?thesis by simp
  next
    case False
    with Cons.prems(1) k obtain req where r: "module_request q d st m = Inr req" by auto
    show ?thesis
    proof (cases "q_check_cfg q req")
      case Pkg_missing
      with Cons False k r show ?thesis by (auto split: if_splits)
    next
      case (Pkg_found vars)
      note f = found_package [OF Cons.prems(2) Pkg_found Cons.prems(3)]
      with Cons.prems(1) False k r Pkg_found f(2) have
        "find_modules q d p mand ms (upd_env (\<lambda>env. dict_update env vars) st) (found @ [m]) = Inr (st', found')" by simp
      from Cons.IH [OF this Cons.prems(2)] f(1) show ?thesis by (simp add: conf_simps)
    qed
  qed
qed simp

lemma find_version_known:
  assumes "packages_ok q" obtains st1 p where "find_version q d st = Inr (st1, True, p)"
    and "dict_has (c_env st1) ''NS3_VERSION''" "keeps all_types (c_env st) (c_env st1)"
proof (cases "dict_has (c_env st) ''NS3_VERSION''")
  case True
  then show ?thesis by (intro that [of st None]) (simp_all add: find_version_def)
next
  case False
  have glob: "\<exists>f v. q_glob q pat = [f] \<and> search_version (basename f) = Some v" for pat using assms by (simp add: packages_ok_def)
  obtain f w where "q_glob q (d @ ''/'' @ build_ns3_libname ''*'' ''core'' (etext (eget (c_env st) ''LIB_SUFFIX'')) @ ''.pc'') = [f]"
    "search_version (basename f) = Some w" using glob by blast
  with False have v: "find_version q d st = Inr (upd_env (dict_set ''NS3_VERSION'' (EStr w)) st, True, Some (basename f))"
    by (simp add: find_version_def Let_def)
  have fk: "free_key ''NS3_VERSION''" using free_key_list by simp
  have "keeps all_types (c_env st) (dict_set ''NS3_VERSION'' (EStr w) (c_env st))" by (rule keeps_set [OF fk subset_refl])
  then show ?thesis by (intro that [OF v]) (simp_all add: conf_simps)
qed

text \<open>A module that is found had a package file.\<close>

definition possible :: "conf_world \<Rightarrow> string \<Rightarrow> bool" where
  "possible q m \<longleftrightarrow> (\<exists>req. pr_store req = ''NS3_'' @ upper m \<and> q_check_cfg q req \<noteq> Pkg_missing)"

lemma find_modules_possible:
  "find_modules q d p mand ms st found = Inr (st', found') \<Longrightarrow> \<forall>m \<in> set found. possible q m \<Longrightarrow> \<forall>m \<in> set found'. possible q m"
proof (induction ms arbitrary: st found)
  case (Cons m ms)
  from Cons.prems(1) obtain known where k: "ehas (eget (c_env st) ''NS3_MODULES_FOUND'') m = Inr known" by auto
  show ?case
  proof (cases known)
    case True
    with Cons k show ?thesis by simp
  next
    case False
    with Cons.prems(1) k obtain req where r: "module_request q d st m = Inr req" by auto
    then have store: "pr_store req = ''NS3_'' @ upper m" by (auto simp: module_request_def split: option.splits)
    show ?thesis
    proof (cases "q_check_cfg q req")
      case Pkg_missing
      with Cons False k r show ?thesis by (auto split: if_splits)
    next
      case (Pkg_found vars)
      with Cons.prems(1) False k r obtain s where rest: "find_modules q d p mand ms s (found @ [m]) = Inr (st', found')" by auto
      have "possible q m" unfolding possible_def
        by (rule exI [of _ req], intro conjI, rule store, simp add: Pkg_found)
      with Cons.prems(2) have "\<forall>x \<in> set (found @ [m]). possible q x" by simp
      then show ?thesis by (rule Cons.IH [OF rest])
    qed
  qed
qed simp

definition extended :: "('a \<Rightarrow> bool) \<Rightarrow> 'a list \<Rightarrow> 'a list \<Rightarrow> bool" where
  "extended P xs ys \<longleftrightarrow> (\<exists>new. ys = xs @ new \<and> (\<forall>x \<in> set new. P x))"

lemma extended_refl [simp]: "extended P xs xs"
  by (simp add: extended_def)

lemma extended_trans: "extended P xs ys \<Longrightarrow> extended P ys zs \<Longrightarrow> extended P xs zs"
  by (auto simp: extended_def)

lemma extended_set: "extended P xs ys \<Longrightarrow> set xs \<subseteq> set ys" "extended P xs ys \<Longrightarrow> set ys \<subseteq> set xs \<union> Collect P"
  by (auto simp: extended_def)

lemma check_dependencies_typed:
  assumes "check_dependencies q ms mand st = Inr st'" "packages_ok q" "typed all_types (c_env st)"
  shows "typed all_types (c_env st') \<and>
    extended (possible q) (found_env (c_env st)) (found_env (c_env st')) \<and> (mand \<longrightarrow> set ms \<subseteq> set (found_env (c_env st')))"
proof -
  obtain d where d: "pkgconfig_dir st = Inr d" using assms(3) by (auto simp: pkgconfig_dir_def types_defs)
  obtain st1 p where v: "find_version q d st = Inr (st1, True, p)"
    and go: "dict_has (c_env st1) ''NS3_VERSION''" "keeps all_types (c_env st) (c_env st1)" using assms(2) by (rule find_version_known)
  have rest: "bind_result (find_modules q d p mand ms st1 []) (\<lambda>(st, found).
         map_result (\<lambda>all. upd_env (dict_set ''NS3_MODULES_FOUND'' (EList all)) st)
           (eplus (eget (c_env st) ''NS3_MODULES_FOUND'') found)) = Inr st'"
    using assms(1) by (simp add: check_dependencies_def d v)
  with rest obtain st2 found all where f: "find_modules q d p mand ms st1 [] = Inr (st2, found)"
    and all: "eplus (eget (c_env st2) ''NS3_MODULES_FOUND'') found = Inr all"
    and st': "st' = upd_env (dict_set ''NS3_MODULES_FOUND'' (EList all)) st2" by auto
  have "typed all_types (c_env st2)" using find_modules_typed [OF f assms(2)] go assms(3) by (simp add: keeps_def)
  then have "typed all_types (c_env st')"
    unfolding st' by (simp add: conf_simps) (rule typed_set; auto simp: types_defs)
  moreover obtain old where old: "eget (c_env st) ''NS3_MODULES_FOUND'' = EList old" using assms(3) by (auto simp: types_defs)
  have ok: "answers_ok q" using assms(2) by (auto simp: answers_ok_def packages_ok_def)
  have "eget (c_env st1) ''NS3_MODULES_FOUND'' = EList old" using go(2) old by (simp add: keeps_def)
  from find_modules_found [OF f ok this] all have "all = old @ found" by simp
  then have new: "eget (c_env st') ''NS3_MODULES_FOUND'' = EList (old @ found)" by (simp add: st' conf_simps)
  moreover have "\<forall>m \<in> set found. possible q m" by (rule find_modules_possible [OF f]) simp
  moreover have "dict_has (c_env st') ''NS3_VERSION''"
    using find_modules_state [OF f, of "''NS3_VERSION''"] go by (simp add: st' conf_simps)
  ultimately show ?thesis
    using check_dependencies_modules [OF assms(1) ok old] old by (auto simp: found_env_def extended_def)
qed

lemma check_modules_typed:
  assumes "check_modules q ms mand st = Inr st'" "packages_ok q" "typed ns3_types (c_env st)"
    and "typed all_types (c_env st) \<or> \<not> dict_has (c_env st) ''NS3_CHECK_MODULE_ONCE''"
  shows "typed all_types (c_env st') \<and>
    extended (possible q) (found_env (c_env st)) (found_env (c_env st')) \<and> (mand \<longrightarrow> set ms \<subseteq> set (found_env (c_env st')))"
proof -
  from assms(1) obtain s where o: "check_once q st = Inr s" and d: "check_dependencies q ms mand s = Inr st'"
    unfolding check_modules_def by (elim bind_resultE)
  have "\<not> o_static (q_options q)" using assms(2) by (simp add: packages_ok_def)
  from check_once_typed [OF o this assms(3,4)] check_dependencies_typed [OF d assms(2)] show ?thesis by (simp add: found_env_def)
qed

section \<open>What the steps of the configuration keep\<close>

text \<open>The kinds stay, and modules are only added.\<close>

definition grows :: "(string \<Rightarrow> bool) \<Rightarrow> conf_run \<Rightarrow> conf_run \<Rightarrow> bool" where
  "grows P r r' \<longleftrightarrow> r_environ r' = r_environ r \<and> (typed all_types (run_env r) \<longrightarrow>
     typed all_types (run_env r') \<and> extended P (found_env (run_env r)) (found_env (run_env r')))"

lemma grows_refl [simp]: "grows P r r"
  by (simp add: grows_def)

lemma grows_trans: "grows P a b \<Longrightarrow> grows P b c \<Longrightarrow> grows P a c"
  by (auto simp: grows_def intro: extended_trans)

lemma grows_fold:
  assumes "foldM_result f r xs = Inr r'" "\<And>r x r'. x \<in> set xs \<Longrightarrow> f r x = Inr r' \<Longrightarrow> grows P r r'"
  shows "grows P r r'"
  using assms(1) by (rule foldM_result_invariant [where I = "grows P r"]) (auto intro: grows_trans dest: assms(2))

lemma grows_foldl: "(\<And>r x. grows P r (f r x)) \<Longrightarrow> grows P r (foldl f r xs)"
  by (induction xs arbitrary: r) (auto intro: grows_trans)

lemma grows_env: "keeps all_types (run_env r) (run_env r') \<Longrightarrow> r_environ r' = r_environ r \<Longrightarrow> grows P r r'"
  by (simp add: grows_def keeps_def found_env_def)

lemma grows_tool: "tool_keeps f \<Longrightarrow> grows P r (set_run_env (f (run_env r)) r)"
  by (rule grows_env) (auto simp: keeps_def conf_simps tool_keeps_typed, simp_all add: tool_keeps_def set_run_env_def run_simps)

lemma grows_silent:
  "run_env r' = run_env r \<Longrightarrow> r_environ r' = r_environ r \<Longrightarrow> grows P r r'"
  by (simp add: grows_def)

lemma grows_message: "grows P r (conf_msg m t r)" "grows P r (conf_warn m r)" "grows P r (report n c b t r)"
  by (rule grows_silent; simp add: conf_msg_def conf_warn_def report_def run_env_def upd_run_def log_error_simps report_simps)+

lemma run_vars [conf_simps]:
  "run_env (set_var k v r) = dict_set k v (run_env r)" "run_env (append_var k w r) = wenv_append k w (run_env r)"
  "r_environ (set_var k v r) = r_environ r" "r_environ (append_var k w r) = r_environ r" "r_environ (prepend_var k w r) = r_environ r"
  by (simp_all add: set_var_def append_var_def prepend_var_def conf_simps run_env_def)

lemma grows_var:
  "free_key k \<Longrightarrow> grows P r (set_var k v r)" "free_key k \<Longrightarrow> grows P r (append_var k w r)" "free_key k \<Longrightarrow> grows P r (prepend_var k w r)"
  by (rule grows_env; simp add: conf_simps keeps_set keeps_append; fail)+
    (rule grows_env, simp add: prepend_var_def conf_simps keeps_set flip: run_env_def, simp add: conf_simps)

lemma grows_string:
  assumes "k \<in> {''KERNEL_STACK'', ''ELF_LOADER_PATH'', ''WITH_PYBINDGEN'', ''GLIBC_INSTALL_DIR''}" shows "grows P r (set_var k (EStr s) r)"
proof (rule grows_env)
  have "typed all_types (dict_set k (EStr s) e)" if "typed all_types e" for e
    using that assms by (intro typed_set) (auto simp: types_defs)
  with assms show "keeps all_types (run_env r) (run_env (set_var k (EStr s) r))" by (auto simp: keeps_def conf_simps)
qed (simp add: conf_simps)

text \<open>Modules.\<close>

lemma packages_ok_path [simp]: "packages_ok (q\<lparr>q_pkg_config_path := p\<rparr>) = packages_ok q" "possible (q\<lparr>q_pkg_config_path := p\<rparr>) = possible q"
  by (simp_all add: packages_ok_def possible_def fun_eq_iff)

lemma need_modules_first:
  assumes "need_modules x r (ms, mand) = Inr r'" "packages_ok (x_q x)" "typed ns3_types (run_env r)"
    and "\<not> dict_has (run_env r) ''NS3_CHECK_MODULE_ONCE''"
  shows "typed all_types (run_env r') \<and> extended (possible (x_q x)) (found_env (run_env r)) (found_env (run_env r')) \<and>
    (mand \<longrightarrow> set ms \<subseteq> set (found_env (run_env r')))"
  using assms by (auto simp: need_modules_def run_env_def dest!: check_modules_typed)

lemma need_modules_grows:
  assumes "need_modules x r (ms, mand) = Inr r'" "packages_ok (x_q x)"
  shows "grows (possible (x_q x)) r r' \<and> (typed all_types (run_env r) \<and> mand \<longrightarrow> set ms \<subseteq> set (found_env (run_env r')))"
proof (cases "typed all_types (run_env r)")
  case True
  then have "typed ns3_types (c_env (r_conf r))" by (simp add: all_types_def run_env_def)
  with assms True show ?thesis
    by (auto simp: need_modules_def run_env_def grows_def dest!: check_modules_typed)
qed (use assms(1) in \<open>auto simp: grows_def need_modules_def\<close>)

text \<open>What the tools of waf do.\<close>

lemma conf_check_grows:
  assumes "tools_keep x" "conf_check x args r = (ok, r')" shows "grows P r r'"
proof -
  have "r' = set_run_env ((\<lambda>env. fst (x_check x args env)) (run_env r)) r"
    using assms(2) by (auto simp: conf_check_def split: prod.splits)
  moreover have "tool_keeps (\<lambda>env. fst (x_check x args env))" using assms(1) by (simp add: tools_keep_def)
  note grows_tool [OF this, of _ r]
  ultimately show ?thesis by simp
qed

lemma optional_check_grows: "tools_keep x \<Longrightarrow> grows P r (optional_check x r args)"
  unfolding optional_check_def by (rule conf_check_grows [where ok = "fst (conf_check x args r)"]) simp_all

lemma mandatory_check_grows: "tools_keep x \<Longrightarrow> mandatory_check x args r = Inr r' \<Longrightarrow> grows P r r'"
  by (auto simp: mandatory_check_def split: prod.splits if_splits dest: conf_check_grows)

lemma load_tool_grows:
  assumes "tools_keep x" "load_tool x t r = Inr r'" shows "grows P r r'"
proof -
  from assms(2) obtain env where env: "x_load x t (run_env r) = Inr env" "r' = set_run_env env r" by (auto simp: load_tool_def)
  have "tool_keeps (\<lambda>env. case x_load x t env of Inr env' \<Rightarrow> env' | Inl _ \<Rightarrow> env)" using assms(1) by (simp add: tools_keep_def)
  from grows_tool [OF this, of _ r] env show ?thesis by simp
qed

lemma both_compilers_grows:
  assumes "tools_keep x" "both_compilers x r = Inr r'" shows "grows P r r'"
proof -
  from assms(2) obtain r1 where "load_tool x ''compiler_c'' r = Inr r1" "load_tool x ''compiler_cxx'' r1 = Inr r'"
    unfolding both_compilers_def by (elim bind_resultE)
  with load_tool_grows [OF assms(1)] show ?thesis by (blast intro: grows_trans)
qed

text \<open>The parts of the configuration.\<close>

lemma free_key_names:
  "free_key ''DEFINES''" "free_key ''MPI''" "free_key ''LINKFLAGS''" "free_key ''CXXDEFINES''" "free_key ''CXXFLAGS''" "free_key ''LIB_ASPECT_PATH''"
  "free_key ''VALGRIND_FOUND''" "free_key ''SCTP_TOOLS_FOUND''" "free_key ''ENABLE_PYTHON_BINDINGS''" "free_key ''EXAMPLE_DIRECTORIES''"
  "free_key ''NS3_ENABLED_MODULES''" "free_key ''NS3_EXECUTABLE_PATH''"
  using free_key_list by simp_all

lemmas grows_simple = grows_var [OF free_key_names(1)] grows_var [OF free_key_names(2)] grows_var [OF free_key_names(3)]
  grows_var [OF free_key_names(4)] grows_var [OF free_key_names(5)] grows_var [OF free_key_names(6)] grows_var [OF free_key_names(7)]
  grows_var [OF free_key_names(8)] grows_var [OF free_key_names(9)] grows_var [OF free_key_names(10)] grows_var [OF free_key_names(11)]

lemma check_headers_grows:
  assumes "tools_keep x" shows "grows P r (check_headers x r)"
proof -
  define r1 where "r1 = foldl (optional_check x) r header_checks"
  define r2 where "r2 = (if wo_mpi (x_options x) then set_var ''MPI'' (EStr ''1'') (append_var ''DEFINES'' ''DCE_MPI=1'' r1) else r1)"
  have "grows P r r1" unfolding r1_def by (rule grows_foldl) (rule optional_check_grows [OF assms])
  moreover have "grows P r1 r2" unfolding r2_def by (auto intro: grows_trans grows_simple)
  moreover have "grows P r2 (check_headers x r)"
    unfolding check_headers_def Let_def r1_def [symmetric] r2_def [symmetric] by (rule grows_trans [OF grows_simple(9) grows_simple(8)])
  ultimately show ?thesis by (blast intro: grows_trans)
qed

lemma check_functions_grows:
  assumes "tools_keep x" shows "grows P r (check_functions x r)"
proof -
  define r5 where "r5 = foldl (optional_check x) r function_checks"
  have five: "grows P r r5" unfolding r5_def by (rule grows_foldl) (rule optional_check_grows [OF assms])
  obtain vg r6 where six: "conf_check x [(''header_name'', ''valgrind/valgrind.h'')] r5 = (vg, r6)" by fastforce
  obtain mc r7 where seven: "conf_check x [(''header_name'', ''valgrind/memcheck.h'')] r6 = (mc, r7)" by fastforce
  have r': "check_functions x r = append_var ''CXXFLAGS'' ''-std=c++11'' (if vg \<and> mc then append_var ''CXXDEFINES'' ''HAVE_VALGRIND_H'' r7 else r7)"
    using six seven by (simp add: check_functions_def r5_def Let_def)
  have "grows P r7 (check_functions x r)" unfolding r' by (auto intro: grows_trans grows_simple)
  with five conf_check_grows [OF assms six] conf_check_grows [OF assms seven] show ?thesis by (blast intro: grows_trans)
qed

lemma check_libc_grows:
  assumes "tools_keep x" "check_libc x r = Inr r'" shows "grows P r r'"
proof -
  from assms(2) obtain r1 where "mandatory_check x [(''lib'', ''dl'')] (check_headers x r) = Inr r1" "r' = check_functions x r1"
    by (auto simp: check_libc_def)
  with mandatory_check_grows [OF assms(1)] check_headers_grows [OF assms(1)] check_functions_grows [OF assms(1)] show ?thesis
    by (blast intro: grows_trans)
qed

lemma use_kernel_grows:
  assumes "tools_keep x" "use_kernel x r = Inr r'" shows "grows P r r'"
proof -
  consider "r' = r" | d args r1 where "mandatory_check x args r = Inr r1"
    "r' = append_var ''DEFINES'' ''KERNEL_STACK=Y'' (set_var ''KERNEL_STACK'' (EStr d) r1)"
    using assms(2) by (auto simp: use_kernel_def split: option.splits if_splits)
  then show ?thesis
  proof cases
    case 2
    have "grows P r1 (set_var ''KERNEL_STACK'' (EStr d) r1)" by (rule grows_string) simp
    moreover have "grows P (set_var ''KERNEL_STACK'' (EStr d) r1) r'" unfolding 2(2) by (rule grows_simple(2))
    ultimately show ?thesis using mandatory_check_grows [OF assms(1) 2(1)] by (blast intro: grows_trans)
  qed simp
qed

text \<open>The scripts: what they need is found.\<close>

primrec needed_by :: "conf_step \<Rightarrow> string list" where
  "needed_by Load_compilers = []"
| "needed_by (Need ms) = ms"

definition script_needs :: "string \<Rightarrow> string list" where
  "script_needs d = concat (map needed_by (case conf_steps d of None \<Rightarrow> [] | Some steps \<Rightarrow> steps))"

text \<open>A step that is done leaves the modules it needs.\<close>

definition provides :: "(string \<Rightarrow> bool) \<Rightarrow> string list \<Rightarrow> conf_run \<Rightarrow> conf_run \<Rightarrow> bool" where
  "provides P ms r r' \<longleftrightarrow> grows P r r' \<and> (typed all_types (run_env r) \<longrightarrow> set ms \<subseteq> set (found_env (run_env r')))"

lemma provides_trans: "provides P ms a b \<Longrightarrow> provides P ns b c \<Longrightarrow> provides P (ms @ ns) a c"
  by (auto simp: provides_def grows_def dest: extended_set(1) intro: extended_trans)

lemma provides_fold:
  assumes "foldM_result f r xs = Inr r'" "\<And>r x r'. x \<in> set xs \<Longrightarrow> f r x = Inr r' \<Longrightarrow> provides P (needs x) r r'"
  shows "provides P (concat (map needs xs)) r r'"
  using assms
proof (induction xs arbitrary: r)
  case (Cons x xs)
  then obtain r1 where "f r x = Inr r1" "foldM_result f r1 xs = Inr r'" by auto
  with Cons have "provides P (needs x) r r1" "provides P (concat (map needs xs)) r1 r'" by simp_all
  from provides_trans [OF this] show ?case by simp
qed (simp add: provides_def)

lemma do_conf_step_provides:
  assumes "do_conf_step x r s = Inr r'" "tools_keep x" "packages_ok (x_q x)" shows "provides (possible (x_q x)) (needed_by s) r r'"
proof (cases s)
  case Load_compilers
  with assms show ?thesis by (simp add: provides_def both_compilers_grows)
next
  case (Need ms)
  with assms need_modules_grows [of x r ms True r'] show ?thesis by (simp add: provides_def)
qed

lemma conf_script_provides:
  assumes "conf_script x r d = Inr r'" "tools_keep x" "packages_ok (x_q x)" shows "provides (possible (x_q x)) (script_needs d) r r'"
proof -
  from assms(1) obtain steps where "conf_steps d = Some steps" "foldM_result (do_conf_step x) r steps = Inr r'"
    by (auto simp: conf_script_def split: option.splits)
  with provides_fold [of "do_conf_step x" r steps r' _ needed_by] do_conf_step_provides assms(2,3) show ?thesis
    by (simp add: script_needs_def)
qed

lemma conf_myscripts_provides:
  assumes "conf_myscripts x r = Inr r'" "tools_keep x" "packages_ok (x_q x)"
  shows "provides (possible (x_q x)) (concat (map script_needs (script_dirs x))) r r'"
  using assms(1) unfolding conf_myscripts_def by (rule provides_fold) (rule conf_script_provides [OF _ assms(2,3)])

text \<open>What comes after the scripts.\<close>

lemma use_elf_loader_grows: "grows P r (use_elf_loader x r)"
proof -
  define r1 where "r1 = (case wo_elf (x_options x) of None \<Rightarrow> r
    | Some d \<Rightarrow> if \<not> x_isdir x d then r else if x_exists x (d @ ''/ldso'') then set_var ''ELF_LOADER_PATH'' (EStr d) r
        else conf_warn ''elf-loader does not exist'' r)"
  have "grows P r r1" unfolding r1_def by (auto simp: grows_message grows_string split: option.splits)
  moreover have "grows P r1 (use_elf_loader x r)" unfolding use_elf_loader_def r1_def [symmetric] Let_def by (rule grows_message)
  ultimately show ?thesis by (rule grows_trans)
qed

lemma use_aspect_grows:
  assumes "tools_keep x" "use_aspect x r = Inr r'" shows "grows P r r'"
proof -
  define r1 where "r1 = set_var ''LIB_ASPECT_PATH'' (eget (run_env r) ''PREFIX'') r"
  define r2 where "r2 = (case wo_aspect (x_options x) of None \<Rightarrow> r1
    | Some d \<Rightarrow> if \<not> x_isdir x d then r1 else if x_exists x d then set_var ''LIB_ASPECT_PATH'' (EStr (abspath (x_cwd x) d)) r1
        else conf_warn ''libaspect does not exist'' r1)"
  have one: "grows P r r1" unfolding r1_def by (rule grows_simple)
  have two: "grows P r1 r2" unfolding r2_def by (auto simp: grows_message grows_simple split: option.splits)
  from assms(2) obtain path args ok r3 where three: "conf_check x args r2 = (ok, r3)"
    and r': "r' = report ''libaspect'' ''Aspect-based tracing'' ok ''libaspect not found'' (if ok then r3 else set_var ''LIB_ASPECT_PATH'' (EList []) r3)"
    unfolding use_aspect_def r1_def [symmetric] Let_def r2_def [symmetric] by (auto split: evalue.splits prod.splits)
  have "grows P r3 (if ok then r3 else set_var ''LIB_ASPECT_PATH'' (EList []) r3)" by (simp add: grows_simple)
  then have "grows P r3 r'" unfolding r' by (rule grows_trans) (rule grows_message)
  with one two conf_check_grows [OF assms(1) three] show ?thesis by (blast intro: grows_trans)
qed

lemma find_tools_grows:
  assumes "tools_keep x" shows "grows P r (find_tools x r)"
proof -
  have find: "grows P r (set_run_env (fst (x_find x p v (run_env r))) r)" for r p v
    using grows_tool [of "\<lambda>env. fst (x_find x p v env)" _ r] assms by (simp add: tools_keep_def)
  define r1 where "r1 = set_var ''VALGRIND_FOUND'' (EBool False) r"
  define r2 where "r2 = set_run_env (fst (x_find x ''valgrind'' ''VALGRIND'' (run_env r1))) r1"
  define r3 where "r3 = (if snd (x_find x ''valgrind'' ''VALGRIND'' (run_env r1)) then set_var ''VALGRIND_FOUND'' (EBool True) r2 else r2)"
  have r': "find_tools x r = set_run_env (fst (x_find x ''doxygen'' ''DOXYGEN'' (run_env r3))) r3"
    unfolding find_tools_def Let_def split_beta r1_def [symmetric] r2_def [symmetric] r3_def [symmetric] ..
  have "grows P r r1" "grows P r2 r3" by (simp_all add: r1_def r3_def grows_simple)
  moreover have "grows P r1 r2" "grows P r3 (find_tools x r)" unfolding r' r2_def by (rule find)+
  ultimately show ?thesis by (blast intro: grows_trans)
qed

lemma check_sctp_grows:
  assumes "tools_keep x" shows "grows P r (check_sctp x r)"
proof -
  obtain have1 r1 where one: "conf_check x [(''header_name'', ''netinet/sctp.h''), (''define_name'', ''HAVE_SCTP_H'')] r = (have1, r1)" by fastforce
  have e: "check_sctp x r = report ''sctp'' ''sctp-tools-dev'' have1 ''sctp-tools (netinet/sctp.h) not found'' (set_var ''SCTP_TOOLS_FOUND'' (EBool have1) r1)"
    using one by (simp add: check_sctp_def Let_def)
  have s: "grows P r1 (set_var ''SCTP_TOOLS_FOUND'' (EBool have1) r1)" by (rule grows_simple)
  show ?thesis unfolding e by (rule grows_trans [OF grows_trans [OF conf_check_grows [OF assms one] s] grows_message(3)])
qed

text \<open>The start: until the first search for modules the compilers and the C library are set.\<close>

definition fresh :: "(string \<times> kind) list \<Rightarrow> conf_run \<Rightarrow> conf_run \<Rightarrow> bool" where
  "fresh T r r' \<longleftrightarrow> typed T (run_env r') \<and> \<not> dict_has (run_env r') ''NS3_CHECK_MODULE_ONCE'' \<and> found_env (run_env r') = found_env (run_env r)"

lemma use_glibc_fresh:
  assumes "use_glibc x r = Inr r'" "fresh first_types r r" shows "fresh glibc_types r r'"
proof -
  from assms(1) obtain d where "r' = set_var ''GLIBC_INSTALL_DIR'' (EStr d) r" by (auto simp: use_glibc_def Let_def split: option.splits if_splits)
  moreover have "typed first_types (dict_set ''GLIBC_INSTALL_DIR'' (EStr d) (run_env r))"
    using assms(2) by (intro typed_other) (simp_all add: fresh_def first_types_def)
  ultimately show ?thesis using assms(2) by (simp add: fresh_def glibc_types_def conf_simps found_env_def)
qed

lemma load_tool_fresh:
  assumes "load_tool x t r1 = Inr r2" "tools_keep x" "fresh T r r1" "set T \<subseteq> set all_types" shows "fresh T r r2"
proof -
  define f where "f = (\<lambda>env. case x_load x t env of Inr env' \<Rightarrow> env' | Inl _ \<Rightarrow> env)"
  have f: "tool_keeps f" using assms(2) by (simp add: tools_keep_def f_def)
  have "run_env r2 = f (run_env r1)" using assms(1) by (auto simp: load_tool_def f_def conf_simps)
  with assms(3) f tool_keeps_typed [OF f assms(4)] show ?thesis by (simp add: fresh_def tool_keeps_def found_env_def)
qed

lemma load_compilers_fresh:
  assumes "load_compilers x r1 = Inr r2" "tools_keep x" "fresh glibc_types r r1" shows "fresh compiler_types r r2"
proof -
  from assms(1) obtain s cc where c: "load_tool x ''compiler_c'' r1 = Inr s" and cxx: "load_tool x ''compiler_cxx'' (conf_msg ''Checking for cc version'' cc s) = Inr r2"
    unfolding load_compilers_def by (elim bind_resultE)
  have T: "set glibc_types \<subseteq> set all_types" "set compiler_types \<subseteq> set all_types"
    unfolding all_types_def ns3_types_def compiler_types_def by auto
  have "has_kind Pattern_kind (eget (run_env s) ''cshlib_PATTERN'')"
    using c assms(2) unfolding load_tool_def tools_keep_def by (auto simp: conf_simps)
  with load_tool_fresh [OF c assms(2,3) T(1)] have "fresh compiler_types r (conf_msg ''Checking for cc version'' cc s)"
    by (simp add: fresh_def compiler_types_def conf_simps)
  from load_tool_fresh [OF cxx assms(2) this T(2)] show ?thesis .
qed

lemma use_ns3_fresh:
  assumes "fresh compiler_types r r1" "wo_ns3 (x_options x) = Some d" "x_isdir x d" shows "fresh ns3_types r (use_ns3 x r1)"
proof -
  have T: "set ns3_types \<subseteq> set all_types" by (auto simp: all_types_def)
  obtain env where e: "run_env (use_ns3 x r1) = wenv_append ''NS3_EXECUTABLE_PATH'' (path_join (abspath (x_cwd x) d) ''bin'')
      (run_env ((set_var ''NS3_DIR'' (EStr (abspath (x_cwd x) d)) r1)\<lparr>r_environ := env\<rparr>))"
    using assms(2,3) by (auto simp: use_ns3_def Let_def run_vars)
  let ?s = "(set_var ''NS3_DIR'' (EStr (abspath (x_cwd x) d)) r1)\<lparr>r_environ := env\<rparr>"
  have "typed compiler_types (run_env ?s)"
    unfolding run_simps run_vars using assms(1) by (intro typed_other) (simp_all add: fresh_def types_defs)
  then have s: "fresh ns3_types r ?s" using assms(1) by (simp add: fresh_def ns3_types_def found_env_def conf_simps)
  have "keeps ns3_types (run_env ?s) (run_env (use_ns3 x r1))" unfolding e by (rule keeps_append [OF _ T]) (rule free_key_names)
  with s show ?thesis by (simp add: fresh_def keeps_def found_env_def e conf_simps)
qed

text \<open>The modules that the configuration itself needs.\<close>

definition base_modules :: "string list" where
  "base_modules = [''core'', ''network'', ''internet'']"

lemma before_scripts_typed:
  assumes "before_scripts x r = Inr r'" "tools_keep x" "packages_ok (x_q x)" "fresh first_types r r"
    and "wo_ns3 (x_options x) = Some d" "x_isdir x d"
  shows "typed all_types (run_env r') \<and> set base_modules \<subseteq> set (found_env (run_env r')) \<and>
    extended (possible (x_q x)) (found_env (run_env r)) (found_env (run_env r'))"
proof -
  let ?P = "possible (x_q x)"
  from assms(1) obtain r1 r2 r3 r4 r5 where g: "use_glibc x r = Inr r1" and c: "load_compilers x r1 = Inr r2"
    and m: "foldM_result (need_modules x) (use_ns3 x r2) ns3_modules = Inr r3" and l: "check_libc x r3 = Inr r4" and k: "use_kernel x r4 = Inr r5"
    and r': "r' = set_var ''NS3_ENABLED_MODULES'' (EList []) (set_var ''EXAMPLE_DIRECTORIES'' (EStr ''.'') (set_var ''ENABLE_PYTHON_BINDINGS'' (EBool False) r5))"
    unfolding before_scripts_def by (elim bind_resultE) simp
  have f: "fresh ns3_types r (use_ns3 x r2)"
    by (rule use_ns3_fresh [OF load_compilers_fresh [OF c assms(2) use_glibc_fresh [OF g assms(4)]] assms(5,6)])
  obtain others where ns: "ns3_modules = (base_modules, True) # others" by (simp add: ns3_modules_def base_modules_def)
  from m obtain s where first: "need_modules x (use_ns3 x r2) (base_modules, True) = Inr s"
    and more: "foldM_result (need_modules x) s others = Inr r3" unfolding ns foldM_result.simps by (elim bind_resultE)
  from need_modules_first [OF first assms(3)] f have s: "typed all_types (run_env s)" "set base_modules \<subseteq> set (found_env (run_env s))"
    "extended ?P (found_env (run_env r)) (found_env (run_env s))" by (simp_all add: fresh_def)
  have "grows ?P s r3" using more by (rule grows_fold) (use need_modules_grows [OF _ assms(3)] in force)
  moreover have "grows ?P r3 r4" "grows ?P r4 r5" using check_libc_grows [OF assms(2) l] use_kernel_grows [OF assms(2) k] .
  moreover have "grows ?P r5 r'" unfolding r' by (rule grows_trans [OF grows_trans [OF grows_var(1) grows_var(1)] grows_var(1)]) (rule free_key_names)+
  ultimately have "grows ?P s r'" by (blast intro: grows_trans)
  with s(1) have "typed all_types (run_env r')" "extended ?P (found_env (run_env s)) (found_env (run_env r'))" by (simp_all add: grows_def)
  with s extended_set(1) [OF this(2)] show ?thesis by (blast intro: extended_trans)
qed

text \<open>The bindings.\<close>

lemma py_configure_grows:
  assumes "py_configure (x_py x) r = Inr r'" "tools_keep x" "typed all_types (run_env r)"
  shows "typed all_types (run_env r') \<and> found_env (run_env r') = found_env (run_env r)"
proof -
  let ?P = "\<lambda>env. typed all_types env \<and> found_env env = found_env (run_env r)"
  have tool: "?P (f env)" if "tool_keeps f" "?P env" for f env
    using that tool_keeps_typed [OF that(1), of all_types env] by (simp add: tool_keeps_def found_env_def)
  have free: "free_key k" if "k \<in> set py_vars" for k
    using that by (auto simp: py_vars_def arch_vars_def free_key_def types_defs)
  have var: "?P (dict_set k v env)" if "?P env" "k \<in> set py_vars" for k v env
    using keeps_set [OF free [OF that(2)], of all_types env v] that(1) by (simp add: keeps_def found_env_def)
  have dir: "?P (dict_set ''WITH_PYBINDGEN'' (EStr s) env)" if "?P env" for s env
  proof -
    have "typed all_types (dict_set ''WITH_PYBINDGEN'' (EStr s) env)" using that by (intro typed_set) (auto simp: types_defs)
    with that show ?thesis by (simp add: found_env_def conf_simps)
  qed
  have "py_stable (x_py x) ?P"
    unfolding py_stable_def using assms(2) tool var dir by (auto simp: tools_keep_def)
  from py_configure_stable [OF assms(1) this] assms(3) show ?thesis by simp
qed

section \<open>Properties\<close>

text \<open>The modules that the tree needs: those of the emulator itself, and those of the scripts that are there.\<close>

definition needed_modules :: "wconf_world \<Rightarrow> string list" where
  "needed_modules x = base_modules @ concat (map script_needs (script_dirs x))"

lemma wscript_configure_ready:
  assumes "wscript_configure x r = Inr r'" "tools_keep x" "packages_ok (x_q x)" "fresh first_types r r"
    and "wo_ns3 (x_options x) = Some d" "x_isdir x d"
  shows "configured (run_env r') \<and> eget (run_env r') ''NS3_MODULES_FOUND'' = EList (found_env (run_env r')) \<and>
    set (needed_modules x) \<subseteq> set (found_env (run_env r')) \<and>
    set (found_env (run_env r')) \<subseteq> set (found_env (run_env r)) \<union> {m. possible (x_q x) m}"
proof -
  let ?P = "possible (x_q x)"
  from assms(1) obtain r1 r2 r3 r4 r5 where b: "before_scripts x r = Inr r1" and m: "conf_myscripts x r1 = Inr r2"
    and a: "use_aspect x (use_elf_loader x r2) = Inr r3" and c: "both_compilers x (check_sctp x (find_tools x r3)) = Inr r4"
    and p: "py_configure (x_py x) r4 = Inr r5" and r': "r' = upd_run (\<lambda>c. c\<lparr>c_log := c_log c @ print_optional_features c\<rparr>) r5"
    unfolding wscript_configure_def by (elim bind_resultE) simp
  note one = before_scripts_typed [OF b assms(2-6)]
  have scripts: "provides ?P (concat (map script_needs (script_dirs x))) r1 r2" by (rule conf_myscripts_provides [OF m assms(2,3)])
  have "grows ?P r2 r3" by (rule grows_trans [OF use_elf_loader_grows use_aspect_grows [OF assms(2) a]])
  moreover have "grows ?P r3 r4"
    by (rule grows_trans [OF grows_trans [OF find_tools_grows check_sctp_grows] both_compilers_grows [OF _ c]]) (rule assms(2))+
  ultimately have more: "grows ?P r2 r4" by (rule grows_trans)
  from scripts one have t2: "typed all_types (run_env r2)" "set (needed_modules x) \<subseteq> set (found_env (run_env r2))"
    "extended ?P (found_env (run_env r1)) (found_env (run_env r2))"
    by (auto simp: provides_def grows_def needed_modules_def dest: extended_set(1))
  with more have t4: "typed all_types (run_env r4)" "extended ?P (found_env (run_env r2)) (found_env (run_env r4))"
    by (simp_all add: grows_def)
  have all: "extended ?P (found_env (run_env r)) (found_env (run_env r4))" using one t2(3) t4(2) by (blast intro: extended_trans)
  have env: "run_env r' = run_env r5" by (simp add: r' conf_simps run_env_def)
  from py_configure_grows [OF p assms(2) t4(1)] have t5: "typed all_types (run_env r')" "found_env (run_env r') = found_env (run_env r4)"
    by (simp_all add: env)
  then have bounds: "set (needed_modules x) \<subseteq> set (found_env (run_env r'))" "set (found_env (run_env r')) \<subseteq> set (found_env (run_env r)) \<union> Collect ?P"
    using t2(2) extended_set(1) [OF t4(2)] extended_set(2) [OF all] by auto
  have "checks_keep (x_py x)" using assms(2) by (auto simp: checks_keep_def tools_keep_def tool_keeps_def)
  from py_configure_off [OF p this] have "\<not> truth (eget (run_env r') ''ENABLE_PYTHON_BINDINGS'')" by (simp add: bindings_off_def env)
  moreover obtain ms where "eget (run_env r') ''NS3_MODULES_FOUND'' = EList ms" using t5(1) by (auto simp: types_defs)
  ultimately show ?thesis using t5(1) bounds typed_configured by (simp add: found_env_def)
qed

end
