(* ===== verification/Wscript_Runs.thy ===== *)
theory Wscript_Runs
  imports Wscript_Whole
begin

text \<open>
  When the configuration of \<open>src/wscript\<close> ends: conditions on the machine under which no step of it raises an exception, with
  any modules missing that nothing needs.  Together with \<open>Wscript_Whole\<close> and \<open>Wscript_Total\<close> this says that such a machine
  builds the tree.
\<close>

section \<open>Conditions on the machine\<close>

text \<open>A module is available when its package file is found for whatever version and search path.\<close>

definition available :: "wconf_world \<Rightarrow> string \<Rightarrow> bool" where
  "available x m \<longleftrightarrow> (\<forall>req. pr_store req = ''NS3_'' @ upper m \<longrightarrow> q_check_cfg (x_q x) req \<noteq> Pkg_missing)"

definition compilers_load :: "wconf_world \<Rightarrow> bool" where
  "compilers_load x \<longleftrightarrow>
     (\<forall>env. \<exists>env' v. x_load x ''compiler_c'' env = Inr env' \<and> eget env' ''CC_VERSION'' = EList v) \<and>
     (\<forall>env. \<exists>env' cxx cs xs. x_load x ''compiler_cxx'' env = Inr env' \<and> eget env' ''CXX'' = EList [cxx] \<and>
        eget env' ''CFLAGS'' = EList cs \<and> eget env' ''CXXFLAGS'' = EList xs)"

definition directories_ok :: "wconf_world \<Rightarrow> bool" where
  "directories_ok x \<longleftrightarrow>
     (\<exists>g. wo_glibc (x_options x) = Some g \<and> x_exists x (abspath (x_cwd x) g)) \<and>
     (\<exists>d. wo_ns3 (x_options x) = Some d \<and> x_isdir x d) \<and>
     (\<forall>k. wo_kernel (x_options x) = Some k \<and> k \<noteq> [] \<longrightarrow>
        x_isdir x k \<and> (x_isdir x (path_join k ''sim'') \<or> x_isdir x (path_join k ''lib''))) \<and>
     (\<forall>d \<in> set (script_dirs x). conf_steps d \<noteq> None)"

definition checks_ok :: "wconf_world \<Rightarrow> bool" where
  "checks_ok x \<longleftrightarrow>
     (\<forall>env. snd (x_check x [(''lib'', ''dl'')] env)) \<and>
     (\<forall>d env. snd (x_check x [(''header_name'', ''sim.h''), (''includes'', path_join d ''include'')] env)) \<and>
     q_pkgconfig_runs (x_q x) \<and> po_disable (y_options (x_py x))"

definition machine_ok :: "wconf_world \<Rightarrow> bool" where
  "machine_ok x \<longleftrightarrow> tools_keep x \<and> packages_ok (x_q x) \<and> compilers_load x \<and> directories_ok x \<and> checks_ok x"

section \<open>The first checks\<close>

text \<open>The flags of the compilers stay lists.\<close>

definition flag_lists :: "wenv \<Rightarrow> bool" where
  "flag_lists env \<longleftrightarrow> (\<exists>cs. eget env ''CFLAGS'' = EList cs) \<and> (\<exists>xs. eget env ''CXXFLAGS'' = EList xs)"

lemma flag_lists_append: "flag_lists env \<Longrightarrow> flag_lists (wenv_append k v env)"
  by (auto simp: flag_lists_def wenv_append_def conf_simps split: if_splits)

lemma flag_lists_set: "flag_lists env \<Longrightarrow> k \<notin> {''CFLAGS'', ''CXXFLAGS''} \<Longrightarrow> flag_lists (dict_set k v env)"
  by (auto simp: flag_lists_def conf_simps)

lemma flag_lists_all: "flag_lists (c_env st) \<Longrightarrow> flag_lists (c_env (append_all kvs st))"
proof (induction kvs arbitrary: st)
  case (Cons kv kvs)
  obtain k v where "kv = (k, v)" by fastforce
  with Cons.IH [of "upd_env (wenv_append k v) st"] Cons.prems show ?case by (simp add: append_all_def conf_simps flag_lists_append)
qed (simp add: append_all_def)

lemma flag_lists_report: "flag_lists (c_env (report_optional_feature n c b t st)) = flag_lists (c_env st)"
  by (simp add: conf_simps)

lemma flag_lists_steps:
  assumes "flag_lists (c_env st)"
  shows "flag_lists (c_env (log_feature on st))" "flag_lists (c_env (assert_feature on st))" "flag_lists (c_env (coverage_feature on st))"
    and "v \<notin> {''CFLAGS'', ''CXXFLAGS''} \<Longrightarrow> flag_lists (c_env (switch_feature n c t v on st))"
proof -
  show "flag_lists (c_env (log_feature on st))" "flag_lists (c_env (assert_feature on st))" "flag_lists (c_env (coverage_feature on st))"
    unfolding log_feature_def assert_feature_def coverage_feature_def using assms by (simp_all add: flag_lists_all flag_lists_report del: append.simps)
  show "flag_lists (c_env (switch_feature n c t v on st))" if "v \<notin> {''CFLAGS'', ''CXXFLAGS''}"
    using flag_lists_set [OF assms that] by (simp add: switch_feature_def conf_simps)
qed

lemma check_features_returns:
  assumes "flag_lists (c_env st)" shows "\<exists>st'. check_features opt st = Inr st'"
proof -
  have debug: "\<exists>st'. debug_feature on s = Inr st'" if "flag_lists (c_env s)" for on s
    using that by (auto simp: debug_feature_def add_debug_flag_def flag_lists_def conf_simps)
  show ?thesis unfolding check_features_def by (intro debug flag_lists_steps assms) simp_all
qed

lemma check_win32_returns:
  assumes "eget (c_env st) ''CXX'' = EList [cxx]" "flag_lists (c_env st)"
  shows "\<exists>st'. check_win32 q st = Inr st' \<and> flag_lists (c_env st')"
proof (cases "is_gcc [''gcc'', ''icc''] (c_env st)")
  case False
  with assms(2) show ?thesis by (simp add: check_win32_def)
next
  case True
  define st1 where "st1 = (if q_platform q = ''win32'' then upd_env (wenv_append ''LINKFLAGS'' ''-Wl,--enable-runtime-pseudo-reloc'') st
                  else if q_platform q = ''cygwin'' then upd_env (wenv_append ''LINKFLAGS'' ''-Wl,--enable-auto-import'') st else st)"
  have cxx: "eget (c_env st1) ''CXX'' = EList [cxx]" and lists: "flag_lists (c_env st1)"
    using assms by (simp_all add: st1_def conf_simps flag_lists_append)
  define loc where "loc = dirname (strip (q_libstdcxx q cxx))"
  define st2 where "st2 = (if loc \<noteq> [] then upd_env (wenv_append ''NS3_MODULE_PATH'' loc) st1 else st1)"
  have lists2: "flag_lists (c_env st2)" using lists by (simp add: st2_def conf_simps flag_lists_append)
  have "check_win32 q st = Inr (if startswith (q_platform q) ''linux'' \<and> check_compilation_flag q ''-Wl,--soname=foo'' ''cxx''
      then upd_env (dict_set ''WL_SONAME_SUPPORTED'' (EBool True)) st2 else st2)"
    unfolding check_win32_def st1_def [symmetric] Let_def using True cxx
    by (simp add: unpack_one_def loc_def st2_def del: append.simps)
  then show ?thesis using lists2 flag_lists_set [OF lists2, of "''WL_SONAME_SUPPORTED''"] by (auto simp: conf_simps)
qed

lemma check_once_returns:
  assumes "eget (c_env st) ''CXX'' = EList [cxx]" "flag_lists (c_env st)" "q_pkgconfig_runs q" "\<not> o_static (q_options q)"
  shows "\<exists>st'. check_once q st = Inr st'"
proof (cases "dict_has (c_env st) ''NS3_CHECK_MODULE_ONCE''")
  case False
  define st0 where "st0 = upd_env (dict_set ''NS3_CHECK_MODULE_ONCE'' (EStr [])) st"
  have "eget (c_env st0) ''CXX'' = EList [cxx]" "flag_lists (c_env st0)"
    using assms(1,2) by (simp_all add: st0_def conf_simps flag_lists_set)
  from check_win32_returns [OF this] obtain st1 where w: "check_win32 q st0 = Inr st1" "flag_lists (c_env st1)" by blast
  have "c_env (check_static q st1) = dict_set ''LIB_SUFFIX'' (EStr (if o_opt (q_options q) then ''optimized'' else ''debug''))
      (dict_set ''NS3_ENABLE_STATIC'' (EBool False) (c_env st1))"
    using assms(4) by (simp add: check_static_def choose_static_def no_static_def conf_simps Let_def)
  then have "flag_lists (c_env (check_static q st1))" using w(2) by (simp add: flag_lists_set)
  from check_features_returns [OF this] w(1) False assms(3) show ?thesis by (simp add: check_once_def st0_def [symmetric])
qed (simp add: check_once_def)

section \<open>Finding modules\<close>

definition all_available :: "conf_world \<Rightarrow> string list \<Rightarrow> bool" where
  "all_available q ms \<longleftrightarrow> (\<forall>m \<in> set ms. \<forall>req. pr_store req = ''NS3_'' @ upper m \<longrightarrow> q_check_cfg q req \<noteq> Pkg_missing)"

lemma find_modules_returns:
  "typed all_types (c_env st) \<Longrightarrow> packages_ok q \<Longrightarrow> q_pkg_config_path q = Some path \<Longrightarrow> (mand \<Longrightarrow> all_available q ms) \<Longrightarrow>
   \<exists>st' found'. find_modules q d p mand ms st found = Inr (st', found')"
proof (induction ms arbitrary: st found)
  case (Cons m ms)
  obtain old where old: "eget (c_env st) ''NS3_MODULES_FOUND'' = EList old" using Cons.prems(1) by (auto simp: types_defs)
  have more: "mand \<Longrightarrow> all_available q ms" using Cons.prems(4) by (simp add: all_available_def)
  show ?case
  proof (cases "m \<in> set old")
    case True
    with old Cons.IH [OF Cons.prems(1-3) more] show ?thesis by simp
  next
    case False
    obtain req where r: "module_request q d st m = Inr req" "pr_store req = ''NS3_'' @ upper m"
      using Cons.prems(3) by (simp add: module_request_def)
    show ?thesis
    proof (cases "q_check_cfg q req")
      case (Pkg_found vars)
      note f = found_package [OF Cons.prems(2) Pkg_found Cons.prems(1)]
      then have "typed all_types (c_env (upd_env (\<lambda>env. dict_update env vars) st))" by (simp add: conf_simps)
      from Cons.IH [OF this Cons.prems(2,3) more] old False r(1) Pkg_found f(2) show ?thesis by simp
    next
      case Pkg_missing
      with r(2) Cons.prems(4) have "\<not> mand" by (auto simp: all_available_def)
      with old False r(1) Pkg_missing Cons.IH [OF Cons.prems(1-3) more] show ?thesis by simp
    qed
  qed
qed simp

lemma check_dependencies_returns:
  assumes "typed all_types (c_env st)" "packages_ok q" "q_pkg_config_path q = Some path" "mand \<Longrightarrow> all_available q ms"
  shows "\<exists>st'. check_dependencies q ms mand st = Inr st'"
proof -
  obtain d where d: "pkgconfig_dir st = Inr d" using assms(1) by (auto simp: pkgconfig_dir_def types_defs)
  obtain st1 p where v: "find_version q d st = Inr (st1, True, p)" and k: "keeps all_types (c_env st) (c_env st1)"
    using assms(2) by (rule find_version_known)
  from k assms(1) have t: "typed all_types (c_env st1)" by (simp add: keeps_def)
  from find_modules_returns [OF this assms(2-4)] obtain st2 found where f: "find_modules q d p mand ms st1 [] = Inr (st2, found)" by blast
  from find_modules_typed [OF f assms(2) t] obtain old where "eget (c_env st2) ''NS3_MODULES_FOUND'' = EList old" by (auto simp: types_defs)
  with d v f show ?thesis by (simp add: check_dependencies_def)
qed

lemma check_modules_returns:
  assumes "packages_ok q" "q_pkg_config_path q = Some path" "mand \<Longrightarrow> all_available q ms" "typed ns3_types (c_env st)"
    and "typed all_types (c_env st) \<or> \<not> dict_has (c_env st) ''NS3_CHECK_MODULE_ONCE''" "check_once q st = Inr s"
  shows "\<exists>st'. check_modules q ms mand st = Inr st'"
proof -
  have "\<not> o_static (q_options q)" using assms(1) by (simp add: packages_ok_def)
  from check_once_typed [OF assms(6) this assms(4,5)] have "typed all_types (c_env s)" by simp
  from check_dependencies_returns [OF this assms(1-3)] assms(6) show ?thesis by (simp add: check_modules_def)
qed

section \<open>The steps of the configuration\<close>

text \<open>After the first search every state is settled: the variables have their kinds, and the search path is set.\<close>

definition settled :: "conf_run \<Rightarrow> bool" where
  "settled r \<longleftrightarrow> typed all_types (run_env r) \<and> dict_get (r_environ r) ''PKG_CONFIG_PATH'' \<noteq> None"

lemma settled_grows: "settled r \<Longrightarrow> grows P r r' \<Longrightarrow> settled r'"
  by (simp add: settled_def grows_def)

text \<open>A loop whose body returns and keeps an invariant returns.\<close>

lemma steps_return:
  assumes "\<And>r a. a \<in> set xs \<Longrightarrow> I r \<Longrightarrow> \<exists>r'. f r a = Inr r' \<and> I r'" "I r"
  shows "\<exists>r'. foldM_result f r xs = Inr r' \<and> I r'"
  using assms
proof (induction xs arbitrary: r)
  case (Cons a xs)
  from Cons.prems(1) [of a r] Cons.prems(2) obtain r1 where r1: "f r a = Inr r1" "I r1" by auto
  from Cons.IH [OF _ r1(2)] Cons.prems(1) obtain r' where "foldM_result f r1 xs = Inr r'" "I r'" by auto
  with r1 show ?case by simp
qed simp

lemma all_available_path: "all_available ((x_q x)\<lparr>q_pkg_config_path := p\<rparr>) ms \<longleftrightarrow> (\<forall>m \<in> set ms. available x m)"
  by (simp add: all_available_def available_def)

lemma need_modules_returns:
  assumes "settled r" "packages_ok (x_q x)" "mand \<longrightarrow> (\<forall>m \<in> set ms. available x m)"
  shows "\<exists>r'. need_modules x r (ms, mand) = Inr r' \<and> settled r'"
proof -
  from assms(1) obtain path where path: "dict_get (r_environ r) ''PKG_CONFIG_PATH'' = Some path" by (auto simp: settled_def)
  let ?q = "(x_q x)\<lparr>q_pkg_config_path := dict_get (r_environ r) ''PKG_CONFIG_PATH''\<rparr>"
  have t: "typed all_types (c_env (r_conf r))" using assms(1) by (simp add: settled_def run_env_def)
  then have ns3: "typed ns3_types (c_env (r_conf r))" by (simp add: all_types_def)
  obtain s where "eget (c_env (r_conf r)) ''NS3_CHECK_MODULE_ONCE'' = EStr s" using t by (auto simp: all_types_def)
  then have "dict_has (c_env (r_conf r)) ''NS3_CHECK_MODULE_ONCE''" by (auto simp: dict_has_def eget_def split: option.splits)
  then have once: "check_once ?q (r_conf r) = Inr (r_conf r)" by (simp add: check_once_def)
  have "\<exists>st'. check_modules ?q ms mand (r_conf r) = Inr st'"
    by (rule check_modules_returns [OF _ _ _ ns3 disjI1 [OF t] once]) (use assms(2,3) path in \<open>simp_all add: all_available_path\<close>)
  then obtain r' where r': "need_modules x r (ms, mand) = Inr r'" by (auto simp: need_modules_def)
  from need_modules_grows [OF this assms(2)] have "grows (possible (x_q x)) r r'" by (rule conjunct1)
  with r' settled_grows [OF assms(1)] show ?thesis by blast
qed

lemma load_tool_returns:
  assumes "compilers_load x" "t \<in> {''compiler_c'', ''compiler_cxx''}" shows "\<exists>r'. load_tool x t r = Inr r'"
proof -
  have "\<exists>env'. x_load x t (run_env r) = Inr env'" using assms unfolding compilers_load_def by blast
  then show ?thesis by (auto simp: load_tool_def)
qed

lemma both_compilers_return:
  assumes "compilers_load x" "tools_keep x" "settled r" shows "\<exists>r'. both_compilers x r = Inr r' \<and> settled r'"
proof -
  obtain r1 where r1: "load_tool x ''compiler_c'' r = Inr r1" using load_tool_returns [OF assms(1), of _ r] by blast
  obtain r2 where r2: "load_tool x ''compiler_cxx'' r1 = Inr r2" using load_tool_returns [OF assms(1), of _ r1] by blast
  from r1 r2 have b: "both_compilers x r = Inr r2" by (simp add: both_compilers_def)
  with settled_grows [OF assms(3) both_compilers_grows [OF assms(2) b]] show ?thesis by blast
qed

text \<open>The scripts.\<close>

lemma conf_script_returns:
  assumes "machine_ok x" "conf_steps d \<noteq> None" "\<forall>m \<in> set (script_needs d). available x m" "settled r"
  shows "\<exists>r'. conf_script x r d = Inr r' \<and> settled r'"
proof -
  from assms(2) obtain steps where s: "conf_steps d = Some steps" by blast
  have "\<exists>r'. do_conf_step x r a = Inr r' \<and> settled r'" if "a \<in> set steps" "settled r" for a r
  proof (cases a)
    case Load_compilers
    with both_compilers_return that(2) assms(1) show ?thesis by (simp add: machine_ok_def)
  next
    case (Need ms)
    with that(1) s have "set ms \<subseteq> set (script_needs d)" by (force simp: script_needs_def)
    with assms(3) need_modules_returns [OF that(2), of x True ms] assms(1) Need show ?thesis by (auto simp: machine_ok_def)
  qed
  from steps_return [where I = settled and xs = steps and f = "do_conf_step x", OF this assms(4)] show ?thesis by (simp add: conf_script_def s)
qed

lemma conf_myscripts_returns:
  assumes "machine_ok x" "\<forall>d \<in> set (script_dirs x). \<forall>m \<in> set (script_needs d). available x m" "settled r"
  shows "\<exists>r'. conf_myscripts x r = Inr r' \<and> settled r'"
  unfolding conf_myscripts_def
proof (rule steps_return [where I = settled, OF _ assms(3)])
  fix r d assume d: "d \<in> set (script_dirs x)" "settled r"
  with assms(1) have "conf_steps d \<noteq> None" by (simp add: machine_ok_def directories_ok_def)
  from conf_script_returns [OF assms(1) this _ d(2)] assms(2) d(1) show "\<exists>r'. conf_script x r d = Inr r' \<and> settled r'" by blast
qed

text \<open>The start, up to the scripts.\<close>

lemma load_compilers_returns:
  assumes "compilers_load x"
  obtains r' cxx where "load_compilers x r = Inr r'" "eget (run_env r') ''CXX'' = EList [cxx]" "flag_lists (run_env r')"
proof -
  from assms obtain env v where c: "x_load x ''compiler_c'' (run_env r) = Inr env" "eget env ''CC_VERSION'' = EList v"
    unfolding compilers_load_def by blast
  let ?r = "conf_msg ''Checking for cc version'' (join_str ''.'' v) (set_run_env env r)"
  from assms obtain env' cxx cs xs where x: "x_load x ''compiler_cxx'' (run_env ?r) = Inr env'" "eget env' ''CXX'' = EList [cxx]"
    "eget env' ''CFLAGS'' = EList cs" "eget env' ''CXXFLAGS'' = EList xs" unfolding compilers_load_def by blast
  have "load_compilers x r = Inr (set_run_env env' ?r)"
    using c x(1) by (simp add: load_compilers_def load_tool_def join_evalue_def conf_simps)
  then show ?thesis using that x(2-4) by (simp add: flag_lists_def conf_simps)
qed

lemma use_ns3_state:
  assumes "wo_ns3 (x_options x) = Some d" "x_isdir x d"
  shows "k \<notin> {''NS3_DIR'', ''NS3_EXECUTABLE_PATH''} \<Longrightarrow> eget (run_env (use_ns3 x r)) k = eget (run_env r) k" "dict_get (r_environ (use_ns3 x r)) ''PKG_CONFIG_PATH'' \<noteq> None"
proof -
  obtain path where e: "use_ns3 x r = append_var ''NS3_EXECUTABLE_PATH'' (path_join (abspath (x_cwd x) d) ''bin'')
      ((set_var ''NS3_DIR'' (EStr (abspath (x_cwd x) d)) r)\<lparr>r_environ := dict_set ''PKG_CONFIG_PATH'' path (r_environ r)\<rparr>)"
    using assms(1,2) by (simp add: use_ns3_def Let_def run_vars)
  show "dict_get (r_environ (use_ns3 x r)) ''PKG_CONFIG_PATH'' \<noteq> None" by (simp add: e conf_simps)
  assume "k \<notin> {''NS3_DIR'', ''NS3_EXECUTABLE_PATH''}"
  then have "''NS3_DIR'' \<noteq> k" "''NS3_EXECUTABLE_PATH'' \<noteq> k" by blast+
  then show "eget (run_env (use_ns3 x r)) k = eget (run_env r) k" by (simp add: e conf_simps wenv_append_def)
qed

lemma first_search_returns:
  assumes "packages_ok (x_q x)" "q_pkgconfig_runs (x_q x)" "\<forall>m \<in> set ms. available x m" "fresh ns3_types r0 r"
    and "dict_get (r_environ r) ''PKG_CONFIG_PATH'' \<noteq> None" "eget (run_env r) ''CXX'' = EList [cxx]" "flag_lists (run_env r)"
  shows "\<exists>r'. need_modules x r (ms, True) = Inr r' \<and> settled r'"
proof -
  let ?q = "(x_q x)\<lparr>q_pkg_config_path := dict_get (r_environ r) ''PKG_CONFIG_PATH''\<rparr>"
  have t: "typed ns3_types (c_env (r_conf r))" "\<not> dict_has (c_env (r_conf r)) ''NS3_CHECK_MODULE_ONCE''"
    using assms(4) by (simp_all add: fresh_def run_env_def)
  have q: "q_pkgconfig_runs ?q" "\<not> o_static (q_options ?q)" using assms(1,2) by (simp_all add: packages_ok_def)
  have c: "eget (c_env (r_conf r)) ''CXX'' = EList [cxx]" "flag_lists (c_env (r_conf r))" using assms(6,7) by (simp_all add: run_env_def)
  from check_once_returns [OF c q] obtain s where once: "check_once ?q (r_conf r) = Inr s" by blast
  from assms(5) obtain path where path: "dict_get (r_environ r) ''PKG_CONFIG_PATH'' = Some path" by blast
  have "\<exists>st'. check_modules ?q ms True (r_conf r) = Inr st'"
    by (rule check_modules_returns [OF _ _ _ t(1) disjI2 [OF t(2)] once]) (use assms(1,3) path in \<open>simp_all add: all_available_path\<close>)
  then obtain r' where r': "need_modules x r (ms, True) = Inr r'" by (auto simp: need_modules_def)
  have "r_environ r' = r_environ r" using r' by (auto simp: need_modules_def)
  with need_modules_first [OF r' assms(1)] assms(4,5) r' show ?thesis by (simp add: fresh_def settled_def)
qed

lemma mandatory_check_returns:
  assumes "\<And>env. snd (x_check x args env)" obtains r' where "mandatory_check x args r = Inr r'"
  using assms [of "run_env r"] by (simp add: mandatory_check_def conf_check_def split_beta)

lemma check_libc_returns:
  assumes "machine_ok x" "settled r" shows "\<exists>r'. check_libc x r = Inr r' \<and> settled r'"
proof -
  have k: "tools_keep x" using assms(1) by (simp add: machine_ok_def)
  have "snd (x_check x [(''lib'', ''dl'')] env)" for env using assms(1) by (simp add: machine_ok_def checks_ok_def)
  then obtain r1 where "mandatory_check x [(''lib'', ''dl'')] (check_headers x r) = Inr r1" by (rule mandatory_check_returns)
  then have "check_libc x r = Inr (check_functions x r1)" by (simp add: check_libc_def)
  with settled_grows [OF assms(2) check_libc_grows [OF k this]] show ?thesis by blast
qed

lemma use_kernel_returns:
  assumes "machine_ok x" "settled r" shows "\<exists>r'. use_kernel x r = Inr r' \<and> settled r'"
proof -
  have k: "tools_keep x" using assms(1) by (simp add: machine_ok_def)
  have c: "snd (x_check x [(''header_name'', ''sim.h''), (''includes'', path_join d ''include'')] env)" for d env
    using assms(1) by (simp add: machine_ok_def checks_ok_def)
  have m: "\<exists>r'. mandatory_check x [(''header_name'', ''sim.h''), (''includes'', path_join d ''include'')] r = Inr r'" for d
    by (rule mandatory_check_returns [OF c]) blast
  have "\<exists>r'. use_kernel x r = Inr r'"
  proof (cases "wo_kernel (x_options x)")
    case (Some dir)
    show ?thesis
    proof (cases "dir = []")
      case False
      with Some assms(1) have d: "x_isdir x dir" "find (x_isdir x) (map (path_join dir) [''sim'', ''lib'']) \<noteq> None"
        by (auto simp: machine_ok_def directories_ok_def find_None_iff)
      then obtain e where "find (x_isdir x) (map (path_join dir) [''sim'', ''lib'']) = Some e" by blast
      with Some False d(1) m [of e] show ?thesis by (auto simp: use_kernel_def simp del: list.map)
    qed (simp add: use_kernel_def Some)
  qed (simp add: use_kernel_def)
  then obtain r' where "use_kernel x r = Inr r'" by blast
  with settled_grows [OF assms(2) use_kernel_grows [OF k this]] show ?thesis by blast
qed

lemma before_scripts_returns:
  assumes "machine_ok x" "\<forall>m \<in> set base_modules. available x m" "fresh first_types r r"
  shows "\<exists>r'. before_scripts x r = Inr r' \<and> settled r'"
proof -
  have k: "tools_keep x" "packages_ok (x_q x)" "compilers_load x" "q_pkgconfig_runs (x_q x)"
    using assms(1) by (simp_all add: machine_ok_def checks_ok_def)
  obtain g d where opts: "wo_glibc (x_options x) = Some g" "x_exists x (abspath (x_cwd x) g)" "wo_ns3 (x_options x) = Some d" "x_isdir x d"
    using assms(1) by (auto simp: machine_ok_def directories_ok_def)
  obtain r1 where r1: "use_glibc x r = Inr r1" using opts by (simp add: use_glibc_def)
  obtain r2 cxx where r2: "load_compilers x r1 = Inr r2" "eget (run_env r2) ''CXX'' = EList [cxx]" "flag_lists (run_env r2)"
    using k(3) by (rule load_compilers_returns)
  let ?r = "use_ns3 x r2"
  have f: "fresh ns3_types r ?r" by (rule use_ns3_fresh [OF load_compilers_fresh [OF r2(1) k(1) use_glibc_fresh [OF r1 assms(3)]] opts(3,4)])
  have "eget (run_env ?r) ''CXX'' = EList [cxx]" "flag_lists (run_env ?r)" "dict_get (r_environ ?r) ''PKG_CONFIG_PATH'' \<noteq> None"
    using r2(2,3) use_ns3_state [OF opts(3,4)] by (simp_all add: flag_lists_def del: not_None_eq)
  from first_search_returns [OF k(2,4) assms(2) f this(3,1,2)] obtain r3 where r3: "need_modules x ?r (base_modules, True) = Inr r3" "settled r3" by blast
  obtain others where ns: "ns3_modules = (base_modules, True) # others" "\<forall>(ms, mand) \<in> set others. \<not> mand" by (simp add: ns3_modules_def base_modules_def)
  have "\<exists>r'. foldM_result (need_modules x) r3 others = Inr r' \<and> settled r'"
  proof (rule steps_return [where I = settled, OF _ r3(2)])
    fix r a assume a: "a \<in> set others" "settled r"
    obtain ms where "a = (ms, False)" using a(1) ns(2) by (cases a) auto
    with need_modules_returns [OF a(2) k(2), of False ms] show "\<exists>r'. need_modules x r a = Inr r' \<and> settled r'" by simp
  qed
  then obtain r4 where r4: "foldM_result (need_modules x) ?r ns3_modules = Inr r4" "settled r4" using r3(1) by (auto simp: ns(1))
  from check_libc_returns [OF assms(1) r4(2)] obtain r5 where r5: "check_libc x r4 = Inr r5" "settled r5" by blast
  from use_kernel_returns [OF assms(1) r5(2)] obtain r6 where r6: "use_kernel x r5 = Inr r6" "settled r6" by blast
  let ?r' = "set_var ''NS3_ENABLED_MODULES'' (EList []) (set_var ''EXAMPLE_DIRECTORIES'' (EStr ''.'') (set_var ''ENABLE_PYTHON_BINDINGS'' (EBool False) r6))"
  have "before_scripts x r = Inr ?r'" using r1 r2(1) r4(1) r5(1) r6(1) by (simp add: before_scripts_def)
  moreover have "grows (possible (x_q x)) r6 ?r'" by (rule grows_trans [OF grows_trans [OF grows_var(1) grows_var(1)] grows_var(1)]) (rule free_key_names)+
  ultimately show ?thesis using settled_grows [OF r6(2)] by blast
qed

text \<open>The rest.\<close>

lemma use_aspect_returns:
  assumes "tools_keep x" "settled r" shows "\<exists>r'. use_aspect x r = Inr r' \<and> settled r'"
proof -
  obtain p where p: "eget (run_env r) ''PREFIX'' = EStr p" using assms(2) by (auto simp: settled_def types_defs)
  have "\<exists>r'. use_aspect x r = Inr r'"
    by (auto simp: use_aspect_def Let_def p conf_simps split_beta split: option.splits)
  then obtain r' where "use_aspect x r = Inr r'" by blast
  with settled_grows [OF assms(2) use_aspect_grows [OF assms(1) this]] show ?thesis by blast
qed

lemma wscript_configure_returns:
  assumes "machine_ok x" "\<forall>m \<in> set (needed_modules x). available x m" "fresh first_types r r"
  shows "\<exists>r'. wscript_configure x r = Inr r'"
proof -
  have k: "tools_keep x" "compilers_load x" "po_disable (y_options (x_py x))" using assms(1) by (simp_all add: machine_ok_def checks_ok_def)
  from assms(2) have needs: "\<forall>m \<in> set base_modules. available x m" "\<forall>d \<in> set (script_dirs x). \<forall>m \<in> set (script_needs d). available x m"
    by (auto simp: needed_modules_def)
  from before_scripts_returns [OF assms(1) needs(1) assms(3)] obtain r1 where r1: "before_scripts x r = Inr r1" "settled r1" by blast
  from conf_myscripts_returns [OF assms(1) needs(2) r1(2)] obtain r2 where r2: "conf_myscripts x r1 = Inr r2" "settled r2" by blast
  from use_aspect_returns [OF k(1) settled_grows [OF r2(2) use_elf_loader_grows]] obtain r3 where
    r3: "use_aspect x (use_elf_loader x r2) = Inr r3" "settled r3" by blast
  have "settled (check_sctp x (find_tools x r3))"
    using settled_grows [OF settled_grows [OF r3(2) find_tools_grows [OF k(1)]] check_sctp_grows [OF k(1)]] .
  from both_compilers_return [OF k(2,1) this] obtain r4 where r4: "both_compilers x (check_sctp x (find_tools x r3)) = Inr r4" by blast
  have "\<exists>r'. py_configure (x_py x) r4 = Inr r'" using k(3) by (simp add: py_configure_def Let_def)
  then obtain r5 where r5: "py_configure (x_py x) r4 = Inr r5" by blast
  from r1(1) r2(1) r3(1) r4 r5 show ?thesis by (simp add: wscript_configure_def)
qed

section \<open>Properties\<close>


text \<open>The state in which the build starts: the environment of the configuration is read back.\<close>

definition build_after :: "conf_run \<Rightarrow> build_state" where
  "build_after r = \<lparr>b_env = run_env r, b_group = [], b_gens = [], b_installs = [], b_log = []\<rparr>"


text \<open>A machine without the module \<open>netanim\<close>, and a tree with one script directory.\<close>

definition compiler_vars :: "string \<Rightarrow> wenv \<Rightarrow> wenv" where
  "compiler_vars t env =
     (if t = ''compiler_c'' then dict_set ''CC_VERSION'' (EList [''9'', ''4'']) (dict_set ''cshlib_PATTERN'' (EStr ''lib%s.so'') env)
      else dict_set ''CXX'' (EList [''g++'']) (dict_set ''CFLAGS'' (EList []) (dict_set ''CXXFLAGS'' (EList [''-O2'']) env)))"

definition wconf_sample :: "string \<Rightarrow> wconf_world" where
  "wconf_sample dir = \<lparr>x_options = \<lparr>wo_glibc = Some ''glibc'', wo_ns3 = Some ''/n'', wo_mpi = False, wo_kernel = Some ''/k'', wo_elf = None, wo_aspect = None\<rparr>,
     x_q = conf_sample\<lparr>q_check_cfg := (\<lambda>req. if pr_store req = ''NS3_NETANIM'' then Pkg_missing else Pkg_found [])\<rparr>,
     x_py = py_sample\<lparr>y_options := \<lparr>po_disable = True, po_python = None, po_pybindgen = None\<rparr>\<rparr>, x_cwd = ''/dce'', x_exists = (\<lambda>p. True),
     x_isdir = (\<lambda>p. p \<noteq> ''/k/sim''), x_listdir = (\<lambda>d. [''.git'', dir]), x_load = (\<lambda>t env. Inr (compiler_vars t env)),
     x_check = (\<lambda>args env. (env, True)), x_find = (\<lambda>p v env. (env, False))\<rparr>"

definition wconf_start :: conf_run where
  "wconf_start = \<lparr>r_conf = \<lparr>c_env = [(''CXX_NAME'', EStr ''gcc''), (''PREFIX'', EStr ''/usr'')], c_features = [], c_log = []\<rparr>, r_environ = []\<rparr>"

lemma sample_fresh: "fresh first_types wconf_start wconf_start"
  by (simp add: fresh_def first_types_def wconf_start_def run_env_def eget_def dict_get_def dict_has_def typed_def)

lemma sample_pattern: "has_kind Pattern_kind (EStr ''lib%s.so'')"
  by simp

lemma tool_keeps_same: "tool_keeps (\<lambda>env. env)"
  by (simp add: tool_keeps_def split_beta)

lemma tool_keeps_set:
  assumes "tool_keeps f" "k \<notin> {''NS3_MODULES_FOUND'', ''ENABLE_PYTHON_BINDINGS'', ''NS3_CHECK_MODULE_ONCE''}"
    and "\<And>t. (k, t) \<in> set all_types \<Longrightarrow> has_kind t v"
  shows "tool_keeps (\<lambda>env. dict_set k v (f env))"
  using assms unfolding tool_keeps_def by (fastforce simp: eget_set dict_has_set)

lemma compiler_vars_keep: "tool_keeps (compiler_vars t)"
proof (cases "t = ''compiler_c''")
  case True
  then have "compiler_vars t = (\<lambda>env. dict_set ''CC_VERSION'' (EList [''9'', ''4'']) (dict_set ''cshlib_PATTERN'' (EStr ''lib%s.so'') env))"
    by (simp add: compiler_vars_def fun_eq_iff)
  moreover have "(''CC_VERSION'', t) \<notin> set all_types" "(''cshlib_PATTERN'', t) \<in> set all_types \<Longrightarrow> has_kind t (EStr ''lib%s.so'')" for t
    using sample_pattern by (simp_all add: types_defs del: has_kind.simps)
  ultimately show ?thesis by (simp only:) (intro tool_keeps_set tool_keeps_same; blast?; simp)
next
  case False
  then have "compiler_vars t = (\<lambda>env. dict_set ''CXX'' (EList [''g++'']) (dict_set ''CFLAGS'' (EList []) (dict_set ''CXXFLAGS'' (EList [''-O2'']) env)))"
    by (simp add: compiler_vars_def fun_eq_iff)
  moreover have "(k, t) \<notin> set all_types" if "k \<in> {''CXX'', ''CFLAGS'', ''CXXFLAGS''}" for k t
    using that by (auto simp: types_defs)
  ultimately show ?thesis by (simp only:) (intro tool_keeps_set tool_keeps_same; blast?; simp)
qed

lemma python_vars_keep: "tool_keeps (dict_set ''PYTHON'' v)" "tool_keeps (dict_set ''CFLAGS_PYEXT'' v)"
proof -
  have "(k, t) \<notin> set all_types" if "k \<in> {''PYTHON'', ''CFLAGS_PYEXT''}" for k t using that by (auto simp: types_defs)
  then show "tool_keeps (dict_set ''PYTHON'' v)" "tool_keeps (dict_set ''CFLAGS_PYEXT'' v)"
    by (intro tool_keeps_set [OF tool_keeps_same]; blast?; simp)+
qed

lemma sample_machine:
  assumes "dir \<in> {''mt2'', ''mt3''}" shows "machine_ok (wconf_sample dir)"
proof -
  have "eget (compiler_vars ''compiler_c'' env) ''cshlib_PATTERN'' = EStr ''lib%s.so''" for env
    by (simp add: compiler_vars_def conf_simps)
  then have "tools_keep (wconf_sample dir)"
    using tool_keeps_same compiler_vars_keep sample_pattern python_vars_keep
    by (auto simp: tools_keep_def wconf_sample_def py_sample_def simp del: has_kind.simps)
  moreover have "search_version (basename ''/n/lib/pkgconfig/libns3-dev-core-debug.pc'') = Some ''ns3-dev''" by code_simp
  then have "packages_ok (x_q (wconf_sample dir))"
    by (auto simp: packages_ok_def wconf_sample_def conf_sample_def sample_options_def split: if_splits)
  moreover have "compilers_load (wconf_sample dir)"
    by (simp add: compilers_load_def wconf_sample_def compiler_vars_def conf_simps)
  moreover have "script_dirs (wconf_sample dir) = [dir] \<and> conf_steps dir \<noteq> None"
    using assms by (elim insertE emptyE; hypsubst; code_simp)
  then have "directories_ok (wconf_sample dir)" by (simp add: directories_ok_def) (simp add: wconf_sample_def path_join_def)
  moreover have "checks_ok (wconf_sample dir)" by (simp add: checks_ok_def wconf_sample_def py_sample_def conf_sample_def)
  ultimately show ?thesis by (simp add: machine_ok_def)
qed

lemma sample_needs:
  "needed_modules (wconf_sample ''mt2'') = [''core'', ''network'', ''internet'', ''core'', ''internet'', ''point-to-point'']"
  "needed_modules (wconf_sample ''mt3'') = [''core'', ''network'', ''internet'', ''core'', ''internet'', ''point-to-point'', ''netanim'', ''mobility'']"
  by code_simp+

lemma sample_module: "available (wconf_sample dir) m \<longleftrightarrow> upper m \<noteq> ''NETANIM''" "possible (x_q (wconf_sample dir)) m \<longleftrightarrow> upper m \<noteq> ''NETANIM''"
proof -
  have answer: "q_check_cfg (x_q (wconf_sample dir)) req \<noteq> Pkg_missing \<longleftrightarrow> pr_store req \<noteq> ''NS3_'' @ ''NETANIM''" for req by (simp add: wconf_sample_def)
  have name: "''NS3_'' @ upper m \<noteq> ''NS3_'' @ ''NETANIM'' \<longleftrightarrow> upper m \<noteq> ''NETANIM''" by (simp only: same_append_eq)
  have "pr_store \<lparr>pr_package = [], pr_args = [], pr_store = ''NS3_'' @ upper m, pr_path = []\<rparr> = ''NS3_'' @ upper m" by simp
  then have "\<exists>req :: pkg_request. pr_store req = ''NS3_'' @ upper m" by blast
  then show "available (wconf_sample dir) m \<longleftrightarrow> upper m \<noteq> ''NETANIM''" "possible (x_q (wconf_sample dir)) m \<longleftrightarrow> upper m \<noteq> ''NETANIM''"
    unfolding available_def possible_def answer name [symmetric] by metis+
qed

lemma sample_available: "\<forall>m \<in> set (needed_modules (wconf_sample ''mt2'')). available (wconf_sample ''mt2'') m"
proof -
  have "upper m \<noteq> ''NETANIM''" if "m \<in> {''core'', ''network'', ''internet'', ''point-to-point''}" for m
    using that by (elim insertE emptyE; hypsubst; code_simp)
  then show ?thesis unfolding sample_needs sample_module by auto
qed



end
