(* ===== verification/Command_Task.thy ===== *)
theory Command_Task
  imports Shellcmd
begin

text \<open>
  \<open>src/waf-tools/command.py\<close>: a build rule whose command is a template.  The command line is parsed
  by \<open>shellcmd\<close>, then \<open>$$\<close>, \<open>${NAME}\<close> and \<open>${NAME[i]}\<close> are replaced in the words of its nodes,
  and the result is run.  What the braces hold is Python; the model has names and indices, and
  answers \<open>Unsupported\<close> to any other expression (the names that Python predefines are missing too).
\<close>

section \<open>Values\<close>

text \<open>A node of the build tool, reduced to its three paths.  \<open>TInputs\<close> and \<open>TOutputs\<close> are the two lists of
  the task themselves, which the code tells from other lists by identity; \<open>TObj\<close> is any other object.\<close>

record wnode =
  n_srcpath :: string
  n_bldpath :: string
  n_bld_abspath :: string

datatype tvalue = TNode wnode | TStr string | TList "tvalue list" | TInputs | TOutputs | TNone | TObj

record ctask =
  k_command :: string
  k_variables :: "(string, tvalue) dict option"
  k_env :: "(string, tvalue) dict"
  k_inputs :: "wnode list"
  k_outputs :: "wnode list"

section \<open>The pattern\<close>

datatype piece = Lit string | Dollar | Subst string string

definition is_word_char :: "char \<Rightarrow> bool" where
  "is_word_char c \<longleftrightarrow> is_env_char c \<or>
     (let n = (of_char c :: nat)
      in n \<in> set [0xAA, 0xB2, 0xB3, 0xB5, 0xB9, 0xBA, 0xBC, 0xBD, 0xBE] \<or> (0xC0 \<le> n \<and> n \<noteq> 0xD7 \<and> n \<noteq> 0xF7))"

text \<open>The match of \<open>arg_rx\<close> at the start of a string, with its length.\<close>

definition match_braces :: "string \<Rightarrow> (piece \<times> nat) option" where
  "match_braces cs =
     (let var = takeWhile is_word_char cs; r = dropWhile is_word_char cs;
          code = takeWhile (\<lambda>c. c \<noteq> CHR ''}'') r
      in if var \<noteq> [] \<and> CHR ''}'' \<in> set r \<and> CHR 0x0A \<notin> set code
         then Some (Subst var code, length var + length code + 3) else None)"

fun arg_match :: "string \<Rightarrow> (piece \<times> nat) option" where
  "arg_match (d # c # cs) =
     (if d \<noteq> CHR ''$'' then None
      else if c = CHR ''$'' then Some (Dollar, 2)
      else if c = CHR ''{'' then match_braces cs else None)"
| "arg_match _ = None"

text \<open>The scan of \<open>re.sub\<close>; the number counts the characters of the match that are left to skip.\<close>

fun pieces_from :: "nat \<Rightarrow> string \<Rightarrow> piece list" where
  "pieces_from k [] = []"
| "pieces_from (Suc k) (x # xs) = pieces_from k xs"
| "pieces_from 0 (x # xs) =
     (case arg_match (x # xs) of
        Some (p, n) \<Rightarrow> p # pieces_from (n - 1) xs
      | None \<Rightarrow> Lit [x] # pieces_from 0 xs)"

section \<open>Substitution\<close>

definition py_index :: "'a list \<Rightarrow> int \<Rightarrow> 'a result" where
  "py_index xs i =
     (let j = (if i < 0 then i + int (length xs) else i)
      in if 0 \<le> j \<and> j < int (length xs) then Inr (xs ! nat j) else Inl IndexError)"

text \<open>The number of an index expression: decimal digits without a leading zero, perhaps negative.\<close>

definition plain_number :: "string \<Rightarrow> nat option" where
  "plain_number ds =
     (if ds \<noteq> [] \<and> list_all is_digit ds \<and> (hd ds \<noteq> CHR ''0'' \<or> ds = ''0'') then Some (read_nat ds) else None)"

definition index_code :: "string \<Rightarrow> int option" where
  "index_code code =
     (if length code \<ge> 3 \<and> hd code = CHR ''['' \<and> last code = CHR '']''
      then let ds = butlast (tl code)
           in if hd ds = CHR ''-'' then map_option (\<lambda>n. - int n) (plain_number (tl ds))
              else map_option int (plain_number ds)
      else None)"

definition index_value :: "ctask \<Rightarrow> tvalue \<Rightarrow> int \<Rightarrow> tvalue result" where
  "index_value t v i = (case v of
       TList vs \<Rightarrow> py_index vs i
     | TInputs \<Rightarrow> map_result TNode (py_index (k_inputs t) i)
     | TOutputs \<Rightarrow> map_result TNode (py_index (k_outputs t) i)
     | TStr s \<Rightarrow> map_result (\<lambda>c. TStr [c]) (py_index s i)
     | TObj \<Rightarrow> Inl Unsupported
     | _ \<Rightarrow> Inl TypeError)"

definition eval_subst :: "ctask \<Rightarrow> (string, tvalue) dict \<Rightarrow> string \<Rightarrow> string \<Rightarrow> tvalue result" where
  "eval_subst t namespace var code =
     (if is_digit (hd var) then Inl Unsupported
      else bind_result (case dict_get namespace var of None \<Rightarrow> Inl NameError | Some v \<Rightarrow> Inr v) (\<lambda>v.
        if code = [] then Inr v
        else case index_code code of None \<Rightarrow> Inl Unsupported | Some i \<Rightarrow> index_value t v i))"

text \<open>What \<open>repl\<close> returns.  \<open>re.sub\<close> drops \<open>None\<close> and joins the rest at the end; joining fails
  when something is not a string, which is \<open>None\<close> here.\<close>

definition joinable :: "tvalue \<Rightarrow> string option" where
  "joinable v = (case v of TStr s \<Rightarrow> Some s | TNone \<Rightarrow> Some [] | _ \<Rightarrow> None)"

definition repl_value :: "ctask \<Rightarrow> string \<Rightarrow> tvalue \<Rightarrow> string option result" where
  "repl_value t var v = (case v of
       TNode n \<Rightarrow>
         if var = ''TGT'' then Inr (Some (n_bld_abspath n))
         else if var = ''SRC'' then Inr (Some (n_srcpath n))
         else Inl ValueError
     | TInputs \<Rightarrow> (case k_inputs t of [n] \<Rightarrow> Inr (Some (n_srcpath n)) | _ \<Rightarrow> Inl ValueError)
     | TOutputs \<Rightarrow> (case k_outputs t of [n] \<Rightarrow> Inr (Some (n_bld_abspath n)) | _ \<Rightarrow> Inl ValueError)
     | TList vs \<Rightarrow> (case vs of [u] \<Rightarrow> Inr (joinable u) | _ \<Rightarrow> Inl AssertionError)
     | _ \<Rightarrow> Inr (joinable v))"

definition repl :: "ctask \<Rightarrow> (string, tvalue) dict \<Rightarrow> piece \<Rightarrow> string option result" where
  "repl t namespace p = (case p of
       Lit s \<Rightarrow> Inr (Some s)
     | Dollar \<Rightarrow> Inr (Some ''$'')
     | Subst var code \<Rightarrow> bind_result (eval_subst t namespace var code) (repl_value t var))"

definition join_items :: "string option list \<Rightarrow> string result" where
  "join_items xs = (if None \<in> set xs then Inl TypeError else Inr (concat (map the xs)))"

definition subst_arg :: "ctask \<Rightarrow> (string, tvalue) dict \<Rightarrow> string \<Rightarrow> string result" where
  "subst_arg t namespace arg =
     bind_result (mapM_result (repl t namespace) (pieces_from 0 arg)) join_items"

section \<open>The task\<close>

text \<open>\<open>None\<close> stays, and so do the constants for pipes.\<close>

definition subst_stdin :: "ctask \<Rightarrow> (string, tvalue) dict \<Rightarrow> string option \<Rightarrow> string option result" where
  "subst_stdin t namespace r = (case r of Some f \<Rightarrow> map_result Some (subst_arg t namespace f) | None \<Rightarrow> Inr None)"

definition subst_redirect :: "ctask \<Rightarrow> (string, tvalue) dict \<Rightarrow> redirect \<Rightarrow> redirect result" where
  "subst_redirect t namespace r = (case r of RFile f \<Rightarrow> map_result RFile (subst_arg t namespace f) | _ \<Rightarrow> Inr r)"

definition subst_env :: "ctask \<Rightarrow> (string, tvalue) dict \<Rightarrow> (string, string) dict option \<Rightarrow> (string, string) dict option result" where
  "subst_env t namespace e = (case e of
       None \<Rightarrow> Inr None
     | Some kvs \<Rightarrow> map_result Some (mapM_result (\<lambda>(k, v). map_result (Pair k) (subst_arg t namespace v)) kvs))"

definition subst_command :: "ctask \<Rightarrow> (string, tvalue) dict \<Rightarrow> command \<Rightarrow> command result" where
  "subst_command t namespace c =
     bind_result (subst_stdin t namespace (c_stdin c)) (\<lambda>i.
     bind_result (subst_redirect t namespace (c_stdout c)) (\<lambda>out.
     bind_result (subst_redirect t namespace (c_stderr c)) (\<lambda>err.
     bind_result (mapM_result (subst_arg t namespace) (c_argv c)) (\<lambda>argv.
     bind_result (subst_env t namespace (c_env c)) (\<lambda>e.
       Inr (c\<lparr>c_stdin := i, c_stdout := out, c_stderr := err, c_argv := argv, c_env := e\<rparr>))))))"

definition subst_node :: "ctask \<Rightarrow> (string, tvalue) dict \<Rightarrow> node \<Rightarrow> node result" where
  "subst_node t namespace n = (case n of
       NCommand c \<Rightarrow> map_result NCommand (subst_command t namespace c)
     | NChdir None \<Rightarrow> Inl TypeError
     | NChdir (Some d) \<Rightarrow> map_result (\<lambda>d. NChdir (Some d)) (subst_arg t namespace d)
     | _ \<Rightarrow> Inr n)"

definition task_namespace :: "ctask \<Rightarrow> (string, tvalue) dict" where
  "task_namespace t =
     dict_update (dict_update (k_env t) (case k_variables t of Some vs \<Rightarrow> vs | None \<Rightarrow> []))
       [(''env'', TObj), (''SRC'', TInputs), (''TGT'', TOutputs)]"

definition task_nodes :: "ctask \<Rightarrow> node list result" where
  "task_nodes t = bind_result (parse_line (k_command t)) (mapM_result (subst_node t (task_namespace t)))"

definition task_run :: "os_world \<Rightarrow> int \<Rightarrow> ctask \<Rightarrow> (int option \<times> run_state) result" where
  "task_run w verbose t = bind_result (task_nodes t) (run_pipeline w (verbose > 0))"

definition task_str :: "ctask \<Rightarrow> string result" where
  "task_str t =
     map_result (\<lambda>ns. ''command ('' @ get_abbreviated_command ns @ ''): '' @
         join_str '' '' (map n_bldpath (k_inputs t)) @ (if k_outputs t \<noteq> [] then '' -> '' else []) @
         join_str '' '' (map n_bldpath (k_outputs t)))
       (parse_line (k_command t))"

text \<open>The task generator: its sources become the inputs of the task, its targets, a list or a string
  of names, are declared as outputs, and no source is left for the other rules.\<close>

datatype target = OneString string | Names "string list"

record ctask_gen =
  g_command :: string
  g_vars :: "(string, tvalue) dict option"
  g_source :: "wnode list"
  g_target :: target
  g_tasks :: "ctask list"

fun words_of :: "string \<Rightarrow> string \<Rightarrow> string list" where
  "words_of w [] = (if w = [] then [] else [w])"
| "words_of w (c # cs) =
     (if is_space c then (if w = [] then words_of [] cs else w # words_of [] cs) else words_of (w @ [c]) cs)"

definition target_names :: "target \<Rightarrow> string list" where
  "target_names t = (case t of OneString s \<Rightarrow> words_of [] s | Names ns \<Rightarrow> ns)"

definition apply_command :: "(string \<Rightarrow> wnode) \<Rightarrow> (string, tvalue) dict \<Rightarrow> ctask_gen \<Rightarrow> ctask_gen" where
  "apply_command find_or_declare env g =
     g\<lparr>g_tasks := g_tasks g @ [\<lparr>k_command = g_command g, k_variables = g_vars g, k_env = env,
         k_inputs = g_source g, k_outputs = map find_or_declare (target_names (g_target g))\<rparr>],
       g_source := []\<rparr>"

section \<open>Templates\<close>

text \<open>How the parts of a template are written, and which parts can be written.\<close>

definition render_piece :: "piece \<Rightarrow> string" where
  "render_piece p = (case p of Lit s \<Rightarrow> s | Dollar \<Rightarrow> ''$$'' | Subst var code \<Rightarrow> ''${'' @ var @ code @ ''}'')"

definition piece_ok :: "piece \<Rightarrow> bool" where
  "piece_ok p \<longleftrightarrow> (case p of
       Lit s \<Rightarrow> CHR ''$'' \<notin> set s
     | Dollar \<Rightarrow> True
     | Subst var code \<Rightarrow> var \<noteq> [] \<and> list_all is_word_char var \<and> CHR ''}'' \<notin> set code \<and> CHR 0x0A \<notin> set code \<and>
         (code = [] \<or> \<not> is_word_char (hd code)))"

definition explode_piece :: "piece \<Rightarrow> piece list" where
  "explode_piece p = (case p of Lit s \<Rightarrow> map (\<lambda>c. Lit [c]) s | _ \<Rightarrow> [p])"

lemma piece_simps [simp]:
  "render_piece (Lit s) = s" "render_piece Dollar = ''$$''"
  "render_piece (Subst var code) = ''${'' @ var @ code @ ''}''"
  "explode_piece (Lit s) = map (\<lambda>c. Lit [c]) s" "explode_piece Dollar = [Dollar]"
  "explode_piece (Subst var code) = [Subst var code]"
  "piece_ok (Lit s) \<longleftrightarrow> CHR ''$'' \<notin> set s" "piece_ok Dollar"
  "repl t namespace (Lit s) = Inr (Some s)" "repl t namespace Dollar = Inr (Some ''$'')"
  by (simp_all add: render_piece_def explode_piece_def piece_ok_def repl_def)

lemma pieces_from_drop: "pieces_from k xs = pieces_from 0 (drop k xs)"
proof (induction xs arbitrary: k)
  case (Cons x xs)
  then show ?case by (cases k) simp_all
qed simp

lemma pieces_plain: "CHR ''$'' \<notin> set s \<Longrightarrow> pieces_from 0 (s @ r) = map (\<lambda>c. Lit [c]) s @ pieces_from 0 r"
proof (induction s)
  case (Cons x s)
  have "arg_match (x # s @ r) = None" using Cons.prems by (cases "s @ r") auto
  with Cons show ?case by simp
qed simp

lemma takeWhile_stop: "list_all P xs \<Longrightarrow> \<not> P y \<Longrightarrow> takeWhile P (xs @ y # ys) = xs \<and> dropWhile P (xs @ y # ys) = y # ys"
  by (induction xs) auto

lemma not_word_brace: "\<not> is_word_char (CHR ''}'')"
  by code_simp

lemma match_braces_render:
  assumes "piece_ok (Subst var code)"
  shows "match_braces (var @ code @ ''}'' @ r) = Some (Subst var code, length var + length code + 3)"
proof -
  have "\<exists>y ys. code @ ''}'' @ r = y # ys \<and> \<not> is_word_char y"
    using assms not_word_brace by (cases code) (auto simp: piece_ok_def)
  then have tw: "takeWhile is_word_char (var @ code @ ''}'' @ r) = var"
      "dropWhile is_word_char (var @ code @ ''}'' @ r) = code @ ''}'' @ r"
    using takeWhile_stop [of is_word_char var] assms by (fastforce simp: piece_ok_def)+
  moreover have "list_all (\<lambda>c. c \<noteq> CHR ''}'') code"
    using assms by (auto simp: piece_ok_def list_all_iff)
  then have "takeWhile (\<lambda>c. c \<noteq> CHR ''}'') (code @ CHR ''}'' # r) = code"
    by (intro takeWhile_stop [THEN conjunct1]) simp_all
  ultimately show ?thesis using assms by (simp add: match_braces_def Let_def piece_ok_def)
qed

lemma pieces_render:
  "list_all piece_ok ps \<Longrightarrow> pieces_from 0 (concat (map render_piece ps)) = concat (map explode_piece ps)"
proof (induction ps)
  case (Cons p ps)
  let ?r = "concat (map render_piece ps)"
  have IH: "pieces_from 0 ?r = concat (map explode_piece ps)" using Cons by simp
  show ?case
  proof (cases p)
    case (Lit s)
    then show ?thesis using Cons.prems IH by (simp add: pieces_plain)
  next
    case Dollar
    then show ?thesis using IH by simp
  next
    case (Subst var code)
    have m: "match_braces (var @ code @ ''}'' @ ?r) = Some (p, length var + length code + 3)"
      using match_braces_render [of var code ?r] Cons.prems Subst by simp
    have "pieces_from (length var + length code + 2) (CHR ''{'' # var @ code @ ''}'' @ ?r) = pieces_from 0 ?r"
      by (subst pieces_from_drop) simp
    then show ?thesis using m IH Subst by simp
  qed
qed simp

lemma mapM_exploded:
  "mapM_result (repl t namespace) (map (\<lambda>c. Lit [c]) s @ qs) =
   map_result (\<lambda>ys. map (\<lambda>c. Some [c]) s @ ys) (mapM_result (repl t namespace) qs)"
proof (induction s)
  case Nil
  then show ?case by (cases "mapM_result (repl t namespace) qs") simp_all
next
  case (Cons c s)
  then show ?case by (cases "mapM_result (repl t namespace) qs") simp_all
qed

lemma explode_items:
  "case mapM_result (repl t namespace) ps of
     Inl e \<Rightarrow> mapM_result (repl t namespace) (concat (map explode_piece ps)) = Inl e
   | Inr xs \<Rightarrow> \<exists>ys. mapM_result (repl t namespace) (concat (map explode_piece ps)) = Inr ys \<and>
       (None \<in> set ys \<longleftrightarrow> None \<in> set xs) \<and> concat (map the ys) = concat (map the xs)"
proof (induction ps)
  case (Cons p ps)
  have cm: "concat (map (\<lambda>c. [c]) s) = s" for s :: string by (induction s) auto
  show ?case
  proof (cases "mapM_result (repl t namespace) ps")
    case (Inl e)
    with Cons have e: "mapM_result (repl t namespace) (concat (map explode_piece ps)) = Inl e" by simp
    show ?thesis
      by (cases p; cases "repl t namespace p") (simp_all add: Inl e mapM_exploded)
  next
    case (Inr xs)
    with Cons obtain ys where "mapM_result (repl t namespace) (concat (map explode_piece ps)) = Inr ys"
      "None \<in> set ys \<longleftrightarrow> None \<in> set xs" "concat (map the ys) = concat (map the xs)" by auto
    then show ?thesis
      by (cases p; cases "repl t namespace p")
         (auto simp: Inr mapM_exploded comp_def cm)
  qed
qed simp

lemma subst_render:
  assumes "list_all piece_ok ps"
  shows "subst_arg t namespace (concat (map render_piece ps)) = bind_result (mapM_result (repl t namespace) ps) join_items"
  using explode_items [of t namespace ps]
  by (auto simp: subst_arg_def pieces_render [OF assms] join_items_def split: sum.splits)

lemma subst_plain: "CHR ''$'' \<notin> set s \<Longrightarrow> subst_arg t namespace s = Inr s"
  using subst_render [of "[Lit s]" t namespace]
  by (simp add: join_items_def)

section \<open>The shape of a command line\<close>

text \<open>What substitution leaves alone: the operators, and of a command its name, the number of its
  words, where its streams go to (but for the names of files), and the names of its variables.\<close>

definition redirect_kind :: "redirect \<Rightarrow> redirect" where
  "redirect_kind r = (case r of RFile f \<Rightarrow> RFile [] | _ \<Rightarrow> r)"

definition same_command :: "command \<Rightarrow> command \<Rightarrow> bool" where
  "same_command c d \<longleftrightarrow> c_name c = c_name d \<and> length (c_argv c) = length (c_argv d) \<and>
     (c_stdin c = None \<longleftrightarrow> c_stdin d = None) \<and> redirect_kind (c_stdout c) = redirect_kind (c_stdout d) \<and>
     redirect_kind (c_stderr c) = redirect_kind (c_stderr d) \<and>
     map_option (map fst) (c_env c) = map_option (map fst) (c_env d)"

definition same_shape :: "node \<Rightarrow> node \<Rightarrow> bool" where
  "same_shape m n = (case (m, n) of
       (NCommand c, NCommand d) \<Rightarrow> same_command c d
     | (NChdir (Some _), NChdir (Some _)) \<Rightarrow> True
     | _ \<Rightarrow> m = n \<and> m \<in> {NPipe, NAnd, NOr})"

text \<open>The words of a node, in which variables are replaced.\<close>

definition redirect_words :: "redirect \<Rightarrow> string list" where
  "redirect_words r = (case r of RFile f \<Rightarrow> [f] | _ \<Rightarrow> [])"

definition node_words :: "node \<Rightarrow> string list" where
  "node_words n = (case n of
       NCommand c \<Rightarrow> (case c_stdin c of Some f \<Rightarrow> [f] | None \<Rightarrow> []) @ redirect_words (c_stdout c) @
         redirect_words (c_stderr c) @ c_argv c @ (case c_env c of Some e \<Rightarrow> map snd e | None \<Rightarrow> [])
     | NChdir (Some d) \<Rightarrow> [d]
     | _ \<Rightarrow> [])"

definition plain_node :: "node \<Rightarrow> bool" where
  "plain_node n \<longleftrightarrow> n \<noteq> NChdir None \<and> list_all (\<lambda>s. CHR ''$'' \<notin> set s) (node_words n)"

lemma mapM_fst:
  "mapM_result (\<lambda>(k, v). map_result (Pair k) (f v)) kvs = Inr kvs' \<Longrightarrow> map fst kvs' = map fst kvs"
  by (induction kvs arbitrary: kvs') auto

lemma subst_env_shape: "subst_env t namespace e = Inr e' \<Longrightarrow> map_option (map fst) e' = map_option (map fst) e"
  by (auto simp: subst_env_def mapM_fst split: option.splits)

lemma subst_redirect_shape: "subst_redirect t namespace r = Inr r' \<Longrightarrow> redirect_kind r' = redirect_kind r"
  by (auto simp: subst_redirect_def redirect_kind_def split: redirect.splits)

lemma subst_stdin_shape: "subst_stdin t namespace r = Inr r' \<Longrightarrow> r' = None \<longleftrightarrow> r = None"
  by (auto simp: subst_stdin_def split: option.splits)

lemma subst_command_shape:
  assumes "subst_command t namespace c = Inr d"
  shows "same_command c d"
proof -
  from assms obtain i out err argv e where
    "subst_stdin t namespace (c_stdin c) = Inr i" "subst_redirect t namespace (c_stdout c) = Inr out"
    "subst_redirect t namespace (c_stderr c) = Inr err" "mapM_result (subst_arg t namespace) (c_argv c) = Inr argv"
    "subst_env t namespace (c_env c) = Inr e"
    and d: "d = c\<lparr>c_stdin := i, c_stdout := out, c_stderr := err, c_argv := argv, c_env := e\<rparr>"
    unfolding subst_command_def bind_result_eq_Inr by blast
  note shapes = this(1) [THEN subst_stdin_shape] this(2,3) [THEN subst_redirect_shape]
    this(4) [THEN mapM_result_length] this(5) [THEN subst_env_shape]
  show ?thesis unfolding same_command_def d using shapes by simp
qed

lemma subst_node_shape: "subst_node t namespace n = Inr n' \<Longrightarrow> same_shape n n'"
  by (auto simp: subst_node_def same_shape_def subst_command_shape split: node.splits option.splits)

lemma mapM_list_all2: "mapM_result f xs = Inr ys \<Longrightarrow> list_all2 (\<lambda>x y. f x = Inr y) xs ys"
  by (induction xs arbitrary: ys) auto

lemma mapM_same: "(\<And>x. x \<in> set xs \<Longrightarrow> f x = Inr x) \<Longrightarrow> mapM_result f xs = Inr xs"
  by (induction xs) auto

lemma subst_node_plain:
  assumes "plain_node n"
  shows "subst_node t namespace n = Inr n"
proof (cases n)
  case (NCommand c)
  with assms have w: "list_all (\<lambda>s. CHR ''$'' \<notin> set s) (c_argv c)"
      "\<And>f. c_stdin c = Some f \<Longrightarrow> CHR ''$'' \<notin> set f" "\<And>f. c_stdout c = RFile f \<Longrightarrow> CHR ''$'' \<notin> set f"
      "\<And>f. c_stderr c = RFile f \<Longrightarrow> CHR ''$'' \<notin> set f"
      "\<And>kvs. c_env c = Some kvs \<Longrightarrow> \<forall>kv \<in> set kvs. CHR ''$'' \<notin> set (snd kv)"
    by (auto simp: plain_node_def node_words_def redirect_words_def list_all_iff)
  have "subst_stdin t namespace (c_stdin c) = Inr (c_stdin c)"
    using w(2) by (cases "c_stdin c") (simp_all add: subst_stdin_def subst_plain)
  moreover have "subst_redirect t namespace (c_stdout c) = Inr (c_stdout c)"
    using w(3) by (cases "c_stdout c") (simp_all add: subst_redirect_def subst_plain)
  moreover have "subst_redirect t namespace (c_stderr c) = Inr (c_stderr c)"
    using w(4) by (cases "c_stderr c") (simp_all add: subst_redirect_def subst_plain)
  moreover have "mapM_result (subst_arg t namespace) (c_argv c) = Inr (c_argv c)"
    using w(1) by (intro mapM_same subst_plain) (simp add: list_all_iff)
  moreover have "subst_env t namespace (c_env c) = Inr (c_env c)"
  proof (cases "c_env c")
    case (Some kvs)
    have "mapM_result (\<lambda>(k, v). map_result (Pair k) (subst_arg t namespace v)) kvs = Inr kvs"
      using w(5) [OF Some] by (intro mapM_same) (auto simp: subst_plain)
    then show ?thesis by (simp add: subst_env_def Some)
  qed (simp add: subst_env_def)
  ultimately show ?thesis by (simp add: subst_node_def subst_command_def NCommand)
next
  case (NChdir d)
  then show ?thesis using assms by (cases d) (simp_all add: plain_node_def node_words_def subst_node_def subst_plain)
qed (simp_all add: subst_node_def)

lemma task_nodes_shape:
  assumes "parse_line (k_command t) = Inr ns" "task_nodes t = Inr ns'"
  shows "list_all2 same_shape ns ns' \<and> (list_all plain_node ns \<longrightarrow> ns' = ns)"
proof -
  from assms have m: "mapM_result (subst_node t (task_namespace t)) ns = Inr ns'" by (simp add: task_nodes_def)
  have "list_all2 same_shape ns ns'"
    using mapM_list_all2 [OF m] subst_node_shape by (rule list_all2_mono)
  moreover have "ns' = ns" if "list_all plain_node ns"
    using mapM_same [of ns] subst_node_plain that m by (force simp: list_all_iff)
  ultimately show ?thesis by blast
qed

text \<open>A task with one input and one output.\<close>

definition sample_task :: ctask where
  "sample_task = \<lparr>k_command = ''cp ${SRC} ${TGT} && echo $${OPT[0]} > log'', k_variables = None,
     k_env = [(''OPT'', TList [TStr ''x''])],
     k_inputs = [\<lparr>n_srcpath = ''a.in'', n_bldpath = ''a.in'', n_bld_abspath = ''/b/a.in''\<rparr>],
     k_outputs = [\<lparr>n_srcpath = ''a.out'', n_bldpath = ''a.out'', n_bld_abspath = ''/b/a.out''\<rparr>]\<rparr>"

section \<open>Properties\<close>

text \<open>C23: the templates of commands.  A word written from literal text, \<open>$$\<close> and \<open>${..}\<close> is expanded
  part by part: the scan finds exactly the parts it was written from, in order, and the result is
  the concatenation of their values, or the error of the first part that has one.\<close>

theorem subst_arg_template:
  assumes "list_all piece_ok ps"
  shows "subst_arg t namespace (concat (map render_piece ps)) = bind_result (mapM_result (repl t namespace) ps) join_items"
  by (rule subst_render [OF assms])

theorem subst_arg_template_witness:
  "subst_arg sample_task (task_namespace sample_task) ''-I${SRC}:$$${OPT[0]}'' = Inr ''-Ia.in:$x''"
proof -
  have "list_all piece_ok [Lit ''-I'', Subst ''SRC'' [], Lit '':'', Dollar, Subst ''OPT'' ''[0]'']" by code_simp
  from subst_arg_template [OF this, of sample_task "task_namespace sample_task"]
  have "subst_arg sample_task (task_namespace sample_task) ''-I${SRC}:$$${OPT[0]}'' =
    bind_result (mapM_result (repl sample_task (task_namespace sample_task))
      [Lit ''-I'', Subst ''SRC'' [], Lit '':'', Dollar, Subst ''OPT'' ''[0]'']) join_items" by simp
  also have "\<dots> = Inr ''-Ia.in:$x''" by code_simp
  finally show ?thesis .
qed

text \<open>C24: running a templated command.  The value of a variable never becomes syntax: the command that is
  run has the operators of the template, and each of its commands the same name, number of words,
  kinds of redirections and variables, whatever the values contain; a template without a dollar is
  run as it is.\<close>

theorem task_run_structure:
  assumes "parse_line (k_command t) = Inr ns" "task_run w verbose t = Inr r"
  shows "\<exists>ns'. list_all2 same_shape ns ns' \<and> run_pipeline w (verbose > 0) ns' = Inr r \<and>
    (list_all plain_node ns \<longrightarrow> ns' = ns)"
proof -
  from assms(2) obtain ns' where "task_nodes t = Inr ns'" "run_pipeline w (verbose > 0) ns' = Inr r"
    by (auto simp: task_run_def)
  with task_nodes_shape [OF assms(1)] show ?thesis by blast
qed

theorem task_run_structure_witness:
  "\<exists>ns ns' r. parse_line (k_command sample_task) = Inr ns \<and> length ns = 3 \<and>
     run_pipeline sample_world False ns' = Inr r \<and> list_all2 same_shape ns ns'"
proof -
  have "map_result length (parse_line (k_command sample_task)) = Inr 3" by code_simp
  then obtain ns where ns: "parse_line (k_command sample_task) = Inr ns" "length ns = 3" by auto
  have "map_result fst (task_run sample_world 0 sample_task) = Inr (Some 0)" by code_simp
  then obtain r where r: "task_run sample_world 0 sample_task = Inr r" by auto
  from task_run_structure [OF ns(1) r] obtain ns' where
    "list_all2 same_shape ns ns'" "run_pipeline sample_world (0 > (0::int)) ns' = Inr r" by blast
  then show ?thesis using ns by (intro exI [of _ ns] exI [of _ ns'] exI [of _ r] conjI) simp_all
qed

end
