(* ===== verification/Misc_Tasks.thy ===== *)
theory Misc_Tasks
  imports Command_Task Wutils
begin

text \<open>
  \<open>src/waf-tools/misc.py\<close>: the task generators for copying files, for substituting \<open>@NAME@\<close> in them, and for
  running a command whose arguments are files of the build.

  Nodes of the build tool are records of their paths; looking one up is a function of \<open>misc_world\<close>.  Python
  functions that tasks carry are named.  The types of Python that the code creates by
  \<open>type(f)(...)\<close> are those of Python 3.
\<close>

section \<open>Nodes and attributes\<close>

record mnode =
  d_name :: string
  d_abspath :: string
  d_srcpath :: string
  d_bldpath :: string

record misc_world =
  y_path :: string
  y_find_resource :: "string \<Rightarrow> mnode option"
  y_find_or_declare :: "string \<Rightarrow> mnode option"
  y_find_dir :: "string \<Rightarrow> mnode option"
  y_change_ext :: "mnode \<Rightarrow> mnode"
  y_flat :: "string \<Rightarrow> string"
  y_hash :: "string list \<Rightarrow> string"
  y_variant_dir :: string
  y_environ :: "(string, string) dict"
  y_popen :: "string list \<Rightarrow> string option \<Rightarrow> string option \<Rightarrow> (string, string) dict \<Rightarrow> int \<times> string \<times> string"

datatype attr = ANothing | AStr string | AList "string list"

fun attr_set :: "attr \<Rightarrow> bool" where
  "attr_set ANothing = False"
| "attr_set (AStr s) = (s \<noteq> [])"
| "attr_set (AList xs) = (xs \<noteq> [])"

text \<open>A missing attribute reads as the empty tuple, which is \<open>ANothing\<close> here.\<close>

definition copy_attrs :: "(string, attr) dict \<Rightarrow> (string, attr) dict \<Rightarrow> string list \<Rightarrow> bool \<Rightarrow> (string, attr) dict" where
  "copy_attrs orig dest names only_if_set =
     foldl (\<lambda>d a. let u = (case dict_get orig a of Some u \<Rightarrow> u | None \<Rightarrow> ANothing)
              in if attr_set u \<or> \<not> only_if_set then dict_set a u d else d) dest names"

section \<open>Copying files\<close>

type_synonym modes = "string \<Rightarrow> int option"

text \<open>\<open>shutil.copy2\<close> into a directory keeps the name; it copies the permissions too.  Its exceptions become the status 1.\<close>

definition copy2_target :: "fs \<Rightarrow> string \<Rightarrow> string \<Rightarrow> string" where
  "copy2_target fs src dst = (if fs dst = Some DirNode then path_join dst (basename src) else dst)"

definition copy_func :: "string \<Rightarrow> string \<Rightarrow> int \<Rightarrow> fs \<times> modes \<Rightarrow> int \<times> fs \<times> modes" where
  "copy_func infile outfile chmod disk =
     (let (fs, modes) = disk; dst = copy2_target fs infile outfile
      in case fs infile of
           Some (FileNode s) \<Rightarrow>
             if dst = infile \<or> fs dst = Some DirNode then (1, disk)
             else let modes' = modes(dst := modes infile)
                  in (0, fs(dst \<mapsto> FileNode s), if chmod \<noteq> 0 then modes'(outfile \<mapsto> chmod) else modes')
         | _ \<Rightarrow> (1, disk))"

definition action_process_file_func :: "('t \<Rightarrow> 'r) option \<Rightarrow> 't \<Rightarrow> 'r result" where
  "action_process_file_func f task = (case f of
       None \<Rightarrow> Inl (WafError ''task must have a function attached to it for copy_func to work!'')
     | Some f \<Rightarrow> Inr (f task))"

text \<open>The feature \<open>cmd\<close>: one task that calls the function of the generator.\<close>

definition apply_cmd :: "string option \<Rightarrow> string \<Rightarrow> (string \<times> string) list \<Rightarrow> (string \<times> string) list result" where
  "apply_cmd f install_path tasks = (case f of
       None \<Rightarrow> Inl (WafError ''cmdobj needs a function!'')
     | Some f \<Rightarrow> Inr (tasks @ [(f, install_path)]))"

record file_task =
  t_input :: mnode
  t_output :: mnode
  t_fun :: string
  t_chmod :: int
  t_dep_vars :: "string list"

record file_gen =
  f_source :: target
  f_target :: string
  f_meths :: "string list"
  f_fun :: "string option"
  f_chmod :: "int option"
  f_dict :: "(string, string) dict"
  f_dict_hash :: string
  f_tasks :: "file_task list"

definition remove_process_source :: "file_gen \<Rightarrow> file_gen result" where
  "remove_process_source g =
     (if ''process_source'' \<in> set (f_meths g) then Inr (g\<lparr>f_meths := remove1 ''process_source'' (f_meths g)\<rparr>) else Inl ValueError)"

definition input_node :: "misc_world \<Rightarrow> string \<Rightarrow> mnode result" where
  "input_node w filename = (case y_find_resource w filename of
       Some n \<Rightarrow> Inr n
     | None \<Rightarrow> Inl (WafError (''cannot find input file '' @ filename @ '' for processing'')))"

definition declare_node :: "misc_world \<Rightarrow> string \<Rightarrow> mnode result" where
  "declare_node w name = (case y_find_or_declare w name of Some n \<Rightarrow> Inr n | None \<Rightarrow> Inl AttributeError)"

definition default_chmod :: int where "default_chmod = 420"

definition add_file_task :: "mnode \<Rightarrow> mnode \<Rightarrow> string list \<Rightarrow> file_gen \<Rightarrow> file_gen" where
  "add_file_task node newnode deps g =
     g\<lparr>f_tasks := f_tasks g @ [\<lparr>t_input = node, t_output = newnode, t_fun = (case f_fun g of Some f \<Rightarrow> f | None \<Rightarrow> []),
         t_chmod = (case f_chmod g of Some c \<Rightarrow> c | None \<Rightarrow> default_chmod), t_dep_vars = deps\<rparr>]\<rparr>"

definition default_fun :: "string \<Rightarrow> file_gen \<Rightarrow> file_gen" where
  "default_fun f g = g\<lparr>f_fun := (case f_fun g of None \<Rightarrow> Some f | Some h \<Rightarrow> Some h)\<rparr>"

definition apply_copy :: "misc_world \<Rightarrow> file_gen \<Rightarrow> file_gen result" where
  "apply_copy w g =
     (let lst = target_names (f_source g)
      in bind_result (remove_process_source (default_fun ''copy_func'' g)) (\<lambda>g.
         foldM_result (\<lambda>g filename.
           bind_result (input_node w filename) (\<lambda>node.
           map_result (\<lambda>newnode. add_file_task node newnode [] g)
             (declare_node w (if f_target g = [] \<or> 1 < length lst then d_name node else f_target g)))) g lst))"

section \<open>Substitution\<close>

text \<open>A match of \<open>@(\w+)@\<close> at the start of a string: the word.\<close>

definition m4_word :: "string \<Rightarrow> string option" where
  "m4_word s =
     (let w = takeWhile is_word_char (tl s); r = dropWhile is_word_char (tl s)
      in if startswith s ''@'' \<and> w \<noteq> [] \<and> startswith r ''@'' then Some w else None)"

text \<open>\<open>m4_re.sub(r'%(\1)s', code)\<close> and \<open>m4_re.findall(code)\<close>; the number counts the characters left to skip.\<close>

fun m4_sub :: "nat \<Rightarrow> string \<Rightarrow> string" where
  "m4_sub k [] = []"
| "m4_sub (Suc k) (c # cs) = m4_sub k cs"
| "m4_sub 0 (c # cs) =
     (case m4_word (c # cs) of
        Some w \<Rightarrow> ''%('' @ w @ '')s'' @ m4_sub (length w + 1) cs
      | None \<Rightarrow> c # m4_sub 0 cs)"

fun m4_names :: "nat \<Rightarrow> string \<Rightarrow> string list" where
  "m4_names k [] = []"
| "m4_names (Suc k) (c # cs) = m4_names k cs"
| "m4_names 0 (c # cs) =
     (case m4_word (c # cs) of Some w \<Rightarrow> w # m4_names (length w + 1) cs | None \<Rightarrow> m4_names 0 cs)"

text \<open>\<open>s % di\<close> for a dictionary; conversions other than \<open>%s\<close> and \<open>%%\<close> do not occur.\<close>

fun format_dict :: "(string, string) dict \<Rightarrow> nat \<Rightarrow> string \<Rightarrow> string result" where
  "format_dict d k [] = Inr []"
| "format_dict d (Suc k) (c # cs) = format_dict d k cs"
| "format_dict d 0 (c # cs) =
     (if c \<noteq> CHR ''%'' then map_result (\<lambda>r. c # r) (format_dict d 0 cs)
      else if cs = [] then Inl ValueError
      else if hd cs = CHR ''%'' then map_result (\<lambda>r. CHR ''%'' # r) (format_dict d 1 cs)
      else if hd cs = CHR ''('' then
        let key = takeWhile (\<lambda>c. c \<noteq> CHR '')'') (tl cs)
        in if startswith (drop (length key) (tl cs)) '')s''
           then bind_result (dict_getitem d key) (\<lambda>v. map_result (\<lambda>r. v @ r) (format_dict d (length key + 3) cs))
           else Inl Unsupported
      else Inl Unsupported)"

text \<open>The task and its generator share one dictionary; when it is empty the code fills it, so it is returned.\<close>

definition subst_func :: "(string \<Rightarrow> string) \<Rightarrow> (string, string) dict \<Rightarrow> string \<Rightarrow> (string \<times> (string, string) dict) result" where
  "subst_func flat di text =
     (let code = replace_str ''%'' ''%%'' text;
          s = m4_sub 0 code;
          di = (if di \<noteq> [] then di
                else foldl (\<lambda>d i. dict_set i (if flat i \<noteq> [] then flat i else flat (upper i)) d) [] (m4_names 0 code))
      in map_result (\<lambda>r. (r, di)) (format_dict di 0 s))"

definition apply_subst :: "misc_world \<Rightarrow> file_gen \<Rightarrow> file_gen result" where
  "apply_subst w g =
     (let lst = target_names (f_source g)
      in bind_result (remove_process_source (default_fun ''subst_func'' g)) (\<lambda>g.
         foldM_result (\<lambda>g filename.
           bind_result (input_node w filename) (\<lambda>node.
           bind_result (if f_target g \<noteq> [] then declare_node w (f_target g) else Inr (y_change_ext w node)) (\<lambda>newnode.
             let g = (if f_dict g \<noteq> [] \<and> f_dict_hash g = []
                      then g\<lparr>f_dict_hash := y_hash w (map (\<lambda>k. the (dict_get (f_dict g) k)) (sort (map fst (f_dict g))))\<rparr> else g)
             in Inr (add_file_task node newnode [''DICT_HASH''] g)))) g lst))"

text \<open>The tasks of one generator, run one after the other on the texts of their inputs.\<close>

fun run_substs :: "(string \<Rightarrow> string) \<Rightarrow> (string, string) dict \<Rightarrow> string list \<Rightarrow> string list result" where
  "run_substs flat di [] = Inr []"
| "run_substs flat di (text # texts) =
     bind_result (subst_func flat di text) (\<lambda>(r, di). map_result (\<lambda>rs. r # rs) (run_substs flat di texts))"

section \<open>Arguments of a command\<close>

datatype arg_kind = Input_file | Output_file | Input_dir | Output_dir

datatype cmd_arg = Plain string | Cmd_arg arg_kind string string

text \<open>\<open>find_node\<close>.  The message of its error has one conversion for two values, so that a missing
  file is a \<open>TypeError\<close>.\<close>

definition find_arg_node :: "misc_world \<Rightarrow> arg_kind \<Rightarrow> string \<Rightarrow> mnode result" where
  "find_arg_node w kind name =
     (case (case kind of Input_file \<Rightarrow> y_find_resource w name | Output_file \<Rightarrow> y_find_or_declare w name
              | Input_dir \<Rightarrow> y_find_dir w name | Output_dir \<Rightarrow> y_find_dir w name) of
        Some n \<Rightarrow> Inr n | None \<Rightarrow> Inl TypeError)"

definition get_path :: "arg_kind \<Rightarrow> string \<Rightarrow> mnode \<Rightarrow> bool \<Rightarrow> string result" where
  "get_path kind template node absolute =
     format_one (case kind of
         Input_file \<Rightarrow> if absolute then d_abspath node else d_srcpath node
       | Output_file \<Rightarrow> if absolute then d_abspath node else d_bldpath node
       | _ \<Rightarrow> d_abspath node) template False"

section \<open>The task command-output\<close>

datatype cmd_name = Cmd_external string | Cmd_node mnode

datatype task_arg = Text string | Path arg_kind string mnode

record cmd_task =
  ct_command :: cmd_name
  ct_args :: "task_arg list"
  ct_stdin :: "mnode option"
  ct_stdout :: "mnode option"
  ct_stderr :: "mnode option"
  ct_cwd :: "string option"
  ct_os_env :: "(string, string) dict option"
  ct_inputs :: "mnode list"
  ct_outputs :: "mnode list"
  ct_dep_nodes :: "mnode list"
  ct_dep_vars :: "string list"
  ct_attrs :: "(string, attr) dict"
  ct_run_after :: "string list"

definition node_path :: "cmd_task \<Rightarrow> mnode \<Rightarrow> string" where
  "node_path t node = (if ct_cwd t = None then d_bldpath node else d_abspath node)"

definition arg_text :: "cmd_task \<Rightarrow> task_arg \<Rightarrow> string result" where
  "arg_text t a = (case a of Text s \<Rightarrow> Inr s | Path kind template node \<Rightarrow> get_path kind template node (ct_cwd t \<noteq> None))"

definition cmd_argv :: "cmd_task \<Rightarrow> string list result" where
  "cmd_argv t = map_result (\<lambda>as. (case ct_command t of Cmd_external c \<Rightarrow> c | Cmd_node n \<Rightarrow> node_path t n) # as)
     (mapM_result (arg_text t) (ct_args t))"

definition truncate :: "cmd_task \<Rightarrow> mnode option \<Rightarrow> fs \<Rightarrow> fs result" where
  "truncate t node fs = (case node of None \<Rightarrow> Inr fs | Some n \<Rightarrow> write_text (node_path t n) [] fs)"

definition store :: "cmd_task \<Rightarrow> mnode option \<Rightarrow> string \<Rightarrow> fs \<Rightarrow> fs" where
  "store t node s fs = (case node of None \<Rightarrow> fs | Some n \<Rightarrow> fs(node_path t n \<mapsto> FileNode s))"

text \<open>\<open>run\<close>: the input is opened first, the outputs are emptied, then the command is run to its end.\<close>

definition cmd_run :: "misc_world \<Rightarrow> cmd_task \<Rightarrow> fs \<Rightarrow> (int \<times> fs) result" where
  "cmd_run w t fs =
     bind_result (cmd_argv t) (\<lambda>argv.
     bind_result (case ct_stdin t of None \<Rightarrow> Inr [] | Some n \<Rightarrow> read_file fs (node_path t n)) (\<lambda>_.
     bind_result (truncate t (ct_stdout t) fs) (\<lambda>fs.
     bind_result (truncate t (ct_stderr t) fs) (\<lambda>fs.
     bind_result (case ct_stdin t of None \<Rightarrow> Inr None | Some n \<Rightarrow> map_result Some (read_file fs (node_path t n))) (\<lambda>input.
       let (rc, out, err) = y_popen w argv input (ct_cwd t) (case ct_os_env t of None \<Rightarrow> y_environ w | Some e \<Rightarrow> e)
       in Inr (rc, store t (ct_stderr t) err (store t (ct_stdout t) out fs)))))))"

section \<open>The generator command-output\<close>

record cmd_gen =
  cg_stdin :: "string option"
  cg_stdout :: "string option"
  cg_stderr :: "string option"
  cg_command :: "string option"
  cg_external :: bool
  cg_argv :: "cmd_arg list"
  cg_dependencies :: "(bool \<times> string list) list"
  cg_dep_vars :: target
  cg_hidden_inputs :: target
  cg_hidden_outputs :: target
  cg_cwd :: "string option"
  cg_os_env :: "(string, string) dict option"
  cg_no_inputs :: bool
  cg_no_outputs :: bool
  cg_attrs :: "(string, attr) dict"

text \<open>The attributes that \<open>init_cmd_output\<close> gives to a generator that does not set them.  A dependency is given by
  whether it is the generator itself, and by its tasks.\<close>

definition init_cmd_output :: cmd_gen where
  "init_cmd_output = \<lparr>cg_stdin = None, cg_stdout = None, cg_stderr = None, cg_command = None, cg_external = False,
     cg_argv = [], cg_dependencies = [], cg_dep_vars = Names [], cg_hidden_inputs = Names [], cg_hidden_outputs = Names [],
     cg_cwd = None, cg_os_env = None, cg_no_inputs = False, cg_no_outputs = False, cg_attrs = []\<rparr>"

definition command_node :: "misc_world \<Rightarrow> cmd_gen \<Rightarrow> (cmd_name \<times> mnode list) result" where
  "command_node w g = (case cg_command g of
       None \<Rightarrow> Inl (WafError ''command-output missing command'')
     | Some c \<Rightarrow>
         if cg_external g then Inr (Cmd_external c, [])
         else case y_find_resource w c of None \<Rightarrow> Inl AssertionError | Some n \<Rightarrow> Inr (Cmd_node n, [n]))"

definition resolve_arg :: "misc_world \<Rightarrow> cmd_arg \<Rightarrow> task_arg result" where
  "resolve_arg w a = (case a of
       Plain s \<Rightarrow> Inr (Text s)
     | Cmd_arg kind name template \<Rightarrow> map_result (Path kind template) (find_arg_node w kind name))"

definition arg_nodes :: "arg_kind \<Rightarrow> task_arg list \<Rightarrow> mnode list" where
  "arg_nodes kind args = concat (map (\<lambda>a. case a of Path k _ n \<Rightarrow> if k = kind then [n] else [] | Text _ \<Rightarrow> []) args)"

definition lookup_file :: "(string \<Rightarrow> mnode option) \<Rightarrow> string \<Rightarrow> string option \<Rightarrow> mnode option result" where
  "lookup_file finder suffix_text name = (case name of
       None \<Rightarrow> Inr None
     | Some f \<Rightarrow> (case finder f of None \<Rightarrow> Inl (WafError (''File '' @ f @ '' not found'' @ suffix_text)) | Some n \<Rightarrow> Inr (Some n)))"

definition lookup_files :: "(string \<Rightarrow> mnode option) \<Rightarrow> string \<Rightarrow> string list \<Rightarrow> mnode list result" where
  "lookup_files finder suffix_text names =
     mapM_result (\<lambda>f. bind_result (lookup_file finder suffix_text (Some f)) (\<lambda>n. case n of Some n \<Rightarrow> Inr n | None \<Rightarrow> Inl AttributeError)) names"

definition the_list :: "mnode option \<Rightarrow> mnode list" where
  "the_list x = (case x of None \<Rightarrow> [] | Some n \<Rightarrow> [n])"

text \<open>The task always runs in the variant directory, whatever \<open>cwd\<close> the generator asks for.  A task without inputs gets
  its methods by \<open>type(f)(g, task, cls)\<close>, which Python 3 refuses.\<close>

definition apply_cmd_output :: "misc_world \<Rightarrow> cmd_gen \<Rightarrow> cmd_task result" where
  "apply_cmd_output w g =
     bind_result (command_node w g) (\<lambda>(cmd, dep_nodes).
     bind_result (mapM_result (resolve_arg w) (cg_argv g)) (\<lambda>args.
     bind_result (lookup_file (y_find_or_declare w) [] (cg_stdout g)) (\<lambda>stdout.
     bind_result (lookup_file (y_find_or_declare w) [] (cg_stderr g)) (\<lambda>stderr.
     bind_result (lookup_file (y_find_resource w) [] (cg_stdin g)) (\<lambda>stdin.
     bind_result (lookup_files (y_find_resource w) ('' in dir '' @ y_path w) (target_names (cg_hidden_inputs g))) (\<lambda>hidden_in.
     bind_result (lookup_files (y_find_or_declare w) ('' in dir '' @ y_path w) (target_names (cg_hidden_outputs g))) (\<lambda>hidden_out.
       let inputs = arg_nodes Input_file args @ the_list stdin @ hidden_in;
           outputs = arg_nodes Output_file args @ the_list stdout @ the_list stderr @ hidden_out
       in if inputs = [] \<and> \<not> cg_no_inputs g
          then Inl (WafError ''command-output objects must have at least one input file or give self.no_inputs'')
          else if outputs = [] \<and> \<not> cg_no_outputs g
          then Inl (WafError ''command-output objects must have at least one output file or give self.no_outputs'')
          else if list_ex fst (cg_dependencies g) then Inl AssertionError
          else if inputs = [] then Inl TypeError
          else Inr \<lparr>ct_command = cmd, ct_args = args, ct_stdin = stdin, ct_stdout = stdout, ct_stderr = stderr,
                 ct_cwd = Some (y_variant_dir w), ct_os_env = cg_os_env g, ct_inputs = inputs, ct_outputs = outputs,
                 ct_dep_nodes = dep_nodes, ct_dep_vars = target_names (cg_dep_vars g),
                 ct_attrs = copy_attrs (cg_attrs g) [] [''before'', ''after'', ''ext_in'', ''ext_out''] True,
                 ct_run_after = concat (map snd (cg_dependencies g))\<rparr>)))))))"

text \<open>\<open>post_run\<close>: the signatures of the outputs.\<close>

definition post_run :: "(string \<Rightarrow> string) \<Rightarrow> mnode list \<Rightarrow> (string, string) dict \<Rightarrow> (string, string) dict" where
  "post_run hash_file outputs sigs = foldl (\<lambda>d x. dict_set (d_abspath x) (hash_file (d_abspath x)) d) sigs outputs"

section \<open>Direct substitution\<close>

text \<open>The reference: one pass that copies every character and replaces \<open>@NAME@\<close> by its value.\<close>

fun substituted :: "(string, string) dict \<Rightarrow> nat \<Rightarrow> string \<Rightarrow> string result" where
  "substituted d k [] = Inr []"
| "substituted d (Suc k) (c # cs) = substituted d k cs"
| "substituted d 0 (c # cs) =
     (case m4_word (c # cs) of
        Some w \<Rightarrow> bind_result (dict_getitem d w) (\<lambda>v. map_result (\<lambda>r. v @ r) (substituted d (length w + 1) cs))
      | None \<Rightarrow> map_result (\<lambda>r. c # r) (substituted d 0 cs))"

section \<open>Lemmas\<close>

definition escape_percent :: "string \<Rightarrow> string" where
  "escape_percent s = concat (map (\<lambda>c. if c = CHR ''%'' then ''%%'' else [c]) s)"

lemma escape_percent_simps [simp]:
  "escape_percent [] = []"
  "escape_percent (c # s) = (if c = CHR ''%'' then ''%%'' else [c]) @ escape_percent s"
  "escape_percent (s @ t) = escape_percent s @ escape_percent t"
  by (simp_all add: escape_percent_def)

lemma replace_percent: "replace_str ''%'' ''%%'' s = escape_percent s"
proof -
  have "replace_aux ''%'' ''%%'' 0 s = escape_percent s" by (induction s) auto
  then show ?thesis by (simp add: replace_str_def)
qed

lemma skip_all: 
  "length u \<le> k \<Longrightarrow> m4_sub k (u @ s) = m4_sub (k - length u) s"
  "length u \<le> k \<Longrightarrow> m4_names k (u @ s) = m4_names (k - length u) s"
  "length u \<le> k \<Longrightarrow> substituted d k (u @ s) = substituted d (k - length u) s"
  "length u \<le> k \<Longrightarrow> format_dict d k (u @ s) = format_dict d (k - length u) s"
  by (induction u arbitrary: k; case_tac k; simp)+

lemma m4_word_Some:
  assumes "m4_word s = Some w"
  obtains r where "s = CHR ''@'' # w @ CHR ''@'' # r" "w \<noteq> []" "list_all is_word_char w"
proof -
  from assms have s: "startswith s ''@''" "w = takeWhile is_word_char (tl s)" "w \<noteq> []"
    "startswith (dropWhile is_word_char (tl s)) ''@''"
    by (auto simp: m4_word_def Let_def split: if_splits)
  from s(1) obtain t where t: "s = CHR ''@'' # t" by (auto simp: startswith_iff)
  from s(4) obtain r where r: "dropWhile is_word_char t = CHR ''@'' # r" by (auto simp: t startswith_iff)
  have "t = w @ CHR ''@'' # r" using s(2) r takeWhile_dropWhile_id [of is_word_char t] by (simp add: t)
  moreover have "list_all is_word_char w" using s(2) by (auto simp: list_all_iff dest: set_takeWhileD)
  ultimately show thesis using that s(3) t by simp
qed

lemma m4_word_match:
  assumes "list_all is_word_char w" "w \<noteq> []" "\<not> is_word_char (CHR ''@'')"
  shows "m4_word (CHR ''@'' # w @ CHR ''@'' # r) = Some w"
  using assms by (simp add: m4_word_def takeWhile_append dropWhile_append list_all_iff)

lemma at_no_word: "\<not> is_word_char (CHR ''@'')" and percent_no_word: "\<not> is_word_char (CHR ''%'')"
  and paren_no_word: "\<not> is_word_char (CHR '')'')" by code_simp+

lemma escape_word: "list_all is_word_char w \<Longrightarrow> escape_percent w = w"
  using percent_no_word by (induction w) auto

text \<open>Doubling the percent signs neither makes nor breaks a match.\<close>

lemma m4_word_escape: "c \<noteq> CHR ''%'' \<Longrightarrow> m4_word (c # escape_percent cs) = m4_word (c # cs)"
proof -
  have tw: "takeWhile is_word_char (escape_percent cs) = takeWhile is_word_char cs"
    "startswith (dropWhile is_word_char (escape_percent cs)) ''@'' = startswith (dropWhile is_word_char cs) ''@''" for cs
    using percent_no_word by (induction cs) auto
  show "m4_word (c # escape_percent cs) = m4_word (c # cs)" by (simp add: m4_word_def tw)
qed

text \<open>Induction along the scan for matches.\<close>

lemma m4_induct [case_names Nil Match Char]:
  assumes "P []"
    and "\<And>w r. list_all is_word_char w \<Longrightarrow> w \<noteq> [] \<Longrightarrow> P r \<Longrightarrow> P (CHR ''@'' # w @ CHR ''@'' # r)"
    and "\<And>c cs. m4_word (c # cs) = None \<Longrightarrow> P cs \<Longrightarrow> P (c # cs)"
  shows "P s"
proof (induction s rule: length_induct)
  case (1 s)
  show ?case
  proof (cases s)
    case Nil
    then show ?thesis using assms(1) by simp
  next
    case s: (Cons c cs)
    show ?thesis
    proof (cases "m4_word (c # cs)")
      case None
      then show ?thesis using 1 assms(3) by (simp add: s)
    next
      case (Some w)
      then obtain r where r: "c # cs = CHR ''@'' # w @ CHR ''@'' # r" "w \<noteq> []" "list_all is_word_char w"
        by (rule m4_word_Some)
      have "P r" using 1 by (simp add: s r(1))
      then show ?thesis using assms(2) r s by simp
    qed
  qed
qed

lemma scan_match:
  assumes "list_all is_word_char w" "w \<noteq> []"
  shows "m4_sub 0 (CHR ''@'' # w @ CHR ''@'' # r) = ''%('' @ w @ '')s'' @ m4_sub 0 r"
    and "m4_names 0 (CHR ''@'' # w @ CHR ''@'' # r) = w # m4_names 0 r"
    and "substituted d 0 (CHR ''@'' # w @ CHR ''@'' # r) =
           bind_result (dict_getitem d w) (\<lambda>v. map_result (\<lambda>x. v @ x) (substituted d 0 r))"
    and "format_dict d 0 (''%('' @ w @ '')s'' @ r) =
           bind_result (dict_getitem d w) (\<lambda>v. map_result (\<lambda>x. v @ x) (format_dict d 0 r))"
proof -
  note m = m4_word_match [OF assms at_no_word, of r]
  show "m4_sub 0 (CHR ''@'' # w @ CHR ''@'' # r) = ''%('' @ w @ '')s'' @ m4_sub 0 r"
    "m4_names 0 (CHR ''@'' # w @ CHR ''@'' # r) = w # m4_names 0 r"
    "substituted d 0 (CHR ''@'' # w @ CHR ''@'' # r) =
       bind_result (dict_getitem d w) (\<lambda>v. map_result (\<lambda>x. v @ x) (substituted d 0 r))"
    using skip_all(1,2) [of "w @ [CHR ''@'']" "length w + 1" r] skip_all(3) [of "w @ [CHR ''@'']" "length w + 1" d r]
    by (simp_all add: m)
  have key: "takeWhile (\<lambda>c. c \<noteq> CHR '')'') (w @ CHR '')'' # q) = w" for q
    using assms(1) paren_no_word by (induction w) auto
  show "format_dict d 0 (''%('' @ w @ '')s'' @ r) =
      bind_result (dict_getitem d w) (\<lambda>v. map_result (\<lambda>x. v @ x) (format_dict d 0 r))"
    using skip_all(4) [of "CHR ''('' # w @ '')s''" "length w + 3" d r] by (simp add: key startswith_def)
qed

lemma format_sub: "format_dict d 0 (m4_sub 0 (escape_percent s)) = substituted d 0 s"
proof (induction s rule: m4_induct)
  case (Match w r)
  then show ?case
    by (simp only: escape_percent_simps(2,3) escape_word append.simps if_False char.inject HOL.simp_thms scan_match refl)
      (simp add: scan_match(4) [simplified] escape_word)
next
  case (Char c cs)
  show ?case
  proof (cases "c = CHR ''%''")
    case True
    have "m4_word (CHR ''%'' # t) = None" for t by (simp add: m4_word_def startswith_def)
    with True Char show ?thesis by simp
  next
    case False
    with m4_word_escape [OF False] Char show ?thesis by simp
  qed
qed simp

lemma names_escape: "m4_names 0 (escape_percent s) = m4_names 0 s"
proof (induction s rule: m4_induct)
  case (Match w r)
  then show ?case by (simp add: escape_word scan_match(2) [simplified])
next
  case (Char c cs)
  show ?case
  proof (cases "c = CHR ''%''")
    case True
    have "m4_word (CHR ''%'' # t) = None" for t by (simp add: m4_word_def startswith_def)
    with True Char show ?thesis by simp
  next
    case False
    with m4_word_escape [OF False] Char show ?thesis by simp
  qed
qed simp

lemma substituted_total: "set (m4_names 0 s) \<subseteq> fst ` set d \<Longrightarrow> \<exists>r. substituted d 0 s = Inr r"
proof (induction s rule: m4_induct)
  case (Match w r)
  then have "w \<in> fst ` set d" "set (m4_names 0 r) \<subseteq> fst ` set d"
    unfolding scan_match(2) [OF Match(1,2)] by auto
  with Match.IH obtain x where "substituted d 0 r = Inr x" by blast
  moreover obtain v where "dict_get d w = Some v"
    using \<open>w \<in> fst ` set d\<close> dict_get_None_iff [of d w] by (cases "dict_get d w") auto
  ultimately show ?case by (simp only: scan_match(3) [OF Match(1,2)]) (simp add: dict_getitem_def)
qed auto

lemma keys_filled: "fst ` set (foldl (\<lambda>d i. dict_set i (f i) d) d is) = fst ` set d \<union> set is"
proof (induction "is" arbitrary: d)
  case (Cons i "is")
  have "fst ` set (dict_set i (f i) d) = insert i (fst ` set d)" using dict_set_keys [of i "f i" d]
    by (metis (no_types, lifting) insert_absorb list.set(1,2) list.set_map set_append sup_bot.right_neutral Un_insert_right)
  with Cons show ?case by simp
qed simp

text \<open>The dictionary with which a task formats.\<close>

definition filled :: "(string \<Rightarrow> string) \<Rightarrow> (string, string) dict \<Rightarrow> string \<Rightarrow> (string, string) dict" where
  "filled flat di s = (if di \<noteq> [] then di
     else foldl (\<lambda>d i. dict_set i (if flat i \<noteq> [] then flat i else flat (upper i)) d) [] (m4_names 0 s))"

lemma subst_func_filled:
  "subst_func flat di s = map_result (\<lambda>r. (r, filled flat di s)) (substituted (filled flat di s) 0 s)"
  by (simp add: subst_func_def filled_def Let_def replace_percent format_sub names_escape)

lemma filled_keys: "fst ` set (filled flat [] s) = set (m4_names 0 s)"
  using keys_filled [of "\<lambda>i. if flat i \<noteq> [] then flat i else flat (upper i)" "[]"] by (simp add: filled_def)

lemma filled_total: "\<exists>r. substituted (filled flat [] s) 0 s = Inr r"
  by (rule substituted_total) (simp add: filled_keys)

section \<open>Properties\<close>



text \<open>Several files of one generator without a dictionary.  The first file fills the dictionary that all tasks share, so
  a name that occurs only in a later file is an error.\<close>

theorem later_name_missing:
  assumes "m4_names 0 first \<noteq> []" "name \<notin> set (m4_names 0 first)" "list_all is_word_char name" "name \<noteq> []"
  shows "run_substs flat [] [first, ''@'' @ name @ ''@''] = Inl KeyError"
proof -
  let ?d = "filled flat [] first"
  have ne: "?d \<noteq> []" using assms(1) filled_keys [of flat first] by auto
  obtain r where "subst_func flat [] first = Inr (r, ?d)"
    using filled_total [of flat first] subst_func_filled [of flat "[]" first] by auto
  moreover have "dict_get ?d name = None" using assms(2) by (simp add: dict_get_None_iff filled_keys)
  then have "substituted ?d 0 (''@'' @ name @ ''@'') = Inl KeyError"
    using scan_match(3) [OF assms(3,4), of ?d "[]"] by (simp add: dict_getitem_def del: substituted.simps)
  then have "subst_func flat ?d (''@'' @ name @ ''@'') = Inl KeyError"
    using ne subst_func_filled [of flat ?d] by (simp add: filled_def del: substituted.simps)
  ultimately show ?thesis by simp
qed

theorem later_name_missing_witness:
  "run_substs (\<lambda>n. ''7'') [] [''a=@A@'', ''@B@''] = Inl KeyError"
proof -
  have "m4_names 0 ''a=@A@'' = [''A'']" "list_all is_word_char ''B''" by code_simp+
  then show ?thesis using later_name_missing [of "''a=@A@''" "''B''" "\<lambda>n. ''7''"] by simp
qed


definition sample_node :: mnode where
  "sample_node = \<lparr>d_name = ''x'', d_abspath = ''/b/x'', d_srcpath = ''x'', d_bldpath = ''x''\<rparr>"

definition sample_misc :: misc_world where
  "sample_misc = \<lparr>y_path = ''/s'', y_find_resource = (\<lambda>_. Some sample_node), y_find_or_declare = (\<lambda>_. Some sample_node),
     y_find_dir = (\<lambda>_. None), y_change_ext = (\<lambda>n. n), y_flat = (\<lambda>_. []), y_hash = (\<lambda>_. []), y_variant_dir = ''/b'',
     y_environ = [], y_popen = (\<lambda>_ _ _ _. (0, [], []))\<rparr>"


end
