(* ===== verification/Test_Job.thy ===== *)
theory Test_Job
  imports Py_Literal
begin

text \<open>
  The unit of work of \<open>src/test.py\<close>: the command-line options, the configuration variables,
  the class \<open>Job\<close>, the command line that \<open>run_job_synchronously\<close> composes, and what a
  worker thread does with one job.

  A process run is a parameter: \<open>popen cmd cwd\<close> gives the exit code, the two output streams
  and the elapsed time of the shell command.  Console output is returned as the list of
  printed lines.
\<close>

section \<open>Options and configuration\<close>

text \<open>The attributes of \<open>options\<close> (the \<open>dest\<close> names of \<open>main\<close>).\<close>

record options =
  opt_buildpath :: string
  opt_constrain :: string
  opt_duration :: bool
  opt_example :: string
  opt_update_data :: bool
  opt_fullness :: string
  opt_valgrind :: bool
  opt_valgrind_xml :: bool
  opt_kinds :: bool
  opt_list :: bool
  opt_multiple :: bool
  opt_nowaf :: bool
  opt_pyexample :: string
  opt_retain :: bool
  opt_suite :: string
  opt_text :: string
  opt_verbose :: bool
  opt_html :: string
  opt_xml :: string
  opt_dlm_test_runner :: bool

text \<open>The values that \<open>main\<close> gives the options that are not on the command line.\<close>

definition default_options :: options where
  "default_options = \<lparr>opt_buildpath = [], opt_constrain = [], opt_duration = False,
     opt_example = [], opt_update_data = False, opt_fullness = ''QUICK'', opt_valgrind = False,
     opt_valgrind_xml = False, opt_kinds = False, opt_list = False, opt_multiple = False,
     opt_nowaf = False, opt_pyexample = [], opt_retain = False, opt_suite = [], opt_text = [],
     opt_verbose = False, opt_html = [], opt_xml = [], opt_dlm_test_runner = False\<rparr>"

text \<open>The global variables of the script that the waf configuration sets; three of them have no
  default and are undefined (\<open>None\<close>) when the configuration does not mention them.  \<open>g_vars\<close> is
  what a run condition of an example can refer to.\<close>

record waf_globals =
  g_basedir :: string
  g_builddir :: string
  g_install_dir :: string
  g_module_path :: "string list option"
  g_enabled_modules :: "string list option"
  g_example_directories :: "string list"
  g_python :: "string list"
  g_nsc_enabled :: bool
  g_enable_examples :: bool
  g_enable_tests :: bool
  g_enable_python_bindings :: "bool option"
  g_build_profile :: string
  g_valgrind_found :: bool
  g_vars :: "string \<Rightarrow> pyval option"

definition VALGRIND_SUPPRESSIONS_FILE :: string where
  "VALGRIND_SUPPRESSIONS_FILE = ''testpy.supp''"

definition core_kinds :: "string list" where
  "core_kinds = [''bvt'', ''core'', ''performance'', ''system'', ''unit'']"

definition core_valgrind_skip_tests :: "string list" where
  "core_valgrind_skip_tests =
     [''ns3-tcp-cwnd'', ''nsc-tcp-loss'', ''ns3-tcp-interoperability'', ''routing-click'']"

definition core_nsc_missing_skip_tests :: "string list" where
  "core_nsc_missing_skip_tests =
     [''ns3-tcp-cwnd'', ''nsc-tcp-loss'', ''ns3-tcp-interoperability'']"

section \<open>Running one command\<close>

record proc_result =
  p_returncode :: int
  p_stdout :: string
  p_stderr :: string
  p_elapsed :: pyfloat

type_synonym popen = "string \<Rightarrow> string \<Rightarrow> proc_result"

text \<open>The path of the program: a Python script under the base directory, or a program under
  the given build path or the default one.\<close>

definition job_path_cmd :: "waf_globals \<Rightarrow> string \<Rightarrow> bool \<Rightarrow> string \<Rightarrow> string result" where
  "job_path_cmd g shell_command is_python build_path =
     (if is_python
      then (case g_python g of
              [] \<Rightarrow> Inl IndexError
            | py # _ \<Rightarrow> Inr (py @ '' '' @ path_join (g_basedir g) shell_command))
      else if build_path \<noteq> [] then Inr (path_join build_path shell_command)
      else Inr (path_join (g_builddir g) shell_command))"

text \<open>\<open>shell_command[start:end]\<close> where \<open>start\<close> follows \<open>--test-name=\<close> and \<open>end\<close> is
  \<open>find(' ', start, -1)\<close>: the position of a blank before the last character, or \<open>-1\<close>, which
  as the end of the slice drops the last character.\<close>

definition slice_test_name :: "string \<Rightarrow> nat \<Rightarrow> string" where
  "slice_test_name s start =
     (let body = drop start (butlast s)
      in if CHR '' '' \<in> set body then takeWhile (\<lambda>c. c \<noteq> CHR '' '') body else body)"

definition valgrind_xml_opt :: "options \<Rightarrow> string \<Rightarrow> string \<Rightarrow> string" where
  "valgrind_xml_opt opts shell_command path_cmd =
     (if opt_valgrind_xml opts
      then ''--xml=yes --xml-file=valgrind-'' @
           (case find_str ''--test-name='' shell_command of
              Some i \<Rightarrow> slice_test_name shell_command (i + length ''--test-name='')
            | None \<Rightarrow> basename path_cmd) @ ''-memcheck.xml''
      else [])"

definition job_command :: "options \<Rightarrow> waf_globals \<Rightarrow> bool \<Rightarrow> string \<Rightarrow> string \<Rightarrow> string" where
  "job_command opts g use_valgrind shell_command path_cmd =
     (if use_valgrind
      then ''valgrind --suppressions='' @ path_join (g_basedir g) VALGRIND_SUPPRESSIONS_FILE @
           '' --leak-check=full --show-reachable=yes --error-exitcode=2 '' @
           valgrind_xml_opt opts shell_command path_cmd @ '' '' @ path_cmd
      else path_cmd)"

text \<open>The exit code reported: a run under valgrind that exits with 0 but prints a leak summary
  counts as a valgrind error.\<close>

definition job_retval :: "bool \<Rightarrow> proc_result \<Rightarrow> int" where
  "job_retval use_valgrind r =
     (if use_valgrind \<and> p_returncode r = 0 \<and> contains (p_stderr r) ''== LEAK SUMMARY:''
      then 2 else p_returncode r)"

record job_run =
  r_retval :: int
  r_stdout :: string
  r_stderr :: string
  r_elapsed :: pyfloat
  r_console :: "string list"

definition run_job_synchronously ::
    "popen \<Rightarrow> options \<Rightarrow> waf_globals \<Rightarrow> string \<Rightarrow> string \<Rightarrow> bool \<Rightarrow> bool \<Rightarrow> string \<Rightarrow> job_run result" where
  "run_job_synchronously popen opts g shell_command directory use_valgrind is_python build_path =
     bind_result (job_path_cmd g shell_command is_python build_path) (\<lambda>path_cmd.
       let cmd = job_command opts g use_valgrind shell_command path_cmd;
           r = popen cmd directory;
           retval = job_retval use_valgrind r
       in Inr \<lparr>r_retval = retval, r_stdout = p_stdout r, r_stderr = p_stderr r,
               r_elapsed = p_elapsed r,
               r_console = (if opt_verbose opts
                  then [''Synchronously execute '' @ cmd,
                        ''Return code =  '' @ show_int retval,
                        ''stderr =  '' @ p_stderr r] else [])\<rparr>)"

section \<open>Jobs\<close>

text \<open>The class \<open>Job\<close>; its setters are the update functions of the record.  The initial return
  code \<open>False\<close> is equal to 0 in Python.\<close>

record job =
  is_break :: bool
  is_skip :: bool
  is_example :: bool
  is_pyexample :: bool
  shell_command :: string
  display_name :: string
  basedir :: string
  tempdir :: string
  job_cwd :: string
  tmp_file_name :: string
  returncode :: int
  elapsed_time :: pyfloat
  build_path :: string
  err_messages :: string

definition new_job :: job where
  "new_job = \<lparr>is_break = False, is_skip = False, is_example = False, is_pyexample = False,
     shell_command = [], display_name = [], basedir = [], tempdir = [], job_cwd = [],
     tmp_file_name = [], returncode = 0, elapsed_time = Dyadic 0 0, build_path = [],
     err_messages = []\<rparr>"

section \<open>The worker thread\<close>

text \<open>The command line of a test suite: the job's own, then the flags that make the test runner
  write its results to the temporary file.\<close>

definition suite_command :: "options \<Rightarrow> job \<Rightarrow> string" where
  "suite_command opts j =
     shell_command j @ '' --xml --tempdir='' @ tempdir j @ '' --out='' @ tmp_file_name j @ '' '' @
     (if opt_update_data opts then ''--update-data'' else [])"

definition launch_job :: "popen \<Rightarrow> options \<Rightarrow> waf_globals \<Rightarrow> job \<Rightarrow> job_run result" where
  "launch_job popen opts g j =
     (if is_example j \<or> is_pyexample j
      then run_job_synchronously popen opts g (shell_command j) (job_cwd j) (opt_valgrind opts)
             (is_pyexample j) (build_path j)
      else run_job_synchronously popen opts g (suite_command opts j) (job_cwd j) (opt_valgrind opts)
             False [])"

text \<open>What the body of the loop puts on the output queue for a job that is not the stop signal,
  with the lines it prints.\<close>

definition worker_run ::
    "popen \<Rightarrow> options \<Rightarrow> waf_globals \<Rightarrow> bool \<Rightarrow> job \<Rightarrow> (job \<times> string list) result" where
  "worker_run popen opts g thread_exit j =
     (if thread_exit then Inr (j\<lparr>is_break := True\<rparr>, [])
      else if is_skip j
      then Inr (j, if opt_verbose opts then [''Skip '' @ shell_command j] else [])
      else bind_result (launch_job popen opts g j) (\<lambda>r.
        Inr (j\<lparr>returncode := r_retval r, elapsed_time := r_elapsed r, err_messages := r_stderr r\<rparr>,
             if opt_verbose opts
             then [''Launch '' @ shell_command j] @ r_console r @
                  [''returncode = '' @ show_int (r_retval r),
                   ''---------- begin standard out ----------'', r_stdout r,
                   ''---------- begin standard err ----------'', r_stderr r,
                   ''---------- end standard err ----------''] else [])))"

section \<open>Lemmas\<close>

text \<open>What identifies a job: the fields that no worker changes.\<close>

definition job_key :: "job \<Rightarrow> bool \<times> bool \<times> bool \<times> string \<times> string \<times> string" where
  "job_key j = (is_skip j, is_example j, is_pyexample j, shell_command j, display_name j, tmp_file_name j)"

text \<open>A job that can be launched: a Python example needs an interpreter.\<close>

definition launchable :: "waf_globals \<Rightarrow> job \<Rightarrow> bool" where
  "launchable g j \<longleftrightarrow> is_pyexample j \<longrightarrow> g_python g \<noteq> []"

lemma job_path_cmd_total: "(is_python \<longrightarrow> g_python g \<noteq> []) \<Longrightarrow> \<exists>p. job_path_cmd g s is_python b = Inr p"
  by (cases "g_python g") (auto simp: job_path_cmd_def)

lemma run_job_total:
  "(is_python \<longrightarrow> g_python g \<noteq> []) \<Longrightarrow>
   \<exists>r. run_job_synchronously popen opts g s d v is_python b = Inr r"
  using job_path_cmd_total [of is_python g s b] by (auto simp: run_job_synchronously_def Let_def)

lemma launch_job_total: "launchable g j \<Longrightarrow> \<exists>r. launch_job popen opts g j = Inr r"
  unfolding launch_job_def launchable_def by (auto intro: run_job_total)

lemma worker_run_total:
  "launchable g j \<Longrightarrow> \<exists>j' out. worker_run popen opts g te j = Inr (j', out)"
  using launch_job_total [of g j popen opts] by (auto simp: worker_run_def)

lemma worker_run_key: "worker_run popen opts g te j = Inr (j', out) \<Longrightarrow> job_key j' = job_key j"
  by (auto simp: worker_run_def job_key_def split: if_splits)

lemma worker_run_break:
  "worker_run popen opts g te j = Inr (j', out) \<Longrightarrow> is_break j' = (te \<or> is_break j)"
  by (auto simp: worker_run_def split: if_splits)

lemma job_key_skip: "job_key j = job_key j' \<Longrightarrow> is_skip j = is_skip j'"
  by (simp add: job_key_def)

text \<open>A configuration for the examples below.\<close>

definition sample_globals :: waf_globals where
  "sample_globals = \<lparr>g_basedir = ''/b'', g_builddir = ''/b/build'', g_install_dir = ''/opt'',
     g_module_path = Some [], g_enabled_modules = Some [], g_example_directories = [], g_python = [''python''],
     g_nsc_enabled = False, g_enable_examples = True, g_enable_tests = True,
     g_enable_python_bindings = Some False, g_build_profile = ''debug'', g_valgrind_found = True, g_vars = (\<lambda>_. None)\<rparr>"

lemma launchable_sample: "launchable sample_globals j"
  by (simp add: launchable_def sample_globals_def)

lemma job_retval_zero:
  "job_retval v r = 0 \<longleftrightarrow> p_returncode r = 0 \<and> \<not> (v \<and> contains (p_stderr r) ''== LEAK SUMMARY:'')"
  by (auto simp: job_retval_def)

lemma job_retval_nonzero: "p_returncode r \<noteq> 0 \<Longrightarrow> job_retval v r = p_returncode r"
  by (simp add: job_retval_def)

section \<open>Properties\<close>

text \<open>C6: when a launched job is reported with return code 0.  The process that was run is the
  one composed from the job (a test suite gets the result-file flags, an example its own build
  path), and 0 is reported exactly when that process exited with 0 and, under valgrind, its
  error stream has no leak summary.  A non-zero exit code is never changed.\<close>

theorem worker_pass_iff:
  assumes "worker_run popen opts g False j = Inr (j', out)" and "\<not> is_skip j"
  shows "\<exists>p. job_path_cmd g (if is_example j \<or> is_pyexample j then shell_command j else suite_command opts j)
          (is_pyexample j) (if is_example j \<or> is_pyexample j then build_path j else []) = Inr p \<and>
    (let s = (if is_example j \<or> is_pyexample j then shell_command j else suite_command opts j);
         res = popen (job_command opts g (opt_valgrind opts) s p) (job_cwd j)
     in (returncode j' = 0 \<longleftrightarrow> p_returncode res = 0 \<and>
           \<not> (opt_valgrind opts \<and> contains (p_stderr res) ''== LEAK SUMMARY:'')) \<and>
        (p_returncode res \<noteq> 0 \<longrightarrow> returncode j' = p_returncode res) \<and>
        err_messages j' = p_stderr res)"
proof -
  let ?ex = "is_example j \<or> is_pyexample j"
  let ?s = "if ?ex then shell_command j else suite_command opts j"
  let ?b = "if ?ex then build_path j else []"
  from assms obtain r where r: "launch_job popen opts g j = Inr r"
    and j': "j' = j\<lparr>returncode := r_retval r, elapsed_time := r_elapsed r, err_messages := r_stderr r\<rparr>"
    by (auto simp: worker_run_def)
  from r have "run_job_synchronously popen opts g ?s (job_cwd j) (opt_valgrind opts) (is_pyexample j) ?b = Inr r"
    by (auto simp: launch_job_def split: if_splits)
  then obtain p where p: "job_path_cmd g ?s (is_pyexample j) ?b = Inr p"
    and ret: "r_retval r = job_retval (opt_valgrind opts) (popen (job_command opts g (opt_valgrind opts) ?s p) (job_cwd j))"
    and err: "r_stderr r = p_stderr (popen (job_command opts g (opt_valgrind opts) ?s p) (job_cwd j))"
    by (auto simp: run_job_synchronously_def Let_def)
  show ?thesis
    using p by (intro exI [of _ p] conjI) (simp_all add: j' ret err job_retval_zero job_retval_nonzero Let_def)
qed

theorem worker_pass_iff_witness:
  "returncode (fst (projr (worker_run
      (\<lambda>c d. \<lparr>p_returncode = 0, p_stdout = [], p_stderr = ''==1== LEAK SUMMARY: 4'', p_elapsed = Dyadic 1 0\<rparr>)
      (default_options\<lparr>opt_valgrind := True\<rparr>) sample_globals False new_job))) \<noteq> 0"
proof -
  let ?popen = "\<lambda>c d :: string. \<lparr>p_returncode = 0, p_stdout = [],
    p_stderr = ''==1== LEAK SUMMARY: 4'', p_elapsed = Dyadic 1 0\<rparr>"
  let ?o = "default_options\<lparr>opt_valgrind := True\<rparr>"
  obtain j' out where w: "worker_run ?popen ?o sample_globals False new_job = Inr (j', out)"
    using worker_run_total [OF launchable_sample] by blast
  have "contains ''==1== LEAK SUMMARY: 4'' ''== LEAK SUMMARY:''" by code_simp
  with worker_pass_iff [OF w] have "returncode j' \<noteq> 0" by (auto simp: Let_def new_job_def)
  with w show ?thesis by simp
qed

text \<open>What a worker puts on the output queue.  The identity of the job is kept.  After an
  interrupt the job comes back marked as a break without having run; a job to skip comes back
  unchanged; any other job comes back with the exit code, error text and time of its run.  A
  job whose interpreter is configured always comes back.\<close>

theorem worker_run_cases:
  assumes "launchable g j"
  shows "\<exists>j' out. worker_run popen opts g te j = Inr (j', out) \<and> job_key j' = job_key j \<and>
    (te \<longrightarrow> j' = j\<lparr>is_break := True\<rparr>) \<and>
    (\<not> te \<and> is_skip j \<longrightarrow> j' = j) \<and>
    (\<not> te \<and> \<not> is_skip j \<longrightarrow>
       (\<exists>r. launch_job popen opts g j = Inr r \<and>
            j' = j\<lparr>returncode := r_retval r, elapsed_time := r_elapsed r, err_messages := r_stderr r\<rparr>))"
proof -
  obtain j' out where w: "worker_run popen opts g te j = Inr (j', out)"
    using worker_run_total [OF assms] by blast
  with worker_run_key [OF w] show ?thesis
    by (auto simp: worker_run_def split: if_splits)
qed

theorem worker_run_cases_witness:
  "\<exists>j' out. worker_run (\<lambda>c d. undefined) default_options sample_globals True new_job = Inr (j', out) \<and>
     j' = new_job\<lparr>is_break := True\<rparr>"
  using worker_run_cases [of sample_globals new_job "\<lambda>c d. undefined" default_options True]
  by (auto simp: launchable_sample)

end
