(* ===== verification/Runner_Config.thy ===== *)
theory Runner_Config
  imports Test_Job
begin

text \<open>
  The configuration of \<open>src/test.py\<close>: \<open>read_waf_config\<close>, which reads the lock file and the
  configuration cache of waf, and \<open>make_paths\<close>, which sets the environment variables of the
  processes that are started.

  What the script asks of its surroundings (platform, working directory, clock, \<open>glob\<close>,
  processes) is the record \<open>host\<close>; the process environment is a dictionary.
\<close>

section \<open>Surroundings\<close>

type_synonym environ = "(string, string) dict"

record host =
  h_platform :: string
  h_cwd :: string
  h_script_dir :: string
  h_date :: string
  h_glob :: "string \<Rightarrow> string list"
  h_popen :: popen

section \<open>Reading the waf configuration\<close>

definition interesting_config_items :: "string list" where
  "interesting_config_items =
     [''NS3_ENABLED_MODULES'', ''NS3_MODULE_PATH'', ''NSC_ENABLED'', ''ENABLE_REAL_TIME'',
      ''ENABLE_THREADING'', ''ENABLE_EXAMPLES'', ''ENABLE_TESTS'', ''EXAMPLE_DIRECTORIES'',
      ''ENABLE_PYTHON_BINDINGS'', ''ENABLE_CLICK'', ''ENABLE_OPENFLOW'', ''APPNAME'',
      ''BUILD_PROFILE'', ''VERSION'', ''PYTHON'', ''VALGRIND_FOUND'']"

text \<open>The module-level assignments.\<close>

definition default_vars :: "string \<Rightarrow> pyval option" where
  "default_vars = map_of
     [(''NSC_ENABLED'', VBool False), (''ENABLE_REAL_TIME'', VBool False),
      (''ENABLE_THREADING'', VBool False), (''ENABLE_EXAMPLES'', VBool True),
      (''ENABLE_TESTS'', VBool True), (''ENABLE_CLICK'', VBool False),
      (''ENABLE_OPENFLOW'', VBool False), (''EXAMPLE_DIRECTORIES'', VList []),
      (''APPNAME'', VStr []), (''BUILD_PROFILE'', VStr []), (''VERSION'', VStr []),
      (''PYTHON'', VStr []), (''VALGRIND_FOUND'', VBool True)]"

definition open_lock_file :: "host \<Rightarrow> fs \<Rightarrow> string result" where
  "open_lock_file h fs =
     (case read_file fs (''.lock-waf_'' @ h_platform h @ ''_build'') of
        Inl FileNotFoundError \<Rightarrow>
          (case read_file fs ''.lock-waf_linux2_build'' of
             Inl FileNotFoundError \<Rightarrow> Inl (SystemExit 2)
           | r \<Rightarrow> r)
      | r \<Rightarrow> r)"

record lock =
  l_top_dir :: "pyval option"
  l_out_dir :: "pyval option"
  l_ns3_dir :: "pyval option"

text \<open>\<open>key, val = parts\<close>\<close>

definition two_parts :: "string list \<Rightarrow> (string \<times> string) result" where
  "two_parts parts = (case parts of [a, b] \<Rightarrow> Inr (a, b) | _ \<Rightarrow> Inl ValueError)"

definition lock_value :: "string \<Rightarrow> pyval result" where
  "lock_value line =
     bind_result (two_parts (split_char (CHR ''='') line)) (\<lambda>(key, val). py_eval (\<lambda>_. None) (strip val))"

fun vdict_getitem :: "pyval \<Rightarrow> string \<Rightarrow> pyval result" where
  "vdict_getitem (VDict kvs) k =
     (case map_of (rev kvs) (VStr k) of None \<Rightarrow> Inl KeyError | Some v \<Rightarrow> Inr v)"
| "vdict_getitem _ k = Inl TypeError"

definition lock_options :: "string \<Rightarrow> pyval result" where
  "lock_options line =
     bind_result (two_parts (split_str ''= '' line)) (\<lambda>(key, table).
     bind_result (py_eval (\<lambda>_. None) (strip table)) (\<lambda>t. vdict_getitem t ''with_ns3''))"

definition only_if :: "bool \<Rightarrow> ('a \<Rightarrow> 'a result) \<Rightarrow> 'a \<Rightarrow> 'a result" where
  "only_if b f s = (if b then f s else Inr s)"

definition lock_line :: "lock \<Rightarrow> string \<Rightarrow> lock result" where
  "lock_line l line =
     bind_result (only_if (startswith line ''top_dir ='')
       (\<lambda>l. map_result (\<lambda>v. l\<lparr>l_top_dir := Some v\<rparr>) (lock_value line)) l) (\<lambda>l.
     bind_result (only_if (startswith line ''out_dir ='')
       (\<lambda>l. map_result (\<lambda>v. l\<lparr>l_out_dir := Some v\<rparr>) (lock_value line)) l) (\<lambda>l.
     only_if (startswith line ''options ='')
       (\<lambda>l. map_result (\<lambda>v. l\<lparr>l_ns3_dir := Some v\<rparr>) (lock_options line)) l))"

definition read_lock :: "string \<Rightarrow> lock result" where
  "read_lock t = foldM_result lock_line \<lparr>l_top_dir = None, l_out_dir = None, l_ns3_dir = None\<rparr> (lines_of t)"

text \<open>Reading a local variable that may be unassigned, where a string is needed.\<close>

definition local_str :: "pyval option \<Rightarrow> string result" where
  "local_str v = (case v of None \<Rightarrow> Inl UnboundLocalError | Some x \<Rightarrow> str_of x)"

text \<open>\<open>exec(line, globals())\<close> for an assignment.\<close>

definition exec_line :: "(string \<Rightarrow> pyval option) \<Rightarrow> string \<Rightarrow> (string \<Rightarrow> pyval option) result" where
  "exec_line vars line =
     (case split_once (CHR ''='') line of
        [lhs, rhs] \<Rightarrow>
          if strip lhs \<noteq> [] \<and> is_ident_start (hd (strip lhs)) \<and> list_all is_ident_char (strip lhs)
          then map_result (\<lambda>v. vars(strip lhs \<mapsto> v)) (py_eval vars (strip rhs))
          else Inl Unsupported
      | _ \<Rightarrow> Inl Unsupported)"

definition cache_line :: "(string \<Rightarrow> pyval option) \<Rightarrow> string \<Rightarrow> (string \<Rightarrow> pyval option) result" where
  "cache_line vars line =
     foldM_result (\<lambda>vs item. only_if (startswith line item) (\<lambda>vs. exec_line vs line) vs)
       vars interesting_config_items"

definition read_cache :: "string \<Rightarrow> (string \<Rightarrow> pyval option) result" where
  "read_cache t = foldM_result cache_line default_vars (lines_of t)"

text \<open>The variables by the type at which the script uses them.  A variable without a default may be
  undefined.\<close>

definition opt_items :: "pyval option \<Rightarrow> string list option result" where
  "opt_items v = (case v of None \<Rightarrow> Inr None | Some x \<Rightarrow> map_result Some (str_items x))"

definition truthy_var :: "(string \<Rightarrow> pyval option) \<Rightarrow> string \<Rightarrow> bool" where
  "truthy_var vars name = (case vars name of None \<Rightarrow> False | Some v \<Rightarrow> truthy v)"

definition globals_of :: "string \<Rightarrow> string \<Rightarrow> string \<Rightarrow> (string \<Rightarrow> pyval option) \<Rightarrow> waf_globals result" where
  "globals_of top_dir out ns3 vars =
     bind_result (opt_items (vars ''NS3_MODULE_PATH'')) (\<lambda>module_path.
     bind_result (opt_items (vars ''NS3_ENABLED_MODULES'')) (\<lambda>enabled.
     bind_result (local_str (vars ''BUILD_PROFILE'')) (\<lambda>profile.
     bind_result (opt_items (vars ''EXAMPLE_DIRECTORIES'')) (\<lambda>dirs.
     bind_result (opt_items (vars ''PYTHON'')) (\<lambda>python.
       Inr \<lparr>g_basedir = top_dir, g_builddir = out, g_install_dir = ns3,
            g_module_path = module_path, g_enabled_modules = enabled,
            g_example_directories = (case dirs of None \<Rightarrow> [] | Some ds \<Rightarrow> ds),
            g_python = (case python of None \<Rightarrow> [] | Some py \<Rightarrow> py),
            g_nsc_enabled = truthy_var vars ''NSC_ENABLED'',
            g_enable_examples = truthy_var vars ''ENABLE_EXAMPLES'',
            g_enable_tests = truthy_var vars ''ENABLE_TESTS'',
            g_enable_python_bindings = map_option truthy (vars ''ENABLE_PYTHON_BINDINGS''),
            g_build_profile = profile,
            g_valgrind_found = truthy_var vars ''VALGRIND_FOUND'', g_vars = vars\<rparr>)))))"

text \<open>The lines printed in verbose mode; an undefined item raises.\<close>

definition show_items :: "(string \<Rightarrow> pyval option) \<Rightarrow> string list result" where
  "show_items vars =
     mapM_result (\<lambda>item. case vars item of
         None \<Rightarrow> Inl NameError
       | Some v \<Rightarrow> Inr (item @ '' == '' @ py_str v)) interesting_config_items"

definition read_waf_config :: "host \<Rightarrow> fs \<Rightarrow> options \<Rightarrow> (waf_globals \<times> string list) result" where
  "read_waf_config h fs opts =
     bind_result (open_lock_file h fs) (\<lambda>t.
     bind_result (read_lock t) (\<lambda>l.
     bind_result (local_str (l_top_dir l)) (\<lambda>top_dir.
     bind_result (local_str (l_out_dir l)) (\<lambda>out.
     bind_result (local_str (l_ns3_dir l)) (\<lambda>ns3.
     bind_result (read_file fs (out @ ''/c4che/_cache.py'')) (\<lambda>c.
     bind_result (read_cache c) (\<lambda>vars.
     bind_result (globals_of top_dir out (abspath (h_cwd h) ns3) vars) (\<lambda>g.
       if opt_verbose opts then map_result (\<lambda>ls. (g, ls)) (show_items vars) else Inr (g, [])))))))))"

section \<open>The environment of the processes\<close>

definition env_append :: "string \<Rightarrow> string \<Rightarrow> environ \<Rightarrow> environ result" where
  "env_append k s env = map_result (\<lambda>v. dict_set k (v @ s) env) (dict_getitem env k)"

definition dce_ldlibpath :: "waf_globals \<Rightarrow> string" where
  "dce_ldlibpath g =
     path_join (g_builddir g) ''lib'' @ '':'' @ path_join (g_builddir g) ''bin'' @ '':'' @
     path_join (g_builddir g) ''bin_dce'' @ '':'' @ path_join (g_install_dir g) ''lib'' @ '':'' @
     path_join (g_install_dir g) ''lib64'' @ '':'' @ path_join (g_install_dir g) ''sbin'' @ '':'' @
     path_join (g_install_dir g) ''bin_dce'' @ '':'' @ path_join (g_install_dir g) ''bin''"

definition python_path :: "waf_globals \<Rightarrow> string" where
  "python_path g = path_joins (g_builddir g) [''bindings'', ''python'']"

text \<open>The module path appended to a variable, which is first set to the empty string when it was
  not there.\<close>

definition extend_path :: "waf_globals \<Rightarrow> string \<Rightarrow> string \<Rightarrow> bool \<Rightarrow> environ \<Rightarrow> environ result" where
  "extend_path g k sep have_k env =
     (case g_module_path g of
        None \<Rightarrow> Inl NameError
      | Some paths \<Rightarrow> foldM_result (\<lambda>e path. env_append k (sep @ path) e)
                       (if \<not> have_k then dict_set k [] env else env) paths)"

definition show_env :: "options \<Rightarrow> string \<Rightarrow> environ \<Rightarrow> string list result" where
  "show_env opts k env =
     (if opt_verbose opts
      then map_result (\<lambda>v. [''os.environ['' @ dquote @ k @ dquote @ ''] == '' @ v]) (dict_getitem env k)
      else Inr [])"

text \<open>\<open>os.pathsep.join\<close> of the values that are set and not empty.\<close>

definition join_set :: "string option list \<Rightarrow> string" where
  "join_set vs = join_str '':'' (map the (filter (\<lambda>v. v \<noteq> None \<and> v \<noteq> Some []) vs))"

definition dce_environ :: "waf_globals \<Rightarrow> environ \<Rightarrow> environ result" where
  "dce_environ g env =
     bind_result (dict_getitem env ''LD_LIBRARY_PATH'') (\<lambda>ld.
       let env' = dict_set ''DCE_PATH'' (join_set [dict_get env ''DCE_PATH'', Some ld]) env
       in Inr (dict_set ''DCE_ROOT''
            (join_set [dict_get env' ''DCE_ROOT'', Some (g_builddir g), Some (g_install_dir g)]) env'))"

definition make_paths :: "host \<Rightarrow> options \<Rightarrow> waf_globals \<Rightarrow> environ \<Rightarrow> (environ \<times> string list) result" where
  "make_paths h opts g env0 =
     (let env1 = dict_set ''PYTHONPATH'' (python_path g) env0
      in bind_result (if \<not> dict_has env0 ''PYTHONPATH'' then Inr (dict_set ''PYTHONPATH'' (python_path g) env1)
                      else env_append ''PYTHONPATH'' ('':'' @ python_path g) env1) (\<lambda>env2.
         bind_result (show_env opts ''PYTHONPATH'' env2) (\<lambda>out1.
         if h_platform h = ''darwin'' then
           bind_result (extend_path g ''DYLD_LIBRARY_PATH'' '':'' (dict_has env0 ''DYLD_LIBRARY_PATH'') env2) (\<lambda>env3.
           map_result (\<lambda>out2. (env3, out1 @ out2)) (show_env opts ''DYLD_LIBRARY_PATH'' env3))
         else if h_platform h = ''win32'' then
           bind_result (extend_path g ''PATH'' '';'' (dict_has env0 ''PATH'') env2) (\<lambda>env3.
           map_result (\<lambda>out2. (env3, out1 @ out2)) (show_env opts ''PATH'' env3))
         else if h_platform h = ''cygwin'' then
           bind_result (extend_path g ''PATH'' '':'' (dict_has env0 ''PATH'') env2) (\<lambda>env3.
           map_result (\<lambda>out2. (env3, out1 @ out2)) (show_env opts ''PATH'' env3))
         else
           bind_result (extend_path g ''LD_LIBRARY_PATH'' '':'' (dict_has env0 ''LD_LIBRARY_PATH'') env2) (\<lambda>env3.
           bind_result (env_append ''LD_LIBRARY_PATH'' ('':'' @ dce_ldlibpath g) env3) (\<lambda>env4.
           bind_result (show_env opts ''LD_LIBRARY_PATH'' env4) (\<lambda>out2.
           map_result (\<lambda>env5. (env5, out1 @ out2)) (dce_environ g env4)))))))"

section \<open>Lemmas\<close>

text \<open>A missing variable reads as the empty string.\<close>

definition env_val :: "environ \<Rightarrow> string \<Rightarrow> string" where
  "env_val env k = (case dict_get env k of None \<Rightarrow> [] | Some v \<Rightarrow> v)"

lemma env_append_get:
  "dict_get env k = Some v \<Longrightarrow> env_append k s env = Inr (dict_set k (v @ s) env)"
  by (simp add: env_append_def dict_getitem_def)

lemma dict_set_set [simp]: "dict_set k v (dict_set k u d) = dict_set k v d"
  by (induction d) auto

lemma dict_set_same: "dict_get d k = Some v \<Longrightarrow> dict_set k v d = d"
  by (induction d) (auto simp: dict_get_def)

lemma append_all:
  "dict_get env k = Some v \<Longrightarrow>
   foldM_result (\<lambda>e path. env_append k (sep @ path) e) env paths =
     Inr (dict_set k (v @ concat (map (\<lambda>p. sep @ p) paths)) env)"
proof (induction paths arbitrary: env v)
  case (Cons p paths)
  then show ?case
    by (simp add: env_append_get Cons.IH [where v = "v @ sep @ p"])
qed (simp add: dict_set_same)

lemma extend_path_eq:
  assumes "g_module_path g = Some paths" "have_k = dict_has env k"
  shows "extend_path g k sep have_k env =
    Inr (dict_set k (env_val env k @ concat (map (\<lambda>p. sep @ p) paths)) env)"
proof (cases "dict_get env k")
  case None
  then show ?thesis using assms append_all [of "dict_set k [] env" k "[]" sep paths]
    by (simp add: extend_path_def dict_has_def env_val_def)
next
  case (Some v)
  then show ?thesis using assms append_all [OF Some, of sep paths]
    by (simp add: extend_path_def dict_has_def env_val_def)
qed

lemma show_env_total: "dict_get env k = Some v \<Longrightarrow> \<exists>ls. show_env opts k env = Inr ls"
  by (simp add: show_env_def dict_getitem_def)

lemma dict_get_set_other [simp]: "k \<noteq> k' \<Longrightarrow> dict_get (dict_set k' v d) k = dict_get d k"
  by simp

lemma env_val_set_other [simp]: "k \<noteq> k' \<Longrightarrow> env_val (dict_set k' v d) k = env_val d k"
  by (simp add: env_val_def)

definition python_path_value :: "waf_globals \<Rightarrow> environ \<Rightarrow> string" where
  "python_path_value g env0 =
     (if dict_has env0 ''PYTHONPATH'' then python_path g @ '':'' @ python_path g else python_path g)"

lemma python_path_step:
  "(if \<not> dict_has env0 ''PYTHONPATH''
    then Inr (dict_set ''PYTHONPATH'' (python_path g) (dict_set ''PYTHONPATH'' (python_path g) env0))
    else env_append ''PYTHONPATH'' ('':'' @ python_path g) (dict_set ''PYTHONPATH'' (python_path g) env0)) =
   Inr (dict_set ''PYTHONPATH'' (python_path_value g env0) env0)"
  by (simp add: python_path_value_def env_append_get)

lemma dict_has_set_other: "k \<noteq> k' \<Longrightarrow> dict_has (dict_set k' v d) k = dict_has d k"
  by (simp add: dict_has_def)

lemma extend_path_other:
  assumes "extend_path g k' sep b env = Inr env'" "k \<noteq> k'"
  shows "dict_get env' k = dict_get env k"
proof -
  have "dict_get e k = dict_get e0 k"
    if "foldM_result (\<lambda>e path. env_append k' (sep @ path) e) e0 paths = Inr e" for e e0 paths
    by (rule foldM_result_invariant [OF that, where I = "\<lambda>x. dict_get x k = dict_get e0 k"])
       (use assms(2) in \<open>auto simp: env_append_def\<close>)
  with assms show ?thesis by (fastforce simp: extend_path_def split: option.splits)
qed

lemmas python_path_kept =
  extend_path_other [where k = "''PYTHONPATH''" and k' = "''PATH''", simplified]
  extend_path_other [where k = "''PYTHONPATH''" and k' = "''DYLD_LIBRARY_PATH''", simplified]
  extend_path_other [where k = "''PYTHONPATH''" and k' = "''LD_LIBRARY_PATH''", simplified]

text \<open>Surroundings for the examples below.\<close>

definition sample_host :: "string \<Rightarrow> host" where
  "sample_host platform = \<lparr>h_platform = platform, h_cwd = ''/'', h_script_dir = ''/'', h_date = [],
     h_glob = (\<lambda>_. []),
     h_popen = (\<lambda>_ _. \<lparr>p_returncode = 0, p_stdout = [], p_stderr = [], p_elapsed = Dyadic 0 0\<rparr>)\<rparr>"

section \<open>Properties\<close>

text \<open>The environment on Linux.  \<open>make_paths\<close> always succeeds there; the library path is the
  user's value followed by the module path and the directories of the build and the
  installation; the two DCE variables put the user's value, if there is one, before the library
  path and the two trees; no other variable than these and \<open>PYTHONPATH\<close> changes.\<close>

theorem make_paths_linux:
  assumes "h_platform h \<notin> {''darwin'', ''win32'', ''cygwin''}" "g_module_path g = Some paths"
  shows "\<exists>env ls. make_paths h opts g env0 = Inr (env, ls) \<and>
    dict_get env ''LD_LIBRARY_PATH'' =
      Some (env_val env0 ''LD_LIBRARY_PATH'' @ concat (map (\<lambda>p. '':'' @ p) paths) @ '':'' @ dce_ldlibpath g) \<and>
    dict_get env ''DCE_PATH'' = Some (join_set [dict_get env0 ''DCE_PATH'', dict_get env ''LD_LIBRARY_PATH'']) \<and>
    dict_get env ''DCE_ROOT'' =
      Some (join_set [dict_get env0 ''DCE_ROOT'', Some (g_builddir g), Some (g_install_dir g)]) \<and>
    (\<forall>k. k \<notin> {''PYTHONPATH'', ''LD_LIBRARY_PATH'', ''DCE_PATH'', ''DCE_ROOT''} \<longrightarrow> dict_get env k = dict_get env0 k)"
proof -
  define ld where "ld = env_val env0 ''LD_LIBRARY_PATH'' @ concat (map (\<lambda>p. '':'' @ p) paths) @ '':'' @ dce_ldlibpath g"
  define env2 where "env2 = dict_set ''PYTHONPATH'' (python_path_value g env0) env0"
  define env4 where "env4 = dict_set ''LD_LIBRARY_PATH'' ld env2"
  define env5 where "env5 = dict_set ''DCE_PATH'' (join_set [dict_get env4 ''DCE_PATH'', Some ld]) env4"
  define env6 where "env6 = dict_set ''DCE_ROOT''
    (join_set [dict_get env5 ''DCE_ROOT'', Some (g_builddir g), Some (g_install_dir g)]) env5"
  have hk: "dict_has env0 ''LD_LIBRARY_PATH'' = dict_has env2 ''LD_LIBRARY_PATH''"
    by (simp add: env2_def dict_has_set_other)
  obtain out1 where out1: "show_env opts ''PYTHONPATH'' env2 = Inr out1"
    using show_env_total by (force simp: env2_def)
  obtain out2 where out2: "show_env opts ''LD_LIBRARY_PATH'' env4 = Inr out2"
    using show_env_total by (force simp: env4_def)
  have ext: "extend_path g ''LD_LIBRARY_PATH'' '':'' (dict_has env0 ''LD_LIBRARY_PATH'') env2 =
      Inr (dict_set ''LD_LIBRARY_PATH'' (env_val env2 ''LD_LIBRARY_PATH'' @ concat (map (\<lambda>p. '':'' @ p) paths)) env2)"
    by (rule extend_path_eq [OF assms(2) hk])
  have app: "env_append ''LD_LIBRARY_PATH'' ('':'' @ dce_ldlibpath g)
      (dict_set ''LD_LIBRARY_PATH'' (env_val env2 ''LD_LIBRARY_PATH'' @ concat (map (\<lambda>p. '':'' @ p) paths)) env2) = Inr env4"
    by (simp add: env_append_get env4_def ld_def env2_def)
  have dce: "dce_environ g env4 = Inr env6"
    by (simp add: dce_environ_def dict_getitem_def env4_def env5_def env6_def Let_def)
  have "make_paths h opts g env0 = Inr (env6, out1 @ out2)"
    using assms(1) unfolding make_paths_def Let_def python_path_step env2_def [symmetric]
    by (simp only: bind_result_simps map_result_simps out1 ext app out2 dce) simp
  then show ?thesis
    by (intro exI [of _ env6] exI [of _ "out1 @ out2"]) (simp add: env6_def env5_def env4_def env2_def ld_def)
qed

theorem make_paths_linux_witness:
  "\<exists>env ls. make_paths (sample_host ''linux'') default_options sample_globals [(''HOME'', ''/h'')] = Inr (env, ls) \<and>
     dict_get env ''HOME'' = Some ''/h''"
proof -
  have p: "h_platform (sample_host ''linux'') \<notin> {''darwin'', ''win32'', ''cygwin''}"
    by (simp add: sample_host_def)
  have m: "g_module_path sample_globals = Some []" by (simp add: sample_globals_def)
  from make_paths_linux [OF p m, of default_options "[(''HOME'', ''/h'')]"] obtain env ls
    where e: "make_paths (sample_host ''linux'') default_options sample_globals [(''HOME'', ''/h'')] = Inr (env, ls)"
      and k: "\<forall>k. k \<notin> {''PYTHONPATH'', ''LD_LIBRARY_PATH'', ''DCE_PATH'', ''DCE_ROOT''} \<longrightarrow>
        dict_get env k = dict_get [(''HOME'', ''/h'')] k" by blast
  from k [rule_format, of "''HOME''"] have "dict_get env ''HOME'' = Some ''/h''" by (simp add: dict_get_def)
  with e show ?thesis by blast
qed

text \<open>The Python path.  On every platform, \<open>PYTHONPATH\<close> becomes the directory of the bindings
  when it was not set, and that directory twice when it was: the user's own entries are lost.\<close>

theorem make_paths_pythonpath:
  assumes "make_paths h opts g env0 = Inr (env, ls)"
  shows "dict_get env ''PYTHONPATH'' =
    Some (if dict_has env0 ''PYTHONPATH'' then python_path g @ '':'' @ python_path g else python_path g)"
proof -
  let ?env2 = "dict_set ''PYTHONPATH'' (python_path_value g env0) env0"
  have "dict_get env ''PYTHONPATH'' = dict_get ?env2 ''PYTHONPATH''"
    using assms unfolding make_paths_def Let_def python_path_step
    by (auto simp: dce_environ_def env_append_def Let_def dest!: python_path_kept split: if_splits)
  then show ?thesis by (simp add: python_path_value_def)
qed

theorem make_paths_pythonpath_witness:
  "\<exists>env ls. make_paths (sample_host ''cygwin'') default_options sample_globals [(''PYTHONPATH'', ''/mine'')] = Inr (env, ls) \<and>
     dict_get env ''PYTHONPATH'' = Some ''/b/build/bindings/python:/b/build/bindings/python''"
proof -
  let ?h = "sample_host ''cygwin''"
  have "\<exists>r. make_paths ?h default_options sample_globals [(''PYTHONPATH'', ''/mine'')] = Inr r"
    unfolding make_paths_def Let_def python_path_step
    by (simp add: extend_path_def sample_globals_def show_env_def default_options_def sample_host_def)
  then obtain env ls where e: "make_paths ?h default_options sample_globals [(''PYTHONPATH'', ''/mine'')] = Inr (env, ls)"
    by auto
  have "python_path sample_globals = ''/b/build/bindings/python''" by code_simp
  with make_paths_pythonpath [OF e] e show ?thesis by (simp add: dict_has_def dict_get_def)
qed

end
