(* ===== verification/Dispatch.thy ===== *)
theory Dispatch
  imports Runner_Config Config_Files
begin

text \<open>
  The first half of \<open>run_tests\<close> in \<open>src/test.py\<close>: it runs waf, collects the examples of the
  \<open>examples-to-run.py\<close> files, answers \<open>--kinds\<close> and \<open>--list\<close>, selects the test suites and
  makes the job of every suite and example.

  The file system is read before the build (\<open>fs0\<close>) and after it (\<open>fs\<close>).
\<close>

section \<open>The examples to run\<close>

record examples =
  ex_cpp :: "(string \<times> string \<times> string) list"
  ex_original :: "(string \<times> string \<times> string) list"
  ex_python :: "(string \<times> string) list"

definition unpack3 :: "pyval \<Rightarrow> (string \<times> string \<times> string) result" where
  "unpack3 v = bind_result (items_of v) (\<lambda>xs. case xs of
       [a, b, c] \<Rightarrow>
         bind_result (str_of a) (\<lambda>a. bind_result (str_of b) (\<lambda>b. map_result (\<lambda>c. (a, b, c)) (str_of c)))
     | _ \<Rightarrow> Inl ValueError)"

definition unpack2 :: "pyval \<Rightarrow> (string \<times> string) result" where
  "unpack2 v = bind_result (items_of v) (\<lambda>xs. case xs of
       [a, b] \<Rightarrow> bind_result (str_of a) (\<lambda>a. map_result (\<lambda>b. (a, b)) (str_of b))
     | _ \<Rightarrow> Inl ValueError)"

text \<open>The path of an example without and with its arguments.\<close>

definition example_file :: "string \<Rightarrow> string \<Rightarrow> string" where
  "example_file dir example_name = path_join dir (hd (split_once (CHR '' '') example_name))"

definition example_path :: "string \<Rightarrow> string \<Rightarrow> string" where
  "example_path dir example_name =
     (case split_once (CHR '' '') example_name of
        [name, arguments] \<Rightarrow> example_file dir example_name @ '' '' @ arguments
      | _ \<Rightarrow> example_file dir example_name)"

definition add_cpp_example :: "fs \<Rightarrow> string \<Rightarrow> examples \<Rightarrow> pyval \<Rightarrow> examples result" where
  "add_cpp_example fs dir ex v =
     map_result (\<lambda>(example_name, do_run, do_valgrind_run).
       if path_exists fs (example_file dir example_name)
       then ex\<lparr>ex_cpp := ex_cpp ex @ [(example_path dir example_name, do_run, do_valgrind_run)],
               ex_original := ex_original ex @ [(example_name, do_run, do_valgrind_run)]\<rparr>
       else ex) (unpack3 v)"

definition add_python_example :: "fs \<Rightarrow> string \<Rightarrow> examples \<Rightarrow> pyval \<Rightarrow> examples result" where
  "add_python_example fs dir ex v =
     map_result (\<lambda>(example_name, do_run).
       if path_exists fs (example_file dir example_name)
       then ex\<lparr>ex_python := ex_python ex @ [(example_path dir example_name, do_run)]\<rparr>
       else ex) (unpack2 v)"

definition parse_examples_to_run_file ::
    "fs \<Rightarrow> string \<Rightarrow> string \<Rightarrow> string \<Rightarrow> examples \<Rightarrow> examples result" where
  "parse_examples_to_run_file fs examples_to_run_path cpp_executable_dir python_script_dir ex =
     (if path_exists fs examples_to_run_path
      then bind_result (get_list_from_file fs examples_to_run_path ''cpp_examples'') (\<lambda>cpp_examples.
           bind_result (items_of cpp_examples) (\<lambda>cs.
           bind_result (foldM_result (add_cpp_example fs cpp_executable_dir) ex cs) (\<lambda>ex.
           bind_result (get_list_from_file fs examples_to_run_path ''python_examples'') (\<lambda>python_examples.
           bind_result (items_of python_examples) (\<lambda>ps.
             foldM_result (add_python_example fs python_script_dir) ex ps)))))
      else Inr ex)"

text \<open>The three loops over the example directories, the enabled modules and \<open>myscripts\<close>.\<close>

definition directory_examples :: "fs \<Rightarrow> waf_globals \<Rightarrow> examples \<Rightarrow> string \<Rightarrow> examples result" where
  "directory_examples fs g ex directory =
     (let example_directory = path_join ''example'' directory
      in parse_examples_to_run_file fs (path_join example_directory ''examples-to-run.py'')
           (path_join (g_builddir g) ''bin'') example_directory ex)"

definition module_examples :: "fs \<Rightarrow> waf_globals \<Rightarrow> examples \<Rightarrow> string \<Rightarrow> examples result" where
  "module_examples fs g ex m =
     (let module_directory = path_join ''src'' (drop (length ''ns3-'') m);
          example_directory = path_join module_directory ''examples''
      in parse_examples_to_run_file fs (path_joins module_directory [''test'', ''examples-to-run.py''])
           (path_join (g_builddir g) example_directory) example_directory ex)"

definition myscripts_examples :: "fs \<Rightarrow> waf_globals \<Rightarrow> examples \<Rightarrow> string \<Rightarrow> examples result" where
  "myscripts_examples fs g ex sub =
     parse_examples_to_run_file fs (path_join sub ''examples-to-run.py'')
       (path_joins (g_builddir g) [replace_str ''example'' [] sub, ''bin'']) sub ex"

definition collect_examples :: "host \<Rightarrow> fs \<Rightarrow> waf_globals \<Rightarrow> examples result" where
  "collect_examples h fs g =
     bind_result (foldM_result (directory_examples fs g)
       \<lparr>ex_cpp = [], ex_original = [], ex_python = []\<rparr> (g_example_directories g)) (\<lambda>ex.
     bind_result (case g_enabled_modules g of
         None \<Rightarrow> Inl NameError
       | Some ms \<Rightarrow> foldM_result (module_examples fs g) ex ms) (\<lambda>ex.
     foldM_result (myscripts_examples fs g) ex (h_glob h ''myscripts/*/example'')))"

section \<open>The build\<close>

definition build_profile_suffix :: "waf_globals \<Rightarrow> string" where
  "build_profile_suffix g = (if g_build_profile g = ''release'' then [] else ''-'' @ g_build_profile g)"

definition test_runner_name :: "options \<Rightarrow> string" where
  "test_runner_name opts = (if \<not> opt_dlm_test_runner opts then ''test-runner'' else ''test-runner-vdl'')"

definition dce_runner_path :: "host \<Rightarrow> options \<Rightarrow> string" where
  "dce_runner_path h opts =
     (if opt_dlm_test_runner opts then path_joins (h_script_dir h) [''build'', ''bin'', ''dce-runner''] else [])"

definition loader_environ :: "options \<Rightarrow> environ \<Rightarrow> environ" where
  "loader_environ opts env =
     (if opt_dlm_test_runner opts
      then dict_set ''NS_ATTRIBUTE_DEFAULT'' ''ns3::DceManagerHelper::LoaderFactory=ns3::DlmLoaderFactory[];ns3::TaskManager::FiberManagerType=UcontextFiberManager'' env
      else env)"

definition waf_command :: "host \<Rightarrow> options \<Rightarrow> string" where
  "waf_command h opts =
     (if opt_kinds opts \<or> opt_list opts \<or> (opt_constrain opts \<noteq> [] \<and> opt_constrain opts \<in> set core_kinds)
      then (if h_platform h = ''win32'' then ''waf --target=test-runner'' else ''./waf'')
      else if opt_example opts \<noteq> []
      then (if h_platform h = ''win32'' then ''waf --target='' @ basename (opt_example opts) else ''./waf'')
      else (if h_platform h = ''win32'' then ''waf'' else ''./waf''))"

text \<open>The exit code of waf (0 when it is not run) and the line printed.\<close>

definition run_waf :: "host \<Rightarrow> options \<Rightarrow> int \<times> string list" where
  "run_waf h opts =
     (if opt_nowaf opts then (0, [])
      else let rc = p_returncode (h_popen h (waf_command h opts) (h_cwd h))
           in (rc, (if opt_verbose opts then [''Building: '' @ waf_command h opts] else []) @
                   (if rc \<noteq> 0 then [''Waf died. Not running tests''] else [])))"

definition read_build_status :: "fs \<Rightarrow> waf_globals \<Rightarrow> (string list \<times> string list) result" where
  "read_build_status fs g =
     (let build_status_file = path_join (g_builddir g) ''build-status.py''
      in if path_exists fs build_status_file
         then bind_result (get_list_from_file fs build_status_file ''ns3_runnable_programs'') (\<lambda>programs.
              bind_result (get_list_from_file fs build_status_file ''ns3_runnable_scripts'') (\<lambda>scripts.
              bind_result (str_items programs) (\<lambda>ps. map_result (\<lambda>ss. (ps, ss)) (str_items scripts))))
         else Inl (SystemExit 2))"

definition programs_dictionary :: "string list \<Rightarrow> (string, string) dict" where
  "programs_dictionary programs = foldl (\<lambda>d p. dict_set (basename p) p d) [] programs"

section \<open>Questions to the test runner\<close>

definition query :: "host \<Rightarrow> options \<Rightarrow> waf_globals \<Rightarrow> string \<Rightarrow> string \<Rightarrow> job_run result" where
  "query h opts g dir args =
     run_job_synchronously (h_popen h) opts g (path_join dir (test_runner_name opts @ args)) (h_cwd h) False False []"

definition print_kinds :: "host \<Rightarrow> options \<Rightarrow> waf_globals \<Rightarrow> string list result" where
  "print_kinds h opts g =
     map_result (\<lambda>r. r_console r @ [r_stdout r @ '' '' @ r_stderr r])
       (query h opts g ''bin'' '' --print-test-type-list'')"

definition print_list :: "host \<Rightarrow> options \<Rightarrow> waf_globals \<Rightarrow> examples \<Rightarrow> string list result" where
  "print_list h opts g ex =
     map_result (\<lambda>r.
       r_console r @ [''Test Type    Test Name'', ''---------    ---------''] @
       filter (\<lambda>item. strip item \<noteq> []) (sort (split_char (CHR 0x0A) (r_stdout r))) @
       map (\<lambda>item. ''example      '' @ fst item) (filter (\<lambda>item. fst (snd item) = ''True'') (sort (ex_original ex))) @
       [[]])
       (query h opts g ''bin''
          ('' --print-test-name-list --print-test-types'' @
           (if opt_constrain opts \<noteq> [] then '' --test-type='' @ opt_constrain opts else [])))"

section \<open>The test suites\<close>

definition select_suites :: "host \<Rightarrow> options \<Rightarrow> waf_globals \<Rightarrow> (string \<times> string list) result" where
  "select_suites h opts g =
     (if opt_suite opts \<noteq> []
      then bind_result (query h opts g ''bin'' '' --print-test-name-list'') (\<lambda>r.
             if contains (r_stdout r) (opt_suite opts) then Inr (opt_suite opts @ nl, r_console r)
             else Inl (SystemExit 2))
      else if opt_example opts = [] \<and> opt_pyexample opts = []
      then map_result (\<lambda>r. (r_stdout r, r_console r))
             (query h opts g ''bin'' ('' --print-test-name-list'' @
                (if opt_constrain opts \<noteq> [] then '' --test-type='' @ opt_constrain opts else [])))
      else Inr ([], []))"

fun remove_performance :: "string list \<Rightarrow> string list \<Rightarrow> string list" where
  "remove_performance [] suite_list = suite_list"
| "remove_performance (p # ps) suite_list =
     remove_performance ps (if p \<in> set suite_list then remove1 p suite_list else suite_list)"

definition suite_names :: "host \<Rightarrow> options \<Rightarrow> waf_globals \<Rightarrow> (string list \<times> string list) result" where
  "suite_names h opts g =
     bind_result (select_suites h opts g) (\<lambda>(suites, out1).
       let suite_list = split_char (CHR 0x0A) suites
       in if opt_constrain opts \<noteq> ''performance''
          then map_result (\<lambda>r. (remove_performance (split_char (CHR 0x0A) (r_stdout r)) suite_list, out1 @ r_console r))
                 (query h opts g ''utils'' '' --print-test-name-list --test-type=performance'')
          else Inr (suite_list, out1))"

section \<open>The jobs\<close>

text \<open>A job with the name that is printed when it is queued.\<close>

type_synonym queued = "job \<times> string"

definition base_job :: "host \<Rightarrow> string \<Rightarrow> string \<Rightarrow> job" where
  "base_job h testpy_output_dir name =
     new_job\<lparr>display_name := name, tmp_file_name := [], job_cwd := testpy_output_dir,
             basedir := h_cwd h, tempdir := testpy_output_dir\<rparr>"

definition suite_args :: "options \<Rightarrow> string \<Rightarrow> string" where
  "suite_args opts test =
     '' --test-name='' @ test @
     (if opt_multiple opts then [] else '' --stop-on-failure'') @
     (if opt_fullness opts \<noteq> [] then '' --fullness='' @ upper (opt_fullness opts) else '' --fullness=QUICK'')"

definition suite_skipped :: "options \<Rightarrow> waf_globals \<Rightarrow> string \<Rightarrow> bool" where
  "suite_skipped opts g test \<longleftrightarrow>
     (opt_valgrind opts \<and> test \<in> set core_valgrind_skip_tests) \<or>
     (\<not> g_nsc_enabled g \<and> test \<in> set core_nsc_missing_skip_tests)"

definition suite_job :: "host \<Rightarrow> options \<Rightarrow> waf_globals \<Rightarrow> string \<Rightarrow> string \<Rightarrow> job" where
  "suite_job h opts g dir test =
     (base_job h dir test)\<lparr>tmp_file_name := test @ ''.xml'',
        shell_command := path_join ''bin'' (test_runner_name opts @ suite_args opts test),
        is_skip := suite_skipped opts g test\<rparr>"

definition suite_jobs :: "host \<Rightarrow> options \<Rightarrow> waf_globals \<Rightarrow> string \<Rightarrow> string list \<Rightarrow> queued list" where
  "suite_jobs h opts g dir suite_list =
     concat (map (\<lambda>test. if strip test \<noteq> [] then [(suite_job h opts g dir (strip test), strip test)] else []) suite_list)"

text \<open>\<open>if eval(condition)\<close>\<close>

definition eval_condition :: "waf_globals \<Rightarrow> string \<Rightarrow> bool result" where
  "eval_condition g c = map_result truthy (py_eval (g_vars g) c)"

definition program_name :: "string \<Rightarrow> string" where
  "program_name test = basename (hd (split_once (CHR '' '') test))"

definition launch_command :: "host \<Rightarrow> options \<Rightarrow> string \<Rightarrow> string" where
  "launch_command h opts test =
     (if dce_runner_path h opts \<noteq> [] then dce_runner_path h opts @ '' '' @ test else test)"

definition example_job ::
    "host \<Rightarrow> options \<Rightarrow> waf_globals \<Rightarrow> string \<Rightarrow> string list \<Rightarrow> string \<times> string \<times> string \<Rightarrow> queued list result" where
  "example_job h opts g dir programs = (\<lambda>(test, do_run, do_valgrind_run).
     if program_name test \<in> set programs
     then bind_result (eval_condition g do_run) (\<lambda>run.
            if run
            then map_result (\<lambda>skip.
                   [((base_job h dir (basename test))\<lparr>is_example := True,
                      shell_command := launch_command h opts test,
                      build_path := opt_buildpath opts, is_skip := skip\<rparr>, test)])
                   (if opt_valgrind opts then map_result Not (eval_condition g do_valgrind_run) else Inr False)
            else Inr [])
     else Inr [])"

definition pyexample_job ::
    "host \<Rightarrow> options \<Rightarrow> waf_globals \<Rightarrow> string \<Rightarrow> string list \<Rightarrow> string \<times> string \<Rightarrow> queued list result" where
  "pyexample_job h opts g dir scripts = (\<lambda>(test, do_run).
     if program_name test \<in> set scripts
     then bind_result (eval_condition g do_run) (\<lambda>run.
            if run
            then (case g_enable_python_bindings g of
                    None \<Rightarrow> Inl NameError
                  | Some bindings \<Rightarrow>
                      Inr [((base_job h dir (program_name test))\<lparr>is_pyexample := True,
                             shell_command := launch_command h opts test, build_path := [],
                             is_skip := opt_valgrind opts \<or> \<not> bindings\<rparr>, test)])
            else Inr [])
     else Inr [])"

definition single_example_command :: "host \<Rightarrow> fs \<Rightarrow> options \<Rightarrow> waf_globals \<Rightarrow> string result" where
  "single_example_command h fs opts g =
     (let (dir_part, example_name) = path_split (opt_example opts);
          path = path_join dir_part example_name
      in if dce_runner_path h opts \<noteq> [] then Inr (dce_runner_path h opts @ '' '' @ path)
         else if \<not> path_exists fs (g_builddir g @ ''/'' @ ''bin/'' @ path)
         then (case h_glob h (g_builddir g @ ''/myscripts/*/bin/'' @ example_name) of
                 [] \<Rightarrow> Inl IndexError
               | q # _ \<Rightarrow> Inr q)
         else Inr (''bin/'' @ path))"

definition single_example_job ::
    "host \<Rightarrow> fs \<Rightarrow> options \<Rightarrow> waf_globals \<Rightarrow> string \<Rightarrow> string list \<Rightarrow> queued list result" where
  "single_example_job h fs opts g dir programs =
     (let example_name = basename (opt_example opts)
      in if example_name \<notin> set programs then Inr []
         else map_result (\<lambda>cmd.
                [((base_job h dir example_name)\<lparr>is_example := True, shell_command := cmd,
                   build_path := opt_buildpath opts\<rparr>, example_name)])
              (single_example_command h fs opts g))"

definition single_pyexample_job :: "host \<Rightarrow> options \<Rightarrow> string \<Rightarrow> string list \<Rightarrow> queued list" where
  "single_pyexample_job h opts dir scripts =
     (if basename (opt_pyexample opts) \<notin> set scripts then []
      else [((base_job h dir (opt_pyexample opts))\<lparr>is_pyexample := True,
              shell_command := opt_pyexample opts, build_path := []\<rparr>, opt_pyexample opts)])"

definition no_selection :: "options \<Rightarrow> bool" where
  "no_selection opts \<longleftrightarrow> opt_suite opts = [] \<and> opt_example opts = [] \<and> opt_pyexample opts = []"

definition example_jobs ::
    "host \<Rightarrow> fs \<Rightarrow> options \<Rightarrow> waf_globals \<Rightarrow> string \<Rightarrow> examples \<Rightarrow> string list \<Rightarrow> queued list result" where
  "example_jobs h fs opts g dir ex programs =
     (if no_selection opts
      then (if (opt_constrain opts = [] \<or> opt_constrain opts = ''example'') \<and> g_enable_examples g
            then map_result concat (mapM_result (example_job h opts g dir programs) (ex_cpp ex))
            else Inr [])
      else if opt_example opts \<noteq> [] then single_example_job h fs opts g dir programs
      else Inr [])"

definition pyexample_jobs ::
    "host \<Rightarrow> options \<Rightarrow> waf_globals \<Rightarrow> string \<Rightarrow> examples \<Rightarrow> string list \<Rightarrow> queued list result" where
  "pyexample_jobs h opts g dir ex scripts =
     (if no_selection opts
      then (if (opt_constrain opts = [] \<or> opt_constrain opts = ''pyexample'') \<and> g_enable_examples g
            then map_result concat (mapM_result (pyexample_job h opts g dir scripts) (ex_python ex))
            else Inr [])
      else if opt_pyexample opts \<noteq> [] then Inr (single_pyexample_job h opts dir scripts)
      else Inr [])"

text \<open>The note about a requested example that is not runnable.\<close>

definition not_runnable_line :: "string \<Rightarrow> string list \<Rightarrow> string list" where
  "not_runnable_line name runnable =
     (if name \<noteq> [] \<and> basename name \<notin> set runnable
      then [''Example '' @ basename name @ '' is not runnable.''] else [])"

definition queue_lines :: "options \<Rightarrow> queued list \<Rightarrow> string list" where
  "queue_lines opts qs = (if opt_verbose opts then map (\<lambda>q. ''Queue '' @ snd q) qs else [])"

text \<open>The jobs put on the input queue, in order, and the lines printed meanwhile.\<close>

definition dispatch_jobs ::
    "host \<Rightarrow> fs \<Rightarrow> options \<Rightarrow> waf_globals \<Rightarrow> string \<Rightarrow> examples \<Rightarrow> string list \<Rightarrow> string list \<Rightarrow> string list
       \<Rightarrow> (job list \<times> string list) result" where
  "dispatch_jobs h fs opts g dir ex programs scripts suite_list =
     bind_result (example_jobs h fs opts g dir ex programs) (\<lambda>es.
     bind_result (pyexample_jobs h opts g dir ex scripts) (\<lambda>ps.
       let ss = suite_jobs h opts g dir suite_list
       in Inr (map fst (ss @ es @ ps),
               queue_lines opts ss @
               not_runnable_line (opt_example opts) programs @ queue_lines opts es @
               not_runnable_line (opt_pyexample opts) scripts @ queue_lines opts ps)))"

section \<open>The first half of run_tests\<close>

definition TMP_OUTPUT_DIR :: string where
  "TMP_OUTPUT_DIR = ''testpy-output''"

record dispatched =
  d_globals :: waf_globals
  d_jobs :: "job list"
  d_output_dir :: string
  d_environ :: environ
  d_console :: "string list"

text \<open>How it ends: with the exit code of a failed build, with nothing more to do after \<open>--kinds\<close> or
  \<open>--list\<close>, or with the dispatched jobs.\<close>

datatype prepared =
    Build_failed int "string list"
  | Listed "string list"
  | Go dispatched

definition run_tests_listing :: "host \<Rightarrow> options \<Rightarrow> waf_globals \<Rightarrow> examples \<Rightarrow> string list result" where
  "run_tests_listing h opts g ex =
     bind_result (if opt_kinds opts then print_kinds h opts g else Inr []) (\<lambda>out1.
     map_result (\<lambda>out2. out1 @ out2) (if opt_list opts then print_list h opts g ex else Inr []))"

definition run_tests_prepare :: "host \<Rightarrow> fs \<Rightarrow> fs \<Rightarrow> options \<Rightarrow> environ \<Rightarrow> prepared result" where
  "run_tests_prepare h fs0 fs opts env0 =
     bind_result (read_waf_config h fs0 opts) (\<lambda>(g, out0).
       let env1 = loader_environ opts env0; (rc, out1) = run_waf h opts
       in if rc \<noteq> 0 then Inr (Build_failed rc (out0 @ out1))
          else
            bind_result (make_paths h opts g env1) (\<lambda>(env2, out2).
            bind_result (read_build_status fs g) (\<lambda>(programs, scripts).
            bind_result (collect_examples h fs g) (\<lambda>ex.
            let env3 = dict_set ''NS_LOG'' [] env2
            in bind_result (run_tests_listing h opts g ex) (\<lambda>out3.
               if opt_kinds opts \<or> opt_list opts then Inr (Listed (out0 @ out1 @ out2 @ out3))
               else
                 let dir = path_join TMP_OUTPUT_DIR (h_date h)
                 in bind_result (suite_names h opts g) (\<lambda>(suite_list, out4).
                    map_result (\<lambda>(js, out5).
                      Go \<lparr>d_globals = g, d_jobs = js, d_output_dir = dir, d_environ = env3,
                          d_console = out0 @ out1 @ out2 @ out4 @ out5\<rparr>)
                      (dispatch_jobs h fs opts g dir ex programs scripts suite_list)))))))"

section \<open>Lemmas\<close>

lemma remove_performance_mset: "mset (remove_performance ps ss) = mset ss - mset ps"
proof (induction ps arbitrary: ss)
  case (Cons p ps)
  then show ?case by (auto simp: diff_add_mset_swap)
qed simp

lemma subseq_remove1: "subseq (remove1 p ss) ss"
  by (induction ss) auto

lemma remove_performance_subseq: "subseq (remove_performance ps ss) ss"
proof (induction ps arbitrary: ss)
  case (Cons p ps)
  show ?case
  proof (cases "p \<in> set ss")
    case True
    then show ?thesis using Cons [of "remove1 p ss"] subseq_remove1 [of p ss]
      by (auto intro: subseq_order.order_trans)
  next
    case False
    then show ?thesis using Cons by simp
  qed
qed simp

text \<open>What every dispatched job has in common.\<close>

definition fresh_job :: "string \<Rightarrow> job \<Rightarrow> bool" where
  "fresh_job dir j \<longleftrightarrow> \<not> is_break j \<and> \<not> (is_example j \<and> is_pyexample j) \<and> job_cwd j = dir \<and> tempdir j = dir \<and>
     (is_example j \<or> is_pyexample j \<longrightarrow> tmp_file_name j = []) \<and>
     (\<not> is_example j \<and> \<not> is_pyexample j \<longrightarrow> tmp_file_name j = display_name j @ ''.xml'')"

lemma suite_jobs_fresh: "q \<in> set (suite_jobs h opts g dir ss) \<Longrightarrow> fresh_job dir (fst q)"
  by (auto simp: suite_jobs_def suite_job_def base_job_def new_job_def fresh_job_def split: if_splits)

lemma example_job_fresh:
  "example_job h opts g dir ps e = Inr qs \<Longrightarrow> q \<in> set qs \<Longrightarrow> fresh_job dir (fst q) \<and> is_example (fst q)"
  by (auto simp: example_job_def base_job_def new_job_def fresh_job_def split: if_splits prod.splits)

lemma pyexample_job_fresh:
  "pyexample_job h opts g dir ps e = Inr qs \<Longrightarrow> q \<in> set qs \<Longrightarrow>
   fresh_job dir (fst q) \<and> is_pyexample (fst q) \<and> (opt_valgrind opts \<longrightarrow> is_skip (fst q))"
  by (auto simp: pyexample_job_def base_job_def new_job_def fresh_job_def
      split: if_splits prod.splits option.splits)

lemma mapM_concat_all:
  assumes "map_result concat (mapM_result f xs) = Inr ys"
    and "\<And>x y q. f x = Inr y \<Longrightarrow> q \<in> set y \<Longrightarrow> P q"
  shows "list_all P ys"
proof -
  from assms(1) obtain zs where "mapM_result f xs = Inr zs" "ys = concat zs" by auto
  then show ?thesis using assms(2)
    by (induction xs arbitrary: zs ys) (auto simp: list_all_iff)
qed

lemma example_jobs_fresh:
  assumes "example_jobs h fs opts g dir ex ps = Inr qs"
  shows "list_all (\<lambda>q. fresh_job dir (fst q) \<and> is_example (fst q)) qs"
proof (cases "no_selection opts")
  case True
  have "list_all (\<lambda>q. fresh_job dir (fst q) \<and> is_example (fst q)) qs"
    if "map_result concat (mapM_result (example_job h opts g dir ps) (ex_cpp ex)) = Inr qs"
    using that by (rule mapM_concat_all) (rule example_job_fresh)
  then show ?thesis using assms True by (auto simp: example_jobs_def split: if_splits)
next
  case False
  then show ?thesis using assms
    by (auto simp: example_jobs_def single_example_job_def base_job_def new_job_def fresh_job_def Let_def
        split: if_splits)
qed

lemma pyexample_jobs_fresh:
  assumes "pyexample_jobs h opts g dir ex ps = Inr qs"
  shows "list_all (\<lambda>q. fresh_job dir (fst q) \<and> is_pyexample (fst q) \<and>
    (no_selection opts \<and> opt_valgrind opts \<longrightarrow> is_skip (fst q))) qs"
proof (cases "no_selection opts")
  case True
  have "list_all (\<lambda>q. fresh_job dir (fst q) \<and> is_pyexample (fst q) \<and> (opt_valgrind opts \<longrightarrow> is_skip (fst q))) qs"
    if "map_result concat (mapM_result (pyexample_job h opts g dir ps) (ex_python ex)) = Inr qs"
    using that by (rule mapM_concat_all) (rule pyexample_job_fresh)
  then show ?thesis using assms True by (auto simp: pyexample_jobs_def split: if_splits)
next
  case False
  then show ?thesis using assms
    by (auto simp: pyexample_jobs_def single_pyexample_job_def base_job_def new_job_def fresh_job_def
        split: if_splits)
qed

lemma dispatch_jobs_parts:
  assumes "dispatch_jobs h fs opts g dir ex programs scripts suite_list = Inr (js, out)"
  obtains es ps where "example_jobs h fs opts g dir ex programs = Inr es"
    "pyexample_jobs h opts g dir ex scripts = Inr ps"
    "js = map fst (suite_jobs h opts g dir suite_list) @ map fst es @ map fst ps"
  using assms by (auto simp: dispatch_jobs_def Let_def)

lemma dispatch_jobs_fresh:
  assumes "dispatch_jobs h fs opts g dir ex programs scripts suite_list = Inr (js, out)"
  shows "list_all (fresh_job dir) js"
proof -
  from assms obtain es ps where e: "example_jobs h fs opts g dir ex programs = Inr es"
    and p: "pyexample_jobs h opts g dir ex scripts = Inr ps"
    and js: "js = map fst (suite_jobs h opts g dir suite_list) @ map fst es @ map fst ps"
    by (rule dispatch_jobs_parts)
  show ?thesis
    using example_jobs_fresh [OF e] pyexample_jobs_fresh [OF p] suite_jobs_fresh
    by (auto simp: js list_all_iff)
qed

lemma suite_jobs_not_examples:
  "q \<in> set (suite_jobs h opts g dir ss) \<Longrightarrow> \<not> is_example (fst q) \<and> \<not> is_pyexample (fst q)"
  by (auto simp: suite_jobs_def suite_job_def base_job_def new_job_def split: if_splits)

lemma prepare_jobs:
  assumes "run_tests_prepare h fs0 fs opts env0 = Inr (Go d)"
  shows "list_all (fresh_job (d_output_dir d)) (d_jobs d)"
proof -
  obtain rc out1 where "run_waf h opts = (rc, out1)" by fastforce
  with assms show ?thesis
    by (auto simp: run_tests_prepare_def Let_def split: if_splits intro: dispatch_jobs_fresh)
qed

lemma map_concat_singletons:
  "map f (concat (map (\<lambda>x. if P x then [g x] else []) xs)) = map (\<lambda>x. f (g x)) (filter P xs)"
  by (induction xs) auto

lemma suite_jobs_names:
  "map (\<lambda>q. display_name (fst q)) (suite_jobs h opts g dir ss) = filter (\<lambda>t. t \<noteq> []) (map strip ss)"
  by (simp add: suite_jobs_def map_concat_singletons filter_map comp_def suite_job_def base_job_def)

lemma query_total: "\<exists>r. query h opts g dir args = Inr r"
  unfolding query_def by (rule run_job_total) simp

lemma split_suite_line: "CHR 0x0A \<notin> set s \<Longrightarrow> split_char (CHR 0x0A) (s @ nl) = [s, []]"
  by (simp add: nl_def split_char_append split_char_no_sep)

text \<open>The entries of an \<open>examples-to-run.py\<close> file as Python values.\<close>

definition cpp_entry :: "string \<times> string \<times> string \<Rightarrow> pyval" where
  "cpp_entry = (\<lambda>(n, r, v). VTuple [VStr n, VStr r, VStr v])"

definition python_entry :: "string \<times> string \<Rightarrow> pyval" where
  "python_entry = (\<lambda>(n, r). VTuple [VStr n, VStr r])"

lemma unpack_entries [simp]: "unpack3 (cpp_entry c) = Inr c" "unpack2 (python_entry p) = Inr p"
  by (auto simp: unpack3_def cpp_entry_def unpack2_def python_entry_def split: prod.splits)

lemma foldM_cpp_entries:
  "foldM_result (add_cpp_example fs dir) ex (map cpp_entry cs) =
    Inr (ex\<lparr>ex_cpp := ex_cpp ex @ map (\<lambda>(n, r, v). (example_path dir n, r, v))
              (filter (\<lambda>(n, r, v). path_exists fs (example_file dir n)) cs),
            ex_original := ex_original ex @
              filter (\<lambda>(n, r, v). path_exists fs (example_file dir n)) cs\<rparr>)"
  by (induction cs arbitrary: ex) (auto simp: add_cpp_example_def split: prod.splits)

lemma foldM_python_entries:
  "foldM_result (add_python_example fs dir) ex (map python_entry ps) =
    Inr (ex\<lparr>ex_python := ex_python ex @ map (\<lambda>(n, r). (example_path dir n, r))
              (filter (\<lambda>(n, r). path_exists fs (example_file dir n)) ps)\<rparr>)"
  by (induction ps arbitrary: ex) (auto simp: add_python_example_def split: prod.splits)

text \<open>A file with one example of each kind, and the built program.\<close>

definition sample_examples_file :: string where
  "sample_examples_file =
     ''cpp_examples = [('' @ dquote @ ''udp --n=1'' @ dquote @ '', '' @ dquote @ ''True'' @ dquote @ '', '' @
       dquote @ ''False'' @ dquote @ ''),]'' @ nl @ ''python_examples = []'' @ nl"

definition sample_example_fs :: fs where
  "sample_example_fs = map_of [(''e.py'', FileNode sample_examples_file), (''b/udp'', FileNode [])]"

text \<open>A small build tree: the lock file, the configuration cache and the build status, in which one
  test suite is run by name.\<close>

definition no_file_system :: fs where
  "no_file_system = (\<lambda>_. None)"

definition sample_tree :: fs where
  "sample_tree = map_of
     [(''.lock-waf_linux_build'', FileNode (
         ''top_dir = '' @ repr_str ''/b'' @ nl @ ''out_dir = '' @ repr_str ''/b/build'' @ nl @
         ''options = {'' @ repr_str ''jobs'' @ '': 8, '' @ repr_str ''with_ns3'' @ '': '' @ repr_str ''../ns3'' @ ''}'' @ nl)),
      (''/b/build/c4che/_cache.py'', FileNode (
         ''NS3_MODULE_PATH = ['' @ repr_str ''/b/build/lib'' @ '']'' @ nl @
         ''NS3_ENABLED_MODULES = []'' @ nl @ ''NSC_ENABLED = False'' @ nl @
         ''PYTHON = ['' @ repr_str ''/usr/bin/python'' @ '']'' @ nl)),
      (''/b/build/build-status.py'', FileNode (build_status_text [''udp''] [''a.py'']))]"

definition sample_run_options :: options where
  "sample_run_options = default_options\<lparr>opt_pyexample := ''a.py'', opt_nowaf := True\<rparr>"

definition sample_go :: bool where
  "sample_go = (case run_tests_prepare (sample_host ''linux'') sample_tree sample_tree sample_run_options [] of
     Inr (Go d) \<Rightarrow> (case d_jobs d of [j] \<Rightarrow> True | _ \<Rightarrow> False) | _ \<Rightarrow> False)"

lemma sample_prepare: "sample_go"
  by code_simp

section \<open>Properties\<close>

text \<open>Reading an \<open>examples-to-run.py\<close> file.  Of the entries of the two lists exactly those whose
  program or script exists are added, in the order of the file, each with its path and its
  arguments, and nothing that was there before is changed.\<close>

theorem parse_examples_spec:
  assumes "path_exists fs path"
    and "get_list_from_file fs path ''cpp_examples'' = Inr (VList (map cpp_entry cs))"
    and "get_list_from_file fs path ''python_examples'' = Inr (VList (map python_entry ps))"
  shows "parse_examples_to_run_file fs path cdir pdir ex =
    Inr \<lparr>ex_cpp = ex_cpp ex @ map (\<lambda>(n, r, v). (example_path cdir n, r, v))
            (filter (\<lambda>(n, r, v). path_exists fs (example_file cdir n)) cs),
         ex_original = ex_original ex @ filter (\<lambda>(n, r, v). path_exists fs (example_file cdir n)) cs,
         ex_python = ex_python ex @ map (\<lambda>(n, r). (example_path pdir n, r))
            (filter (\<lambda>(n, r). path_exists fs (example_file pdir n)) ps)\<rparr>"
  using assms
  by (simp add: parse_examples_to_run_file_def foldM_cpp_entries foldM_python_entries)

theorem parse_examples_spec_witness:
  "parse_examples_to_run_file sample_example_fs ''e.py'' ''b'' ''s'' \<lparr>ex_cpp = [], ex_original = [], ex_python = []\<rparr> =
    Inr \<lparr>ex_cpp = [(''b/udp --n=1'', ''True'', ''False'')],
         ex_original = [(''udp --n=1'', ''True'', ''False'')], ex_python = []\<rparr>"
proof -
  have a: "path_exists sample_example_fs ''e.py''" by code_simp
  have b: "get_list_from_file sample_example_fs ''e.py'' ''cpp_examples'' =
      Inr (VList (map cpp_entry [(''udp --n=1'', ''True'', ''False'')]))" by code_simp
  have c: "get_list_from_file sample_example_fs ''e.py'' ''python_examples'' = Inr (VList (map python_entry []))"
    by code_simp
  have d: "path_exists sample_example_fs (example_file ''b'' ''udp --n=1'')"
    "example_path ''b'' ''udp --n=1'' = ''b/udp --n=1''" by code_simp+
  show ?thesis using parse_examples_spec [OF a b c] d by simp
qed

text \<open>Which suites are run.  Without a selection the suites are the lines the test runner prints,
  in that order, less one occurrence for every line of its list of performance tests (none is
  taken away when performance tests are asked for); with \<open>--suite\<close> it is that suite alone,
  unless it is a performance test.\<close>

theorem suite_selection:
  "(opt_suite opts = [] \<and> opt_example opts = [] \<and> opt_pyexample opts = [] \<longrightarrow>
     (\<exists>names out r p.
        suite_names h opts g = Inr (names, out) \<and>
        query h opts g ''bin'' ('' --print-test-name-list'' @
          (if opt_constrain opts \<noteq> [] then '' --test-type='' @ opt_constrain opts else [])) = Inr r \<and>
        query h opts g ''utils'' '' --print-test-name-list --test-type=performance'' = Inr p \<and>
        subseq names (split_char (CHR 0x0A) (r_stdout r)) \<and>
        mset names = mset (split_char (CHR 0x0A) (r_stdout r)) -
          (if opt_constrain opts = ''performance'' then {#} else mset (split_char (CHR 0x0A) (r_stdout p))))) \<and>
   (opt_suite opts \<noteq> [] \<and> CHR 0x0A \<notin> set (opt_suite opts) \<longrightarrow>
     (\<forall>names out. suite_names h opts g = Inr (names, out) \<longrightarrow> subseq names [opt_suite opts, []]))"
proof (intro conjI impI allI)
  assume sel: "opt_suite opts = [] \<and> opt_example opts = [] \<and> opt_pyexample opts = []"
  obtain r where r: "query h opts g ''bin'' ('' --print-test-name-list'' @
      (if opt_constrain opts \<noteq> [] then '' --test-type='' @ opt_constrain opts else [])) = Inr r"
    using query_total by blast
  obtain p where p: "query h opts g ''utils'' '' --print-test-name-list --test-type=performance'' = Inr p"
    using query_total by blast
  have ss: "select_suites h opts g = Inr (r_stdout r, r_console r)"
    unfolding select_suites_def using sel r by (simp only: simp_thms if_True if_False map_result_simps)
  define names where "names = (if opt_constrain opts = ''performance'' then split_char (CHR 0x0A) (r_stdout r)
      else remove_performance (split_char (CHR 0x0A) (r_stdout p)) (split_char (CHR 0x0A) (r_stdout r)))"
  obtain out where sn: "suite_names h opts g = Inr (names, out)"
    unfolding suite_names_def ss bind_result_simps prod.case Let_def p map_result_simps names_def
    by (cases "opt_constrain opts = ''performance''") simp_all
  have sub: "subseq names (split_char (CHR 0x0A) (r_stdout r))"
    unfolding names_def by (simp add: remove_performance_subseq)
  have ms: "mset names = mset (split_char (CHR 0x0A) (r_stdout r)) -
      (if opt_constrain opts = ''performance'' then {#} else mset (split_char (CHR 0x0A) (r_stdout p)))"
    unfolding names_def by (simp add: remove_performance_mset)
  show "\<exists>names out r p.
        suite_names h opts g = Inr (names, out) \<and>
        query h opts g ''bin'' ('' --print-test-name-list'' @
          (if opt_constrain opts \<noteq> [] then '' --test-type='' @ opt_constrain opts else [])) = Inr r \<and>
        query h opts g ''utils'' '' --print-test-name-list --test-type=performance'' = Inr p \<and>
        subseq names (split_char (CHR 0x0A) (r_stdout r)) \<and>
        mset names = mset (split_char (CHR 0x0A) (r_stdout r)) -
          (if opt_constrain opts = ''performance'' then {#} else mset (split_char (CHR 0x0A) (r_stdout p)))"
    using sn r p sub ms by blast
next
  fix names out
  assume sel: "opt_suite opts \<noteq> [] \<and> CHR 0x0A \<notin> set (opt_suite opts)"
    and sn: "suite_names h opts g = Inr (names, out)"
  then show "subseq names [opt_suite opts, []]"
    by (auto simp: suite_names_def select_suites_def Let_def split_suite_line remove_performance_subseq
        split: if_splits)
qed

theorem suite_selection_witness:
  "\<exists>names out. suite_names (sample_host ''linux'') default_options sample_globals = Inr (names, out)"
  using suite_selection [of default_options "sample_host ''linux''" sample_globals]
  by (auto simp: default_options_def)

text \<open>Every dispatched job is well formed.  It is not a stop signal, is at most one kind of
  example, runs in the output directory, and has a temporary results file, named after the
  suite, exactly when it is a test suite.\<close>

theorem dispatched_jobs_fresh:
  assumes "run_tests_prepare h fs0 fs opts env0 = Inr (Go d)" and "j \<in> set (d_jobs d)"
  shows "fresh_job (d_output_dir d) j"
  using prepare_jobs [OF assms(1)] assms(2) by (simp add: list_all_iff)

theorem dispatched_jobs_fresh_witness:
  "\<exists>d j. run_tests_prepare (sample_host ''linux'') sample_tree sample_tree sample_run_options [] = Inr (Go d) \<and>
     j \<in> set (d_jobs d) \<and> fresh_job (d_output_dir d) j"
proof -
  have "\<exists>d j. run_tests_prepare (sample_host ''linux'') sample_tree sample_tree sample_run_options [] = Inr (Go d) \<and>
      j \<in> set (d_jobs d)"
    using sample_prepare by (auto simp: sample_go_def split: sum.splits prepared.splits list.splits)
  then show ?thesis using dispatched_jobs_fresh by blast
qed

text \<open>What the options select.  With \<open>--example\<close> alone at most that one example is dispatched and
  no Python example, and conversely for \<open>--pyexample\<close>; with \<open>--suite\<close> alone, with a constraint
  to another kind, or with examples disabled, no example is; and a Python example that was not
  asked for by name is skipped under valgrind.\<close>

theorem selection_modes:
  assumes "dispatch_jobs h fs opts g dir ex programs scripts suite_list = Inr (js, out)"
  shows
    "(opt_example opts \<noteq> [] \<and> opt_pyexample opts = [] \<longrightarrow>
        length (filter is_example js) \<le> 1 \<and> filter is_pyexample js = []) \<and>
     (opt_example opts = [] \<and> opt_pyexample opts \<noteq> [] \<longrightarrow>
        filter is_example js = [] \<and> length (filter is_pyexample js) \<le> 1) \<and>
     (opt_suite opts \<noteq> [] \<and> opt_example opts = [] \<and> opt_pyexample opts = [] \<longrightarrow>
        list_all (\<lambda>j. \<not> is_example j \<and> \<not> is_pyexample j) js) \<and>
     (no_selection opts \<and> (opt_constrain opts \<notin> {[], ''example'', ''pyexample''} \<or> \<not> g_enable_examples g) \<longrightarrow>
        list_all (\<lambda>j. \<not> is_example j \<and> \<not> is_pyexample j) js) \<and>
     (no_selection opts \<and> opt_valgrind opts \<longrightarrow> list_all is_skip (filter is_pyexample js))"
proof -
  from assms obtain es ps where e: "example_jobs h fs opts g dir ex programs = Inr es"
    and p: "pyexample_jobs h opts g dir ex scripts = Inr ps"
    and js: "js = map fst (suite_jobs h opts g dir suite_list) @ map fst es @ map fst ps"
    by (rule dispatch_jobs_parts)
  have s: "filter is_example (map fst (suite_jobs h opts g dir suite_list)) = []"
    "filter is_pyexample (map fst (suite_jobs h opts g dir suite_list)) = []"
    using suite_jobs_not_examples by (fastforce simp: filter_empty_conv)+
  have ef: "filter is_example (map fst es) = map fst es" "filter is_pyexample (map fst es) = []"
    using example_jobs_fresh [OF e] by (auto simp: filter_id_conv filter_empty_conv list_all_iff fresh_job_def)
  have pf: "filter is_pyexample (map fst ps) = map fst ps" "filter is_example (map fst ps) = []"
    using pyexample_jobs_fresh [OF p] by (auto simp: filter_id_conv filter_empty_conv list_all_iff fresh_job_def)
  have none: "list_all (\<lambda>j. \<not> is_example j \<and> \<not> is_pyexample j) js" if "es = []" "ps = []"
    using suite_jobs_not_examples that by (fastforce simp: js list_all_iff)
  have single: "length es \<le> 1" if "\<not> no_selection opts"
    using e that by (auto simp: example_jobs_def single_example_job_def Let_def split: if_splits)
  have psingle: "length ps \<le> 1" if "\<not> no_selection opts"
    using p that by (auto simp: pyexample_jobs_def single_pyexample_job_def split: if_splits)
  have noe: "es = []" if "opt_example opts = []" "\<not> no_selection opts"
    using e that by (auto simp: example_jobs_def split: if_splits)
  have nop: "ps = []" if "opt_pyexample opts = []" "\<not> no_selection opts"
    using p that by (auto simp: pyexample_jobs_def split: if_splits)
  have off: "es = [] \<and> ps = []" if "no_selection opts"
    "opt_constrain opts \<notin> {[], ''example'', ''pyexample''} \<or> \<not> g_enable_examples g"
    using e p that by (auto simp: example_jobs_def pyexample_jobs_def split: if_splits)
  have sel: "no_selection opts \<longleftrightarrow> opt_suite opts = [] \<and> opt_example opts = [] \<and> opt_pyexample opts = []"
    by (simp add: no_selection_def)
  have skip: "list_all is_skip (map fst ps)" if "no_selection opts" "opt_valgrind opts"
    using pyexample_jobs_fresh [OF p] that by (auto simp: list_all_iff)
  show ?thesis
  proof (intro conjI impI)
    assume "opt_example opts \<noteq> [] \<and> opt_pyexample opts = []"
    then show "length (filter is_example js) \<le> 1" "filter is_pyexample js = []"
      using single nop by (simp_all add: js s ef pf sel)
  next
    assume "opt_example opts = [] \<and> opt_pyexample opts \<noteq> []"
    then show "filter is_example js = []" "length (filter is_pyexample js) \<le> 1"
      using psingle noe by (simp_all add: js s ef pf sel)
  next
    assume "opt_suite opts \<noteq> [] \<and> opt_example opts = [] \<and> opt_pyexample opts = []"
    then show "list_all (\<lambda>j. \<not> is_example j \<and> \<not> is_pyexample j) js"
      using none noe nop by (simp add: sel)
  next
    assume "no_selection opts \<and> (opt_constrain opts \<notin> {[], ''example'', ''pyexample''} \<or> \<not> g_enable_examples g)"
    then show "list_all (\<lambda>j. \<not> is_example j \<and> \<not> is_pyexample j) js" using none off by blast
  next
    assume "no_selection opts \<and> opt_valgrind opts"
    then show "list_all is_skip (filter is_pyexample js)" using skip by (simp add: js s ef pf)
  qed
qed

theorem selection_modes_witness:
  "\<exists>js out. dispatch_jobs (sample_host ''linux'') no_file_system (default_options\<lparr>opt_pyexample := ''a.py''\<rparr>) sample_globals
     ''o'' \<lparr>ex_cpp = [], ex_original = [], ex_python = []\<rparr> [] [''a.py''] [''s''] = Inr (js, out) \<and>
     filter is_example js = [] \<and> length (filter is_pyexample js) \<le> 1"
proof -
  let ?o = "default_options\<lparr>opt_pyexample := ''a.py''\<rparr>"
  have "\<exists>js out. dispatch_jobs (sample_host ''linux'') no_file_system ?o sample_globals
     ''o'' \<lparr>ex_cpp = [], ex_original = [], ex_python = []\<rparr> [] [''a.py''] [''s''] = Inr (js, out)"
    by (simp add: dispatch_jobs_def example_jobs_def pyexample_jobs_def no_selection_def default_options_def Let_def)
  then obtain js out where d: "dispatch_jobs (sample_host ''linux'') no_file_system ?o sample_globals
     ''o'' \<lparr>ex_cpp = [], ex_original = [], ex_python = []\<rparr> [] [''a.py''] [''s''] = Inr (js, out)" by blast
  from selection_modes [OF d] d show ?thesis by (simp add: default_options_def)
qed

end
