(* ===== verification/Build_And_Test.thy ===== *)
theory Build_And_Test
  imports Dispatch Wscript_Total
begin

text \<open>
  How the build and the test runner meet: the build writes the status file (\<open>src/wscript\<close>), \<open>src/test.py\<close> reads it and runs those
  examples of \<open>src/example/examples-to-run.py\<close> that it names.
\<close>

section \<open>The examples to run\<close>

definition cpp_examples :: "(string \<times> string \<times> string) list" where
  "cpp_examples =
     [(''dce-tcp-simple'', ''True'', ''True''),
      (''dce-udp-simple'', ''True'', ''True''),
      (''dce-udp-perf'', ''True'', ''True''),
      (''dce-bash-simple'', ''True'', ''True''),
      (''dce-linux-simple'', ''True'', ''True''),
      (''dce-linux'', ''True'', ''True''),
      (''dce-dccp'', ''True'', ''True''),
      (''dce-iperf'', ''True'', ''True''),
      (''dce-cradle-simple'', ''True'', ''True''),
      (''dce-cradle-simple --rate=10kbps --proto=icmp'', ''True'', ''True''),
      (''dce-cradle-simple --rate=10kbps --proto=udp'', ''True'', ''True''),
      (''dce-cradle-simple --rate=10kbps --proto=tcp'', ''True'', ''True''),
      (''dce-cradle-simple --rate=10kbps --proto=dccp'', ''True'', ''True''),
      (''dce-cradle-simple --rate=10kbps --proto=dccp -ccid=3'', ''True'', ''True''),
      (''dce-cradle-simple --rate=10kbps --proto=sctp'', ''True'', ''True''),
      (''dce-cradle-simple --bulk=1 --rate=10kbps --proto=tcp'', ''True'', ''True''),
      (''dce-cradle-simple --bulk=1 --rate=10kbps --proto=dccp'', ''True'', ''True''),
      (''dce-cradle-simple --bulk=1 --rate=10kbps --proto=dccp -ccid=3'', ''True'', ''True''),
      (''dce-cradle-simple --bulk=1 --rate=10kbps --proto=sctp'', ''True'', ''True''),
      (''dce-cradle-simple --rate=10kbps --proto=icmp6'', ''True'', ''True''),
      (''dce-cradle-simple --rate=10kbps --proto=udp6'', ''True'', ''True''),
      (''dce-cradle-simple --rate=10kbps --proto=tcp6'', ''True'', ''True''),
      (''dce-cradle-simple --rate=10kbps --proto=dccp6'', ''True'', ''True''),
      (''dce-cradle-simple --rate=10kbps --proto=dccp6 -ccid=3'', ''True'', ''True''),
      (''dce-cradle-simple --rate=10kbps --proto=sctp6'', ''True'', ''True''),
      (''dce-cradle-simple --bulk=1 --rate=10kbps --proto=tcp6'', ''True'', ''True''),
      (''dce-cradle-simple --bulk=1 --rate=10kbps --proto=dccp6'', ''True'', ''True''),
      (''dce-cradle-simple --bulk=1 --rate=10kbps --proto=dccp6 -ccid=3'', ''True'', ''True''),
      (''dce-cradle-simple --bulk=1 --rate=10kbps --proto=sctp6'', ''True'', ''True''),
      (''dce-tcp-ns3-nsc-comparison'', ''True'', ''True''),
      (''dce-tcp-ns3-nsc-comparison --stack=dce'', ''True'', ''True''),
      (''dce-tcp-ns3-nsc-comparison --bulk=1'', ''True'', ''True''),
      (''dce-tcp-ns3-nsc-comparison --stack=dce --bulk=1'', ''True'', ''True''),
      (''dce-tcp-ns3-nsc-comparison --stack=dce-dccp'', ''True'', ''True''),
      (''dce-tcp-ns3-nsc-comparison --stack=dce-dccp --bulk=1'', ''True'', ''True''),
      (''dce-ping-mt1 --kernel=1'', ''True'', ''True''),
      (''dce-mt2 --kernel=1'', ''True'', ''True''),
      (''dce-mt3 --kernel=1'', ''True'', ''True''),
      (''dce-xfrm'', ''False'', ''False''),
      (''dce-cradle-mptcp'', ''True'', ''True''),
      (''dce-iperf-mptcp'', ''True'', ''True''),
      (''dce-iperf-heterogeneous-multihop'', ''True'', ''True''),
      (''dce-mptcp-handoff-v6'', ''True'', ''True''),
      (''dce-mptcp-handoff-v6 --errRate=0.05'', ''True'', ''True''),
      (''dce-mptcp-handoff-v6 --errRate=0.1'', ''True'', ''True''),
      (''dce-mptcp-handoff-v6 --errRate=0.2'', ''True'', ''True''),
      (''dce-mptcp-handoff-v6 --errRate=0.3'', ''True'', ''True''),
      (''dce-mptcp-handoff-v6 --errRate=0.4'', ''True'', ''True''),
      (''dce-mptcp-handoff-v6 --errRate=0.5'', ''True'', ''True''),
      (''dce-mptcp-handoff-v6 --errRate=0.8'', ''True'', ''True''),
      (''dce-mptcp-handoff-v4v6'', ''True'', ''True''),
      (''dce-mptcp-handoff-v4v6 --errRate=0.05'', ''True'', ''True''),
      (''dce-mptcp-handoff-v4v6 --errRate=0.1'', ''True'', ''True''),
      (''dce-mptcp-handoff-v4v6 --errRate=0.2'', ''True'', ''True''),
      (''dce-mptcp-handoff-v4v6 --errRate=0.3'', ''True'', ''True''),
      (''dce-mptcp-handoff-v4v6 --errRate=0.4'', ''True'', ''True''),
      (''dce-mptcp-handoff-v4v6 --errRate=0.5'', ''True'', ''True''),
      (''dce-mptcp-handoff-v4v6 --errRate=0.8'', ''True'', ''True''),
      (''dce-mptcp-handoff-v4v6 --v6Primary=1'', ''True'', ''True''),
      (''dce-mptcp-handoff-v4v6 --v6Primary=1 --errRate=0.05'', ''True'', ''True''),
      (''dce-mptcp-handoff-v4v6 --v6Primary=1 --errRate=0.1'', ''True'', ''True''),
      (''dce-mptcp-handoff-v4v6 --v6Primary=1 --errRate=0.2'', ''True'', ''True''),
      (''dce-mptcp-handoff-v4v6 --v6Primary=1 --errRate=0.3'', ''True'', ''True''),
      (''dce-mptcp-handoff-v4v6 --v6Primary=1 --errRate=0.4'', ''True'', ''True''),
      (''dce-mptcp-handoff-v4v6 --v6Primary=1 --errRate=0.5'', ''True'', ''True''),
      (''dce-mptcp-handoff-v4v6 --v6Primary=1 --errRate=0.8'', ''True'', ''True''),
      (''dce-httpd'', ''True'', ''True''),
      (''dce-sctp-simple'', ''True'', ''True''),
      (''dce-freebsd'', ''True'', ''True'')]"

definition python_examples :: "(string \<times> string) list" where
  "python_examples = []"

section \<open>What can be listed at all\<close>

text \<open>Every program that some configuration lists.\<close>

definition all_examples :: "(string list \<times> string \<times> string list) list" where
  "all_examples = dce_examples @ [aspect_example] @ kernel_examples @ [sctp_example, freebsd_example]"

definition example_program :: "string list \<times> string \<times> string list \<Rightarrow> string" where
  "example_program = (\<lambda>(needed, target, source). basename target)"

definition possible_programs :: "string list" where
  "possible_programs =
     [''dce-test'', ''test'', ''dce-test-netlink'', ''test-runner'', ''bin/test-runner'', ''test-runner-vdl'', ''dce-runner''] @
     map example_program all_examples"

lemma example_names_possible:
  assumes "x \<in> set (example_names ex found es)" "set es \<subseteq> set all_examples" shows "x \<in> set possible_programs"
proof -
  from assms(1) obtain e where "e \<in> set es" "x = example_program e"
    by (fastforce simp: example_names_def example_name_def example_program_def split: if_splits)
  with assms(2) show ?thesis by (auto simp: possible_programs_def)
qed

lemma program_list_possible: "set (program_list e found) \<subseteq> set possible_programs"
proof -
  have "{''dce-test'', ''test'', ''dce-test-netlink'', ''test-runner'', ''bin/test-runner'', ''test-runner-vdl'', ''dce-runner''} \<subseteq> set possible_programs"
    by (simp add: possible_programs_def)
  moreover have "set dce_examples \<union> set kernel_examples \<union> {aspect_example, sctp_example, freebsd_example} \<subseteq> set all_examples"
    by (simp add: all_examples_def subset_iff)
  ultimately show ?thesis
    by (auto simp: program_list_def own_programs_def runner_names_def split: if_splits dest!: example_names_possible)
qed

lemma possible_listable: "list_all (\<lambda>x. listable x \<and> \<not> contains x ''ns3_runnable_scripts'') (''dce'' # possible_programs)"
  by code_simp

lemma dce_not_possible: "''dce'' \<notin> set possible_programs"
  by code_simp

lemma status_lists:
  assumes "set programs \<subseteq> insert ''dce'' (set possible_programs)" "fs (path_join (g_builddir g) ''build-status.py'') = Some (FileNode (build_status_text programs []))"
  shows "read_build_status fs g = Inr (programs, [])"
proof -
  have "\<forall>x \<in> set programs. listable x \<and> \<not> contains x ''ns3_runnable_scripts''"
    using assms(1) possible_listable by (auto simp: list_all_iff)
  then have
    "get_list_from_file fs (path_join (g_builddir g) ''build-status.py'') ''ns3_runnable_programs'' = Inr (VList (map VStr programs))"
    "get_list_from_file fs (path_join (g_builddir g) ''build-status.py'') ''ns3_runnable_scripts'' = Inr (VList [])"
    using status_read_back [of fs "path_join (g_builddir g) ''build-status.py''" programs "[]"] assms(2) by simp_all
  then show ?thesis using assms(2) str_items_strings [of programs] str_items_strings [of "[]"]
    by (simp add: read_build_status_def Let_def path_exists_def)
qed

text \<open>The examples that the test runner queues are among the programs.\<close>

lemma example_jobs_programs:
  assumes "example_jobs h fs opts g dir ex programs = Inr js" "no_selection opts" "q \<in> set js"
  shows "program_name (snd q) \<in> set programs"
proof -
  have one: "program_name (snd q) \<in> set programs" if "example_job h opts g dir programs t = Inr qs" "q \<in> set qs" for t qs q
    using that by (auto simp: example_job_def split: prod.splits if_splits)
  have all: "list_all (\<lambda>q. program_name (snd q) \<in> set programs) js"
    if "map_result concat (mapM_result (example_job h opts g dir programs) (ex_cpp ex)) = Inr js"
    using that by (rule mapM_concat_all) (rule one)
  show ?thesis
  proof (cases "(opt_constrain opts = [] \<or> opt_constrain opts = ''example'') \<and> g_enable_examples g")
    case True
    with assms(1,2) all have "list_all (\<lambda>q. program_name (snd q) \<in> set programs) js" by (simp add: example_jobs_def)
    with assms(3) show ?thesis by (simp add: list_all_iff)
  next
    case False
    with assms show ?thesis by (simp add: example_jobs_def)
  qed
qed

section \<open>Properties\<close>

text \<open>The listed examples that are made by the scripts.\<close>

definition script_examples :: "string list" where
  "script_examples = [''dce-ping-mt1'', ''dce-mt2'', ''dce-mt3'']"

lemma listed_examples:
  "filter (\<lambda>p. p \<notin> set possible_programs) (remdups (map (\<lambda>(test, run, valgrind). program_name test) cpp_examples)) = script_examples"
  by code_simp

text \<open>C14: what the test runner gets from the build.  After any build that returns, the test runner reads from the status file
  exactly what the build listed; every example it queues is one of these programs.  So no configuration runs the three
  examples of \<open>examples-to-run.py\<close> that are made by scripts: a script is listed as \<open>dce\<close>.\<close>

theorem examples_after_build:
  assumes "wscript_build v st = Inr (st', e, status)" "eget (b_env st) ''NS3_MODULES_FOUND'' = EList old"
    and "fs (path_join (g_builddir g) ''build-status.py'') = Some (FileNode status)"
    and "read_build_status fs g = Inr (programs, scripts)" "no_selection opts" "example_jobs h fs opts g dir ex programs = Inr js"
  shows "set programs - {''dce''} = set (program_list (b_env st) (found_after old)) \<and> scripts = [] \<and>
    (\<forall>q \<in> set js. program_name (snd q) \<in> set programs \<and> program_name (snd q) \<notin> set script_examples)"
proof -
  from runnable_programs [OF assms(1,2)] obtain n where
    status: "status = build_status_text (replicate n ''dce'' @ program_list (b_env st) (found_after old)) []" ..
  have "set (replicate n ''dce'' @ program_list (b_env st) (found_after old)) \<subseteq> insert ''dce'' (set possible_programs)"
    using program_list_possible by auto
  from status_lists [OF this, of fs g] assms(3,4) status
  have programs: "programs = replicate n ''dce'' @ program_list (b_env st) (found_after old)" "scripts = []" by auto
  have "p \<notin> set possible_programs \<and> p \<noteq> ''dce''" if "p \<in> set script_examples" for p
  proof -
    from that have "p \<in> set (filter (\<lambda>p. p \<notin> set possible_programs) (remdups (map (\<lambda>(test, run, valgrind). program_name test) cpp_examples)))"
      by (simp only: listed_examples)
    then show ?thesis using that by (auto simp: script_examples_def)
  qed
  with program_list_possible [of "b_env st" "found_after old"] have "set script_examples \<inter> set programs = {}"
    by (auto simp: programs(1))
  moreover have "set programs - {''dce''} = set (program_list (b_env st) (found_after old))"
    using program_list_possible [of "b_env st" "found_after old"] dce_not_possible by (auto simp: programs(1))
  ultimately show ?thesis using programs(2) example_jobs_programs [OF assms(6,5)] by blast
qed

definition two_examples :: examples where
  "two_examples = \<lparr>ex_cpp = [(''bin/dce-tcp-simple'', ''True'', ''True''), (''bin/dce-mt2 --kernel=1'', ''True'', ''True'')], ex_original = [], ex_python = []\<rparr>"

definition status_only :: "string \<Rightarrow> fs" where
  "status_only status = (\<lambda>p. if p = ''/b/build/build-status.py'' then Some (FileNode status) else None)"

theorem examples_after_build_witness:
  "\<exists>status programs q. read_build_status (status_only status) sample_globals =
       Inr (programs, []) \<and>
     example_jobs (sample_host ''linux'') (status_only status) default_options sample_globals ''o'' two_examples programs = Inr [q] \<and>
     program_name (snd q) = ''dce-tcp-simple'' \<and> program_name (snd q) \<in> set programs \<and> program_name (snd q) \<notin> set script_examples"
proof -
  let ?old = "[''core'', ''network'', ''internet'', ''point-to-point'']"
  have old: "eget (b_env build_start) ''NS3_MODULES_FOUND'' = EList ?old" by code_simp
  from wscript_build_returns [OF sample_ready] obtain st' e status where b: "wscript_build script_sample build_start = Inr (st', e, status)" by blast
  from runnable_programs [OF b old] obtain n where
    status: "status = build_status_text (replicate n ''dce'' @ program_list (b_env build_start) (found_after ?old)) []" ..
  define programs where "programs = replicate n ''dce'' @ program_list (b_env build_start) (found_after ?old)"
  have p: "path_join (g_builddir sample_globals) ''build-status.py'' = ''/b/build/build-status.py''" by code_simp
  have "set programs \<subseteq> insert ''dce'' (set possible_programs)" using program_list_possible by (auto simp: programs_def)
  then have r: "read_build_status (status_only status) sample_globals = Inr (programs, [])" by (rule status_lists) (simp add: p status programs_def status_only_def)
  have "''dce-tcp-simple'' \<in> set (program_list (b_env build_start) (found_after ?old))"
    "''dce-mt2'' \<notin> set (''dce'' # program_list (b_env build_start) (found_after ?old))" by code_simp+
  then have m: "''dce-tcp-simple'' \<in> set programs" "''dce-mt2'' \<notin> set programs" by (simp_all add: programs_def)
  have n: "program_name ''bin/dce-tcp-simple'' = ''dce-tcp-simple''" "program_name ''bin/dce-mt2 --kernel=1'' = ''dce-mt2''" by code_simp+
  have t: "eval_condition sample_globals ''True'' = Inr True" by code_simp
  have "\<exists>q. example_jobs (sample_host ''linux'') (status_only status) default_options sample_globals ''o'' two_examples programs = Inr [q] \<and>
      snd q = ''bin/dce-tcp-simple''"
    by (simp add: example_jobs_def two_examples_def example_job_def n m t no_selection_def default_options_def sample_globals_def [THEN arg_cong [of _ _ g_enable_examples]])
  then obtain q where q: "example_jobs (sample_host ''linux'') (status_only status) default_options sample_globals ''o'' two_examples programs = Inr [q]"
    "snd q = ''bin/dce-tcp-simple''" by blast
  have "no_selection default_options" by code_simp
  moreover have "status_only status (path_join (g_builddir sample_globals) ''build-status.py'') = Some (FileNode status)" by (simp add: p status_only_def)
  ultimately show ?thesis using examples_after_build [OF b old _ r _ q(1)] q n m(1) r by (intro exI [of _ status] exI [of _ programs] exI [of _ q]) simp
qed

end
