(* ===== verification/Test_Options.thy ===== *)
theory Test_Options
  imports Test_Job
begin

text \<open>
  The command line of \<open>src/test.py\<close>: the table of options that \<open>main\<close> gives to \<open>optparse\<close>, and what
  \<open>parse_args\<close> does with it.  Long options may be abbreviated and take their value after an equals sign or as the next
  word; short options may be bundled; words that are no options are kept.  A wrong command line exits with 2, the help with
  0; the messages are left out.
\<close>

section \<open>optparse\<close>

text \<open>An option stores its value, stores a constant, or prints the help.\<close>

datatype 'v opt_action = Store "string \<Rightarrow> 'v \<Rightarrow> 'v" | Store_true "'v \<Rightarrow> 'v" | Print_help

record 'v opt_row =
  row_short :: char
  row_longs :: "string list"
  row_action :: "'v opt_action"

definition help_row :: "'v opt_row" where
  "help_row = \<lparr>row_short = CHR ''h'', row_longs = [''--help''], row_action = Print_help\<rparr>"

definition long_words :: "'v opt_row list \<Rightarrow> string list" where
  "long_words rows = concat (map row_longs rows)"

definition find_long :: "'v opt_row list \<Rightarrow> string \<Rightarrow> 'v opt_action option" where
  "find_long rows w = map_option row_action (find (\<lambda>r. w \<in> set (row_longs r)) rows)"

definition find_short :: "'v opt_row list \<Rightarrow> char \<Rightarrow> 'v opt_action option" where
  "find_short rows c = map_option row_action (find (\<lambda>r. row_short r = c) rows)"

definition usage_error :: "'a result" where "usage_error = Inl (SystemExit 2)"

text \<open>\<open>_match_abbrev\<close>: a complete word, or the only one that begins so.\<close>

definition match_long_opt :: "'v opt_row list \<Rightarrow> string \<Rightarrow> string result" where
  "match_long_opt rows s =
     (if s \<in> set (long_words rows) then Inr s
      else case filter (\<lambda>w. startswith w s) (long_words rows) of [w] \<Rightarrow> Inr w | _ \<Rightarrow> usage_error)"

definition next_word :: "(string \<Rightarrow> 'v \<Rightarrow> 'v) \<Rightarrow> string list \<Rightarrow> 'v \<Rightarrow> ('v \<times> string list) result" where
  "next_word f rargs v = (case rargs of [] \<Rightarrow> usage_error | w # ws \<Rightarrow> Inr (f w v, ws))"

fun apply_long :: "'v opt_action option \<Rightarrow> string option \<Rightarrow> string list \<Rightarrow> 'v \<Rightarrow> ('v \<times> string list) result" where
  "apply_long None explicit rargs v = Inl KeyError"
| "apply_long (Some (Store f)) (Some w) rargs v = Inr (f w v, rargs)"
| "apply_long (Some (Store f)) None rargs v = next_word f rargs v"
| "apply_long (Some (Store_true f)) None rargs v = Inr (f v, rargs)"
| "apply_long (Some Print_help) None rargs v = Inl (SystemExit 0)"
| "apply_long _ (Some w) rargs v = usage_error"

definition split_explicit :: "string \<Rightarrow> string \<times> string option" where
  "split_explicit arg = (case split_once (CHR ''='') arg of [a, b] \<Rightarrow> (a, Some b) | _ \<Rightarrow> (arg, None))"

definition process_long_opt :: "'v opt_row list \<Rightarrow> string \<Rightarrow> string list \<Rightarrow> 'v \<Rightarrow> ('v \<times> string list) result" where
  "process_long_opt rows arg rargs v =
     bind_result (match_long_opt rows (fst (split_explicit arg))) (\<lambda>opt.
       apply_long (find_long rows opt) (snd (split_explicit arg)) rargs v)"

text \<open>The letters of one word; what follows the letter of an option with a value is the value.\<close>

fun process_short_opts :: "'v opt_row list \<Rightarrow> string \<Rightarrow> string list \<Rightarrow> 'v \<Rightarrow> ('v \<times> string list) result" where
  "process_short_opts rows [] rargs v = Inr (v, rargs)"
| "process_short_opts rows (c # cs) rargs v =
     (case find_short rows c of
        None \<Rightarrow> usage_error
      | Some (Store f) \<Rightarrow> if cs \<noteq> [] then Inr (f cs v, rargs) else next_word f rargs v
      | Some (Store_true f) \<Rightarrow> process_short_opts rows cs rargs (f v)
      | Some Print_help \<Rightarrow> Inl (SystemExit 0))"

definition process_option :: "'v opt_row list \<Rightarrow> string \<Rightarrow> string list \<Rightarrow> 'v \<Rightarrow> ('v \<times> string list) result" where
  "process_option rows arg rargs v =
     (if startswith arg ''--'' then process_long_opt rows arg rargs v else process_short_opts rows (tl arg) rargs v)"

lemma next_word_length: "next_word f rargs v = Inr (v', ws) \<Longrightarrow> length ws \<le> length rargs"
  by (cases rargs) (auto simp: next_word_def usage_error_def)

lemma process_short_length: "process_short_opts rows cs rargs v = Inr (v', ws) \<Longrightarrow> length ws \<le> length rargs"
  by (induction rows cs rargs v rule: process_short_opts.induct)
     (auto simp: usage_error_def dest: next_word_length split: option.splits opt_action.splits if_splits)

lemma apply_long_length: "apply_long a e rargs v = Inr (v', ws) \<Longrightarrow> length ws \<le> length rargs"
  by (induction a e rargs v rule: apply_long.induct) (auto simp: usage_error_def dest: next_word_length)

lemma process_long_length: "process_long_opt rows arg rargs v = Inr (v', ws) \<Longrightarrow> length ws \<le> length rargs"
  by (auto simp: process_long_opt_def dest: apply_long_length)

lemma process_option_length: "process_option rows arg rargs v = Inr (v', ws) \<Longrightarrow> length ws \<le> length rargs"
  by (auto simp: process_option_def dest: process_long_length process_short_length split: if_splits)

text \<open>\<open>_process_args\<close>: the words that are left and the values.\<close>

function process_args :: "'v opt_row list \<Rightarrow> string list \<Rightarrow> 'v \<Rightarrow> string list \<Rightarrow> ('v \<times> string list) result" where
  "process_args rows largs v [] = Inr (v, largs)"
| "process_args rows largs v (arg # rargs) =
     (if arg = ''--'' then Inr (v, largs @ rargs)
      else if startswith arg ''--'' \<or> (startswith arg ''-'' \<and> 1 < length arg)
      then (case process_option rows arg rargs v of Inl e \<Rightarrow> Inl e | Inr (v', ws) \<Rightarrow> process_args rows largs v' ws)
      else process_args rows (largs @ [arg]) v rargs)"
  by pat_completeness auto
termination
  by (relation "measure (\<lambda>(rows, largs, v, ws). length ws)") (auto dest: process_option_length simp: less_Suc_eq_le)

definition parse_args :: "'v opt_row list \<Rightarrow> 'v \<Rightarrow> string list \<Rightarrow> ('v \<times> string list) result" where
  "parse_args rows defaults argv = process_args (help_row # rows) [] defaults (tl argv)"

section \<open>The options of the test runner\<close>

definition string_option :: "char \<Rightarrow> string list \<Rightarrow> ((string \<Rightarrow> string) \<Rightarrow> options \<Rightarrow> options) \<Rightarrow> options opt_row" where
  "string_option c names upd = \<lparr>row_short = c, row_longs = names, row_action = Store (\<lambda>w. upd (\<lambda>_. w))\<rparr>"

definition flag_option :: "char \<Rightarrow> string \<Rightarrow> ((bool \<Rightarrow> bool) \<Rightarrow> options \<Rightarrow> options) \<Rightarrow> options opt_row" where
  "flag_option c name upd = \<lparr>row_short = c, row_longs = [name], row_action = Store_true (upd (\<lambda>_. True))\<rparr>"

definition test_rows :: "options opt_row list" where
  "test_rows =
     [string_option (CHR ''b'') [''--buildpath''] opt_buildpath_update,
      string_option (CHR ''c'') [''--constrain''] opt_constrain_update,
      flag_option (CHR ''d'') ''--duration'' opt_duration_update,
      string_option (CHR ''e'') [''--example''] opt_example_update,
      flag_option (CHR ''u'') ''--update-data'' opt_update_data_update,
      string_option (CHR ''f'') [''--fullness''] opt_fullness_update,
      flag_option (CHR ''g'') ''--grind'' opt_valgrind_update,
      flag_option (CHR ''i'') ''--grind-xml'' opt_valgrind_xml_update,
      flag_option (CHR ''k'') ''--kinds'' opt_kinds_update,
      flag_option (CHR ''l'') ''--list'' opt_list_update,
      flag_option (CHR ''m'') ''--multiple'' opt_multiple_update,
      flag_option (CHR ''n'') ''--nowaf'' opt_nowaf_update,
      string_option (CHR ''p'') [''--pyexample''] opt_pyexample_update,
      flag_option (CHR ''r'') ''--retain'' opt_retain_update,
      string_option (CHR ''s'') [''--suite''] opt_suite_update,
      string_option (CHR ''t'') [''--text''] opt_text_update,
      flag_option (CHR ''v'') ''--verbose'' opt_verbose_update,
      string_option (CHR ''w'') [''--web'', ''--html''] opt_html_update,
      string_option (CHR ''x'') [''--xml''] opt_xml_update,
      flag_option (CHR ''z'') ''--dlm'' opt_dlm_test_runner_update]"

text \<open>\<open>parser.parse_args()[0]\<close>: the words that are left are dropped.\<close>

definition parse_test_options :: "string list \<Rightarrow> options result" where
  "parse_test_options argv = map_result fst (parse_args test_rows default_options argv)"

section \<open>What a command line means\<close>

text \<open>A command line as a list of settings, the words that stand for them, and what they do to the options.  A
  long name may be any text that \<open>match_long_opt\<close> completes.\<close>

datatype setting =
    Long string string
  | Long_next string string
  | Long_flag string
  | Short char string
  | Short_next char string
  | Short_flags string
  | Positional string

fun setting_words :: "setting \<Rightarrow> string list" where
  "setting_words (Long n w) = [n @ ''='' @ w]"
| "setting_words (Long_next n w) = [n, w]"
| "setting_words (Long_flag n) = [n]"
| "setting_words (Short c w) = [CHR ''-'' # c # w]"
| "setting_words (Short_next c w) = [[CHR ''-'', c], w]"
| "setting_words (Short_flags cs) = [CHR ''-'' # cs]"
| "setting_words (Positional w) = [w]"

definition long_action :: "'v opt_row list \<Rightarrow> string \<Rightarrow> 'v opt_action option" where
  "long_action rows n = (case match_long_opt rows n of Inl _ \<Rightarrow> None | Inr w \<Rightarrow> find_long rows w)"

definition store_into :: "'v opt_action option \<Rightarrow> string \<Rightarrow> 'v \<Rightarrow> 'v" where
  "store_into a w v = (case a of Some (Store f) \<Rightarrow> f w v | _ \<Rightarrow> v)"

definition store_true :: "'v opt_action option \<Rightarrow> 'v \<Rightarrow> 'v" where
  "store_true a v = (case a of Some (Store_true f) \<Rightarrow> f v | _ \<Rightarrow> v)"

definition takes_value :: "'v opt_action option \<Rightarrow> bool" where
  "takes_value a \<longleftrightarrow> (case a of Some (Store f) \<Rightarrow> True | _ \<Rightarrow> False)"

definition is_flag :: "'v opt_action option \<Rightarrow> bool" where
  "is_flag a \<longleftrightarrow> (case a of Some (Store_true f) \<Rightarrow> True | _ \<Rightarrow> False)"

fun setting_ok :: "'v opt_row list \<Rightarrow> setting \<Rightarrow> bool" where
  "setting_ok rows (Long n w) = (takes_value (long_action rows n) \<and> startswith n ''--'' \<and> CHR ''='' \<notin> set n)"
| "setting_ok rows (Long_next n w) = (takes_value (long_action rows n) \<and> startswith n ''--'' \<and> n \<noteq> ''--'' \<and> CHR ''='' \<notin> set n)"
| "setting_ok rows (Long_flag n) = (is_flag (long_action rows n) \<and> startswith n ''--'' \<and> n \<noteq> ''--'' \<and> CHR ''='' \<notin> set n)"
| "setting_ok rows (Short c w) = (takes_value (find_short rows c) \<and> c \<noteq> CHR ''-'' \<and> w \<noteq> [])"
| "setting_ok rows (Short_next c w) = (takes_value (find_short rows c) \<and> c \<noteq> CHR ''-'')"
| "setting_ok rows (Short_flags cs) = (list_all (\<lambda>c. is_flag (find_short rows c)) cs \<and> cs \<noteq> [] \<and> hd cs \<noteq> CHR ''-'')"
| "setting_ok rows (Positional w) = (\<not> startswith w ''-'' \<or> w = ''-'')"

fun effect :: "'v opt_row list \<Rightarrow> setting \<Rightarrow> 'v \<Rightarrow> 'v" where
  "effect rows (Long n w) = store_into (long_action rows n) w"
| "effect rows (Long_next n w) = store_into (long_action rows n) w"
| "effect rows (Long_flag n) = store_true (long_action rows n)"
| "effect rows (Short c w) = store_into (find_short rows c) w"
| "effect rows (Short_next c w) = store_into (find_short rows c) w"
| "effect rows (Short_flags cs) = fold (\<lambda>c. store_true (find_short rows c)) cs"
| "effect rows (Positional w) = (\<lambda>v. v)"

fun positional :: "setting \<Rightarrow> string list" where
  "positional (Positional w) = [w]"
| "positional _ = []"

lemma takes_valueE:
  assumes "takes_value a" obtains f where "a = Some (Store f)" "store_into a = f"
  using assms by (auto simp: takes_value_def store_into_def fun_eq_iff split: option.splits opt_action.splits)

lemma is_flagE:
  assumes "is_flag a" obtains f where "a = Some (Store_true f)" "store_true a = f"
  using assms by (auto simp: is_flag_def store_true_def fun_eq_iff split: option.splits opt_action.splits)

lemma long_actionE:
  assumes "long_action rows n = Some a" obtains w where "match_long_opt rows n = Inr w" "find_long rows w = Some a"
  using assms by (auto simp: long_action_def split: sum.splits)

lemma split_explicit_plain: "CHR ''='' \<notin> set n \<Longrightarrow> split_explicit n = (n, None)"
  by (simp add: split_explicit_def)

lemma split_explicit_value: "CHR ''='' \<notin> set n \<Longrightarrow> split_explicit (n @ CHR ''='' # w) = (n, Some w)"
  by (simp add: split_explicit_def)

lemma process_flags:
  "list_all (\<lambda>c. is_flag (find_short rows c)) cs \<Longrightarrow>
   process_short_opts rows cs rargs v = Inr (fold (\<lambda>c. store_true (find_short rows c)) cs v, rargs)"
proof (induction cs arbitrary: v)
  case (Cons c cs)
  then obtain f where "find_short rows c = Some (Store_true f)" "store_true (Some (Store_true f)) = f" by (auto elim!: is_flagE)
  with Cons show ?case by simp
qed simp

lemma startswith_dashes: "startswith n ''--'' \<longleftrightarrow> (\<exists>t. n = CHR ''-'' # CHR ''-'' # t)"
  by (auto simp: startswith_iff)

text \<open>Every setting is read as one step.\<close>

lemma process_setting:
  assumes "setting_ok rows s"
  shows "process_args rows largs v (setting_words s @ rest) = process_args rows (largs @ positional s) (effect rows s v) rest"
proof (cases s)
  case (Long n w)
  with assms obtain f m where "match_long_opt rows n = Inr m" "find_long rows m = Some (Store f)" "store_into (long_action rows n) = f"
    and n: "startswith n ''--''" "CHR ''='' \<notin> set n" by (auto elim!: takes_valueE long_actionE)
  then have "process_option rows (n @ CHR ''='' # w) rest v = Inr (store_into (long_action rows n) w v, rest)"
    by (auto simp: process_option_def process_long_opt_def split_explicit_value startswith_dashes)
  then show ?thesis using n by (auto simp: Long startswith_dashes)
next
  case (Long_next n w)
  with assms obtain f m where "match_long_opt rows n = Inr m" "find_long rows m = Some (Store f)" "store_into (long_action rows n) = f"
    and n: "startswith n ''--''" "n \<noteq> ''--''" "CHR ''='' \<notin> set n" by (auto elim!: takes_valueE long_actionE)
  then have "process_option rows n (w # rest) v = Inr (store_into (long_action rows n) w v, rest)"
    by (auto simp: process_option_def process_long_opt_def split_explicit_plain startswith_dashes next_word_def)
  then show ?thesis using n by (auto simp: Long_next startswith_dashes)
next
  case (Long_flag n)
  with assms obtain f m where "match_long_opt rows n = Inr m" "find_long rows m = Some (Store_true f)" "store_true (long_action rows n) = f"
    and n: "startswith n ''--''" "n \<noteq> ''--''" "CHR ''='' \<notin> set n" by (auto elim!: is_flagE long_actionE)
  then have "process_option rows n rest v = Inr (store_true (long_action rows n) v, rest)"
    by (auto simp: process_option_def process_long_opt_def split_explicit_plain startswith_dashes)
  then show ?thesis using n by (auto simp: Long_flag startswith_dashes)
next
  case (Short c w)
  with assms obtain f where "find_short rows c = Some (Store f)" "store_into (find_short rows c) = f" by (auto elim!: takes_valueE)
  with assms Short show ?thesis by (simp add: process_option_def)
next
  case (Short_next c w)
  with assms obtain f where "find_short rows c = Some (Store f)" "store_into (find_short rows c) = f" by (auto elim!: takes_valueE)
  with assms Short_next show ?thesis by (simp add: process_option_def next_word_def)
next
  case (Short_flags cs)
  with assms obtain d ds where cs: "cs = d # ds" "d \<noteq> CHR ''-''" by (cases cs) auto
  with assms Short_flags process_flags [of rows cs rest v] show ?thesis by (simp add: process_option_def)
next
  case (Positional w)
  then show ?thesis using assms by (cases w) (auto simp: startswith_def)
qed

lemma process_settings:
  "list_all (setting_ok rows) ss \<Longrightarrow>
   process_args rows largs v (concat (map setting_words ss) @ rest) =
   process_args rows (largs @ concat (map positional ss)) (fold (effect rows) ss v) rest"
  by (induction ss arbitrary: largs v) (simp_all add: process_setting)

text \<open>The two ways to write down all options.  The long form gives every option with a value its value after an equals sign;
  the short form gives it as the next word, and bundles the flags.\<close>

definition string_settings :: "options \<Rightarrow> (char \<times> string \<times> string) list" where
  "string_settings o' =
     [(CHR ''b'', ''--buildpath'', opt_buildpath o'), (CHR ''c'', ''--constrain'', opt_constrain o'),
      (CHR ''e'', ''--example'', opt_example o'), (CHR ''f'', ''--fullness'', opt_fullness o'),
      (CHR ''p'', ''--pyexample'', opt_pyexample o'), (CHR ''s'', ''--suite'', opt_suite o'),
      (CHR ''t'', ''--text'', opt_text o'), (CHR ''w'', ''--web'', opt_html o'), (CHR ''x'', ''--xml'', opt_xml o')]"

definition flag_settings :: "options \<Rightarrow> (char \<times> string \<times> bool) list" where
  "flag_settings o' =
     [(CHR ''d'', ''--duration'', opt_duration o'), (CHR ''u'', ''--update-data'', opt_update_data o'),
      (CHR ''g'', ''--grind'', opt_valgrind o'), (CHR ''i'', ''--grind-xml'', opt_valgrind_xml o'),
      (CHR ''k'', ''--kinds'', opt_kinds o'), (CHR ''l'', ''--list'', opt_list o'),
      (CHR ''m'', ''--multiple'', opt_multiple o'), (CHR ''n'', ''--nowaf'', opt_nowaf o'),
      (CHR ''r'', ''--retain'', opt_retain o'), (CHR ''v'', ''--verbose'', opt_verbose o'),
      (CHR ''z'', ''--dlm'', opt_dlm_test_runner o')]"

definition long_settings :: "options \<Rightarrow> setting list" where
  "long_settings o' =
     map (\<lambda>(c, n, w). Long n w) (string_settings o') @ map (\<lambda>(c, n, b). Long_flag n) (filter (\<lambda>(c, n, b). b) (flag_settings o'))"

definition short_settings :: "options \<Rightarrow> setting list" where
  "short_settings o' =
     (let cs = map fst (filter (\<lambda>(c, n, b). b) (flag_settings o'))
      in map (\<lambda>(c, n, w). Short_next c w) (string_settings o') @ (if cs = [] then [] else [Short_flags cs]))"

text \<open>What the names of the table stand for.\<close>

abbreviation rows :: "options opt_row list" where "rows \<equiv> help_row # test_rows"

lemma short_actions [simp]:
  "find_short rows (CHR ''b'') = Some (Store (\<lambda>w. opt_buildpath_update (\<lambda>_. w)))"
  "find_short rows (CHR ''c'') = Some (Store (\<lambda>w. opt_constrain_update (\<lambda>_. w)))"
  "find_short rows (CHR ''e'') = Some (Store (\<lambda>w. opt_example_update (\<lambda>_. w)))"
  "find_short rows (CHR ''f'') = Some (Store (\<lambda>w. opt_fullness_update (\<lambda>_. w)))"
  "find_short rows (CHR ''p'') = Some (Store (\<lambda>w. opt_pyexample_update (\<lambda>_. w)))"
  "find_short rows (CHR ''s'') = Some (Store (\<lambda>w. opt_suite_update (\<lambda>_. w)))"
  "find_short rows (CHR ''t'') = Some (Store (\<lambda>w. opt_text_update (\<lambda>_. w)))"
  "find_short rows (CHR ''w'') = Some (Store (\<lambda>w. opt_html_update (\<lambda>_. w)))"
  "find_short rows (CHR ''x'') = Some (Store (\<lambda>w. opt_xml_update (\<lambda>_. w)))"
  "find_short rows (CHR ''d'') = Some (Store_true (opt_duration_update (\<lambda>_. True)))"
  "find_short rows (CHR ''u'') = Some (Store_true (opt_update_data_update (\<lambda>_. True)))"
  "find_short rows (CHR ''g'') = Some (Store_true (opt_valgrind_update (\<lambda>_. True)))"
  "find_short rows (CHR ''i'') = Some (Store_true (opt_valgrind_xml_update (\<lambda>_. True)))"
  "find_short rows (CHR ''k'') = Some (Store_true (opt_kinds_update (\<lambda>_. True)))"
  "find_short rows (CHR ''l'') = Some (Store_true (opt_list_update (\<lambda>_. True)))"
  "find_short rows (CHR ''m'') = Some (Store_true (opt_multiple_update (\<lambda>_. True)))"
  "find_short rows (CHR ''n'') = Some (Store_true (opt_nowaf_update (\<lambda>_. True)))"
  "find_short rows (CHR ''r'') = Some (Store_true (opt_retain_update (\<lambda>_. True)))"
  "find_short rows (CHR ''v'') = Some (Store_true (opt_verbose_update (\<lambda>_. True)))"
  "find_short rows (CHR ''z'') = Some (Store_true (opt_dlm_test_runner_update (\<lambda>_. True)))"
  by (simp_all add: find_short_def help_row_def test_rows_def string_option_def flag_option_def)

lemma long_actions [simp]:
  "long_action rows ''--buildpath'' = Some (Store (\<lambda>w. opt_buildpath_update (\<lambda>_. w)))"
  "long_action rows ''--constrain'' = Some (Store (\<lambda>w. opt_constrain_update (\<lambda>_. w)))"
  "long_action rows ''--example'' = Some (Store (\<lambda>w. opt_example_update (\<lambda>_. w)))"
  "long_action rows ''--fullness'' = Some (Store (\<lambda>w. opt_fullness_update (\<lambda>_. w)))"
  "long_action rows ''--pyexample'' = Some (Store (\<lambda>w. opt_pyexample_update (\<lambda>_. w)))"
  "long_action rows ''--suite'' = Some (Store (\<lambda>w. opt_suite_update (\<lambda>_. w)))"
  "long_action rows ''--text'' = Some (Store (\<lambda>w. opt_text_update (\<lambda>_. w)))"
  "long_action rows ''--web'' = Some (Store (\<lambda>w. opt_html_update (\<lambda>_. w)))"
  "long_action rows ''--xml'' = Some (Store (\<lambda>w. opt_xml_update (\<lambda>_. w)))"
  "long_action rows ''--duration'' = Some (Store_true (opt_duration_update (\<lambda>_. True)))"
  "long_action rows ''--update-data'' = Some (Store_true (opt_update_data_update (\<lambda>_. True)))"
  "long_action rows ''--grind'' = Some (Store_true (opt_valgrind_update (\<lambda>_. True)))"
  "long_action rows ''--grind-xml'' = Some (Store_true (opt_valgrind_xml_update (\<lambda>_. True)))"
  "long_action rows ''--kinds'' = Some (Store_true (opt_kinds_update (\<lambda>_. True)))"
  "long_action rows ''--list'' = Some (Store_true (opt_list_update (\<lambda>_. True)))"
  "long_action rows ''--multiple'' = Some (Store_true (opt_multiple_update (\<lambda>_. True)))"
  "long_action rows ''--nowaf'' = Some (Store_true (opt_nowaf_update (\<lambda>_. True)))"
  "long_action rows ''--retain'' = Some (Store_true (opt_retain_update (\<lambda>_. True)))"
  "long_action rows ''--verbose'' = Some (Store_true (opt_verbose_update (\<lambda>_. True)))"
  "long_action rows ''--dlm'' = Some (Store_true (opt_dlm_test_runner_update (\<lambda>_. True)))"
  by (simp_all add: long_action_def match_long_opt_def find_long_def long_words_def help_row_def test_rows_def string_option_def flag_option_def)

text \<open>A flag that is set on a condition.\<close>

definition store_if :: "bool \<Rightarrow> 'v opt_action option \<Rightarrow> 'v \<Rightarrow> 'v" where
  "store_if b a v = (if b then store_true a v else v)"

lemma conditional_flags:
  "store_if b (Some (Store_true (opt_duration_update (\<lambda>_. True)))) v = opt_duration_update (\<lambda>x. b \<or> x) v"
  "store_if b (Some (Store_true (opt_update_data_update (\<lambda>_. True)))) v = opt_update_data_update (\<lambda>x. b \<or> x) v"
  "store_if b (Some (Store_true (opt_valgrind_update (\<lambda>_. True)))) v = opt_valgrind_update (\<lambda>x. b \<or> x) v"
  "store_if b (Some (Store_true (opt_valgrind_xml_update (\<lambda>_. True)))) v = opt_valgrind_xml_update (\<lambda>x. b \<or> x) v"
  "store_if b (Some (Store_true (opt_kinds_update (\<lambda>_. True)))) v = opt_kinds_update (\<lambda>x. b \<or> x) v"
  "store_if b (Some (Store_true (opt_list_update (\<lambda>_. True)))) v = opt_list_update (\<lambda>x. b \<or> x) v"
  "store_if b (Some (Store_true (opt_multiple_update (\<lambda>_. True)))) v = opt_multiple_update (\<lambda>x. b \<or> x) v"
  "store_if b (Some (Store_true (opt_nowaf_update (\<lambda>_. True)))) v = opt_nowaf_update (\<lambda>x. b \<or> x) v"
  "store_if b (Some (Store_true (opt_retain_update (\<lambda>_. True)))) v = opt_retain_update (\<lambda>x. b \<or> x) v"
  "store_if b (Some (Store_true (opt_verbose_update (\<lambda>_. True)))) v = opt_verbose_update (\<lambda>x. b \<or> x) v"
  "store_if b (Some (Store_true (opt_dlm_test_runner_update (\<lambda>_. True)))) v = opt_dlm_test_runner_update (\<lambda>x. b \<or> x) v"
  by (cases v; simp add: store_if_def store_true_def)+

lemma store_actions: "store_into (Some (Store f)) w v = f w v"
  by (simp add: store_into_def)

lemma fold_store_if:
  "fold (\<lambda>(c, n, b). store_if b (a c n)) fs v = fold (\<lambda>(c, n, b). store_true (a c n)) (filter (\<lambda>(c, n, b). b) fs) v"
  by (induction fs arbitrary: v) (auto simp: store_if_def)

lemma defaults_overwritten:
  shows "fold (\<lambda>(c, n, b). store_if b (long_action rows n)) (flag_settings o')
     (fold (\<lambda>(c, n, w). store_into (long_action rows n) w) (string_settings o') default_options) = o'"
    "fold (\<lambda>(c, n, b). store_if b (find_short rows c)) (flag_settings o')
     (fold (\<lambda>(c, n, w). store_into (find_short rows c) w) (string_settings o') default_options) = o'"
  by (simp_all add: flag_settings_def string_settings_def conditional_flags store_actions default_options_def)

lemma flag_names:
  "list_all (\<lambda>(c, n, b). is_flag (find_short rows c) \<and> is_flag (long_action rows n) \<and> c \<noteq> CHR ''-'' \<and>
     startswith n ''--'' \<and> n \<noteq> ''--'' \<and> CHR ''='' \<notin> set n) (flag_settings o')"
  by (simp add: flag_settings_def is_flag_def)

lemma string_names:
  "list_all (\<lambda>(c, n, w). takes_value (find_short rows c) \<and> takes_value (long_action rows n) \<and> c \<noteq> CHR ''-'' \<and>
     startswith n ''--'' \<and> CHR ''='' \<notin> set n) (string_settings o')"
  by (simp add: string_settings_def takes_value_def)

lemma long_settings_ok: "list_all (setting_ok rows) (long_settings o')"
  using flag_names [of o'] string_names [of o'] by (auto simp: long_settings_def list_all_iff)

lemma short_settings_ok: "list_all (setting_ok rows) (short_settings o')"
proof -
  let ?cs = "map fst (filter (\<lambda>(c, n, b). b) (flag_settings o'))"
  have "list_all (\<lambda>c. is_flag (find_short rows c) \<and> c \<noteq> CHR ''-'') ?cs"
    using flag_names [of o'] by (auto simp: list_all_iff)
  then have "?cs = [] \<or> setting_ok rows (Short_flags ?cs)" by (cases ?cs) (auto simp: list_all_iff)
  moreover have "list_all (setting_ok rows) (map (\<lambda>(c, n, w). Short_next c w) (string_settings o'))"
    using string_names [of o'] by (auto simp: list_all_iff)
  ultimately show ?thesis by (auto simp: short_settings_def Let_def)
qed

lemma fold_map_pairs: "fold f (map (\<lambda>(c, n, w). g c n w) xs) = fold (\<lambda>(c, n, w). f (g c n w)) xs"
  by (induction xs) (auto simp: fun_eq_iff)

lemma long_settings_effect: "fold (effect rows) (long_settings o') default_options = o'"
  using defaults_overwritten(1) [of o']
  by (simp add: long_settings_def fold_map_pairs fold_store_if)

lemma short_settings_effect: "fold (effect rows) (short_settings o') default_options = o'"
  using defaults_overwritten(2) [of o', unfolded fold_store_if]
  by (cases "filter (\<lambda>(c, n, b). b) (flag_settings o') = []")
     (simp_all add: short_settings_def Let_def fold_map_pairs fold_map comp_def split_def)

lemma no_positional: "concat (map positional (long_settings o')) = []" "concat (map positional (short_settings o')) = []"
  by (auto simp: long_settings_def short_settings_def Let_def)

text \<open>The words of settings are read as the settings.\<close>

definition settings_words :: "setting list \<Rightarrow> string list" where
  "settings_words ss = concat (map setting_words ss)"

interpretation command_words: codec "\<lambda>ss. prog # settings_words ss" "parse_args test_rows default_options"
    "\<lambda>ss. (fold (effect rows) ss default_options, concat (map positional ss))" "list_all (setting_ok rows)" for prog
  using process_settings [of rows _ "[]" default_options "[]"]
  by unfold_locales (simp add: parse_args_def settings_words_def)

text \<open>The two spellings of the options \<open>o'\<close>.\<close>

definition spellings :: "string \<Rightarrow> options \<Rightarrow> string list list" where
  "spellings prog o' = [prog # settings_words (long_settings o'), prog # settings_words (short_settings o')]"

lemma parse_spellings: "argv \<in> set (spellings prog o') \<Longrightarrow> parse_test_options argv = Inr o'"
  using command_words.parse_render [OF long_settings_ok, of prog o'] command_words.parse_render [OF short_settings_ok, of prog o']
  by (auto simp: spellings_def parse_test_options_def long_settings_effect short_settings_effect)

section \<open>Properties\<close>

text \<open>C9: every choice of options can be given on the command line.  Reading the long form or the short form of any options
  gives back these options, whatever the values contain: equals signs, dashes, blanks or nothing.\<close>

theorem command_line_roundtrip:
  "parse_test_options (prog # settings_words (long_settings o')) = Inr o' \<and>
   parse_test_options (prog # settings_words (short_settings o')) = Inr o'"
  by (intro conjI parse_spellings [of _ prog]) (simp_all add: spellings_def)

text \<open>A word that looks like an option and cannot be completed to one.\<close>

definition unknown_word :: "string \<Rightarrow> bool" where
  "unknown_word w \<longleftrightarrow>
     (startswith w ''--'' \<and> w \<noteq> ''--'' \<and> \<not> list_ex (\<lambda>n. startswith n (fst (split_explicit w))) (long_words rows)) \<or>
     (\<not> startswith w ''--'' \<and> startswith w ''-'' \<and> 1 < length w \<and> find_short rows (w ! 1) = None)"

lemma match_unknown: "\<not> list_ex (\<lambda>n. startswith n s) (long_words rs) \<Longrightarrow> match_long_opt rs s = usage_error"
proof -
  assume n: "\<not> list_ex (\<lambda>n. startswith n s) (long_words rs)"
  then have "s \<notin> set (long_words rs)" using startswith_append [of s "[]"] by (auto simp: list_ex_iff)
  moreover from n have "filter (\<lambda>w. startswith w s) (long_words rs) = []" by (auto simp: list_ex_iff filter_empty_conv)
  ultimately show ?thesis by (simp add: match_long_opt_def)
qed

lemma process_unknown: "unknown_word w \<Longrightarrow> process_args rows largs v (w # rest) = usage_error"
proof -
  assume u: "unknown_word w"
  have "process_option rows w rest v = usage_error"
  proof (cases "startswith w ''--''")
    case True
    with u match_unknown [of "fst (split_explicit w)" rows] show ?thesis
      by (simp add: unknown_word_def process_option_def process_long_opt_def usage_error_def)
  next
    case False
    with u obtain a b cs where "w = a # b # cs" "find_short rows b = None"
      by (cases w; cases "tl w") (auto simp: unknown_word_def)
    then show ?thesis using False by (auto simp: process_option_def)
  qed
  then show ?thesis using u by (auto simp: unknown_word_def usage_error_def)
qed

definition option_exit :: "py_error \<Rightarrow> bool" where
  "option_exit e \<longleftrightarrow> e = SystemExit 0 \<or> e = SystemExit 2"

lemma match_known: "match_long_opt rs s = Inr n \<Longrightarrow> find_long rs n \<noteq> None"
proof -
  assume m: "match_long_opt rs s = Inr n"
  then have "filter (\<lambda>w. startswith w s) (long_words rs) = [n] \<or> n = s \<and> s \<in> set (long_words rs)"
    by (auto simp: match_long_opt_def usage_error_def split: if_splits list.splits)
  then have "n \<in> set (long_words rs)" by (metis list.set_intros(1) filter_is_subset subsetD)
  then show ?thesis by (auto simp: long_words_def find_long_def find_None_iff)
qed

lemma next_word_exit: "next_word f ws v = Inl e \<Longrightarrow> option_exit e"
  by (cases ws) (auto simp: next_word_def usage_error_def option_exit_def)

lemma short_exit: "process_short_opts rs cs ws v = Inl e \<Longrightarrow> option_exit e"
  by (induction rs cs ws v rule: process_short_opts.induct)
     (auto simp: usage_error_def dest: next_word_exit split: option.splits opt_action.splits if_splits, auto simp: option_exit_def)

lemma apply_long_exit: "apply_long a x ws v = Inl e \<Longrightarrow> a \<noteq> None \<Longrightarrow> option_exit e"
  by (induction a x ws v rule: apply_long.induct) (auto simp: usage_error_def option_exit_def dest: next_word_exit [unfolded option_exit_def])

lemma long_exit: "process_long_opt rs w ws v = Inl e \<Longrightarrow> option_exit e"
  by (auto simp: process_long_opt_def bind_result_eq_Inl dest: match_known intro: apply_long_exit)
     (auto simp: match_long_opt_def usage_error_def option_exit_def split: if_splits list.splits)

lemma process_exit: "process_args rs largs v ws = Inl e \<Longrightarrow> option_exit e"
  by (induction rs largs v ws rule: process_args.induct)
     (auto simp: process_option_def split: if_splits sum.splits intro: long_exit short_exit)

lemma parse_exit: "parse_test_options argv = Inl e \<Longrightarrow> option_exit e"
  unfolding parse_test_options_def parse_args_def
  by (cases "process_args rows [] default_options (tl argv)") (auto dest: process_exit)

text \<open>C10: how a command line can fail.  A word that is no option is an error, whatever correct settings come before it and whatever comes
  after it; and reading a command line never ends in any other way than with options or with the exit codes 0 and 2.\<close>

theorem command_line_errors:
  assumes "list_all (setting_ok rows) ss" "unknown_word w"
  shows "parse_test_options (prog # settings_words ss @ w # rest) = Inl (SystemExit 2) \<and>
    (\<forall>argv e. parse_test_options argv = Inl e \<longrightarrow> e = SystemExit 0 \<or> e = SystemExit 2)"
proof
  show "parse_test_options (prog # settings_words ss @ w # rest) = Inl (SystemExit 2)"
    using process_settings [OF assms(1), of "[]" default_options "w # rest"] process_unknown [OF assms(2)]
    by (simp add: parse_test_options_def parse_args_def settings_words_def usage_error_def)
  show "\<forall>argv e. parse_test_options argv = Inl e \<longrightarrow> e = SystemExit 0 \<or> e = SystemExit 2"
    using parse_exit by (simp add: option_exit_def)
qed

theorem command_line_errors_witness:
  "parse_test_options [''test.py'', ''--suite=devices'', ''-vn'', ''--gird'', ''-h''] = Inl (SystemExit 2)"
proof -
  have "list_all (setting_ok rows) [Long ''--suite'' ''devices'', Short_flags ''vn'']"
    by (simp add: takes_value_def is_flag_def)
  moreover have "unknown_word ''--gird''" by code_simp
  ultimately show ?thesis
    using command_line_errors [of "[Long ''--suite'' ''devices'', Short_flags ''vn'']" "''--gird''" "''test.py''" "[''-h'']"]
    by (simp add: settings_words_def)
qed

end
