(* ===== verification/Machine.thy ===== *)
theory Machine
  imports Main
begin

text \<open>
  Step relations with an invariant and a decreasing measure: every run is finite, can be
  continued to a state without successor, and, where every other state has a successor, ends
  in a final state.
\<close>

locale terminating_system =
  fixes step :: "'s \<Rightarrow> 's \<Rightarrow> bool" and inv :: "'s \<Rightarrow> bool" and fuel :: "'s \<Rightarrow> nat"
  assumes inv_step: "inv s \<Longrightarrow> step s t \<Longrightarrow> inv t"
    and decrease: "inv s \<Longrightarrow> step s t \<Longrightarrow> fuel t < fuel s"
begin

lemma inv_run: "step\<^sup>*\<^sup>* s t \<Longrightarrow> inv s \<Longrightarrow> inv t"
  by (induction rule: rtranclp_induct) (auto intro: inv_step)

lemma run_length: "(step ^^ n) s t \<Longrightarrow> inv s \<Longrightarrow> n + fuel t \<le> fuel s"
proof (induction n arbitrary: t)
  case (Suc n)
  then obtain u where u: "(step ^^ n) s u" "step u t" by auto
  have "inv u" using u(1) Suc.prems(2) by (meson inv_run relpowp_imp_rtranclp)
  with u Suc show ?case using decrease [of u t] by fastforce
qed auto

lemma no_infinite_run: "inv (f 0) \<Longrightarrow> \<not> (\<forall>i. step (f i) (f (Suc i)))"
proof
  assume "inv (f 0)" and run: "\<forall>i. step (f i) (f (Suc i))"
  have "(step ^^ n) (f 0) (f n)" for n
    by (induction n) (use run in auto)
  then have "Suc (fuel (f 0)) + fuel (f (Suc (fuel (f 0)))) \<le> fuel (f 0)"
    using run_length \<open>inv (f 0)\<close> by blast
  then show False by simp
qed

lemma reaches_stuck: "inv s \<Longrightarrow> \<exists>t. step\<^sup>*\<^sup>* s t \<and> (\<nexists>u. step t u)"
proof (induction "fuel s" arbitrary: s rule: less_induct)
  case less
  show ?case
  proof (cases "\<exists>t. step s t")
    case True
    then obtain t where t: "step s t" by blast
    with less.prems have "fuel t < fuel s" "inv t" by (auto intro: decrease inv_step)
    then obtain u where "step\<^sup>*\<^sup>* t u" "\<nexists>v. step u v" using less.hyps by blast
    with t show ?thesis by (meson converse_rtranclp_into_rtranclp)
  qed blast
qed

end

locale progressing_system = terminating_system step inv fuel
  for step :: "'s \<Rightarrow> 's \<Rightarrow> bool" and inv :: "'s \<Rightarrow> bool" and fuel :: "'s \<Rightarrow> nat" +
  fixes final :: "'s \<Rightarrow> bool"
  assumes progress: "inv s \<Longrightarrow> \<not> final s \<Longrightarrow> \<exists>t. step s t"
begin

lemma stuck_is_final: "inv s \<Longrightarrow> step\<^sup>*\<^sup>* s t \<Longrightarrow> \<nexists>u. step t u \<Longrightarrow> final t"
  using inv_run progress by blast

lemma reaches_final: "inv s \<Longrightarrow> \<exists>t. step\<^sup>*\<^sup>* s t \<and> final t"
  using reaches_stuck stuck_is_final by blast

end

end
