(* ===== verification/Runner_Machine.thy ===== *)
theory Runner_Machine
  imports Test_Job Machine
begin

text \<open>
  The threads of \<open>src/test.py\<close>: the main thread dispatches the jobs and then one stop signal
  per worker on the input queue and collects one answer per job from the output queue; the
  worker threads serve the input queue; an interrupt signal can set \<open>thread_exit\<close> at any
  time.  The steps are a relation, so every interleaving and every outcome of a process is a
  run.  The script starts one worker (\<open>processors = 1\<close>); the relation allows any number.
\<close>

section \<open>The step relation\<close>

text \<open>A worker waits on the input queue, works on a job (with the value of \<open>thread_exit\<close> it read
  after taking the job), or has ended.\<close>

datatype wstate = WWaiting | WHolding bool job | WExited

record sys =
  s_todo :: "job list"
  s_inq :: "job list"
  s_outq :: "job list"
  s_workers :: "wstate list"
  s_collected :: "job list"
  s_jobs :: nat
  s_thread_exit :: bool

definition stop_job :: job where
  "stop_job = new_job\<lparr>is_break := True\<rparr>"

definition runner_init :: "nat \<Rightarrow> job list \<Rightarrow> sys" where
  "runner_init processors js =
     \<lparr>s_todo = js @ replicate processors stop_job, s_inq = [], s_outq = [],
      s_workers = replicate processors WWaiting, s_collected = [],
      s_jobs = length js, s_thread_exit = False\<rparr>"

inductive runner_step :: "options \<Rightarrow> waf_globals \<Rightarrow> sys \<Rightarrow> sys \<Rightarrow> bool"
  for opts g where
  main_put:
    "s_todo s = j # js \<Longrightarrow>
     runner_step opts g s (s\<lparr>s_todo := js, s_inq := s_inq s @ [j]\<rparr>)"
| worker_stop:
    "i < length (s_workers s) \<Longrightarrow> s_workers s ! i = WWaiting \<Longrightarrow> s_inq s = j # q \<Longrightarrow> is_break j \<Longrightarrow>
     runner_step opts g s (s\<lparr>s_inq := q, s_workers := (s_workers s)[i := WExited]\<rparr>)"
| worker_get:
    "i < length (s_workers s) \<Longrightarrow> s_workers s ! i = WWaiting \<Longrightarrow> s_inq s = j # q \<Longrightarrow> \<not> is_break j \<Longrightarrow>
     runner_step opts g s
       (s\<lparr>s_inq := q, s_workers := (s_workers s)[i := WHolding (s_thread_exit s) j]\<rparr>)"
| worker_put:
    "i < length (s_workers s) \<Longrightarrow> s_workers s ! i = WHolding te j \<Longrightarrow>
     worker_run popen opts g te j = Inr (j', out) \<Longrightarrow>
     runner_step opts g s
       (s\<lparr>s_outq := s_outq s @ [j'], s_workers := (s_workers s)[i := WWaiting]\<rparr>)"
| worker_die:
    "i < length (s_workers s) \<Longrightarrow> s_workers s ! i = WHolding te j \<Longrightarrow>
     worker_run popen opts g te j = Inl e \<Longrightarrow>
     runner_step opts g s (s\<lparr>s_workers := (s_workers s)[i := WExited]\<rparr>)"
| main_collect:
    "s_todo s = [] \<Longrightarrow> s_outq s = j # q \<Longrightarrow> length (s_collected s) < s_jobs s \<Longrightarrow>
     runner_step opts g s (s\<lparr>s_outq := q, s_collected := s_collected s @ [j]\<rparr>)"
| sigint:
    "\<not> s_thread_exit s \<Longrightarrow> runner_step opts g s (s\<lparr>s_thread_exit := True\<rparr>)"

inductive_cases runner_stepE: "runner_step opts g s t"

text \<open>The main thread is done: every answer collected and every worker joined.\<close>

definition runner_final :: "sys \<Rightarrow> bool" where
  "runner_final s \<longleftrightarrow> s_todo s = [] \<and> length (s_collected s) = s_jobs s \<and>
     list_all (\<lambda>w. w = WExited) (s_workers s)"

section \<open>The invariant\<close>

fun held_job :: "wstate \<Rightarrow> job list" where
  "held_job (WHolding te j) = [j]"
| "held_job _ = []"

definition held :: "sys \<Rightarrow> job list" where
  "held s = concat (map held_job (s_workers s))"

definition pending :: "sys \<Rightarrow> job list" where
  "pending s = s_inq s @ s_todo s"

definition exited :: "sys \<Rightarrow> nat" where
  "exited s = length (filter (\<lambda>w. w = WExited) (s_workers s))"

text \<open>The jobs in the system and the ones still to be taken, keyed by what no worker changes.\<close>

definition job_bag :: "sys \<Rightarrow> (bool \<times> bool \<times> bool \<times> string \<times> string \<times> string) multiset" where
  "job_bag s = mset (map job_key (s_collected s)) + mset (map job_key (s_outq s)) +
     mset (map job_key (held s)) + mset (map job_key (filter (\<lambda>j. \<not> is_break j) (pending s)))"

text \<open>An answer is what some run of a worker made of a dispatched job, and it is a break only
  after an interrupt.\<close>

definition answer_of :: "options \<Rightarrow> waf_globals \<Rightarrow> bool \<Rightarrow> job list \<Rightarrow> job \<Rightarrow> bool" where
  "answer_of opts g interrupted js j' \<longleftrightarrow>
     (\<exists>j \<in> set js. \<exists>popen te out. worker_run popen opts g te j = Inr (j', out) \<and> (te \<longrightarrow> interrupted))"

text \<open>The jobs still to be taken come before the stop signals, of which there is one for every
  worker that has not ended; no worker ends while a job is still to be taken.\<close>

definition queue_shape :: "nat \<Rightarrow> job list \<Rightarrow> nat \<Rightarrow> bool" where
  "queue_shape n pend ended \<longleftrightarrow>
     (\<exists>as k. pend = as @ replicate k stop_job \<and> list_all (\<lambda>j. \<not> is_break j) as \<and>
             k + ended = n \<and> (as \<noteq> [] \<longrightarrow> ended = 0))"

definition runner_inv :: "options \<Rightarrow> waf_globals \<Rightarrow> nat \<Rightarrow> job list \<Rightarrow> sys \<Rightarrow> bool" where
  "runner_inv opts g n js s \<longleftrightarrow>
     job_bag s = mset (map job_key js) \<and>
     s_jobs s = length js \<and>
     length (s_workers s) = n \<and>
     queue_shape n (pending s) (exited s) \<and>
     set (held s) \<union> {j \<in> set (pending s). \<not> is_break j} \<subseteq> set js \<and>
     (\<forall>te j. WHolding te j \<in> set (s_workers s) \<longrightarrow> te \<longrightarrow> s_thread_exit s) \<and>
     list_all (answer_of opts g (s_thread_exit s) js) (s_collected s @ s_outq s)"

definition runner_fuel :: "sys \<Rightarrow> nat" where
  "runner_fuel s = 4 * length (s_todo s) + 3 * length (s_inq s) + 2 * length (held s) +
     length (s_outq s) + (if s_thread_exit s then 0 else 1)"

section \<open>Every step keeps the invariant\<close>

lemma list_update_split:
  assumes "i < length ws"
  obtains us vs where "ws = us @ ws ! i # vs" and "\<And>w. ws[i := w] = us @ w # vs"
proof
  show "ws = take i ws @ ws ! i # drop (Suc i) ws" using assms by (rule id_take_nth_drop)
  show "\<And>w. ws[i := w] = take i ws @ w # drop (Suc i) ws" using assms by (rule upd_conv_take_nth_drop)
qed

lemma answer_of_mono: "answer_of opts g False js j \<Longrightarrow> answer_of opts g b js j"
  by (auto simp: answer_of_def)

lemma launchable_worker_run:
  "launchable g j \<Longrightarrow> worker_run popen opts g te j \<noteq> Inl e"
  using worker_run_total [of g j popen opts te] by auto

lemmas runner_defs = runner_inv_def job_bag_def held_def pending_def exited_def

lemma replicate_Suc_Cons: "j # q = replicate k x \<Longrightarrow> \<exists>k'. k = Suc k' \<and> j = x \<and> q = replicate k' x"
  by (cases k) auto

lemma stop_job_break [simp]: "is_break stop_job"
  by (simp add: stop_job_def)

lemma filter_stop [simp]: "filter (\<lambda>j. \<not> is_break j) (replicate k stop_job) = []"
  by (induction k) auto

lemma queue_shape_stop:
  assumes "queue_shape n (j # q) e" "is_break j"
  shows "queue_shape n q (Suc e)"
proof -
  obtain as k where p: "j # q = as @ replicate k stop_job" "list_all (\<lambda>j. \<not> is_break j) as"
    "k + e = n" using assms(1) by (auto simp: queue_shape_def)
  then have "as = []" using assms(2) by (cases as) auto
  then have "j # q = replicate k stop_job" using p(1) by simp
  then obtain k' where "k = Suc k'" "q = replicate k' stop_job" by (auto dest: replicate_Suc_Cons)
  with p(3) show ?thesis by (auto simp: queue_shape_def intro!: exI [of _ "[]"])
qed

lemma queue_shape_get:
  assumes "queue_shape n (j # q) e" "\<not> is_break j"
  shows "queue_shape n q e"
proof -
  obtain as k where p: "j # q = as @ replicate k stop_job" "list_all (\<lambda>j. \<not> is_break j) as"
    "k + e = n" "as \<noteq> [] \<longrightarrow> e = 0" using assms(1) by (auto simp: queue_shape_def)
  have "as \<noteq> []"
  proof
    assume "as = []"
    with p(1) have "j # q = replicate k stop_job" by simp
    with assms(2) show False by (auto dest: replicate_Suc_Cons)
  qed
  then obtain as' where "as = j # as'" "q = as' @ replicate k stop_job"
    using p(1) by (cases as) auto
  with p show ?thesis by (auto simp: queue_shape_def intro!: exI [of _ as'] exI [of _ k])
qed

lemma runner_inv_main_put:
  "runner_inv opts g n js s \<Longrightarrow> s_todo s = j # r \<Longrightarrow>
   runner_inv opts g n js (s\<lparr>s_todo := r, s_inq := s_inq s @ [j]\<rparr>)"
  by (simp add: runner_defs)

lemma runner_inv_worker_stop:
  assumes "runner_inv opts g n js s" "i < length (s_workers s)" "s_workers s ! i = WWaiting"
    "s_inq s = j # q" "is_break j"
  shows "runner_inv opts g n js (s\<lparr>s_inq := q, s_workers := (s_workers s)[i := WExited]\<rparr>)"
proof -
  obtain us vs where ws: "s_workers s = us @ WWaiting # vs"
    and upd: "\<And>w. (s_workers s)[i := w] = us @ w # vs"
    using list_update_split assms(2,3) by metis
  have "queue_shape n (q @ s_todo s) (Suc (exited s))"
    by (rule queue_shape_stop [of n j]) (use assms(1,4,5) in \<open>auto simp: runner_inv_def pending_def\<close>)
  with assms show ?thesis
    unfolding upd by (auto simp: runner_defs ws)
qed

lemma runner_inv_worker_get:
  assumes "runner_inv opts g n js s" "i < length (s_workers s)" "s_workers s ! i = WWaiting"
    "s_inq s = j # q" "\<not> is_break j"
  shows "runner_inv opts g n js
    (s\<lparr>s_inq := q, s_workers := (s_workers s)[i := WHolding (s_thread_exit s) j]\<rparr>)"
proof -
  obtain us vs where ws: "s_workers s = us @ WWaiting # vs"
    and upd: "\<And>w. (s_workers s)[i := w] = us @ w # vs"
    using list_update_split assms(2,3) by metis
  have "queue_shape n (q @ s_todo s) (exited s)"
    by (rule queue_shape_get [of n j]) (use assms(1,4,5) in \<open>auto simp: runner_inv_def pending_def\<close>)
  moreover have "job_bag (s\<lparr>s_inq := q, s_workers := us @ WHolding (s_thread_exit s) j # vs\<rparr>) = job_bag s"
    using assms(4,5) by (simp add: job_bag_def held_def pending_def ws)
  moreover have "set (held (s\<lparr>s_inq := q, s_workers := us @ WHolding (s_thread_exit s) j # vs\<rparr>)) =
      insert j (set (held s))"
    by (auto simp: held_def ws)
  ultimately show ?thesis
    using assms(1,4,5) unfolding upd runner_inv_def
    by (simp add: pending_def exited_def ws) blast
qed

lemma runner_inv_worker_put:
  assumes "runner_inv opts g n js s" "i < length (s_workers s)" "s_workers s ! i = WHolding te j"
    "worker_run popen opts g te j = Inr (j', out)"
  shows "runner_inv opts g n js (s\<lparr>s_outq := s_outq s @ [j'], s_workers := (s_workers s)[i := WWaiting]\<rparr>)"
proof -
  obtain us vs where ws: "s_workers s = us @ WHolding te j # vs"
    and upd: "\<And>w. (s_workers s)[i := w] = us @ w # vs"
    using list_update_split assms(2,3) by metis
  have "j \<in> set js" and "te \<longrightarrow> s_thread_exit s"
    using assms(1) by (auto simp: runner_defs ws)
  then have "answer_of opts g (s_thread_exit s) js j'"
    using assms(4) by (auto simp: answer_of_def)
  moreover have "job_key j' = job_key j" using assms(4) by (rule worker_run_key)
  ultimately show ?thesis
    using assms(1) unfolding upd by (simp add: runner_defs ws)
qed

lemma runner_inv_main_collect:
  "runner_inv opts g n js s \<Longrightarrow> s_outq s = j # q \<Longrightarrow>
   runner_inv opts g n js (s\<lparr>s_outq := q, s_collected := s_collected s @ [j]\<rparr>)"
  by (simp add: runner_defs)

lemma runner_inv_sigint:
  "runner_inv opts g n js s \<Longrightarrow> \<not> s_thread_exit s \<Longrightarrow>
   runner_inv opts g n js (s\<lparr>s_thread_exit := True\<rparr>)"
  by (auto simp: runner_defs list_all_iff intro: answer_of_mono)

lemma held_launchable:
  assumes "runner_inv opts g n js s" "list_all (launchable g) js"
    "i < length (s_workers s)" "s_workers s ! i = WHolding te j"
  shows "launchable g j"
proof -
  have "j \<in> set (held s)"
    using assms(3,4) by (auto simp: held_def) (metis held_job.simps(1) list.set_intros(1) nth_mem)
  with assms(1,2) show ?thesis by (auto simp: runner_inv_def list_all_iff)
qed

lemma runner_inv_step:
  assumes "runner_inv opts g n js s" "list_all (launchable g) js" "runner_step opts g s t"
  shows "runner_inv opts g n js t"
  using assms(3)
proof cases
  case (worker_die i te j popen e)
  with held_launchable [OF assms(1,2)] launchable_worker_run show ?thesis by blast
qed (use assms(1) in \<open>blast intro: runner_inv_main_put runner_inv_worker_stop runner_inv_worker_get
      runner_inv_worker_put runner_inv_main_collect runner_inv_sigint\<close>)+

lemma runner_fuel_step:
  assumes "runner_step opts g s t"
  shows "runner_fuel t < runner_fuel s"
proof -
  have held_upd: "length (concat (map held_job ((s_workers s)[i := w]))) + length (held_job (s_workers s ! i)) =
      length (held s) + length (held_job w)" if "i < length (s_workers s)" for i w
    using that by (rule list_update_split [of i "s_workers s"]) (simp add: held_def, metis
        (no_types, lifting) length_append length_concat map_append list.simps(9) concat.simps(2) concat_append
        add.commute add.left_commute)
  show ?thesis
    using assms
  proof cases
    case (worker_stop i j q)
    then show ?thesis using held_upd [of i WExited] by (simp add: runner_fuel_def held_def)
  next
    case (worker_get i j q)
    then show ?thesis using held_upd [of i "WHolding (s_thread_exit s) j"] by (simp add: runner_fuel_def held_def)
  next
    case (worker_put i te j popen j' out)
    then show ?thesis using held_upd [of i WWaiting] by (simp add: runner_fuel_def held_def)
  next
    case (worker_die i te j popen e)
    then show ?thesis using held_upd [of i WExited] by (simp add: runner_fuel_def held_def)
  qed (simp_all add: runner_fuel_def held_def)
qed

lemma runner_inv_init:
  assumes "list_all (\<lambda>j. \<not> is_break j) js"
  shows "runner_inv opts g n js (runner_init n js)"
proof -
  have "filter (\<lambda>j. \<not> is_break j) js = js" using assms by (simp add: list_all_iff filter_id_conv)
  moreover have "concat (map held_job (replicate n WWaiting)) = []" by (induction n) auto
  moreover have "filter (\<lambda>w. w = WExited) (replicate n WWaiting) = []" by (induction n) auto
  moreover have "queue_shape n (js @ replicate n stop_job) 0"
    using assms by (auto simp: queue_shape_def)
  ultimately show ?thesis
    by (auto simp: runner_defs runner_init_def)
qed

section \<open>Progress and termination\<close>

text \<open>A step that is not the delivery of an interrupt.\<close>

definition quiet_step :: "options \<Rightarrow> waf_globals \<Rightarrow> sys \<Rightarrow> sys \<Rightarrow> bool" where
  "quiet_step opts g s t \<longleftrightarrow> runner_step opts g s t \<and> s_thread_exit t = s_thread_exit s"

definition runner_ok :: "options \<Rightarrow> waf_globals \<Rightarrow> nat \<Rightarrow> job list \<Rightarrow> sys \<Rightarrow> bool" where
  "runner_ok opts g n js s \<longleftrightarrow> runner_inv opts g n js s \<and> list_all (launchable g) js \<and> 0 < n"

lemma size_job_bag:
  "runner_inv opts g n js s \<Longrightarrow>
   length (s_collected s) + length (s_outq s) + length (held s) +
     length (filter (\<lambda>j. \<not> is_break j) (pending s)) = length js"
proof -
  assume "runner_inv opts g n js s"
  then have "size (job_bag s) = size (mset (map job_key js))" by (simp add: runner_inv_def)
  then show ?thesis unfolding job_bag_def size_union size_mset by simp
qed

lemma all_exited_iff: "list_all (\<lambda>w. w = WExited) (s_workers s) \<longleftrightarrow> exited s = length (s_workers s)"
proof
  assume "exited s = length (s_workers s)"
  then show "list_all (\<lambda>w. w = WExited) (s_workers s)"
    unfolding exited_def list_all_iff
    using length_filter_less [of _ "s_workers s" "\<lambda>w. w = WExited"] by auto
qed (auto simp: exited_def list_all_iff filter_id_conv [THEN iffD2])

lemma queue_shape_all_exited: "queue_shape n p n \<Longrightarrow> 0 < n \<Longrightarrow> p = []"
  by (auto simp: queue_shape_def)

lemma queue_shape_Nil: "queue_shape n [] e \<Longrightarrow> e = n"
  by (auto simp: queue_shape_def)

lemma worker_kinds:
  obtains i te j where "i < length ws" "ws ! i = WHolding te j"
  | i where "i < length ws" "ws ! i = WWaiting"
  | "list_all (\<lambda>w. w = WExited) ws"
proof -
  assume a: "\<And>i te j. i < length ws \<Longrightarrow> ws ! i = WHolding te j \<Longrightarrow> thesis"
    and b: "\<And>i. i < length ws \<Longrightarrow> ws ! i = WWaiting \<Longrightarrow> thesis"
    and c: "list_all (\<lambda>w. w = WExited) ws \<Longrightarrow> thesis"
  show thesis
  proof (cases "list_all (\<lambda>w. w = WExited) ws")
    case False
    then obtain i where "i < length ws" "ws ! i \<noteq> WExited" by (auto simp: list_all_length)
    then show ?thesis by (cases "ws ! i") (auto intro: a b)
  qed (rule c)
qed

lemma quiet_progress:
  assumes ok: "runner_ok opts g n js s" and "\<not> runner_final s"
  shows "\<exists>t. quiet_step opts g s t"
proof -
  from ok have inv: "runner_inv opts g n js s" and l: "list_all (launchable g) js" and n: "0 < n"
    by (auto simp: runner_ok_def)
  show ?thesis
  proof (cases "s_todo s")
    case (Cons j r)
    then show ?thesis by (force simp: quiet_step_def intro: runner_step.main_put)
  next
    case todo: Nil
    show ?thesis
    proof (cases rule: worker_kinds [of "s_workers s"])
      case (1 i te j)
      then obtain j' out where "worker_run undefined opts g te j = Inr (j', out)"
        using worker_run_total held_launchable [OF inv l] by metis
      with 1 show ?thesis by (force simp: quiet_step_def intro: runner_step.worker_put)
    next
      case (2 i)
      show ?thesis
      proof (cases "s_inq s")
        case (Cons j q)
        with 2 show ?thesis
          by (cases "is_break j")
            (force simp: quiet_step_def intro: runner_step.worker_stop runner_step.worker_get)+
      next
        case Nil
        with todo inv have "exited s = length (s_workers s)"
          by (auto simp: runner_inv_def pending_def dest: queue_shape_Nil)
        with 2 show ?thesis
          using all_exited_iff [of s] by (auto simp: list_all_length)
      qed
    next
      case 3
      then have "exited s = n" using inv all_exited_iff [of s] by (auto simp: runner_inv_def)
      with inv n have "pending s = []" by (auto simp: runner_inv_def dest: queue_shape_all_exited)
      moreover have "held s = []"
      proof -
        have "\<forall>w \<in> set (s_workers s). held_job w = []" using 3 by (auto simp: list_all_iff)
        then show ?thesis by (simp add: held_def)
      qed
      ultimately have len: "length (s_collected s) + length (s_outq s) = s_jobs s"
        using size_job_bag [OF inv] inv by (simp add: runner_inv_def)
      with assms(2) 3 todo obtain j q where "s_outq s = j # q"
        by (cases "s_outq s") (auto simp: runner_final_def)
      with len todo show ?thesis by (force simp: quiet_step_def intro: runner_step.main_collect)
    qed
  qed
qed

interpretation rm: terminating_system "runner_step opts g" "runner_ok opts g n js" runner_fuel
  for opts g n js
  by unfold_locales (auto simp: runner_ok_def intro: runner_inv_step runner_fuel_step)

interpretation qm: progressing_system "quiet_step opts g" "runner_ok opts g n js" runner_fuel runner_final
  for opts g n js
  by unfold_locales
    (auto simp: quiet_step_def intro: rm.inv_step runner_fuel_step quiet_progress [unfolded quiet_step_def])

lemma runner_ok_init:
  assumes "list_all (\<lambda>j. \<not> is_break j) js" "list_all (launchable g) js" "0 < n"
  shows "runner_ok opts g n js (runner_init n js)"
  using assms runner_inv_init by (simp add: runner_ok_def)

lemma quiet_run_thread_exit: "(quiet_step opts g)\<^sup>*\<^sup>* s t \<Longrightarrow> s_thread_exit t = s_thread_exit s"
  by (induction rule: rtranclp_induct) (auto simp: quiet_step_def)

lemma quiet_run_run: "(quiet_step opts g)\<^sup>*\<^sup>* s t \<Longrightarrow> (runner_step opts g)\<^sup>*\<^sup>* s t"
  by (rule rtranclp_mono [THEN predicate2D]) (auto simp: quiet_step_def)

section \<open>One worker keeps the order\<close>

definition order_inv :: "job list \<Rightarrow> sys \<Rightarrow> bool" where
  "order_inv js s \<longleftrightarrow> length (s_workers s) = 1 \<and>
     map job_key (s_collected s @ s_outq s @ held s @ filter (\<lambda>j. \<not> is_break j) (pending s)) =
     map job_key js"

lemma order_inv_init:
  "list_all (\<lambda>j. \<not> is_break j) js \<Longrightarrow> order_inv js (runner_init 1 js)"
  by (simp add: order_inv_def runner_init_def held_def pending_def list_all_iff filter_id_conv [THEN iffD2])

lemma order_inv_step:
  assumes "order_inv js s" "runner_ok opts g n js s" "runner_step opts g s t"
  shows "order_inv js t"
proof -
  obtain w where w: "s_workers s = [w]" using assms(1) by (auto simp: order_inv_def length_Suc_conv)
  show ?thesis
    using assms(3)
  proof cases
    case (worker_put i te j popen j' out)
    then have "job_key j' = job_key j" by (auto dest: worker_run_key)
    with worker_put assms(1) w show ?thesis
      by (auto simp: order_inv_def held_def pending_def)
  next
    case (worker_die i te j popen e)
    with assms(2) held_launchable launchable_worker_run show ?thesis
      by (metis runner_ok_def)
  qed (use assms(1) w in \<open>auto simp: order_inv_def held_def pending_def\<close>)
qed

lemma order_inv_run:
  assumes "(runner_step opts g)\<^sup>*\<^sup>* s t" "order_inv js s" "runner_ok opts g n js s"
  shows "order_inv js t"
  using assms
proof (induction rule: rtranclp_induct)
  case (step u v)
  then have "runner_ok opts g n js u" by (auto intro: rm.inv_run)
  with step show ?case by (auto intro: order_inv_step)
qed simp

lemma final_pending:
  assumes "runner_ok opts g n js s" "runner_final s"
  shows "pending s = []" "held s = []" "s_outq s = []"
proof -
  from assms have inv: "runner_inv opts g n js s" and n: "0 < n" by (auto simp: runner_ok_def)
  then have "exited s = n" using assms(2) all_exited_iff [of s]
    by (auto simp: runner_inv_def runner_final_def)
  with inv n show p: "pending s = []" by (auto simp: runner_inv_def dest: queue_shape_all_exited)
  have "\<forall>w \<in> set (s_workers s). held_job w = []"
    using assms(2) by (auto simp: runner_final_def list_all_iff)
  then show h: "held s = []" by (simp add: held_def)
  show "s_outq s = []"
    using size_job_bag [OF inv] assms(2) inv p h by (simp add: runner_final_def runner_inv_def)
qed

lemma collected_answers:
  assumes "list_all (\<lambda>j. \<not> is_break j) js" "list_all (launchable g) js" "0 < n"
    and "(runner_step opts g)\<^sup>*\<^sup>* (runner_init n js) s" "runner_final s"
  shows "mset (map job_key (s_collected s)) = mset (map job_key js) \<and>
    (\<forall>j' \<in> set (s_collected s). \<exists>j \<in> set js. \<exists>popen te out.
        worker_run popen opts g te j = Inr (j', out) \<and> (te \<longrightarrow> s_thread_exit s)) \<and>
    (\<not> s_thread_exit s \<longrightarrow> (\<forall>j' \<in> set (s_collected s). \<not> is_break j'))"
proof -
  have ok: "runner_ok opts g n js s"
    using rm.inv_run [OF assms(4) runner_ok_init [OF assms(1-3)]] .
  then have inv: "runner_inv opts g n js s" by (simp add: runner_ok_def)
  have ans: "list_all (answer_of opts g (s_thread_exit s) js) (s_collected s)"
    using inv by (simp add: runner_inv_def)
  have "job_bag s = mset (map job_key (s_collected s))"
    using final_pending [OF ok assms(5)] by (simp add: job_bag_def)
  then have "mset (map job_key (s_collected s)) = mset (map job_key js)"
    using inv by (simp add: runner_inv_def)
  moreover have "\<not> is_break j'" if "\<not> s_thread_exit s" "j' \<in> set (s_collected s)" for j'
    using that ans assms(1) by (fastforce simp: list_all_iff answer_of_def dest: worker_run_break)
  ultimately show ?thesis
    using ans by (auto simp: list_all_iff answer_of_def)
qed

lemma single_worker_sequence:
  assumes "list_all (\<lambda>j. \<not> is_break j) js" "list_all (launchable g) js"
    and "(runner_step opts g)\<^sup>*\<^sup>* (runner_init 1 js) s"
  shows "prefix (map job_key (s_collected s)) (map job_key js) \<and>
    (runner_final s \<longrightarrow> map job_key (s_collected s) = map job_key js)"
proof -
  have ok0: "runner_ok opts g 1 js (runner_init 1 js)" using assms(1,2) by (simp add: runner_ok_init)
  have ok: "runner_ok opts g 1 js s" using rm.inv_run [OF assms(3) ok0] .
  have "order_inv js s" using order_inv_run [OF assms(3) order_inv_init [OF assms(1)] ok0] .
  then have "map job_key js = map job_key (s_collected s) @
      map job_key (s_outq s @ held s @ filter (\<lambda>j. \<not> is_break j) (pending s))"
    by (simp add: order_inv_def)
  then show ?thesis
    using final_pending [OF ok] by (auto simp: prefix_def)
qed

section \<open>Properties\<close>



text \<open>C1: nothing is lost or invented.  When the main thread is done, the collected answers are,
  up to order, the dispatched jobs; each is what a worker made of a dispatched job; and if no
  interrupt arrived none of them is a break, so every job was really run or skipped.\<close>

theorem runner_collects_every_job:
  assumes "list_all (\<lambda>j. \<not> is_break j) js" "list_all (launchable g) js" "0 < n"
    and "(runner_step opts g)\<^sup>*\<^sup>* (runner_init n js) s" "runner_final s"
  shows "mset (map job_key (s_collected s)) = mset (map job_key js) \<and>
    (\<forall>j' \<in> set (s_collected s). \<exists>j \<in> set js. \<exists>popen te out.
        worker_run popen opts g te j = Inr (j', out) \<and> (te \<longrightarrow> s_thread_exit s)) \<and>
    (\<not> s_thread_exit s \<longrightarrow> (\<forall>j' \<in> set (s_collected s). \<not> is_break j'))"
  using assms by (rule collected_answers)

theorem runner_collects_every_job_witness:
  "\<exists>s. runner_final s \<and> mset (map job_key (s_collected s)) = mset (map job_key [new_job])"
proof -
  have h: "list_all (\<lambda>j. \<not> is_break j) [new_job]" "list_all (launchable sample_globals) [new_job]" "0 < (1::nat)"
    by (simp_all add: launchable_sample new_job_def)
  obtain s where "(runner_step default_options sample_globals)\<^sup>*\<^sup>* (runner_init 1 [new_job]) s" "runner_final s"
    using qm.reaches_final [OF runner_ok_init [OF h]] quiet_run_run by blast
  with runner_collects_every_job [OF h] show ?thesis by blast
qed

text \<open>With the single worker that the script starts, the answers come in the order of
  dispatch: at any moment the collected answers are a prefix of the dispatched jobs, and at the
  end they are all of them, in order.\<close>

theorem single_worker_order:
  assumes "list_all (\<lambda>j. \<not> is_break j) js" "list_all (launchable g) js"
    and "(runner_step opts g)\<^sup>*\<^sup>* (runner_init 1 js) s"
  shows "prefix (map job_key (s_collected s)) (map job_key js) \<and>
    (runner_final s \<longrightarrow> map job_key (s_collected s) = map job_key js)"
  using assms by (rule single_worker_sequence)

theorem single_worker_order_witness:
  "\<exists>s. runner_final s \<and> map job_key (s_collected s) = map job_key [new_job, new_job\<lparr>is_skip := True\<rparr>]"
proof -
  let ?js = "[new_job, new_job\<lparr>is_skip := True\<rparr>]"
  have h: "list_all (\<lambda>j. \<not> is_break j) ?js" "list_all (launchable sample_globals) ?js"
    by (simp_all add: launchable_sample new_job_def)
  obtain s where "(runner_step default_options sample_globals)\<^sup>*\<^sup>* (runner_init 1 ?js) s" "runner_final s"
    using qm.reaches_final [OF runner_ok_init [OF h zero_less_one]] quiet_run_run by blast
  with single_worker_order [OF h] show ?thesis by blast
qed

end
