(* ===== verification/Test_Collect.thy ===== *)
theory Test_Collect
  imports Test_Job
begin

text \<open>
  The second half of \<open>run_tests\<close> in \<open>src/test.py\<close>: the main thread classifies the answers of
  the workers, counts them, prints a line for each, appends each to the XML results file, and
  turns the counts into the exit status.

  The state is the five counters, the lines printed and the text of the results file.  The
  temporary files that the test suites wrote are read from the file system \<open>fs\<close>.
\<close>

section \<open>Definitions\<close>

record tally =
  t_passed :: nat
  t_failed :: nat
  t_crashed :: nat
  t_valgrind :: nat
  t_skipped :: nat
  t_console :: "string list"
  t_xml :: string

definition xml_prologue :: string where
  "xml_prologue = ''<?xml version='' @ dquote @ ''1.0'' @ dquote @ ''?>'' @ nl @ ''<Results>'' @ nl"

definition xml_epilogue :: string where
  "xml_epilogue = ''</Results>'' @ nl"

definition initial_tally :: tally where
  "initial_tally = \<lparr>t_passed = 0, t_failed = 0, t_crashed = 0, t_valgrind = 0, t_skipped = 0,
     t_console = [], t_xml = xml_prologue\<rparr>"

definition is_any_example :: "job \<Rightarrow> bool" where
  "is_any_example j \<longleftrightarrow> is_example j \<or> is_pyexample j"

definition job_kind :: "job \<Rightarrow> string" where
  "job_kind j = (if is_any_example j then ''Example'' else ''TestSuite'')"

text \<open>The status and the counter it increments.\<close>

definition job_status :: "job \<Rightarrow> string" where
  "job_status j =
     (if is_skip j then ''SKIP''
      else if returncode j = 0 then ''PASS''
      else if returncode j = 1 then ''FAIL''
      else if returncode j = 2 then ''VALGR''
      else ''CRASH'')"

definition count_job :: "job \<Rightarrow> tally \<Rightarrow> tally" where
  "count_job j t =
     (if is_skip j then t\<lparr>t_skipped := t_skipped t + 1\<rparr>
      else if returncode j = 0 then t\<lparr>t_passed := t_passed t + 1\<rparr>
      else if returncode j = 1 then t\<lparr>t_failed := t_failed t + 1\<rparr>
      else if returncode j = 2 then t\<lparr>t_valgrind := t_valgrind t + 1\<rparr>
      else t\<lparr>t_crashed := t_crashed t + 1\<rparr>)"

definition status_line :: "options \<Rightarrow> job \<Rightarrow> string" where
  "status_line opts j =
     (if opt_duration opts \<or> opt_constrain opts = ''performance''
      then job_status j @ '' ('' @ fmt_fixed 3 (elapsed_time j) @ ''): '' @ job_kind j @ '' '' @ display_name j
      else job_status j @ '': '' @ job_kind j @ '' '' @ display_name j)"

text \<open>The XML that is made up for an example.\<close>

definition example_xml :: "job \<Rightarrow> string" where
  "example_xml j =
     (let status = job_status j
      in ''<Example>'' @ nl @
         ''  <Name>'' @ display_name j @ ''</Name>'' @ nl @
         (if status = ''PASS'' then ''  <Result>PASS</Result>'' @ nl
          else if status = ''FAIL'' then ''  <Result>FAIL</Result>'' @ nl
          else if status = ''VALGR'' then ''  <Result>VALGR</Result>'' @ nl
          else if status = ''SKIP'' then ''  <Result>SKIP</Result>'' @ nl
          else ''  <Result>CRASH</Result>'' @ nl @
               ''  <CrashDetails>'' @ err_messages j @ ''  </CrashDetails>'' @ nl) @
         ''  <Time real='' @ dquote @ fmt_fixed 3 (elapsed_time j) @ dquote @ ''/>'' @ nl @
         ''</Example>'' @ nl)"

text \<open>The XML that is made up for a test suite without a results file of its own.\<close>

definition fake_test_xml :: "job \<Rightarrow> string \<Rightarrow> string \<Rightarrow> string" where
  "fake_test_xml j res details =
     ''<Test>'' @ nl @ ''  <Name>'' @ display_name j @ ''</Name>'' @ nl @
     ''  <Result>'' @ res @ ''</Result>'' @ nl @ details @ ''</Test>'' @ nl"

text \<open>What is appended for a test suite.  The entry for a valgrind error stands inside the branch
  for return codes other than 0, 1 and 2, as in the source.\<close>

definition suite_xml :: "fs \<Rightarrow> string \<Rightarrow> job \<Rightarrow> string result" where
  "suite_xml fs dir j =
     (if is_skip j then Inr (fake_test_xml j ''SKIP'' [])
      else if returncode j = 0 \<or> returncode j = 1 \<or> returncode j = 2
      then read_file fs (path_join dir (tmp_file_name j))
      else Inr (fake_test_xml j ''CRASH'' (''  <CrashDetails>'' @ err_messages j @ ''  </CrashDetails>'' @ nl) @
                (if returncode j = 2 then fake_test_xml j ''VALGR'' [] else [])))"

definition job_xml :: "fs \<Rightarrow> string \<Rightarrow> job \<Rightarrow> string result" where
  "job_xml fs dir j = (if is_any_example j then Inr (example_xml j) else suite_xml fs dir j)"

text \<open>One turn of the loop over the answers.\<close>

definition collect_job :: "options \<Rightarrow> fs \<Rightarrow> string \<Rightarrow> tally \<Rightarrow> job \<Rightarrow> tally result" where
  "collect_job opts fs dir t j =
     (if is_break j then Inr t
      else bind_result (job_xml fs dir j) (\<lambda>x.
        let t' = count_job j t
        in Inr (t'\<lparr>t_console := t_console t' @ [status_line opts j], t_xml := t_xml t' @ x\<rparr>)))"

definition collect_jobs :: "options \<Rightarrow> fs \<Rightarrow> string \<Rightarrow> job list \<Rightarrow> tally result" where
  "collect_jobs opts fs dir answers = foldM_result (collect_job opts fs dir) initial_tally answers"

text \<open>The lines printed at the end.\<close>

definition summary_line :: "tally \<Rightarrow> nat \<Rightarrow> string" where
  "summary_line t total_tests =
     show_nat (t_passed t) @ '' of '' @ show_nat total_tests @ '' tests passed ('' @
     show_nat (t_passed t) @ '' passed, '' @ show_nat (t_skipped t) @ '' skipped, '' @
     show_nat (t_failed t) @ '' failed, '' @ show_nat (t_crashed t) @ '' crashed, '' @
     show_nat (t_valgrind t) @ '' valgrind errors)''"

definition disabled_notes :: "waf_globals \<Rightarrow> string list" where
  "disabled_notes g =
     (if \<not> g_enable_tests g \<or> \<not> g_enable_examples g
      then [[]] @
        (if \<not> g_enable_tests g
         then [''***  Note: ns-3 tests are currently disabled. Enable them by adding'',
               ''***  '' @ dquote @ ''--enable-tests'' @ dquote @ '' to ./waf configure or modifying your .ns3rc file.'', []]
         else []) @
        (if \<not> g_enable_examples g
         then [''***  Note: ns-3 examples are currently disabled. Enable them by adding'',
               ''***  '' @ dquote @ ''--enable-examples'' @ dquote @ '' to ./waf configure or modifying your .ns3rc file.'', []]
         else [])
      else [])"

definition valgrind_notes :: "options \<Rightarrow> waf_globals \<Rightarrow> string list" where
  "valgrind_notes opts g =
     (if opt_valgrind opts \<and> \<not> g_valgrind_found g
      then [[], ''***  Note: you are trying to use valgrind, but valgrind could not be found'',
            ''***  on your machine.  All tests and examples will crash or be skipped.'', []]
      else [])"

text \<open>From the answers to the exit status: the text of the results file, the printed lines and
  the status (0 for success, 1 otherwise).  \<open>total_tests\<close> is the number of dispatched jobs.\<close>

text \<open>What the main thread does to the file system after the summary: the two translations, the
  copy of the results file, and the removal of the temporary directory.\<close>

datatype report_action =
    Translate_to_html string
  | Translate_to_text string
  | Copy_results string
  | Rmtree string

definition report_actions :: "options \<Rightarrow> string \<Rightarrow> report_action list" where
  "report_actions opts dir =
     (if opt_html opts \<noteq> [] then [Translate_to_html (opt_html opts)] else []) @
     (if opt_text opts \<noteq> [] then [Translate_to_text (opt_text opts)] else []) @
     (if opt_xml opts \<noteq> [] then [Copy_results (opt_xml opts)] else []) @
     (if \<not> opt_retain opts then [Rmtree dir] else [])"

record outcome =
  o_xml :: string
  o_console :: "string list"
  o_tally :: tally
  o_actions :: "report_action list"
  o_status :: int

definition finish_tests :: "options \<Rightarrow> waf_globals \<Rightarrow> fs \<Rightarrow> string \<Rightarrow> nat \<Rightarrow> job list \<Rightarrow> outcome result" where
  "finish_tests opts g fs dir total_tests answers =
     bind_result (collect_jobs opts fs dir answers) (\<lambda>t.
       Inr \<lparr>o_xml = t_xml t @ xml_epilogue,
            o_console = t_console t @ [summary_line t total_tests] @ disabled_notes g @ valgrind_notes opts g,
            o_tally = t,
            o_actions = report_actions opts dir,
            o_status = (if t_passed t + t_skipped t = total_tests then 0 else 1)\<rparr>)"

section \<open>The loop as a whole\<close>

definition real_answers :: "job list \<Rightarrow> job list" where
  "real_answers js = filter (\<lambda>j. \<not> is_break j) js"

definition count_status :: "string \<Rightarrow> job list \<Rightarrow> nat" where
  "count_status st js = length (filter (\<lambda>j. job_status j = st) (real_answers js))"

definition tally_matches :: "job list \<Rightarrow> tally \<Rightarrow> bool" where
  "tally_matches js t \<longleftrightarrow>
     t_passed t = count_status ''PASS'' js \<and> t_failed t = count_status ''FAIL'' js \<and>
     t_crashed t = count_status ''CRASH'' js \<and> t_valgrind t = count_status ''VALGR'' js \<and>
     t_skipped t = count_status ''SKIP'' js"

lemma real_answers_simps [simp]:
  "real_answers [] = []"
  "real_answers (xs @ ys) = real_answers xs @ real_answers ys"
  "real_answers [j] = (if is_break j then [] else [j])"
  by (simp_all add: real_answers_def)

lemma length_real_answers: "length (real_answers js) \<le> length js"
  by (simp add: real_answers_def)

lemma collect_job_Inr:
  "collect_job opts fs dir t j = Inr u \<longleftrightarrow>
     (if is_break j then u = t
      else \<exists>x. job_xml fs dir j = Inr x \<and>
        u = (count_job j t)\<lparr>t_console := t_console (count_job j t) @ [status_line opts j],
               t_xml := t_xml (count_job j t) @ x\<rparr>)"
  by (auto simp: collect_job_def Let_def)

lemma count_status_snoc [simp]:
  "count_status st (js @ [j]) = count_status st js + (if \<not> is_break j \<and> job_status j = st then 1 else 0)"
  by (simp add: count_status_def)

lemma count_status_Nil [simp]: "count_status st [] = 0"
  by (simp add: count_status_def)

lemma tally_matches_step:
  assumes "tally_matches js t" "collect_job opts fs dir t j = Inr t'"
  shows "tally_matches (js @ [j]) t'"
  using assms
  by (auto simp: collect_job_def tally_matches_def count_job_def job_status_def Let_def
      split: if_splits)

lemma foldM_collect_matches:
  "foldM_result (collect_job opts fs dir) t js = Inr t' \<Longrightarrow> tally_matches ks t \<Longrightarrow>
   tally_matches (ks @ js) t'"
proof (induction js arbitrary: t ks)
  case (Cons j js)
  then obtain u where u: "collect_job opts fs dir t j = Inr u"
    "foldM_result (collect_job opts fs dir) u js = Inr t'" by auto
  have "tally_matches (ks @ [j]) u" using tally_matches_step Cons.prems(2) u(1) by blast
  from Cons.IH [OF u(2) this] show ?case by simp
qed simp

lemma collect_jobs_matches: "collect_jobs opts fs dir js = Inr t \<Longrightarrow> tally_matches js t"
  unfolding collect_jobs_def
  by (drule foldM_collect_matches [where ks = "[]"]) (simp_all add: tally_matches_def initial_tally_def)

lemma job_status_cases:
  "job_status j = ''PASS'' \<or> job_status j = ''FAIL'' \<or> job_status j = ''CRASH'' \<or>
   job_status j = ''VALGR'' \<or> job_status j = ''SKIP''"
  by (simp add: job_status_def)

lemma count_status_sum:
  "count_status ''PASS'' js + count_status ''FAIL'' js + count_status ''CRASH'' js +
   count_status ''VALGR'' js + count_status ''SKIP'' js = length (real_answers js)"
proof (induction js rule: rev_induct)
  case (snoc j js)
  then show ?case using job_status_cases [of j] by auto
qed simp

lemma count_pass_skip:
  "count_status ''PASS'' js + count_status ''SKIP'' js = length js \<longleftrightarrow>
   (\<forall>j \<in> set js. \<not> is_break j \<and> (is_skip j \<or> returncode j = 0))"
proof (induction js rule: rev_induct)
  case (snoc j js)
  have "count_status ''PASS'' js + count_status ''SKIP'' js \<le> length js"
    using count_status_sum [of js] length_real_answers [of js] by linarith
  with snoc show ?case by (auto simp: job_status_def)
qed simp

lemma collect_xml_console:
  assumes "foldM_result (collect_job opts fs dir) t js = Inr t'"
  shows "\<exists>xs. mapM_result (job_xml fs dir) (real_answers js) = Inr xs \<and>
    t_xml t' = t_xml t @ concat xs \<and>
    t_console t' = t_console t @ map (status_line opts) (real_answers js)"
  using assms
proof (induction js arbitrary: t)
  case (Cons j js)
  show ?case
  proof (cases "is_break j")
    case True
    then show ?thesis using Cons by (auto simp: collect_job_Inr real_answers_def)
  next
    case False
    with Cons.prems obtain x where x: "job_xml fs dir j = Inr x"
      and rest: "foldM_result (collect_job opts fs dir)
        ((count_job j t)\<lparr>t_console := t_console (count_job j t) @ [status_line opts j],
           t_xml := t_xml (count_job j t) @ x\<rparr>) js = Inr t'"
      by (auto simp: collect_job_Inr)
    have "t_xml (count_job j t) = t_xml t" "t_console (count_job j t) = t_console t"
      by (simp_all add: count_job_def)
    with Cons.IH [OF rest] x False show ?thesis by (auto simp: real_answers_def)
  qed
qed (simp add: real_answers_def)

lemma collect_total:
  assumes "\<And>j. j \<in> set js \<Longrightarrow> \<not> is_break j \<Longrightarrow> \<exists>x. job_xml fs dir j = Inr x"
  shows "\<exists>t'. foldM_result (collect_job opts fs dir) t js = Inr t'"
  using assms
proof (induction js arbitrary: t)
  case (Cons j js)
  have "\<exists>u. collect_job opts fs dir t j = Inr u"
    using Cons.prems [of j] by (auto simp: collect_job_def Let_def)
  with Cons show ?case by fastforce
qed simp

lemma finish_tests_outcome:
  assumes "finish_tests opts g fs dir n js = Inr w"
  shows "collect_jobs opts fs dir js = Inr (o_tally w)"
    and "o_xml w = t_xml (o_tally w) @ xml_epilogue"
    and "o_console w = t_console (o_tally w) @ [summary_line (o_tally w) n] @ disabled_notes g @ valgrind_notes opts g"
    and "o_status w = (if t_passed (o_tally w) + t_skipped (o_tally w) = n then 0 else 1)"
  using assms by (auto simp: finish_tests_def)

lemma finish_status:
  assumes "finish_tests opts g fs dir (length js) js = Inr w"
  shows "o_status w = 0 \<longleftrightarrow> (\<forall>j \<in> set js. \<not> is_break j \<and> (is_skip j \<or> returncode j = 0))"
proof -
  note f = finish_tests_outcome [OF assms]
  have "tally_matches js (o_tally w)" using collect_jobs_matches f(1) by blast
  then have "o_status w = 0 \<longleftrightarrow> count_status ''PASS'' js + count_status ''SKIP'' js = length js"
    using f(4) by (simp add: tally_matches_def)
  then show ?thesis by (simp add: count_pass_skip)
qed

lemma finish_total:
  assumes "\<And>j. j \<in> set js \<Longrightarrow> \<not> is_break j \<Longrightarrow> \<exists>x. job_xml fs dir j = Inr x"
  shows "\<exists>w. finish_tests opts g fs dir n js = Inr w"
  using collect_total [of js fs dir opts initial_tally] assms
  by (auto simp: finish_tests_def collect_jobs_def)

text \<open>A failed example and a skipped suite, for the examples below.\<close>

definition sample_answers :: "job list" where
  "sample_answers =
     [new_job\<lparr>is_example := True, display_name := ''ex'', returncode := 1\<rparr>,
      new_job\<lparr>is_skip := True, display_name := ''st''\<rparr>]"

definition no_files :: fs where
  "no_files = (\<lambda>_. None)"

section \<open>Properties\<close>

text \<open>C3: the counters and the exit status.  Whenever the answers can be collected, every
  counter is the number of real answers with that status, the five counters add up to the
  number of real answers, the summary line prints them, and for as many answers as dispatched
  jobs the exit status is 0 exactly when no answer was interrupted and each was skipped or
  returned 0.\<close>

theorem finish_tests_counts:
  assumes "finish_tests opts g fs dir (length js) js = Inr w"
  shows "tally_matches js (o_tally w) \<and>
    t_passed (o_tally w) + t_failed (o_tally w) + t_crashed (o_tally w) + t_valgrind (o_tally w) +
      t_skipped (o_tally w) = length (real_answers js) \<and>
    summary_line (o_tally w) (length js) \<in> set (o_console w) \<and>
    (o_status w = 0 \<longleftrightarrow> (\<forall>j \<in> set js. \<not> is_break j \<and> (is_skip j \<or> returncode j = 0)))"
proof -
  note f = finish_tests_outcome [OF assms]
  have m: "tally_matches js (o_tally w)" using collect_jobs_matches f(1) by blast
  with count_status_sum [of js] show ?thesis
    using finish_status [OF assms] f(3) by (simp add: tally_matches_def)
qed

theorem finish_tests_counts_witness:
  "\<exists>w. finish_tests default_options sample_globals no_files ''/t'' (length sample_answers) sample_answers = Inr w \<and> o_status w \<noteq> 0"
proof -
  have "\<exists>w. finish_tests default_options sample_globals no_files ''/t'' (length sample_answers) sample_answers = Inr w"
    by (rule finish_total) (auto simp: sample_answers_def job_xml_def is_any_example_def suite_xml_def)
  then obtain w where w: "finish_tests default_options sample_globals no_files ''/t'' (length sample_answers) sample_answers = Inr w"
    by blast
  from finish_tests_counts [OF w] have "o_status w \<noteq> 0" by (simp add: sample_answers_def new_job_def)
  with w show ?thesis by blast
qed

text \<open>The results file and the console.  The results file is the prologue, one entry per real
  answer in the order of collection, and the epilogue; the console has one status line per real
  answer in the same order before the summary.  Collection fails only when the temporary file
  of a test suite that exited with 0, 1 or 2 cannot be read.\<close>

theorem results_file_structure:
  "(\<exists>w. finish_tests opts g fs dir n js = Inr w \<and>
     (\<exists>xs. mapM_result (job_xml fs dir) (real_answers js) = Inr xs \<and>
        o_xml w = xml_prologue @ concat xs @ xml_epilogue) \<and>
     o_console w = map (status_line opts) (real_answers js) @
       [summary_line (o_tally w) n] @ disabled_notes g @ valgrind_notes opts g) \<or>
   (\<exists>j e. j \<in> set js \<and> \<not> is_break j \<and> \<not> is_any_example j \<and> \<not> is_skip j \<and> returncode j \<in> {0, 1, 2} \<and>
      read_file fs (path_join dir (tmp_file_name j)) = Inl e)"
proof (cases "\<exists>w. finish_tests opts g fs dir n js = Inr w")
  case True
  then obtain w where w: "finish_tests opts g fs dir n js = Inr w" by blast
  note f = finish_tests_outcome [OF w]
  obtain xs where "mapM_result (job_xml fs dir) (real_answers js) = Inr xs"
    "t_xml (o_tally w) = xml_prologue @ concat xs"
    "t_console (o_tally w) = map (status_line opts) (real_answers js)"
    using collect_xml_console f(1) unfolding collect_jobs_def by (fastforce simp: initial_tally_def)
  with w f(2,3) show ?thesis by auto
next
  case False
  then obtain j where j: "j \<in> set js" "\<not> is_break j" "\<nexists>x. job_xml fs dir j = Inr x"
    using finish_total by metis
  then obtain e where "job_xml fs dir j = Inl e" by (cases "job_xml fs dir j") auto
  with j show ?thesis
    by (intro disjI2) (auto simp: job_xml_def suite_xml_def split: if_splits intro!: exI [of _ j])
qed

text \<open>A test suite with a valgrind error.  Although it is counted and printed as
  \<open>VALGR\<close>, what is appended to the results file is its own temporary file alone: no answer ever
  adds the \<open>VALGR\<close> entry for a test suite.\<close>

theorem valgrind_suite_has_no_entry:
  "job_status j = ''VALGR'' \<and> \<not> is_any_example j \<longrightarrow>
     job_xml fs dir j = read_file fs (path_join dir (tmp_file_name j)) \<and>
     count_job j t = t\<lparr>t_valgrind := t_valgrind t + 1\<rparr>"
  by (auto simp: job_status_def job_xml_def suite_xml_def count_job_def split: if_splits)

theorem valgrind_suite_has_no_entry_witness:
  "job_xml (no_files(''/t/a'' := Some (FileNode ''<Test/>''))) ''/t'' (new_job\<lparr>returncode := 2, tmp_file_name := ''a''\<rparr>)
     = Inr ''<Test/>''"
proof -
  have "read_file (no_files(''/t/a'' := Some (FileNode ''<Test/>''))) (path_join ''/t'' ''a'') = Inr ''<Test/>''"
    by code_simp
  then show ?thesis using valgrind_suite_has_no_entry [of "new_job\<lparr>returncode := 2, tmp_file_name := ''a''\<rparr>"
      "no_files(''/t/a'' := Some (FileNode ''<Test/>''))" "''/t''" initial_tally]
    by (simp add: job_status_def new_job_def is_any_example_def)
qed

end
