(* ===== verification/Reports.thy ===== *)
theory Reports
  imports Prelude
begin

text \<open>
  The two translations of the results file in \<open>src/test.py\<close>: \<open>translate_to_text\<close> and
  \<open>translate_to_html\<close>.  Both read the element tree that \<open>xml.etree.ElementTree\<close> makes of the
  results file and write a text; here they map the root element to the text written.  A missing
  child element raises \<open>AttributeError\<close> (\<open>find\<close> returns \<open>None\<close>), and an element without text
  prints as \<open>None\<close>.
\<close>

section \<open>The element tree\<close>

datatype xml = Elem (xtag: string) (xattrs: "(string \<times> string) list") (xtext: "string option") (xkids: "xml list")

definition xfindall :: "string \<Rightarrow> xml \<Rightarrow> xml list" where
  "xfindall tag e = filter (\<lambda>c. xtag c = tag) (xkids e)"

definition xfind :: "string \<Rightarrow> xml \<Rightarrow> xml option" where
  "xfind tag e = find (\<lambda>c. xtag c = tag) (xkids e)"

text \<open>\<open>e.find(tag).text\<close>\<close>

definition child_text :: "xml \<Rightarrow> string \<Rightarrow> string option result" where
  "child_text e tag = (case xfind tag e of None \<Rightarrow> Inl AttributeError | Some c \<Rightarrow> Inr (xtext c))"

text \<open>What \<open>%s\<close> prints for a string or \<open>None\<close>.\<close>

definition fmt_s :: "string option \<Rightarrow> string" where
  "fmt_s t = (case t of None \<Rightarrow> ''None'' | Some s \<Rightarrow> s)"

type_synonym test_info = "string option \<times> string option \<times> string option"

definition time_of :: "xml \<Rightarrow> string option" where
  "time_of e = (case xfind ''Time'' e of Some t \<Rightarrow> map_of (xattrs t) ''real'' | None \<Rightarrow> Some [])"

definition read_test :: "xml \<Rightarrow> test_info result" where
  "read_test test =
     bind_result (child_text test ''Result'') (\<lambda>res.
     bind_result (child_text test ''Name'') (\<lambda>name.
       Inr (res, name, time_of test)))"

section \<open>The text report\<close>

definition text_line :: "string \<Rightarrow> test_info \<Rightarrow> string" where
  "text_line kind = (\<lambda>(res, name, time_real).
     fmt_s res @ '': '' @ kind @ '' '' @ dquote @ fmt_s name @ dquote @ '' ('' @ fmt_s time_real @ '')'' @ nl)"

definition detail_line :: "xml \<Rightarrow> string \<times> string \<Rightarrow> string result" where
  "detail_line details = (\<lambda>(label, tag).
     map_result (\<lambda>t. label @ fmt_s t @ nl) (child_text details tag))"

definition details_text :: "xml \<Rightarrow> string result" where
  "details_text details =
     map_result (\<lambda>ls. ''    Details:'' @ nl @ concat ls)
       (mapM_result (detail_line details)
          [(''      Message:   '', ''Message''), (''      Condition: '', ''Condition''),
           (''      Actual:    '', ''Actual''), (''      Limit:     '', ''Limit''),
           (''      File:      '', ''File''), (''      Line:      '', ''Line'')])"

text \<open>What is written for one node before its children.\<close>

definition test_text :: "xml \<Rightarrow> string result" where
  "test_text test =
     bind_result (read_test test) (\<lambda>info.
     bind_result (mapM_result details_text (xfindall ''FailureDetails'' test)) (\<lambda>ds.
       Inr (text_line ''Test Suite'' info @ concat ds)))"

fun node_to_text :: "xml \<Rightarrow> string result" and nodes_to_text :: "xml list \<Rightarrow> string result" where
  "node_to_text (Elem tag attrs body kids) =
     bind_result (test_text (Elem tag attrs body kids)) (\<lambda>s.
       map_result (\<lambda>rest. s @ rest) (nodes_to_text kids))"
| "nodes_to_text [] = Inr []"
| "nodes_to_text (c # cs) =
     (if xtag c = ''Test''
      then bind_result (node_to_text c) (\<lambda>s. map_result (\<lambda>rest. s @ rest) (nodes_to_text cs))
      else nodes_to_text cs)"

definition example_text :: "xml \<Rightarrow> string result" where
  "example_text example = map_result (text_line ''Example'') (read_test example)"

definition translate_to_text :: "xml \<Rightarrow> string result" where
  "translate_to_text et =
     bind_result (nodes_to_text (xkids et)) (\<lambda>tests.
     map_result (\<lambda>exs. tests @ concat exs) (mapM_result example_text (xfindall ''Example'' et)))"

section \<open>The HTML report\<close>

definition tag_style :: "string \<Rightarrow> string \<Rightarrow> string" where
  "tag_style tag colour = ''<'' @ tag @ '' style='' @ dquote @ ''color:'' @ colour @ dquote @ ''>''"

definition table_open :: string where
  "table_open = ''<table border='' @ dquote @ ''1'' @ dquote @ ''>'' @ nl"

definition suite_heading :: "test_info \<Rightarrow> string" where
  "suite_heading = (\<lambda>(res, name, time).
     (if res = Some ''PASS'' then tag_style ''h3'' ''green''
      else if res = Some ''SKIP'' then tag_style ''h3'' ''#ff6600''
      else tag_style ''h3'' ''red'') @
     fmt_s res @ '': '' @ fmt_s name @ '' ('' @ fmt_s time @ '')</h3>'' @ nl)"

text \<open>The one row of a suite that crashed, was skipped or had a valgrind error.\<close>

definition short_table :: "string option \<Rightarrow> string" where
  "short_table res =
     ''<tr>'' @ nl @
     (if res = Some ''SKIP'' then tag_style ''td'' ''#ff6600'' else tag_style ''td'' ''red'') @
     fmt_s res @ ''</td>'' @ nl @ ''</tr>'' @ nl @ ''</table>'' @ nl"

definition detail_cell :: "xml \<Rightarrow> string \<times> string \<times> string \<Rightarrow> string result" where
  "detail_cell details = (\<lambda>(label, tag, post).
     map_result (\<lambda>t. ''<b>'' @ label @ '': </b>'' @ fmt_s t @ post) (child_text details tag))"

definition detail_cells :: "xml \<Rightarrow> string result" where
  "detail_cells details =
     map_result (\<lambda>cs. ''<td>'' @ concat cs @ ''</td>'' @ nl)
       (mapM_result (detail_cell details)
          [(''Message'', ''Message'', '', ''), (''Condition'', ''Condition'', '', ''),
           (''Actual'', ''Actual'', '', ''), (''Limit'', ''Limit'', '', ''),
           (''File'', ''File'', '', ''), (''Line'', ''Line'', [])])"

text \<open>A row of failure details; the row is closed by the tag that the code writes.\<close>

definition detail_row :: "test_info \<Rightarrow> bool \<Rightarrow> xml \<Rightarrow> string result" where
  "detail_row = (\<lambda>(res, name, time) first_row details.
     map_result (\<lambda>cells.
       ''<tr>'' @ nl @
       (if first_row
        then tag_style ''td'' ''red'' @ fmt_s res @ ''</td>'' @ nl @
             ''<td>'' @ fmt_s name @ ''</td>'' @ nl @ ''<td>'' @ fmt_s time @ ''</td>'' @ nl
        else ''<td></td>'' @ nl @ ''<td></td>'' @ nl @ ''<td></td>'' @ nl) @
       cells @ ''</td>'' @ nl) (detail_cells details))"

fun detail_rows :: "test_info \<Rightarrow> bool \<Rightarrow> xml list \<Rightarrow> string result" where
  "detail_rows info first_row [] = Inr []"
| "detail_rows info first_row (d # ds) =
     bind_result (detail_row info first_row d) (\<lambda>s. map_result (\<lambda>rest. s @ rest) (detail_rows info False ds))"

definition passed_row :: "test_info \<Rightarrow> string" where
  "passed_row = (\<lambda>(res, name, time).
     ''<tr>'' @ nl @ tag_style ''td'' ''green'' @ fmt_s res @ ''</td>'' @ nl @
     ''<td>'' @ fmt_s name @ ''</td>'' @ nl @ ''<td>'' @ fmt_s time @ ''</td>'' @ nl @
     ''<td></td>'' @ nl @ ''</tr>'' @ nl)"

definition case_rows :: "xml \<Rightarrow> string result" where
  "case_rows test_case =
     bind_result (read_test test_case) (\<lambda>info.
       if fst info = Some ''FAIL'' then detail_rows info True (xfindall ''FailureDetails'' test_case)
       else Inr (passed_row info))"

definition suite_html :: "xml \<Rightarrow> string result" where
  "suite_html suite =
     bind_result (read_test suite) (\<lambda>info.
       let start = suite_heading info @ table_open @ ''<th> Result </th>'' @ nl
       in if fst info \<in> {Some ''CRASH'', Some ''SKIP'', Some ''VALGR''}
          then Inr (start @ short_table (fst info))
          else map_result (\<lambda>rows.
                 start @ ''<th>Test Case Name</th>'' @ nl @ ''<th> Time </th>'' @ nl @
                 (if fst info = Some ''FAIL'' then ''<th>Failure Details</th>'' @ nl else []) @
                 concat rows @ ''</table>'' @ nl)
               (mapM_result case_rows (xfindall ''Test'' suite)))"

text \<open>A row of the table of examples; the cell of a skipped example is closed by the tag that the
  code writes.\<close>

definition example_row :: "xml \<Rightarrow> string result" where
  "example_row example =
     map_result (\<lambda>(res, name, time).
       ''<tr>'' @ nl @
       (if res = Some ''PASS'' then tag_style ''td'' ''green'' @ fmt_s res @ ''</td>''
        else if res = Some ''SKIP'' then tag_style ''td'' ''#ff6600'' @ fmt_s res @ ''</fd>''
        else tag_style ''td'' ''red'' @ fmt_s res @ ''</td>'') @ nl @
       ''<td>'' @ fmt_s name @ ''</td>'' @ nl @ ''<td>'' @ fmt_s time @ ''</td>'' @ nl @
       ''</tr>'' @ nl) (read_test example)"

definition html_start :: string where
  "html_start = ''<html>'' @ nl @ ''<body>'' @ nl @
     ''<center><h1>ns-3 Test Results</h1></center>'' @ nl @ ''<h2>Test Suites</h2>'' @ nl"

definition html_examples_start :: string where
  "html_examples_start = ''<h2>Examples</h2>'' @ nl @ table_open @
     ''<th> Result </th>'' @ nl @ ''<th>Example Name</th>'' @ nl @ ''<th>Elapsed Time</th>'' @ nl"

definition html_end :: string where
  "html_end = ''</table>'' @ nl @ ''</body>'' @ nl @ ''</html>'' @ nl"

definition translate_to_html :: "xml \<Rightarrow> string result" where
  "translate_to_html et =
     bind_result (mapM_result suite_html (xfindall ''Test'' et)) (\<lambda>suites.
     bind_result (mapM_result example_row (xfindall ''Example'' et)) (\<lambda>examples.
       Inr (html_start @ concat suites @ html_examples_start @ concat examples @ html_end)))"

section \<open>The text report lists the tests in document order\<close>

text \<open>The \<open>Test\<close> elements below a list of siblings that are reached through \<open>Test\<close> elements
  only, a parent before its children.\<close>

fun tests_below :: "xml list \<Rightarrow> xml list" where
  "tests_below [] = []"
| "tests_below (Elem tag attrs body kids # cs) =
     (if tag = ''Test'' then Elem tag attrs body kids # tests_below kids @ tests_below cs
      else tests_below cs)"

lemma mapM_result_append [simp]:
  "mapM_result f (xs @ ys) =
     bind_result (mapM_result f xs) (\<lambda>us. map_result (\<lambda>vs. us @ vs) (mapM_result f ys))"
proof (induction xs)
  case Nil
  show ?case by (cases "mapM_result f ys") auto
next
  case (Cons x xs)
  then show ?case
    by (cases "f x"; cases "mapM_result f xs"; cases "mapM_result f ys") auto
qed

lemma nodes_to_text_flat:
  "nodes_to_text es = map_result concat (mapM_result test_text (tests_below es))"
proof (induction es rule: tests_below.induct)
  case (2 tag attrs body kids cs)
  show ?case
  proof (cases "tag = ''Test''")
    case True
    then show ?thesis using 2
      by (cases "test_text (Elem tag attrs body kids)";
          cases "mapM_result test_text (tests_below kids)";
          cases "mapM_result test_text (tests_below cs)") auto
  next
    case False
    then show ?thesis using 2 by simp
  qed
qed simp

lemma child_text_cases:
  "child_text e tag = (case xfind tag e of None \<Rightarrow> Inl AttributeError | Some c \<Rightarrow> Inr (xtext c))"
  by (simp add: child_text_def)

text \<open>An element with the children that a report reads.\<close>

definition has_kids :: "string list \<Rightarrow> xml \<Rightarrow> bool" where
  "has_kids tags e \<longleftrightarrow> list_all (\<lambda>t. xfind t e \<noteq> None) tags"

definition complete_test :: "xml \<Rightarrow> bool" where
  "complete_test t \<longleftrightarrow> has_kids [''Result'', ''Name''] t \<and>
     list_all (has_kids [''Message'', ''Condition'', ''Actual'', ''Limit'', ''File'', ''Line''])
       (xfindall ''FailureDetails'' t)"

definition raises_attribute_error :: "'a result \<Rightarrow> bool \<Rightarrow> bool" where
  "raises_attribute_error m ok \<longleftrightarrow> (if ok then (\<exists>x. m = Inr x) else m = Inl AttributeError)"

lemma raises_child_text: "raises_attribute_error (child_text e tag) (xfind tag e \<noteq> None)"
  by (auto simp: raises_attribute_error_def child_text_def split: option.splits)

lemma raises_bind:
  "raises_attribute_error m a \<Longrightarrow> (\<And>x. raises_attribute_error (f x) b) \<Longrightarrow>
   raises_attribute_error (bind_result m f) (a \<and> b)"
  by (auto simp: raises_attribute_error_def split: if_splits)

lemma raises_map: "raises_attribute_error m a \<Longrightarrow> raises_attribute_error (map_result f m) a"
  by (auto simp: raises_attribute_error_def split: if_splits)

lemma raises_mapM:
  assumes "\<And>x. x \<in> set xs \<Longrightarrow> raises_attribute_error (f x) (P x)"
  shows "raises_attribute_error (mapM_result f xs) (list_all P xs)"
  using assms
proof (induction xs)
  case (Cons x xs)
  have "raises_attribute_error (mapM_result f (x # xs)) (P x \<and> (list_all P xs \<and> True))"
    unfolding mapM_result.simps
    by (intro raises_bind Cons) (simp_all add: Cons.prems Cons.IH raises_attribute_error_def)
  then show ?case by simp
qed (simp add: raises_attribute_error_def)

lemma raises_read_test: "raises_attribute_error (read_test e) (has_kids [''Result'', ''Name''] e)"
proof -
  have "raises_attribute_error (read_test e) (xfind ''Result'' e \<noteq> None \<and> (xfind ''Name'' e \<noteq> None \<and> True))"
    unfolding read_test_def
    by (intro raises_bind raises_child_text) (simp add: raises_attribute_error_def)
  then show ?thesis by (simp add: has_kids_def)
qed

lemma raises_detail_line: "raises_attribute_error (detail_line d lt) (xfind (snd lt) d \<noteq> None)"
  unfolding detail_line_def by (cases lt) (simp only: prod.case snd_conv raises_map raises_child_text)

lemma raises_details_text:
  "raises_attribute_error (details_text d)
     (has_kids [''Message'', ''Condition'', ''Actual'', ''Limit'', ''File'', ''Line''] d)"
proof -
  have "raises_attribute_error (details_text d)
      (list_all (\<lambda>lt. xfind (snd lt) d \<noteq> None)
        [(''      Message:   '', ''Message''), (''      Condition: '', ''Condition''),
         (''      Actual:    '', ''Actual''), (''      Limit:     '', ''Limit''),
         (''      File:      '', ''File''), (''      Line:      '', ''Line'')])"
    unfolding details_text_def
    by (intro raises_map raises_mapM raises_detail_line)
  then show ?thesis by (simp add: has_kids_def)
qed

lemma raises_test_text: "raises_attribute_error (test_text t) (complete_test t)"
proof -
  have "raises_attribute_error (test_text t) (has_kids [''Result'', ''Name''] t \<and>
      (list_all (has_kids [''Message'', ''Condition'', ''Actual'', ''Limit'', ''File'', ''Line''])
        (xfindall ''FailureDetails'' t) \<and> True))"
    unfolding test_text_def
    by (intro raises_bind raises_read_test raises_mapM raises_details_text)
       (simp add: raises_attribute_error_def)
  then show ?thesis by (simp add: complete_test_def)
qed

lemma translate_to_text_flat:
  "translate_to_text et =
     bind_result (mapM_result test_text (tests_below (xkids et))) (\<lambda>ts.
       map_result (\<lambda>es. concat ts @ concat es) (mapM_result example_text (xfindall ''Example'' et)))"
  unfolding translate_to_text_def nodes_to_text_flat
  by (cases "mapM_result test_text (tests_below (xkids et))") auto

section \<open>Balanced tags\<close>

text \<open>A reader of HTML: outside of tags with the stack of the open ones, inside a tag, or stuck
  at a closing tag that does not match.\<close>

datatype scan = Outside "string list" | InTag string "string list" | Stuck

definition end_tag :: "string \<Rightarrow> string list \<Rightarrow> scan" where
  "end_tag buf st = (case buf of
       [] \<Rightarrow> Outside ([] # st)
     | c # name \<Rightarrow>
         if c = CHR ''/'' then (case st of t # st' \<Rightarrow> if t = name then Outside st' else Stuck | [] \<Rightarrow> Stuck)
         else Outside (takeWhile (\<lambda>c. c \<noteq> CHR '' '') buf # st))"

fun scan_char :: "scan \<Rightarrow> char \<Rightarrow> scan" where
  "scan_char (Outside st) c = (if c = CHR ''<'' then InTag [] st else Outside st)"
| "scan_char (InTag buf st) c = (if c = CHR ''>'' then end_tag buf st else InTag (buf @ [c]) st)"
| "scan_char Stuck c = Stuck"

definition balanced :: "string \<Rightarrow> bool" where
  "balanced s \<longleftrightarrow> foldl scan_char (Outside []) s = Outside []"

text \<open>A piece of text that leaves the reader where it was, or makes it stuck.\<close>

definition scans :: "bool \<Rightarrow> string \<Rightarrow> bool" where
  "scans ok s \<longleftrightarrow> (\<forall>st. foldl scan_char (Outside st) s = (if ok then Outside st else Stuck))"

lemma scan_stuck [simp]: "foldl scan_char Stuck s = Stuck"
  by (induction s) auto

lemma scans_append: "scans a s \<Longrightarrow> scans b t \<Longrightarrow> scans (a \<and> b) (s @ t)"
  by (simp add: scans_def)

lemma scans_concat_mapM:
  assumes "mapM_result f es = Inr xs" "\<And>e x. e \<in> set es \<Longrightarrow> f e = Inr x \<Longrightarrow> scans (P e) x"
  shows "scans (list_all P es) (concat xs)"
  using assms
proof (induction es arbitrary: xs)
  case Nil
  then show ?case by (simp add: scans_def)
next
  case (Cons e es)
  then obtain y ys where "f e = Inr y" "mapM_result f es = Inr ys" "xs = y # ys" by auto
  with Cons show ?case by (auto intro: scans_append)
qed

definition clean :: "string option \<Rightarrow> bool" where
  "clean t \<longleftrightarrow> CHR ''<'' \<notin> set (fmt_s t)"

lemma scan_no_tag: "CHR ''<'' \<notin> set s \<Longrightarrow> foldl scan_char (Outside st) s = Outside st"
  by (induction s) auto

lemma scan_clean [simp]: "clean t \<Longrightarrow> foldl scan_char (Outside st) (fmt_s t) = Outside st"
  by (simp add: clean_def scan_no_tag)

lemma clean_literals [simp]: "clean (Some ''SKIP'')" "clean (Some ''PASS'')" "clean (Some ''FAIL'')"
  by (simp_all add: clean_def fmt_s_def)

lemma scan_literals [simp]:
  "foldl scan_char (Outside st) nl = Outside st"
  "foldl scan_char (InTag b st) dquote = InTag (b @ dquote) st"
  by (simp_all add: nl_def dquote_def)

lemma end_tag_close [simp]: "end_tag (CHR ''/'' # name) (t # st) = (if t = name then Outside st else Stuck)"
  by (simp add: end_tag_def)

lemma end_tag_open: "c \<noteq> CHR ''/'' \<Longrightarrow> end_tag (c # cs) st = Outside (takeWhile (\<lambda>c. c \<noteq> CHR '' '') (c # cs) # st)"
  by (simp add: end_tag_def)

lemma scan_in_tag: "CHR ''>'' \<notin> set s \<Longrightarrow> foldl scan_char (InTag b st) s = InTag (b @ s) st"
  by (induction s arbitrary: b) auto

lemma scan_tag_style:
  assumes "CHR ''>'' \<notin> set colour"
  shows "foldl scan_char (Outside st) (tag_style ''td'' colour) = Outside (''td'' # st)"
    and "foldl scan_char (Outside st) (tag_style ''h3'' colour) = Outside (''h3'' # st)"
  using assms by (simp_all add: tag_style_def dquote_def scan_in_tag end_tag_open)

lemma scan_table_open [simp]: "foldl scan_char (Outside st) table_open = Outside (''table'' # st)"
  by (simp add: table_open_def dquote_def end_tag_open)

fun clean_info :: "test_info \<Rightarrow> bool" where
  "clean_info (res, name, time) \<longleftrightarrow> clean res \<and> clean name \<and> clean time"

lemma scans_suite_heading: "clean_info info \<Longrightarrow> scans True (suite_heading info)"
  by (cases info) (auto simp: scans_def suite_heading_def scan_tag_style)

lemma scan_short_table: "clean r \<Longrightarrow> foldl scan_char (Outside (''table'' # st)) (short_table r) = Outside st"
  by (simp add: short_table_def scan_tag_style end_tag_open)

lemma scans_passed_row: "clean_info info \<Longrightarrow> scans True (passed_row info)"
  by (cases info) (simp add: scans_def passed_row_def scan_tag_style end_tag_open)

text \<open>All the texts and attribute values of a tree.\<close>

fun clean_xml :: "xml \<Rightarrow> bool" where
  "clean_xml (Elem tag attrs body kids) \<longleftrightarrow>
     clean body \<and> list_all (\<lambda>kv. clean (Some (snd kv))) attrs \<and> list_all clean_xml kids"

lemma clean_kid: "clean_xml e \<Longrightarrow> c \<in> set (xkids e) \<Longrightarrow> clean_xml c"
  by (cases e) (simp add: list_all_iff)

lemma clean_xtext: "clean_xml e \<Longrightarrow> clean (xtext e)"
  by (cases e) simp

lemma clean_None: "clean None" and clean_empty: "clean (Some [])"
  by (simp_all add: clean_def fmt_s_def)

lemma clean_attr: "clean_xml e \<Longrightarrow> clean (map_of (xattrs e) k)"
  by (cases e; cases "map_of (xattrs e) k") (fastforce simp: clean_None list_all_iff dest: map_of_SomeD)+

lemma clean_findall: "clean_xml e \<Longrightarrow> c \<in> set (xfindall tag e) \<Longrightarrow> clean_xml c"
  by (auto simp: xfindall_def intro: clean_kid)

lemma clean_find: "clean_xml e \<Longrightarrow> xfind tag e = Some c \<Longrightarrow> clean_xml c"
  by (auto simp: xfind_def find_Some_iff intro: clean_kid)

lemma clean_child_text: "clean_xml e \<Longrightarrow> child_text e tag = Inr t \<Longrightarrow> clean t"
  by (auto simp: child_text_def split: option.splits intro: clean_xtext clean_find)

lemma clean_time_of: "clean_xml e \<Longrightarrow> clean (time_of e)"
  by (auto simp: time_of_def clean_empty split: option.splits intro: clean_attr clean_find)

lemma clean_read_test: "clean_xml e \<Longrightarrow> read_test e = Inr info \<Longrightarrow> clean_info info"
  by (auto simp: read_test_def intro: clean_child_text clean_time_of)

lemma scans_detail_cells:
  assumes "clean_xml d" "detail_cells d = Inr s"
  shows "scans True s"
proof -
  from assms(2) obtain cs where cs: "mapM_result (detail_cell d)
          [(''Message'', ''Message'', '', ''), (''Condition'', ''Condition'', '', ''),
           (''Actual'', ''Actual'', '', ''), (''Limit'', ''Limit'', '', ''),
           (''File'', ''File'', '', ''), (''Line'', ''Line'', [])] = Inr cs"
    and s: "s = ''<td>'' @ concat cs @ ''</td>'' @ nl"
    by (auto simp only: detail_cells_def map_result_eq_Inr)
  have "scans True x" if "detail_cell d (l, tag, post) = Inr x" "CHR ''<'' \<notin> set l" "CHR ''<'' \<notin> set post"
    for l tag post x
    using that clean_child_text [OF assms(1), of tag]
    by (auto simp: detail_cell_def scans_def end_tag_open scan_no_tag)
  then have "scans (list_all (\<lambda>_. True) [(''Message'', ''Message'', '', ''), (''Condition'', ''Condition'', '', ''),
           (''Actual'', ''Actual'', '', ''), (''Limit'', ''Limit'', '', ''),
           (''File'', ''File'', '', ''), (''Line'', ''Line'', [])]) (concat cs)"
    by (intro scans_concat_mapM [OF cs]) auto
  then show ?thesis by (simp add: s scans_def end_tag_open)
qed

lemma scans_detail_row:
  assumes "clean_xml d" "clean_info info" "detail_row info b d = Inr s"
  shows "scans False s"
proof -
  obtain res name time where i: "info = (res, name, time)" by (cases info) auto
  from assms(3) obtain cells where "detail_cells d = Inr cells" and
    s: "s = ''<tr>'' @ nl @
       (if b
        then tag_style ''td'' ''red'' @ fmt_s res @ ''</td>'' @ nl @
             ''<td>'' @ fmt_s name @ ''</td>'' @ nl @ ''<td>'' @ fmt_s time @ ''</td>'' @ nl
        else ''<td></td>'' @ nl @ ''<td></td>'' @ nl @ ''<td></td>'' @ nl) @
       cells @ ''</td>'' @ nl"
    by (auto simp only: detail_row_def i prod.case map_result_eq_Inr)
  then have "scans True cells" using scans_detail_cells assms(1) by blast
  then show ?thesis using assms(2)
    by (simp add: s i scans_def scan_tag_style end_tag_open)
qed

lemma scans_detail_rows:
  assumes "detail_rows info b ds = Inr s" "clean_info info" "\<And>d. d \<in> set ds \<Longrightarrow> clean_xml d"
  shows "scans (ds = []) s"
  using assms
proof (cases ds)
  case (Cons d ds')
  then obtain r rest where "detail_row info b d = Inr r" "s = r @ rest" using assms(1) by auto
  then show ?thesis using scans_detail_row [of d info b r] assms(2,3) Cons by (simp add: scans_def)
qed (simp add: scans_def)

text \<open>A test case that the report renders without an unclosed row: it did not fail, or it has no
  failure details.\<close>

definition tidy_case :: "xml \<Rightarrow> bool" where
  "tidy_case c \<longleftrightarrow> child_text c ''Result'' \<noteq> Inr (Some ''FAIL'') \<or> xfindall ''FailureDetails'' c = []"

definition tidy_suite :: "xml \<Rightarrow> bool" where
  "tidy_suite e \<longleftrightarrow> child_text e ''Result'' \<in> {Inr (Some ''CRASH''), Inr (Some ''SKIP''), Inr (Some ''VALGR'')} \<or>
     list_all tidy_case (xfindall ''Test'' e)"

definition tidy_example :: "xml \<Rightarrow> bool" where
  "tidy_example e \<longleftrightarrow> child_text e ''Result'' \<noteq> Inr (Some ''SKIP'')"

lemma read_test_result: "read_test e = Inr info \<Longrightarrow> child_text e ''Result'' = Inr (fst info)"
  by (auto simp: read_test_def)

lemma scans_case_rows:
  assumes "clean_xml c" "case_rows c = Inr s"
  shows "scans (tidy_case c) s"
proof -
  from assms(2) obtain info where i: "read_test c = Inr info" by (auto simp: case_rows_def)
  have ci: "clean_info info" using clean_read_test assms(1) i by blast
  show ?thesis
  proof (cases "fst info = Some ''FAIL''")
    case True
    then have "detail_rows info True (xfindall ''FailureDetails'' c) = Inr s"
      using assms(2) i by (simp add: case_rows_def)
    from scans_detail_rows [OF this ci] clean_findall [OF assms(1)]
    have "scans (xfindall ''FailureDetails'' c = []) s" by blast
    with True read_test_result [OF i] show ?thesis by (simp add: tidy_case_def)
  next
    case False
    then have "s = passed_row info" using assms(2) i by (simp add: case_rows_def)
    with scans_passed_row [OF ci] False read_test_result [OF i] show ?thesis by (simp add: tidy_case_def)
  qed
qed

lemma scans_suite_html:
  assumes "clean_xml e" "suite_html e = Inr s"
  shows "scans (tidy_suite e) s"
proof -
  from assms(2) obtain info where i: "read_test e = Inr info" by (auto simp: suite_html_def)
  have ci: "clean_info info" using clean_read_test assms(1) i by blast
  then have c: "clean (fst info)" by (cases info) simp
  have h: "\<And>st. foldl scan_char (Outside st) (suite_heading info) = Outside st"
    using scans_suite_heading [OF ci] by (simp add: scans_def)
  show ?thesis
  proof (cases "fst info \<in> {Some ''CRASH'', Some ''SKIP'', Some ''VALGR''}")
    case True
    then have "s = suite_heading info @ table_open @ ''<th> Result </th>'' @ nl @ short_table (fst info)"
      using assms(2) i by (simp add: suite_html_def Let_def)
    with True read_test_result [OF i] show ?thesis
      by (simp add: tidy_suite_def scans_def h end_tag_open scan_short_table [OF c])
  next
    case False
    then obtain rows where rows: "mapM_result case_rows (xfindall ''Test'' e) = Inr rows"
      and s: "s = suite_heading info @ table_open @ ''<th> Result </th>'' @ nl @
        ''<th>Test Case Name</th>'' @ nl @ ''<th> Time </th>'' @ nl @
        (if fst info = Some ''FAIL'' then ''<th>Failure Details</th>'' @ nl else []) @
        concat rows @ ''</table>'' @ nl"
      using assms(2) i by (auto simp: suite_html_def Let_def)
    have "scans (list_all tidy_case (xfindall ''Test'' e)) (concat rows)"
      using scans_concat_mapM [OF rows] scans_case_rows clean_findall [OF assms(1)] by blast
    with False read_test_result [OF i] show ?thesis
      by (simp add: tidy_suite_def s scans_def h end_tag_open)
  qed
qed

lemma scans_example_row:
  assumes "clean_xml e" "example_row e = Inr s"
  shows "scans (tidy_example e) s"
proof -
  from assms(2) obtain res name time where i: "read_test e = Inr (res, name, time)"
    and s: "s = ''<tr>'' @ nl @
       (if res = Some ''PASS'' then tag_style ''td'' ''green'' @ fmt_s res @ ''</td>''
        else if res = Some ''SKIP'' then tag_style ''td'' ''#ff6600'' @ fmt_s res @ ''</fd>''
        else tag_style ''td'' ''red'' @ fmt_s res @ ''</td>'') @ nl @
       ''<td>'' @ fmt_s name @ ''</td>'' @ nl @ ''<td>'' @ fmt_s time @ ''</td>'' @ nl @
       ''</tr>'' @ nl"
    by (auto simp only: example_row_def map_result_eq_Inr prod.case)
  have "clean_info (res, name, time)" using clean_read_test assms(1) i by blast
  with read_test_result [OF i] show ?thesis
    by (simp add: tidy_example_def s scans_def scan_tag_style end_tag_open)
qed

lemma scan_html_frame:
  "foldl scan_char (Outside []) html_start = Outside [''body'', ''html'']"
  "foldl scan_char (Outside st) html_examples_start = Outside (''table'' # st)"
  "foldl scan_char (Outside [''table'', ''body'', ''html'']) html_end = Outside []"
  by (simp_all add: html_start_def html_examples_start_def html_end_def end_tag_open)

text \<open>A results tree with one suite, one failed case and one skipped example.\<close>

definition leaf :: "string \<Rightarrow> string \<Rightarrow> xml" where
  "leaf tag t = Elem tag [] (Some t) []"

definition sample_results :: xml where
  "sample_results = Elem ''Results'' [] None
     [Elem ''Test'' [] None [leaf ''Name'' ''suite'', leaf ''Result'' ''PASS'',
        Elem ''Test'' [] None [leaf ''Name'' ''case'', leaf ''Result'' ''PASS'']],
      Elem ''Example'' [] None [leaf ''Name'' ''ex'', leaf ''Result'' ''SKIP'']]"

section \<open>Properties\<close>


text \<open>The tags of the HTML report.  For a results tree whose texts contain no tag, the report is
  balanced exactly when no example was skipped (such a cell is closed by \<open></fd>\<close>) and no test case
  of a rendered table failed with details (such a row is closed by \<open></td>\<close>).\<close>

theorem html_report_balanced:
  assumes "clean_xml et" "translate_to_html et = Inr s"
  shows "balanced s \<longleftrightarrow>
    list_all tidy_suite (xfindall ''Test'' et) \<and> list_all tidy_example (xfindall ''Example'' et)"
proof -
  from assms(2) obtain suites exs where m: "mapM_result suite_html (xfindall ''Test'' et) = Inr suites"
      "mapM_result example_row (xfindall ''Example'' et) = Inr exs"
    and s: "s = html_start @ concat suites @ html_examples_start @ concat exs @ html_end"
    by (auto simp: translate_to_html_def)
  have "scans (list_all tidy_suite (xfindall ''Test'' et)) (concat suites)"
    "scans (list_all tidy_example (xfindall ''Example'' et)) (concat exs)"
    using scans_concat_mapM m scans_suite_html scans_example_row clean_findall [OF assms(1)] by blast+
  then show ?thesis
    by (simp add: s balanced_def scans_def scan_html_frame)
qed

theorem html_report_balanced_witness:
  "\<exists>s. translate_to_html sample_results = Inr s \<and> \<not> balanced s"
proof -
  have c: "clean_xml sample_results" by code_simp
  have "\<not> list_all tidy_example (xfindall ''Example'' sample_results)" by code_simp
  moreover have "projl (translate_to_html sample_results) = projl (translate_to_html sample_results) \<and>
      (case translate_to_html sample_results of Inl _ \<Rightarrow> False | Inr _ \<Rightarrow> True)" by code_simp
  then obtain s where "translate_to_html sample_results = Inr s" by (auto split: sum.splits)
  ultimately show ?thesis using html_report_balanced [OF c] by blast
qed

end
