(* ===== verification/Check_Style.thy ===== *)
theory Check_Style
  imports Prelude
begin

text \<open>
  \<open>src/utils/check-style.py\<close>: the configuration written for \<open>uncrustify\<close>, the parser and printer
  of unified diffs, the step that undoes changes of trailing blanks, and the functions that
  indent and compare files.

  The programs \<open>uncrustify\<close> and \<open>patch\<close> and the diff algorithm of \<open>difflib\<close> are the record
  \<open>tools\<close>.
\<close>

section \<open>The configuration\<close>

definition level2_lines :: "string list" where
  "level2_lines =
     [''nl_collapse_empty_body=False'', ''nl_if_brace=Add'', ''nl_brace_else=Add'',
      ''nl_elseif_brace=Add'', ''nl_else_brace=Add'', ''nl_while_brace=Add'',
      ''nl_do_brace=Add'', ''nl_for_brace=Add'', ''nl_brace_while=Add'',
      ''nl_switch_brace=Add'', ''nl_after_case=True'', ''nl_namespace_brace=Remove'',
      ''nl_after_brace_open=True'', ''nl_class_leave_one_liners=False'',
      ''nl_enum_leave_one_liners=False'', ''nl_func_leave_one_liners=False'',
      ''nl_if_leave_one_liners=False'', ''nl_class_colon=Ignore'',
      ''nl_after_access_spec=1'', ''nl_after_semicolon=True'', ''pos_class_colon=Lead'',
      ''pos_class_comma=Trail'', ''pos_bool=Lead'', ''nl_class_init_args=Add'',
      ''nl_template_class=Add'', ''nl_class_brace=Add'', ''# does not work very well'',
      ''nl_func_type_name=Ignore'', ''nl_func_scope_name=Ignore'',
      ''nl_func_type_name_class=Ignore'', ''nl_func_proto_type_name=Ignore'',
      ''# function'' @ [CHR 0x5C] @ ''n('', ''nl_func_paren=Remove'', ''nl_fdef_brace=Add'',
      ''nl_struct_brace=Add'', ''nl_enum_brace=Add'', ''nl_union_brace=Add'',
      ''mod_full_brace_do=Add'', ''mod_full_brace_for=Add'', ''mod_full_brace_if=Add'',
      ''mod_full_brace_while=Add'', ''mod_full_brace_for=Add'',
      ''mod_remove_extra_semicolon=True'', ''# max code width'', ''#code_width=128'',
      ''#ls_for_split_full=True'', ''#ls_func_split_full=True'']"

definition level1_lines :: "string list" where
  "level1_lines =
     [''# extra spaces here and there'', ''sp_brace_typedef=Add'', ''sp_enum_assign=Add'',
      ''sp_before_sparen=Add'', ''sp_after_semi_for=Add'', ''sp_arith=Add'',
      ''sp_assign=Add'', ''sp_compare=Add'', ''sp_func_class_paren=Add'',
      ''sp_after_type=Add'', ''sp_type_func=Add'', ''sp_angle_paren=Add'',
      ''#sp_after_comma=Add'', ''sp_inside_paren=Remove'', ''sp_inside_angle=Remove'',
      ''sp_inside_fparen=Remove'']"

definition level0_lines :: "string list" where
  "level0_lines =
     [''sp_func_proto_paren=Add'', ''sp_func_def_paren=Add'', ''sp_func_call_paren=Add'',
      ''sp_after_semi_for=Ignore'', ''sp_before_sparen=Ignore'', ''sp_type_func=Ignore'',
      ''sp_after_type=Ignore'', ''nl_class_leave_one_liners=True'',
      ''nl_enum_leave_one_liners=True'', ''nl_func_leave_one_liners=True'',
      ''nl_assign_leave_one_liners=True'', ''#nl_collapse_empty_body=False'',
      ''nl_getset_leave_one_liners=True'', ''nl_if_leave_one_liners=True'',
      ''nl_fdef_brace=Ignore'', ''# finally, indentation configuration'',
      ''indent_with_tabs=0'', ''indent_namespace=false'', ''indent_columns=2'',
      ''indent_brace=2'', ''indent_case_brace=2'', ''indent_class=true'',
      ''indent_class_colon=True'', ''# alignment'', ''indent_align_assign=False'',
      ''align_left_shift=True'', ''# comment reformating disabled'',
      ''cmt_reflow_mode=1 # do not touch comments at all'',
      ''cmt_indent_multi=False # really, do not touch them'']"

definition block_text :: "string list \<Rightarrow> string" where
  "block_text ls = nl @ concat (map (\<lambda>l. l @ nl) ls)"

definition uncrustify_config_file :: "int \<Rightarrow> string" where
  "uncrustify_config_file level =
     block_text level0_lines @
     (if level \<ge> 1 then block_text level1_lines else []) @
     (if level \<ge> 2 then block_text level2_lines else [])"

section \<open>Patches\<close>

text \<open>A line of a chunk belongs to the source, to the destination or to both.\<close>

datatype chunk_line = Src string | Dst string | Both string

fun line_text :: "chunk_line \<Rightarrow> string" where
  "line_text (Src s) = s"
| "line_text (Dst s) = s"
| "line_text (Both s) = s"

fun is_src :: "chunk_line \<Rightarrow> bool" where
  "is_src (Dst s) = False"
| "is_src _ = True"

fun is_dst :: "chunk_line \<Rightarrow> bool" where
  "is_dst (Src s) = False"
| "is_dst _ = True"

fun append_to_line :: "chunk_line \<Rightarrow> string \<Rightarrow> chunk_line" where
  "append_to_line (Src s) t = Src (s @ t)"
| "append_to_line (Dst s) t = Dst (s @ t)"
| "append_to_line (Both s) t = Both (s @ t)"

fun write_line :: "chunk_line \<Rightarrow> string" where
  "write_line (Src s) = ''-'' @ s @ nl"
| "write_line (Dst s) = ''+'' @ s @ nl"
| "write_line (Both s) = '' '' @ s @ nl"

record chunk =
  ck_src_pos :: nat
  ck_dst_pos :: nat
  ck_lines :: "chunk_line list"

definition src_len :: "chunk \<Rightarrow> nat" where
  "src_len c = length (filter is_src (ck_lines c))"

definition dst_len :: "chunk \<Rightarrow> nat" where
  "dst_len c = length (filter is_dst (ck_lines c))"

definition chunk_header :: "chunk \<Rightarrow> string" where
  "chunk_header c = ''@@ -'' @ show_nat (ck_src_pos c) @ '','' @ show_nat (src_len c) @ '' +'' @
     show_nat (ck_dst_pos c) @ '','' @ show_nat (dst_len c) @ '' @@'' @ nl"

definition write_chunk :: "chunk \<Rightarrow> string" where
  "write_chunk c = chunk_header c @ concat (map write_line (ck_lines c))"

record patch =
  pt_src :: string
  pt_dst :: string
  pt_chunks :: "chunk list"

definition write_patch :: "patch \<Rightarrow> string" where
  "write_patch p = ''--- '' @ pt_src p @ nl @ ''+++ '' @ pt_dst p @ nl @ concat (map write_chunk (pt_chunks p))"

section \<open>Parsing a diff\<close>

text \<open>A match of a fixed prefix followed by \<open>(.*)$\<close>: the rest of the line without its newline.\<close>

definition match_rest :: "string \<Rightarrow> string \<Rightarrow> string option" where
  "match_rest p line =
     (if startswith line p
      then let r = drop (length p) line; body = (if endswith r nl then butlast r else r)
           in if CHR 0x0A \<in> set body then None else Some body
      else None)"

definition skip_str :: "string \<Rightarrow> string \<Rightarrow> string option" where
  "skip_str p s = (if startswith s p then Some (drop (length p) s) else None)"

definition match_number :: "string \<Rightarrow> (nat \<times> string) option" where
  "match_number s =
     (let ds = takeWhile is_digit s
      in if ds = [] then None else Some (read_nat ds, dropWhile is_digit s))"

text \<open>The match of \<open>chunk_start\<close>: the two positions; the two lengths are read and dropped.\<close>

definition match_chunk :: "string \<Rightarrow> (nat \<times> nat) option" where
  "match_chunk line =
     Option.bind (skip_str ''@@ -'' line) (\<lambda>s.
     Option.bind (match_number s) (\<lambda>(a, s).
     Option.bind (skip_str '','' s) (\<lambda>s.
     Option.bind (match_number s) (\<lambda>(_, s).
     Option.bind (skip_str '' +'' s) (\<lambda>s.
     Option.bind (match_number s) (\<lambda>(b, s).
     Option.bind (skip_str '','' s) (\<lambda>s.
     Option.bind (match_number s) (\<lambda>(_, s).
     map_option (\<lambda>_. (a, b)) (skip_str '' @@'' s)))))))))"

text \<open>The patches read so far, the last one being \<open>current_patch\<close>.  \<open>current_chunk\<close> is the last chunk
  of the patch with the given index; it outlives the header of the next patch.\<close>

record diff_parser =
  dp_patches :: "patch list"
  dp_chunk_in :: "nat option"

definition diff_init :: diff_parser where
  "diff_init = \<lparr>dp_patches = [], dp_chunk_in = None\<rparr>"

definition update_last :: "('a \<Rightarrow> 'a) \<Rightarrow> 'a list \<Rightarrow> 'a list" where
  "update_last f xs = (if xs = [] then [] else butlast xs @ [f (last xs)])"

definition add_line :: "chunk_line \<Rightarrow> diff_parser \<Rightarrow> diff_parser result" where
  "add_line l d = (case dp_chunk_in d of
       None \<Rightarrow> Inl UnboundLocalError
     | Some i \<Rightarrow> Inr (d\<lparr>dp_patches := (dp_patches d)[i := (dp_patches d ! i)\<lparr>pt_chunks :=
           update_last (\<lambda>c. c\<lparr>ck_lines := ck_lines c @ [l]\<rparr>) (pt_chunks (dp_patches d ! i))\<rparr>]\<rparr>))"

definition set_dst :: "string \<Rightarrow> diff_parser \<Rightarrow> diff_parser result" where
  "set_dst s d =
     (if dp_patches d = [] then Inl AttributeError
      else Inr (d\<lparr>dp_patches := update_last (\<lambda>p. p\<lparr>pt_dst := s\<rparr>) (dp_patches d)\<rparr>))"

definition add_chunk :: "nat \<Rightarrow> nat \<Rightarrow> diff_parser \<Rightarrow> diff_parser result" where
  "add_chunk a b d =
     (if dp_patches d = [] then Inl AttributeError
      else Inr (d\<lparr>dp_patches := update_last (\<lambda>p. p\<lparr>pt_chunks := pt_chunks p @
                    [\<lparr>ck_src_pos = a, ck_dst_pos = b, ck_lines = []\<rparr>]\<rparr>) (dp_patches d),
                  dp_chunk_in := Some (length (dp_patches d) - 1)\<rparr>))"

definition diff_line :: "diff_parser \<Rightarrow> string \<Rightarrow> diff_parser result" where
  "diff_line d line =
     (case match_rest ''--- '' line of
        Some s \<Rightarrow> Inr (d\<lparr>dp_patches := dp_patches d @ [\<lparr>pt_src = s, pt_dst = [], pt_chunks = []\<rparr>]\<rparr>)
      | None \<Rightarrow>
     (case match_rest ''+++ '' line of
        Some s \<Rightarrow> set_dst s d
      | None \<Rightarrow>
     (case match_chunk line of
        Some (a, b) \<Rightarrow> add_chunk a b d
      | None \<Rightarrow>
     (case match_rest ''-'' line of
        Some s \<Rightarrow> add_line (Src s) d
      | None \<Rightarrow>
     (case match_rest ''+'' line of
        Some s \<Rightarrow> add_line (Dst s) d
      | None \<Rightarrow>
     (case match_rest '' '' line of
        Some s \<Rightarrow> add_line (Both s) d
      | None \<Rightarrow> Inl (PlainException [])))))))"

definition parse_patchset :: "string list \<Rightarrow> patch list result" where
  "parse_patchset generator = map_result dp_patches (foldM_result diff_line diff_init generator)"

section \<open>Undoing changes of trailing blanks\<close>

text \<open>The match of \<open>^(.*)([ \t]+)$\<close> on a text without newline.  The first group is greedy, so the
  second is the last character.\<close>

definition whitespace_match :: "string \<Rightarrow> (string \<times> string) option" where
  "whitespace_match s =
     (if s \<noteq> [] \<and> (last s = CHR 0x20 \<or> last s = CHR 0x09) then Some (butlast s, [last s]) else None)"

text \<open>One turn of the loop over the line numbers of the source and the destination.  A line that
  belongs to both is one object: a change through one list is seen through the other.\<close>

definition restore_pair :: "chunk_line list \<Rightarrow> nat \<Rightarrow> nat \<Rightarrow> chunk_line list" where
  "restore_pair ls s d =
     (case whitespace_match (line_text (ls ! s)) of
        Some (g1, g2) \<Rightarrow> if g1 = line_text (ls ! d) then ls[d := append_to_line (ls ! d) g2] else ls
      | None \<Rightarrow> ls)"

text \<open>The flag is false when the destination ran out of lines, which raises.\<close>

fun restore_pairs :: "chunk_line list \<Rightarrow> nat list \<Rightarrow> nat list \<Rightarrow> chunk_line list \<times> bool" where
  "restore_pairs ls [] ds = (ls, True)"
| "restore_pairs ls (s # ss) [] = (ls, False)"
| "restore_pairs ls (s # ss) (d # ds) = restore_pairs (restore_pair ls s d) ss ds"

definition src_indices :: "chunk_line list \<Rightarrow> nat list" where
  "src_indices ls = filter (\<lambda>i. is_src (ls ! i)) [0..<length ls]"

definition dst_indices :: "chunk_line list \<Rightarrow> nat list" where
  "dst_indices ls = filter (\<lambda>i. is_dst (ls ! i)) [0..<length ls]"

definition restore_chunk :: "chunk \<Rightarrow> chunk \<times> bool" where
  "restore_chunk c =
     (let (ls, ok) = restore_pairs (ck_lines c) (src_indices (ck_lines c)) (dst_indices (ck_lines c))
      in (c\<lparr>ck_lines := ls\<rparr>, ok))"

text \<open>A loop over a list that is left at the first exception, with the changes made so far.\<close>

fun until_raise :: "('a \<Rightarrow> 'a \<times> bool) \<Rightarrow> 'a list \<Rightarrow> 'a list \<times> bool" where
  "until_raise f [] = ([], True)"
| "until_raise f (x # xs) =
     (case f x of
        (y, True) \<Rightarrow> (case until_raise f xs of (ys, b) \<Rightarrow> (y # ys, b))
      | (y, False) \<Rightarrow> (y # xs, False))"

definition restore_patch :: "patch \<Rightarrow> patch \<times> bool" where
  "restore_patch p = (case until_raise restore_chunk (pt_chunks p) of (cs, ok) \<Rightarrow> (p\<lparr>pt_chunks := cs\<rparr>, ok))"

definition remove_trailing_whitespace_changes :: "string list \<Rightarrow> patch list result" where
  "remove_trailing_whitespace_changes generator =
     map_result (\<lambda>ps. fst (until_raise restore_patch ps)) (parse_patchset generator)"

section \<open>Indenting files\<close>

record tools =
  t_uncrustify :: "string \<Rightarrow> string \<Rightarrow> string option"
  t_unified_diff :: "string list \<Rightarrow> string list \<Rightarrow> string \<Rightarrow> string \<Rightarrow> string list"
  t_patch :: "string \<Rightarrow> string \<Rightarrow> string"
  t_tmpname :: string

text \<open>The text of the final diff.  In debug mode the generator \<open>diff\<close> is used up by the copy that is
  written first.\<close>

definition final_diff :: "bool \<Rightarrow> int \<Rightarrow> string list \<Rightarrow> string result" where
  "final_diff debug level diff =
     (let rest = (if debug then [] else diff)
      in if level < 3
         then map_result (\<lambda>patchset. case patchset of [] \<Rightarrow> [] | p # _ \<Rightarrow> write_patch p)
                (remove_trailing_whitespace_changes rest)
         else Inr (concat rest))"

text \<open>The text of the indented file.\<close>

definition indent :: "tools \<Rightarrow> fs \<Rightarrow> string \<Rightarrow> bool \<Rightarrow> int \<Rightarrow> string result" where
  "indent tls fs source debug level =
     bind_result (read_file fs source) (\<lambda>src.
       case t_uncrustify tls (uncrustify_config_file level) src of
         None \<Rightarrow> Inl (PlainException ''uncrustify not installed'')
       | Some out \<Rightarrow>
           map_result (\<lambda>fd. t_patch tls fd src)
             (final_diff debug level (t_unified_diff tls (lines_of src) (lines_of out) source (t_tmpname tls))))"

record indent_result =
  ir_value :: bool
  ir_fs :: fs
  ir_printed :: "string list"

definition copy_all :: "(string \<times> string) list \<Rightarrow> fs \<Rightarrow> fs" where
  "copy_all outs fs = foldl (\<lambda>fs (f, t). fs(f \<mapsto> FileNode t)) fs outs"

definition indent_files :: "tools \<Rightarrow> fs \<Rightarrow> string list \<Rightarrow> bool \<Rightarrow> bool \<Rightarrow> int \<Rightarrow> bool \<Rightarrow> indent_result result" where
  "indent_files tls fs files diff debug level inplace =
     bind_result (mapM_result (\<lambda>f. map_result (\<lambda>t. (f, t)) (indent tls fs f debug level)) files) (\<lambda>outs.
       if inplace then Inr \<lparr>ir_value = True, ir_fs = copy_all outs fs, ir_printed = []\<rparr>
       else let failed = filter (\<lambda>(f, t). fs f \<noteq> Some (FileNode t)) outs
            in Inr \<lparr>ir_value = (failed = []), ir_fs = fs,
                    ir_printed =
                      (if failed = [] then []
                       else if \<not> diff
                       then (''Found '' @ show_nat (length failed) @ '' badly indented files:'') #
                            map (\<lambda>(f, t). ''  '' @ f) failed
                       else concat (map (\<lambda>(f, t). case fs f of
                              Some (FileNode s) \<Rightarrow> t_unified_diff tls (lines_of s) (lines_of t) f (t_tmpname tls)
                            | _ \<Rightarrow> []) failed))\<rparr>)"

text \<open>The hook of mercurial fails the transaction (true) when a file is badly indented.\<close>

definition run_as_hg_hook :: "tools \<Rightarrow> fs \<Rightarrow> string list \<Rightarrow> bool result" where
  "run_as_hg_hook tls fs hg_lines =
     map_result (\<lambda>r. \<not> ir_value r) (indent_files tls fs (map strip hg_lines) False False 0 False)"

text \<open>\<open>run_as_main\<close> after the options are parsed: the exit code and the printed lines.\<close>

record style_options =
  so_debug :: bool
  so_level :: int
  so_hg_hook :: bool
  so_hg :: bool
  so_file :: string
  so_diff :: bool
  so_in_place :: bool

definition run_as_main :: "tools \<Rightarrow> fs \<Rightarrow> string list \<Rightarrow> style_options \<Rightarrow> (int \<times> fs \<times> string list) result" where
  "run_as_main tls fs hg_lines o' =
     (if so_hg_hook o'
      then map_result (\<lambda>r. (if ir_value r then 0 else 1, ir_fs r, ir_printed r))
             (indent_files tls fs (map strip hg_lines) False (so_debug o') (so_level o') False)
      else if so_hg o'
      then map_result (\<lambda>r. (0, ir_fs r, ir_printed r))
             (indent_files tls fs (map strip hg_lines) (so_diff o') (so_debug o') (so_level o') (so_in_place o'))
      else if so_file o' \<noteq> []
      then (case fs (so_file o') of
              Some (FileNode _) \<Rightarrow>
                map_result (\<lambda>r. (0, ir_fs r, ir_printed r))
                  (indent_files tls fs [so_file o'] (so_diff o') (so_debug o') (so_level o') (so_in_place o'))
            | _ \<Rightarrow> Inr (1, fs, [''file '' @ so_file o' @ '' does not exist'']))
      else Inr (0, fs, []))"

section \<open>Reading back a written patch\<close>

definition wf_line :: "chunk_line \<Rightarrow> bool" where
  "wf_line l = (CHR 0x0A \<notin> set (line_text l) \<and>
     (case l of Src s \<Rightarrow> \<not> startswith s ''-- '' | Dst s \<Rightarrow> \<not> startswith s ''++ '' | Both s \<Rightarrow> True))"

definition wf_patch :: "patch \<Rightarrow> bool" where
  "wf_patch p \<longleftrightarrow> CHR 0x0A \<notin> set (pt_src p) \<and> CHR 0x0A \<notin> set (pt_dst p) \<and>
     list_all (\<lambda>c. list_all wf_line (ck_lines c)) (pt_chunks p)"

definition chunk_text_lines :: "chunk \<Rightarrow> string list" where
  "chunk_text_lines c = chunk_header c # map write_line (ck_lines c)"

definition patch_text_lines :: "patch \<Rightarrow> string list" where
  "patch_text_lines p = (''--- '' @ pt_src p @ nl) # (''+++ '' @ pt_dst p @ nl) #
     concat (map chunk_text_lines (pt_chunks p))"

lemma concat_patch_text_lines: "concat (patch_text_lines p) = write_patch p"
proof -
  have "concat (concat (map chunk_text_lines cs)) = concat (map write_chunk cs)" for cs
    by (induction cs) (simp_all add: chunk_text_lines_def write_chunk_def)
  then show ?thesis by (simp add: patch_text_lines_def write_patch_def)
qed

lemma match_rest_line:
  "CHR 0x0A \<notin> set s \<Longrightarrow> match_rest p (p @ s @ nl) = Some s"
  by (simp add: match_rest_def Let_def nl_def endswith_def butlast_append)

lemma match_rest_Cons_other: "c \<noteq> c' \<Longrightarrow> match_rest (c # p) (c' # s) = None"
  by (simp add: match_rest_def)

lemma match_rest_None: "\<not> startswith s p \<Longrightarrow> match_rest p s = None"
  by (simp add: match_rest_def)

lemma match_chunk_other: "c \<noteq> CHR ''@'' \<Longrightarrow> match_chunk (c # s) = None"
  by (simp add: match_chunk_def skip_str_def)

lemma startswith_append_nl: "CHR 0x0A \<notin> set p \<Longrightarrow> startswith (s @ nl) p \<Longrightarrow> startswith s p"
proof (induction s arbitrary: p)
  case Nil
  then show ?case by (cases p) (auto simp: nl_def)
next
  case (Cons c s)
  then show ?case by (cases p) auto
qed

lemma diff_line_write:
  assumes "wf_line l"
  shows "diff_line d (write_line l) = add_line l d"
proof (cases l)
  case (Src s)
  then have s: "CHR 0x0A \<notin> set s" "\<not> startswith (s @ nl) ''-- ''"
    using assms startswith_append_nl [of "''-- ''" s] by (auto simp: wf_line_def)
  have "match_rest ''--- '' (CHR ''-'' # s @ nl) = None" using s(2) by (simp add: match_rest_def)
  moreover have "match_rest ''-'' (CHR ''-'' # s @ nl) = Some s" using match_rest_line [OF s(1), of "''-''"] by simp
  ultimately show ?thesis using Src by (simp add: diff_line_def match_rest_Cons_other match_chunk_other)
next
  case (Dst s)
  then have s: "CHR 0x0A \<notin> set s" "\<not> startswith (s @ nl) ''++ ''"
    using assms startswith_append_nl [of "''++ ''" s] by (auto simp: wf_line_def)
  have "match_rest ''+++ '' (CHR ''+'' # s @ nl) = None" using s(2) by (simp add: match_rest_def)
  moreover have "match_rest ''+'' (CHR ''+'' # s @ nl) = Some s" using match_rest_line [OF s(1), of "''+''"] by simp
  ultimately show ?thesis using Dst by (simp add: diff_line_def match_rest_Cons_other match_chunk_other)
next
  case (Both s)
  then have "CHR 0x0A \<notin> set s" using assms by (simp add: wf_line_def)
  then have "match_rest '' '' (CHR '' '' # s @ nl) = Some s" using match_rest_line [of s "'' ''"] by simp
  then show ?thesis using Both by (simp add: diff_line_def match_rest_Cons_other match_chunk_other)
qed

lemma match_number_show:
  assumes "\<not> is_digit c"
  shows "match_number (show_nat n @ c # s) = Some (n, c # s)"
proof -
  have d: "\<And>x. x \<in> set (show_nat n) \<Longrightarrow> is_digit x" using show_nat_digits by blast
  have "takeWhile is_digit (show_nat n @ c # s) = show_nat n" "dropWhile is_digit (show_nat n @ c # s) = c # s"
    using d assms by (simp_all add: takeWhile_append2 dropWhile_append2)
  then show ?thesis by (simp add: match_number_def Let_def)
qed

lemma skip_str_append [simp]: "skip_str p (p @ s) = Some s"
  by (simp add: skip_str_def)

lemma match_chunk_header: "match_chunk (chunk_header c) = Some (ck_src_pos c, ck_dst_pos c)"
proof -
  have nd: "\<not> is_digit (CHR '','')" "\<not> is_digit (CHR '' '')" by code_simp+
  show ?thesis
    by (simp add: match_chunk_def chunk_header_def skip_str_def match_number_show nd)
qed

lemma diff_line_header:
  "diff_line d (chunk_header c) = add_chunk (ck_src_pos c) (ck_dst_pos c) d"
proof -
  have "\<exists>s. chunk_header c = CHR ''@'' # s" by (simp add: chunk_header_def)
  then show ?thesis
    using match_chunk_header [of c] by (auto simp: diff_line_def match_rest_Cons_other)
qed

lemma update_last_snoc [simp]: "update_last f (xs @ [x]) = xs @ [f x]"
  by (simp add: update_last_def)

lemma foldM_lines:
  "list_all wf_line ls \<Longrightarrow>
   foldM_result diff_line \<lparr>dp_patches = ps @ [p\<lparr>pt_chunks := cs @ [c]\<rparr>], dp_chunk_in = Some (length ps)\<rparr> (map write_line ls) =
   Inr \<lparr>dp_patches = ps @ [p\<lparr>pt_chunks := cs @ [c\<lparr>ck_lines := ck_lines c @ ls\<rparr>]\<rparr>], dp_chunk_in = Some (length ps)\<rparr>"
proof (induction ls arbitrary: c)
  case (Cons l ls)
  then show ?case by (simp add: diff_line_write add_line_def nth_append list_update_append)
qed simp

lemma foldM_chunk:
  assumes "list_all wf_line (ck_lines c)"
  shows "foldM_result diff_line \<lparr>dp_patches = ps @ [p\<lparr>pt_chunks := cs\<rparr>], dp_chunk_in = ci\<rparr> (chunk_text_lines c) =
   Inr \<lparr>dp_patches = ps @ [p\<lparr>pt_chunks := cs @ [c]\<rparr>], dp_chunk_in = Some (length ps)\<rparr>"
proof -
  let ?c = "\<lparr>ck_src_pos = ck_src_pos c, ck_dst_pos = ck_dst_pos c, ck_lines = []\<rparr>"
  have "diff_line \<lparr>dp_patches = ps @ [p\<lparr>pt_chunks := cs\<rparr>], dp_chunk_in = ci\<rparr> (chunk_header c) =
      Inr \<lparr>dp_patches = ps @ [p\<lparr>pt_chunks := cs @ [?c]\<rparr>], dp_chunk_in = Some (length ps)\<rparr>"
    by (simp add: diff_line_header add_chunk_def)
  moreover have "?c\<lparr>ck_lines := ck_lines ?c @ ck_lines c\<rparr> = c" by simp
  ultimately show ?thesis
    using foldM_lines [OF assms, where ps = ps and p = p and cs = cs and c = ?c] by (simp add: chunk_text_lines_def)
qed

lemma foldM_chunks:
  "list_all (\<lambda>c. list_all wf_line (ck_lines c)) ds \<Longrightarrow>
   \<exists>ci'. foldM_result diff_line \<lparr>dp_patches = ps @ [p\<lparr>pt_chunks := cs\<rparr>], dp_chunk_in = ci\<rparr> (concat (map chunk_text_lines ds)) =
     Inr \<lparr>dp_patches = ps @ [p\<lparr>pt_chunks := cs @ ds\<rparr>], dp_chunk_in = ci'\<rparr>"
proof (induction ds arbitrary: cs ci)
  case (Cons d ds)
  then show ?case using Cons.IH [of "cs @ [d]" "Some (length ps)"] by (simp add: foldM_result_append foldM_chunk)
qed simp

lemma foldM_patch:
  assumes "wf_patch p"
  shows "\<exists>ci'. foldM_result diff_line \<lparr>dp_patches = ps, dp_chunk_in = ci\<rparr> (patch_text_lines p) =
     Inr \<lparr>dp_patches = ps @ [p], dp_chunk_in = ci'\<rparr>"
proof -
  let ?p = "\<lparr>pt_src = pt_src p, pt_dst = pt_dst p, pt_chunks = []\<rparr>"
  from assms have nls: "CHR 0x0A \<notin> set (pt_src p)" "CHR 0x0A \<notin> set (pt_dst p)"
    and w: "list_all (\<lambda>c. list_all wf_line (ck_lines c)) (pt_chunks p)" by (auto simp: wf_patch_def)
  have 1: "diff_line \<lparr>dp_patches = ps, dp_chunk_in = ci\<rparr> (''--- '' @ pt_src p @ nl) =
      Inr \<lparr>dp_patches = ps @ [?p\<lparr>pt_dst := []\<rparr>], dp_chunk_in = ci\<rparr>"
    using match_rest_line [OF nls(1), of "''--- ''"] by (simp only: diff_line_def option.case) simp
  have "match_rest ''--- '' (''+++ '' @ pt_dst p @ nl) = None" by (simp add: match_rest_Cons_other)
  then have 2: "diff_line \<lparr>dp_patches = ps @ [?p\<lparr>pt_dst := []\<rparr>], dp_chunk_in = ci\<rparr> (''+++ '' @ pt_dst p @ nl) =
      Inr \<lparr>dp_patches = ps @ [?p\<lparr>pt_chunks := []\<rparr>], dp_chunk_in = ci\<rparr>"
    using match_rest_line [OF nls(2), of "''+++ ''"] by (simp only: diff_line_def option.case set_dst_def) simp
  have pp: "\<lparr>pt_src = pt_src p, pt_dst = pt_dst p, pt_chunks = pt_chunks p\<rparr> = p" by simp
  from 1 2 foldM_chunks [OF w, where ps = ps and p = ?p and cs = "[]" and ci = ci] show ?thesis by (simp add: patch_text_lines_def pp)
qed

lemma foldM_patches:
  "list_all wf_patch qs \<Longrightarrow>
   \<exists>ci'. foldM_result diff_line \<lparr>dp_patches = ps, dp_chunk_in = ci\<rparr> (concat (map patch_text_lines qs)) =
     Inr \<lparr>dp_patches = ps @ qs, dp_chunk_in = ci'\<rparr>"
proof (induction qs arbitrary: ps ci)
  case (Cons q qs)
  then obtain ci' where "foldM_result diff_line \<lparr>dp_patches = ps, dp_chunk_in = ci\<rparr> (patch_text_lines q) =
     Inr \<lparr>dp_patches = ps @ [q], dp_chunk_in = ci'\<rparr>" using foldM_patch [of q ps ci] by auto
  with Cons.IH [of "ps @ [q]" ci'] Cons.prems show ?case by (simp add: foldM_result_append)
qed simp

text \<open>Every written line ends with its only newline.\<close>

lemma lines_of_text_lines:
  "(\<And>l. l \<in> set ls \<Longrightarrow> \<exists>b. l = b @ nl \<and> CHR 0x0A \<notin> set b) \<Longrightarrow> lines_of (concat ls) = ls"
proof (induction ls)
  case (Cons l ls)
  then obtain b where "l = b @ nl" "CHR 0x0A \<notin> set b" by (metis list.set_intros(1))
  with Cons show ?case by (simp add: nl_def lines_of_append_line)
qed simp

lemma show_nat_no_newline: "CHR 0x0A \<notin> set (show_nat n)"
  using show_nat_digits [of n] by (auto simp: is_digit_def less_eq_char_def)

lemma patch_text_line_ends:
  assumes "wf_patch p" "l \<in> set (patch_text_lines p)"
  shows "\<exists>b. l = b @ nl \<and> CHR 0x0A \<notin> set b"
proof -
  have w: "\<exists>b. write_line x = b @ nl \<and> CHR 0x0A \<notin> set b" if "wf_line x" for x
    using that by (cases x) (auto simp: wf_line_def)
  have h: "\<exists>b. chunk_header c = b @ nl \<and> CHR 0x0A \<notin> set b" for c
    by (rule exI [of _ "''@@ -'' @ show_nat (ck_src_pos c) @ '','' @ show_nat (src_len c) @ '' +'' @
         show_nat (ck_dst_pos c) @ '','' @ show_nat (dst_len c) @ '' @@''"])
       (simp add: chunk_header_def show_nat_no_newline)
  from assms(2) consider "l = ''--- '' @ pt_src p @ nl" | "l = ''+++ '' @ pt_dst p @ nl"
    | c where "c \<in> set (pt_chunks p)" "l = chunk_header c"
    | c x where "c \<in> set (pt_chunks p)" "x \<in> set (ck_lines c)" "l = write_line x"
    by (auto simp: patch_text_lines_def chunk_text_lines_def)
  then show ?thesis
  proof cases
    case 1
    then show ?thesis using assms(1) by (intro exI [of _ "''--- '' @ pt_src p"]) (simp add: wf_patch_def)
  next
    case 2
    then show ?thesis using assms(1) by (intro exI [of _ "''+++ '' @ pt_dst p"]) (simp add: wf_patch_def)
  next
    case 3
    then show ?thesis using h by simp
  next
    case 4
    then show ?thesis using w assms(1) by (auto simp: wf_patch_def list_all_iff)
  qed
qed

section \<open>Undoing changes of trailing blanks\<close>

text \<open>What becomes of a destination line that is paired with a source line.\<close>

definition restored :: "string \<Rightarrow> string \<Rightarrow> string" where
  "restored s d = (if s = d @ '' '' \<or> s = d @ [CHR 0x09] then s else d)"

lemma whitespace_match_Some:
  "whitespace_match s = Some (g1, g2) \<longleftrightarrow> s = g1 @ g2 \<and> (g2 = '' '' \<or> g2 = [CHR 0x09])"
  by (cases s rule: rev_cases) (auto simp: whitespace_match_def)

lemma restore_pair_dst:
  assumes "d < length ls"
  shows "line_text (restore_pair ls s d ! d) = restored (line_text (ls ! s)) (line_text (ls ! d))"
proof -
  have t: "line_text (append_to_line l x) = line_text l @ x" for l x by (cases l) simp_all
  show ?thesis
  proof (cases "whitespace_match (line_text (ls ! s))")
    case None
    then have "restored (line_text (ls ! s)) (line_text (ls ! d)) = line_text (ls ! d)"
      using whitespace_match_Some [of "line_text (ls ! s)"] by (auto simp: restored_def)
    with None show ?thesis by (simp add: restore_pair_def)
  next
    case (Some g)
    obtain g1 g2 where g: "g = (g1, g2)" by (cases g)
    then have "line_text (ls ! s) = g1 @ g2" "g2 = '' '' \<or> g2 = [CHR 0x09]"
      using Some whitespace_match_Some by blast+
    with Some g assms show ?thesis by (auto simp: restore_pair_def restored_def t)
  qed
qed

lemma restore_pair_other: "i \<noteq> d \<Longrightarrow> restore_pair ls s d ! i = ls ! i"
  by (auto simp: restore_pair_def split: option.splits)

lemma restore_pair_same: "restore_pair ls i i = ls"
  using whitespace_match_Some by (auto simp: restore_pair_def split: option.splits)

lemma restore_pair_length [simp]: "length (restore_pair ls s d) = length ls"
  by (auto simp: restore_pair_def split: option.splits)

lemma restore_pair_kind:
  "is_src (restore_pair ls s d ! i) = is_src (ls ! i) \<and> is_dst (restore_pair ls s d ! i) = is_dst (ls ! i)"
proof -
  have k: "is_src (append_to_line l x) = is_src l" "is_dst (append_to_line l x) = is_dst l" for l x
    by (cases l; simp)+
  show ?thesis
    by (cases "i = d"; cases "i < length ls")
       (auto simp: restore_pair_def k nth_list_update list_update_beyond split: option.splits)
qed

text \<open>The source and the destination line of every pair are one line, or the destination line is an
  added one.\<close>

definition aligned_pairs :: "chunk_line list \<Rightarrow> nat list \<Rightarrow> nat list \<Rightarrow> bool" where
  "aligned_pairs ls ss ds \<longleftrightarrow> list_all2 (\<lambda>s d. s = d \<or> \<not> is_src (ls ! d)) ss ds \<and>
     list_all (\<lambda>s. s < length ls \<and> is_src (ls ! s)) ss \<and> list_all (\<lambda>d. d < length ls) ds \<and> distinct ds"

lemma restore_pairs_aligned:
  assumes "aligned_pairs ls ss ds"
  shows "\<exists>ls'. restore_pairs ls ss ds = (ls', True) \<and> length ls' = length ls \<and>
    (\<forall>i. is_src (ls ! i) \<longrightarrow> ls' ! i = ls ! i) \<and> (\<forall>i. i \<notin> set ds \<longrightarrow> ls' ! i = ls ! i) \<and>
    (\<forall>i. is_src (ls' ! i) = is_src (ls ! i) \<and> is_dst (ls' ! i) = is_dst (ls ! i)) \<and>
    map (\<lambda>i. line_text (ls' ! i)) ds =
      map2 (\<lambda>s d. restored (line_text (ls ! s)) (line_text (ls ! d))) ss ds"
  using assms
proof (induction ls ss ds rule: restore_pairs.induct)
  case (3 ls s ss d ds)
  let ?ls = "restore_pair ls s d"
  from 3(2) have al: "aligned_pairs ls ss ds" and sd: "s = d \<or> \<not> is_src (ls ! d)"
    and d: "d < length ls" "d \<notin> set ds" and s: "is_src (ls ! s)" and ssrc: "\<forall>x \<in> set ss. is_src (ls ! x)"
    by (auto simp: aligned_pairs_def list_all_iff)
  have src: "?ls ! i = ls ! i" if "is_src (ls ! i)" for i
    using sd that restore_pair_other [of i d ls s] restore_pair_same [of ls d] by (cases "i = d") auto
  have "aligned_pairs ?ls ss ds" using al by (simp add: aligned_pairs_def restore_pair_kind)
  from 3(1) [OF this] obtain ls' where r: "restore_pairs ?ls ss ds = (ls', True)" "length ls' = length ?ls"
    "\<forall>i. is_src (?ls ! i) \<longrightarrow> ls' ! i = ?ls ! i" "\<forall>i. i \<notin> set ds \<longrightarrow> ls' ! i = ?ls ! i"
    "\<forall>i. is_src (ls' ! i) = is_src (?ls ! i) \<and> is_dst (ls' ! i) = is_dst (?ls ! i)"
    "map (\<lambda>i. line_text (ls' ! i)) ds = map2 (\<lambda>s d. restored (line_text (?ls ! s)) (line_text (?ls ! d))) ss ds"
    by blast
  have "map2 (\<lambda>s d. restored (line_text (?ls ! s)) (line_text (?ls ! d))) ss ds =
      map2 (\<lambda>s d. restored (line_text (ls ! s)) (line_text (ls ! d))) ss ds"
  proof (rule map_cong)
    fix q assume "q \<in> set (zip ss ds)"
    then have q: "fst q \<in> set ss" "snd q \<in> set ds" by (metis in_set_zipE prod.collapse)+
    then have "?ls ! snd q = ls ! snd q" using d(2) by (intro restore_pair_other) auto
    with q show "(case q of (s, d) \<Rightarrow> restored (line_text (?ls ! s)) (line_text (?ls ! d))) =
        (case q of (s, d) \<Rightarrow> restored (line_text (ls ! s)) (line_text (ls ! d)))"
      using ssrc src by (auto split: prod.splits)
  qed simp
  with r src d(2) restore_pair_dst [OF d(1), of s] restore_pair_other [of _ d ls s] show ?case
    by (auto simp: restore_pair_kind)
qed (auto simp: aligned_pairs_def)

lemma filter_nth_indices: "filter P xs = map (\<lambda>i. xs ! i) (filter (\<lambda>i. P (xs ! i)) [0..<length xs])"
proof -
  have "filter P (map (\<lambda>i. xs ! i) [0..<length xs]) = map (\<lambda>i. xs ! i) (filter (\<lambda>i. P (xs ! i)) [0..<length xs])"
    by (simp add: filter_map comp_def)
  then show ?thesis by (simp add: map_nth)
qed

definition aligned_chunk :: "chunk \<Rightarrow> bool" where
  "aligned_chunk c \<longleftrightarrow> aligned_pairs (ck_lines c) (src_indices (ck_lines c)) (dst_indices (ck_lines c))"

lemma restore_chunk_aligned:
  assumes "aligned_chunk c" "restore_chunk c = (c', ok)"
  shows "ok \<and> filter is_src (ck_lines c') = filter is_src (ck_lines c) \<and>
    map line_text (filter is_dst (ck_lines c')) =
      map2 restored (map line_text (filter is_src (ck_lines c))) (map line_text (filter is_dst (ck_lines c))) \<and>
    ck_src_pos c' = ck_src_pos c \<and> ck_dst_pos c' = ck_dst_pos c"
proof -
  let ?ls = "ck_lines c"
  from restore_pairs_aligned [of ?ls "src_indices ?ls" "dst_indices ?ls"] assms(1) obtain ls' where
    r: "restore_pairs ?ls (src_indices ?ls) (dst_indices ?ls) = (ls', True)" "length ls' = length ?ls"
      "\<forall>i. is_src (?ls ! i) \<longrightarrow> ls' ! i = ?ls ! i"
      "\<forall>i. is_src (ls' ! i) = is_src (?ls ! i) \<and> is_dst (ls' ! i) = is_dst (?ls ! i)"
      "map (\<lambda>i. line_text (ls' ! i)) (dst_indices ?ls) =
        map2 (\<lambda>s d. restored (line_text (?ls ! s)) (line_text (?ls ! d))) (src_indices ?ls) (dst_indices ?ls)"
    by (auto simp: aligned_chunk_def)
  have c': "c' = c\<lparr>ck_lines := ls'\<rparr>" "ok" using assms(2) r(1) by (simp_all add: restore_chunk_def)
  have "filter is_src ls' = map (\<lambda>i. ls' ! i) (src_indices ?ls)"
    using filter_nth_indices [of is_src ls'] r(2,4) by (simp add: src_indices_def)
  also have "\<dots> = filter is_src ?ls"
    using filter_nth_indices [of is_src ?ls] r(3) by (simp add: src_indices_def)
  finally have src: "filter is_src ls' = filter is_src ?ls" .
  have d': "filter is_dst ls' = map (\<lambda>i. ls' ! i) (dst_indices ?ls)"
    using filter_nth_indices [of is_dst ls'] r(2,4) by (simp add: dst_indices_def)
  have "map line_text (filter is_dst ls') = map (\<lambda>i. line_text (ls' ! i)) (dst_indices ?ls)"
    by (simp add: d')
  also have "\<dots> = map2 restored (map (\<lambda>s. line_text (?ls ! s)) (src_indices ?ls)) (map (\<lambda>d. line_text (?ls ! d)) (dst_indices ?ls))"
    unfolding r(5) by (simp add: zip_map_map comp_def case_prod_unfold)
  also have "\<dots> = map2 restored (map line_text (filter is_src ?ls)) (map line_text (filter is_dst ?ls))"
    using filter_nth_indices [of is_src ?ls] filter_nth_indices [of is_dst ?ls]
    by (simp add: src_indices_def dst_indices_def comp_def)
  finally show ?thesis using src c' by simp
qed

lemma final_diff_debug: "final_diff True level diff = Inr []"
  by (simp add: final_diff_def remove_trailing_whitespace_changes_def parse_patchset_def diff_init_def)

lemma mapM_pairs:
  "mapM_result (\<lambda>f. map_result (\<lambda>t. (f, t)) (g f)) fs = Inr outs \<Longrightarrow>
   map fst outs = fs \<and> list_all (\<lambda>(f, t). g f = Inr t) outs"
  by (induction fs arbitrary: outs) auto

lemma copy_all_spec:
  assumes "distinct (map fst outs)"
  shows "copy_all outs fs f = (case map_of outs f of Some t \<Rightarrow> Some (FileNode t) | None \<Rightarrow> fs f)"
  using assms unfolding copy_all_def
proof (induction outs arbitrary: fs)
  case (Cons o' outs)
  obtain n t where o': "o' = (n, t)" by (cases o')
  with Cons.prems have "map_of outs n = None" by (auto simp: map_of_eq_None_iff)
  with Cons o' show ?case by (auto split: option.splits)
qed simp

text \<open>Tools for the examples below: a formatter that changes nothing, and one that takes a trailing
  blank away.\<close>

definition idle_tools :: tools where
  "idle_tools = \<lparr>t_uncrustify = (\<lambda>_ s. Some s), t_unified_diff = (\<lambda>_ _ _ _. []),
     t_patch = (\<lambda>d s. s), t_tmpname = ''/tmp/x''\<rparr>"

definition sample_chunk :: chunk where
  "sample_chunk = \<lparr>ck_src_pos = 1, ck_dst_pos = 1, ck_lines = [Both ''x'', Src ''a '', Dst ''a'']\<rparr>"

definition patchset_text :: "patch list \<Rightarrow> string list" where
  "patchset_text ps = lines_of (concat (map write_patch ps))"

interpretation patchset: codec patchset_text parse_patchset "\<lambda>ps. ps" "list_all wf_patch"
proof
  fix ps
  assume wf: "list_all wf_patch ps"
  have t: "concat (map write_patch ps) = concat (concat (map patch_text_lines ps))"
    by (induction ps) (simp_all add: concat_patch_text_lines)
  have "lines_of (concat (concat (map patch_text_lines ps))) = concat (map patch_text_lines ps)"
    by (rule lines_of_text_lines) (use wf patch_text_line_ends in \<open>auto simp: list_all_iff\<close>)
  then show "parse_patchset (patchset_text ps) = Inr ps"
    using foldM_patches [OF wf, of "[]" None] by (auto simp: t patchset_text_def parse_patchset_def diff_init_def)
qed

section \<open>Properties\<close>



text \<open>Undoing changes of trailing blanks.  In a chunk whose removed lines are each replaced by as
  many added lines, the source side stays as it is, and a destination line that is its source
  line without one trailing blank becomes the source line; every other destination line, also
  one that lost several trailing blanks, is kept.\<close>

theorem trailing_blanks_restored:
  assumes "aligned_chunk c" "restore_chunk c = (c', ok)"
  shows "ok \<and> filter is_src (ck_lines c') = filter is_src (ck_lines c) \<and>
    map line_text (filter is_dst (ck_lines c')) =
      map2 (\<lambda>s d. if s = d @ '' '' \<or> s = d @ [CHR 0x09] then s else d)
        (map line_text (filter is_src (ck_lines c))) (map line_text (filter is_dst (ck_lines c)))"
  using restore_chunk_aligned [OF assms] by (simp add: restored_def)

theorem trailing_blanks_restored_witness:
  "map line_text (filter is_dst (ck_lines (fst (restore_chunk sample_chunk)))) = [''x'', ''a '']"
proof -
  have a: "aligned_chunk sample_chunk" by code_simp
  obtain c' ok where "restore_chunk sample_chunk = (c', ok)" by fastforce
  with trailing_blanks_restored [OF a] show ?thesis by (simp add: sample_chunk_def)
qed

text \<open>The same step on a chunk that removes a line can change a context line: the restored patch
  no longer describes its source file.\<close>

theorem restore_changes_context:
  "\<exists>c. list_all wf_line (ck_lines c) \<and>
     filter is_src (ck_lines (fst (restore_chunk c))) \<noteq> filter is_src (ck_lines c)"
proof -
  let ?c = "\<lparr>ck_src_pos = 1, ck_dst_pos = 1, ck_lines = [Src ''a '', Both ''a'']\<rparr>"
  have "list_all wf_line (ck_lines ?c)" by code_simp
  moreover have "filter is_src (ck_lines (fst (restore_chunk ?c))) \<noteq> filter is_src (ck_lines ?c)" by code_simp
  ultimately show ?thesis by blast
qed

text \<open>Debug mode.  Writing the initial diff for inspection uses it up, so that whatever the
  formatter and the diff say, the final diff is empty and the file is patched with nothing.\<close>

theorem debug_discards_changes:
  assumes "read_file fs source = Inr src" "t_uncrustify tls (uncrustify_config_file level) src = Some out"
  shows "indent tls fs source True level = Inr (t_patch tls [] src)"
  using assms by (simp add: indent_def final_diff_debug)

theorem debug_discards_changes_witness:
  "indent idle_tools [''f'' \<mapsto> FileNode ''x''] ''f'' True 0 = Inr ''x''"
  using debug_discards_changes [of "[''f'' \<mapsto> FileNode ''x'']" "''f''" "''x''" idle_tools 0 "''x''"]
  by (simp add: read_file_def idle_tools_def)

text \<open>Checking and indenting files.  Without \<open>--in-place\<close> no file changes and the result is true
  exactly when every file is already as it would be indented; with it the result is true and
  exactly the given files are replaced by their indented texts.\<close>

theorem indent_files_spec:
  assumes "indent_files tls fs files diff debug level inplace = Inr r" "distinct files"
  shows "(\<not> inplace \<longrightarrow> ir_fs r = fs \<and>
      (ir_value r \<longleftrightarrow> (\<forall>f \<in> set files. map_result Some (read_file fs f) = map_result Some (indent tls fs f debug level)))) \<and>
    (inplace \<longrightarrow> ir_value r \<and>
      (\<forall>f. f \<notin> set files \<longrightarrow> ir_fs r f = fs f) \<and>
      (\<forall>f \<in> set files. \<exists>t. indent tls fs f debug level = Inr t \<and> ir_fs r f = Some (FileNode t)))"
proof -
  from assms(1) obtain outs where
    m: "mapM_result (\<lambda>f. map_result (\<lambda>t. (f, t)) (indent tls fs f debug level)) files = Inr outs"
    by (auto simp: indent_files_def)
  from mapM_pairs [OF m] have fst: "map fst outs = files"
    and ind: "\<And>f t. (f, t) \<in> set outs \<Longrightarrow> indent tls fs f debug level = Inr t" by (auto simp: list_all_iff)
  have dist: "distinct (map fst outs)" using fst assms(2) by simp
  have ex: "\<exists>t. (f, t) \<in> set outs" if "f \<in> set files" for f
    using that unfolding fst [symmetric] by auto
  have mem: "f \<in> set files" if "(f, t) \<in> set outs" for f t
    using that unfolding fst [symmetric] by force
  show ?thesis
  proof (cases inplace)
    case True
    then have r: "r = \<lparr>ir_value = True, ir_fs = copy_all outs fs, ir_printed = []\<rparr>"
      using assms(1) m by (simp add: indent_files_def)
    have "copy_all outs fs f = fs f" if "f \<notin> set files" for f
      using that copy_all_spec [OF dist, of fs f] mem by (auto dest: map_of_SomeD split: option.splits)
    moreover have "\<exists>t. indent tls fs f debug level = Inr t \<and> copy_all outs fs f = Some (FileNode t)"
      if "f \<in> set files" for f
    proof -
      from ex [OF that] obtain t where t: "(f, t) \<in> set outs" by blast
      then have "map_of outs f = Some t" using dist by simp
      with t ind copy_all_spec [OF dist, of fs f] show ?thesis by auto
    qed
    ultimately show ?thesis using True r by simp
  next
    case False
    then have v: "ir_fs r = fs" "ir_value r \<longleftrightarrow> filter (\<lambda>(f, t). fs f \<noteq> Some (FileNode t)) outs = []"
      using assms(1) m by (auto simp: indent_files_def Let_def)
    have rd: "map_result Some (read_file fs f) = map_result Some (indent tls fs f debug level) \<longleftrightarrow> fs f = Some (FileNode t)"
      if "(f, t) \<in> set outs" for f t
      using ind [OF that] by (auto simp: read_file_def split: option.splits fnode.splits)
    have "ir_value r \<longleftrightarrow> (\<forall>(f, t) \<in> set outs. fs f = Some (FileNode t))"
      using v(2) by (auto simp: filter_empty_conv)
    also have "\<dots> \<longleftrightarrow> (\<forall>f \<in> set files. map_result Some (read_file fs f) = map_result Some (indent tls fs f debug level))"
      using rd ex mem by fast
    finally show ?thesis using False v(1) by simp
  qed
qed

theorem indent_files_spec_witness:
  "\<exists>r. indent_files idle_tools [''f'' \<mapsto> FileNode ''x''] [''f''] False False 3 False = Inr r \<and> ir_value r"
proof -
  have i: "indent idle_tools [''f'' \<mapsto> FileNode ''x''] ''f'' False 3 = Inr ''x''"
    by (simp add: indent_def read_file_def idle_tools_def final_diff_def)
  then obtain r where r: "indent_files idle_tools [''f'' \<mapsto> FileNode ''x''] [''f''] False False 3 False = Inr r"
    by (simp add: indent_files_def Let_def)
  from indent_files_spec [OF r] r i show ?thesis by (simp add: read_file_def)
qed

end
