(* ===== verification/Cflags.thy ===== *)
theory Cflags
  imports Prelude
begin

text \<open>
  \<open>src/waf-tools/cflags.py\<close>: the compiler flags of a build profile.  The configuration environment
  is the pair of compilers that were detected and a dictionary of flag lists; a variable that is
  missing reads as the empty list.
\<close>

section \<open>Compiler traits\<close>

datatype traits = Gcc | Icc | Msvc

fun warnings_flags :: "traits \<Rightarrow> string list list" where
  "warnings_flags Gcc = [[''-Wall''], [''-Werror''], [''-Wextra'']]"
| "warnings_flags Icc = [[], [], [''-Wall'']]"
| "warnings_flags Msvc = [[''/W2''], [''/WX''], [''/Wall'']]"

text \<open>The loop over the levels, which is left when the list of the compiler ends.\<close>

fun warnings_loop :: "string list list \<Rightarrow> nat list \<Rightarrow> string list \<Rightarrow> string list" where
  "warnings_loop flags [] acc = acc"
| "warnings_loop flags (l # ls) acc =
     (if l < length flags then warnings_loop flags ls (acc @ flags ! l) else acc)"

definition get_warnings_flags :: "traits \<Rightarrow> int \<Rightarrow> string list" where
  "get_warnings_flags t level = warnings_loop (warnings_flags t) [0..<nat level] []"

text \<open>\<open>None\<close> is Python's: no branch of the chain returns.\<close>

definition get_optimization_flags :: "traits \<Rightarrow> int \<Rightarrow> string list option" where
  "get_optimization_flags t level =
     (case t of
        Msvc \<Rightarrow> if level = 0 then Some [''/Od''] else if level = 1 then Some []
                else if level = 2 then Some [''/O2''] else if level = 3 then Some [''/Ox''] else None
      | _ \<Rightarrow> if level = 0 then Some [''-O0''] else if level = 1 then Some [''-O'']
             else if level = 2 then Some [''-O2''] else if level = 3 then Some [''-O3''] else None)"

definition get_debug_flags :: "traits \<Rightarrow> int \<Rightarrow> (string list \<times> string list) option" where
  "get_debug_flags t level =
     (case t of
        Msvc \<Rightarrow> if level = 0 then Some ([], [''NDEBUG'']) else if level = 1 then Some ([''/ZI'', ''/RTC1''], [])
                else if level \<ge> 2 then Some ([''/ZI'', ''/RTC1''], [''_DEBUG'']) else None
      | _ \<Rightarrow> if level = 0 then Some ([''-g0''], [''NDEBUG'']) else if level = 1 then Some ([''-g''], [])
             else if level \<ge> 2 then Some ([''-ggdb'', ''-g3''], [''_DEBUG'']) else None)"

section \<open>Profiles\<close>

definition compiler_mapping :: "(string, traits) dict" where
  "compiler_mapping = [(''gcc'', Gcc), (''g++'', Gcc), (''msvc'', Msvc), (''icc'', Icc), (''icpc'', Icc),
     (''clang'', Gcc), (''clang++'', Gcc)]"

text \<open>Optimization, warnings and debug level.\<close>

definition profiles :: "(string, int \<times> int \<times> int) dict" where
  "profiles = [(''default'', 2, 1, 1), (''debug'', 0, 2, 3), (''release'', 3, 1, 0)]"

definition default_profile :: string where
  "default_profile = ''default''"

text \<open>The option \<open>--build-profile\<close>: its choices and the value when it is not given.\<close>

definition build_profile_option :: "string option \<Rightarrow> string result" where
  "build_profile_option arg =
     (if \<not> dict_has profiles default_profile then Inl AssertionError
      else case arg of
        None \<Rightarrow> Inr default_profile
      | Some p \<Rightarrow> if dict_has profiles p then Inr p else Inl (SystemExit 2))"

section \<open>Configuration\<close>

record conf_env =
  compiler_cc :: string
  compiler_cxx :: string
  conf_flags :: "(string, string list) dict"

definition flags_of :: "conf_env \<Rightarrow> string \<Rightarrow> string list" where
  "flags_of env k = (case dict_get (conf_flags env) k of None \<Rightarrow> [] | Some fs \<Rightarrow> fs)"

definition append_value :: "string \<Rightarrow> string list \<Rightarrow> conf_env \<Rightarrow> conf_env" where
  "append_value k fs env = env\<lparr>conf_flags := dict_set k (flags_of env k @ fs) (conf_flags env)\<rparr>"

definition find_traits :: "conf_env \<Rightarrow> traits option" where
  "find_traits env = (case dict_get compiler_mapping (compiler_cc env) of
       Some t \<Rightarrow> Some t
     | None \<Rightarrow> dict_get compiler_mapping (compiler_cxx env))"

definition append_flags :: "string \<Rightarrow> string \<Rightarrow> string list \<Rightarrow> string list \<Rightarrow> string list \<Rightarrow> string list \<Rightarrow> conf_env \<Rightarrow> conf_env" where
  "append_flags flags_var defines_var optimizations debug warnings debug_defs env =
     append_value defines_var debug_defs
       (append_value flags_var warnings (append_value flags_var debug (append_value flags_var optimizations env)))"

text \<open>A missing compiler is the empty string here.\<close>

definition configure :: "string \<Rightarrow> conf_env \<Rightarrow> conf_env result" where
  "configure build_profile env =
     (if compiler_cc env = [] \<and> compiler_cxx env = []
      then Inl (WafError ''neither COMPILER_CC nor COMPILER_CXX are defined; maybe the compiler_cc or compiler_cxx tool has not been configured yet?'')
      else case find_traits env of
        None \<Rightarrow> Inr env
      | Some t \<Rightarrow>
          bind_result (dict_getitem profiles build_profile) (\<lambda>(opt_level, warn_level, dbg_level).
          case (get_optimization_flags t opt_level, get_debug_flags t dbg_level) of
            (Some optimizations, Some (debug, debug_defs)) \<Rightarrow>
              let warnings = get_warnings_flags t warn_level;
                  env1 = (if compiler_cc env \<noteq> [] \<and> flags_of env ''CCFLAGS'' = []
                          then append_flags ''CCFLAGS'' ''CCDEFINES'' optimizations debug warnings debug_defs env else env)
              in Inr (if compiler_cxx env1 \<noteq> [] \<and> flags_of env1 ''CXXFLAGS'' = []
                      then append_flags ''CXXFLAGS'' ''CXXDEFINES'' optimizations debug warnings debug_defs env1 else env1)
          | _ \<Rightarrow> Inl TypeError))"

section \<open>Lemmas\<close>

lemma warnings_loop_take:
  "warnings_loop flags [k..<k + n] acc = acc @ concat (take n (drop k flags))"
proof (induction n arbitrary: k acc)
  case (Suc n)
  have "[k..<k + Suc n] = k # [Suc k..<Suc k + n]" by (simp add: upt_conv_Cons)
  with Suc [of "Suc k"] show ?case
    by (cases "k < length flags") (auto simp: Cons_nth_drop_Suc [symmetric])
qed simp

lemma get_warnings_flags_take:
  "get_warnings_flags t level = concat (take (nat level) (warnings_flags t))"
  using warnings_loop_take [of "warnings_flags t" 0 "nat level" "[]"] by (simp add: get_warnings_flags_def)

lemma flags_append_value [simp]:
  "flags_of (append_value k fs env) k' = (if k = k' then flags_of env k @ fs else flags_of env k')"
  by (simp add: append_value_def flags_of_def)

lemma compilers_append [simp]:
  "compiler_cc (append_value k fs env) = compiler_cc env" "compiler_cxx (append_value k fs env) = compiler_cxx env"
  by (simp_all add: append_value_def)

lemma flags_append_flags [simp]:
  "fv \<noteq> dv \<Longrightarrow> flags_of (append_flags fv dv os ds ws dd env) k =
     (if k = fv then flags_of env fv @ os @ ds @ ws else if k = dv then flags_of env dv @ dd else flags_of env k)"
  "compiler_cc (append_flags fv dv os ds ws dd env) = compiler_cc env"
  "compiler_cxx (append_flags fv dv os ds ws dd env) = compiler_cxx env"
  by (auto simp: append_flags_def)

text \<open>The flags of a profile for a compiler, before the warnings.\<close>

definition profile_flags :: "traits \<Rightarrow> int \<times> int \<times> int \<Rightarrow> string list" where
  "profile_flags t = (\<lambda>(o', w, d).
     the (get_optimization_flags t o') @ fst (the (get_debug_flags t d)) @ get_warnings_flags t w)"

lemma profile_levels:
  assumes "dict_getitem profiles p = Inr (o', w, d)"
  shows "\<exists>os ds dd. get_optimization_flags t o' = Some os \<and> get_debug_flags t d = Some (ds, dd) \<and>
    os \<noteq> [] \<and> profile_flags t (o', w, d) = os @ ds @ get_warnings_flags t w"
proof -
  have "(o', w, d) \<in> {(2, 1, 1), (0, 2, 3), (3, 1, 0)}"
    using assms by (auto simp: dict_getitem_def dict_get_def profiles_def split: if_splits)
  then show ?thesis
    by (cases t) (auto simp: get_optimization_flags_def get_debug_flags_def profile_flags_def)
qed

lemma configure_cases:
  assumes "configure p env = Inr env'"
  shows "(find_traits env = None \<and> env' = env) \<or>
    (\<exists>t lv os ds dd. find_traits env = Some t \<and> dict_getitem profiles p = Inr lv \<and>
       profile_flags t lv = os @ ds @ get_warnings_flags t (fst (snd lv)) \<and> os \<noteq> [] \<and>
       (let ws = get_warnings_flags t (fst (snd lv));
            env1 = (if compiler_cc env \<noteq> [] \<and> flags_of env ''CCFLAGS'' = []
                    then append_flags ''CCFLAGS'' ''CCDEFINES'' os ds ws dd env else env)
        in env' = (if compiler_cxx env1 \<noteq> [] \<and> flags_of env1 ''CXXFLAGS'' = []
                   then append_flags ''CXXFLAGS'' ''CXXDEFINES'' os ds ws dd env1 else env1)))"
proof (cases "find_traits env")
  case None
  then show ?thesis using assms by (simp add: configure_def split: if_splits)
next
  case (Some t)
  then obtain o' w d where lv: "dict_getitem profiles p = Inr (o', w, d)"
    using assms by (auto simp: configure_def split: if_splits)
  from profile_levels [OF lv, of t] obtain os ds dd where
    l: "get_optimization_flags t o' = Some os" "get_debug_flags t d = Some (ds, dd)" "os \<noteq> []"
      "profile_flags t (o', w, d) = os @ ds @ get_warnings_flags t w" by blast
  let ?ws = "get_warnings_flags t w"
  let ?env1 = "if compiler_cc env \<noteq> [] \<and> flags_of env ''CCFLAGS'' = []
    then append_flags ''CCFLAGS'' ''CCDEFINES'' os ds ?ws dd env else env"
  let ?env2 = "if compiler_cxx ?env1 \<noteq> [] \<and> flags_of ?env1 ''CXXFLAGS'' = []
    then append_flags ''CXXFLAGS'' ''CXXDEFINES'' os ds ?ws dd ?env1 else ?env1"
  have ne: "\<not> (compiler_cc env = [] \<and> compiler_cxx env = [])"
    using assms by (auto simp: configure_def split: if_splits)
  have "configure p env = Inr ?env2"
    unfolding configure_def if_not_P [OF ne] Some lv option.case bind_result_simps prod.case l(1,2) Let_def
    by (rule refl)
  then have "env' = ?env2" using assms by (simp only: sum.inject)
  then show ?thesis
    using Some lv l(3,4)
    by - (rule disjI2, rule exI [of _ t], rule exI [of _ "(o', w, d)"], rule exI [of _ os], rule exI [of _ ds],
        rule exI [of _ dd], unfold Let_def fst_conv snd_conv, intro conjI, assumption+)
qed

lemma configure_flags:
  assumes "configure p env = Inr env'" "find_traits env = Some t"
  shows "\<exists>lv. dict_getitem profiles p = Inr lv \<and> profile_flags t lv \<noteq> [] \<and>
    compiler_cc env' = compiler_cc env \<and> compiler_cxx env' = compiler_cxx env \<and>
    flags_of env' ''CCFLAGS'' =
      (if compiler_cc env \<noteq> [] \<and> flags_of env ''CCFLAGS'' = [] then profile_flags t lv else flags_of env ''CCFLAGS'') \<and>
    flags_of env' ''CXXFLAGS'' =
      (if compiler_cxx env \<noteq> [] \<and> flags_of env ''CXXFLAGS'' = [] then profile_flags t lv else flags_of env ''CXXFLAGS'') \<and>
    (\<forall>k. k \<notin> {''CCFLAGS'', ''CCDEFINES'', ''CXXFLAGS'', ''CXXDEFINES''} \<longrightarrow> flags_of env' k = flags_of env k)"
proof -
  from configure_cases [OF assms(1)] assms(2) obtain lv os ds dd where
    lv: "dict_getitem profiles p = Inr lv" and os: "os \<noteq> []"
    and pf: "profile_flags t lv = os @ ds @ get_warnings_flags t (fst (snd lv))"
    and env': "let ws = get_warnings_flags t (fst (snd lv));
            env1 = (if compiler_cc env \<noteq> [] \<and> flags_of env ''CCFLAGS'' = []
                    then append_flags ''CCFLAGS'' ''CCDEFINES'' os ds ws dd env else env)
        in env' = (if compiler_cxx env1 \<noteq> [] \<and> flags_of env1 ''CXXFLAGS'' = []
                   then append_flags ''CXXFLAGS'' ''CXXDEFINES'' os ds ws dd env1 else env1)"
    by auto
  show ?thesis
    by (rule exI [of _ lv]) (use lv os env' in \<open>auto simp: pf Let_def\<close>)
qed

section \<open>Properties\<close>



end
