(* ===== verification/Spec2Isabelle.thy ===== *)
theory Spec2Isabelle
  imports Bind_Gen Waf_Hooks Wscript_Runs Misc_Tasks Build_And_Test Test_Options Runner_Machine Test_Collect Reports Shellcmd Check_Style Cflags
    Wutils Command_Task
begin

text \<open>
  A verification library for the Python tools of ns-3-dce with MPTCP: the test runner
  \<open>src/test.py\<close> with its helper \<open>src/utils.py\<close>, the program launcher of the build \<open>src/wutils.py\<close>,
  the build tools \<open>src/waf-tools/shellcmd.py\<close>, \<open>command.py\<close>, \<open>misc.py\<close>, \<open>cflags.py\<close>, \<open>relocation.py\<close> and
  \<open>clang_compilation_database.py\<close>, the module system \<open>src/ns3waf\<close>, the build description \<open>src/wscript\<close> with the \<open>wscript\<close> files
  it visits (\<open>src/utils\<close>, \<open>src/bindings/python\<close> and the directories of \<open>src/myscripts\<close>), the scanners and the generator of the Python bindings in \<open>src/bindings/python\<close>, the two experiment scripts
  under \<open>src/myscripts/pamptcp-link-characteristics\<close>, and the style checker \<open>src/utils/check-style.py\<close>.

  \<^bold>\<open>How the parts interact.\<close>  The configuration of \<open>src/wscript\<close> loads the compilers, finds the ns-3 modules with
  \<open>ns3waf.check_modules\<close> and lets the script directories ask for theirs; the build declares its own
  modules with \<open>ns3waf.create_module\<close>, and tests, examples, scripts and small libraries after them.  The scanners of the bindings annotate the declarations of the
  headers and leave a list of callback classes, for which the generator registers handlers and writes classes.  The build (waf with \<open>src/wscript\<close>, whose compiler flags come from
  \<open>cflags.py\<close> and whose rules may be command templates of \<open>command.py\<close>, run by \<open>shellcmd.py\<close>) leaves
  a lock file, a cache of its variables and \<open>build-status.py\<close>.  \<open>test.py\<close> parses its command line, reads these files, sets the
  environment, decides with \<open>examples-to-run.py\<close> which examples of the status file it runs, asks the C++ program test-runner for its suites, makes a job of each suite and example,
  hands the jobs to worker threads over a queue, collects the answers over another, writes
  the results file and translates it into reports.  \<open>wutils.py\<close> runs a program of the
  build tree for the user.  \<open>run-link-characteristics.py\<close> writes traffic profiles and runs a program of the
  build on each; \<open>summarize-link-characteristics.py\<close> finds the reports by the names of profiles and
  files.  \<open>check-style.py\<close> stands alone.

  \<^bold>\<open>Python in HOL\<close> (\<open>Prelude\<close>, \<open>Py_Literal\<close>).  A string is a list of characters; a dictionary is an association
  list in insertion order; an exception is the left summand of \<open>'a result\<close>, with the exceptions of the
  code as the constructors of \<open>py_error\<close>; integers are unbounded; floats are dyadic rationals,
  which is what they are.  The string and path functions of the standard library that the code calls are
  written out.  \<open>eval\<close> and \<open>exec\<close> of configuration lines are \<open>py_eval\<close>, an evaluator for literals, lists, tuples,
  dictionaries and names; what lies outside it is \<open>Unsupported\<close>, never a made-up value.

  \<^bold>\<open>The theories.\<close>
  \<^item> \<open>Prelude\<close>: the above; the interfaces \<open>mapping_store\<close> (dictionaries) and \<open>codec\<close> (a writer and a
    reader), and the simplification rules all theories use.
  \<^item> \<open>Py_Literal\<close>: tokens and displays of literals, \<open>repr\<close>; a printed list is read back.
  \<^item> \<open>Config_Files\<close>: \<open>utils.py\<close>, one definition per reader, the loops over lines as \<open>list_scan\<close> and
    \<open>bool_scan\<close>; \<open>build_status_text\<close> is what \<open>wscript\<close> writes.
  \<^item> \<open>Test_Job\<close>: options, waf variables, the class \<open>Job\<close>, \<open>run_job_synchronously\<close> and one round of
    \<open>worker_thread.run\<close>.  The process is a function \<open>popen\<close> of the command and the environment.
  \<^item> \<open>Machine\<close>: the interface of step relations with an invariant and a decreasing measure
    (\<open>terminating_system\<close>, \<open>progressing_system\<close>).
  \<^item> \<open>Runner_Machine\<close>: \<open>runner_step\<close>, all interleavings of the main thread, any number of workers and
    the interrupt, over the two queues; the invariant accounts for every job (\<open>runner_inv\<close>), the
    measure \<open>runner_fuel\<close> bounds every run, and \<open>order_inv\<close> is the order kept by a single worker.
  \<^item> \<open>Test_Collect\<close>: the loop over the answers, the results file, the summary and the exit status.
  \<^item> \<open>Reports\<close>: \<open>translate_to_text\<close> and \<open>translate_to_html\<close> over the element tree of the results
    file; a reference definition of the text report, and a checker of balanced tags.
  \<^item> \<open>Runner_Config\<close>: \<open>read_waf_config\<close> and \<open>make_paths\<close>.
  \<^item> \<open>Dispatch\<close>: from the command line to the list of jobs: building, examples to run, suites
    to run, selection.
  \<^item> \<open>Shellcmd\<close>: tokens (\<open>shlex.split\<close>), parser and runner of command lines; \<open>pipe_group\<close> and
    \<open>start_all\<close> are the reference for pipes.
  \<^item> \<open>Command_Task\<close>: \<open>command.py\<close>; the pattern of its templates is a scanner into \<open>piece\<close>s, and the
    shape of a command line is what substitution must keep.
  \<^item> \<open>Cflags\<close>: compiler traits, profiles and \<open>configure\<close>.
  \<^item> \<open>Wutils\<close>: finding a program, its environment and its run.
  \<^item> \<open>Check_Style\<close>: the configuration of uncrustify, the parser and printer of diffs, the undoing of
    trailing-blank changes, and the modes of the script.
  \<^item> \<open>Posix_Paths\<close>: absolute paths as lists of components, with the lemmas on joining, splitting and
    normalising that \<open>Wutils\<close> and \<open>Bind_Scan\<close> use.
  \<^item> \<open>Bind_Tables\<close>, \<open>Bind_Scan\<close>: the annotation tables of \<open>genbinds.py\<close> and \<open>ns3modulescan.py\<close>; the hooks that
    annotate one declaration (\<open>scan_hook\<close> is what two of them share), the header paths, the list of
    callback classes and its reader in \<open>ns3modulegen-modular.py\<close>.
  \<^item> \<open>Bind_Gen\<close>: the rest of \<open>ns3modulegen-modular.py\<close>, its \<open>main\<close> as the list of its steps, and
    \<open>ns3modulegen_core_customizations.py\<close>: smart pointers, callback classes and customized classes.
  \<^item> \<open>Waf_Hooks\<close>: \<open>clang_compilation_database.py\<close> and \<open>relocation.py\<close>.
  \<^item> \<open>Link_Run\<close>: \<open>run-link-characteristics.py\<close> from its options to its exit code; \<open>order\<close> is the order in which the
    runs complete.  \<open>Link_Summary\<close>: \<open>summarize-link-characteristics.py\<close> with its two regular expressions as
    matchers, the rounding of \<open>offered_mbps\<close> to doubles, and the two tables.
  \<^item> \<open>Ns3waf_Config\<close>, \<open>Ns3waf_Build\<close>: \<open>ns3waf/__init__.py\<close>; its environment is a dictionary of \<open>evalue\<close>s, a call
    of the build context is a recorded \<open>gen\<close>, and the two rules act on a file system.
  \<^item> \<open>Test_Options\<close>: the table of options in \<open>test.py\<close>, and of the library's parser the part that such a table uses: long
    options with unique abbreviations, clusters of short ones, values attached or not.
  \<^item> \<open>Wscript_Tables\<close>: the lists of sources, tests and examples of \<open>src/wscript\<close>, and what each script directory declares.
    \<open>Wscript_Build\<close>: the function \<open>build\<close> and what it calls, and the commands that run programs and make documents;
    \<open>program_list\<close> is the reference for the programs that it lists.  \<open>Wscript_Total\<close>: from a configured environment
    it ends.  \<open>Wscript_Conf\<close>: the function \<open>configure\<close>.  \<open>Wscript_Whole\<close>: the types of the variables that
    it leaves (\<open>typed\<close>).  \<open>Wscript_Runs\<close>: the machines on which it ends (\<open>machine_ok\<close>), and both functions together.
  \<^item> \<open>Bind_Waf\<close>: \<open>src/bindings/python/wscript\<close>, its configuration and what it adds to the build.
  \<^item> \<open>Build_And_Test\<close>: \<open>examples-to-run.py\<close>, with the status file of the build as \<open>test.py\<close> sees it.
  \<^item> \<open>Misc_Tasks\<close>: \<open>misc.py\<close>; \<open>substituted\<close> is the reference for its substitution.
  \<^item> This theory: \<open>run_tests\<close> and \<open>test_main\<close>, a whole run from the command line to the exit code, and the properties
    that span the dispatcher, the threads and the collection.

  \<^bold>\<open>What the properties show.\<close>  Of the test runner: no answer is lost or invented under any
  interleaving, runs end, the counters and the exit status say what the answers say,
  the selection options let through the jobs they should, the files and reports have the stated
  structure.  Of the readers and writers: round trips.  Of the command lines: the operators and pipes
  do what is stated, and substitution cannot change the syntax.  Of the launcher and the flags:
  the functional behaviour on every branch.  Of the module system: what is found, declared and compiled,
  and that checks run once.  Of the build description: when it can be configured, that a tree that was configured builds, which programs
  its status file lists, which of them \<open>test.py\<close> can run, and that the bindings are never enabled.  Of the command line:
  every spelling of the options is understood, and what is rejected.  Of the experiment scripts: every job has its own profile, the exit code
  says whether all runs succeeded, and the names written by one script are those the other reads.  Of the
  scanners and the generator: agreement on header paths, the module of a declaration, and which callbacks get classes.  Where the code departs from its comments or from its
  evident purpose the property states what the code does (for instance \<open>bindings_never_enabled\<close>, \<open>examples_after_build\<close>, \<open>relative_path_versions\<close> and, beside the numbered properties, \<open>html_report_balanced\<close>,
  \<open>make_paths_pythonpath\<close>, \<open>verbose_operators_fail\<close>, \<open>debug_discards_changes\<close>, \<open>params_used_up\<close>, \<open>later_name_missing\<close>).

  \<^bold>\<open>Parameters.\<close>  Processes (exit code, output, time), the file system, the platform and the environment
  are arguments: \<open>popen\<close>, \<open>fs\<close>, \<open>host\<close>, \<open>os_world\<close>, \<open>bld\<close>, \<open>tools\<close>, \<open>sweep_world\<close>,
  \<open>summary_world\<close>, \<open>conf_world\<close>, \<open>build_world\<close>, \<open>misc_world\<close>, \<open>templates\<close>, \<open>pybindgen\<close>, and for
  the build description \<open>wconf_world\<close>, \<open>py_world\<close> and \<open>script_world\<close>.  The tools that waf loads and its checks are functions of the
  environment in \<open>wconf_world\<close>; the theorems assume of them that they keep the variables of this program and that the
  C compiler sets the pattern of library names (\<open>tools_keep\<close>).  A process may depend on its
  command, its environment and, in pipes, on what was started before; the test runner's theorems
  hold for every step relation over every choice of them, since the processes of a run are
  quantified inside \<open>runner_step\<close>.

  \<^bold>\<open>Bounds.\<close>  No recursion of the model uses fuel: loops follow a list, and the scanners of patterns count the
  characters of a match that are left.  The loop of \<open>get_ns3_relative_path\<close> may not end and is a
  \<open>partial_function (option)\<close>; \<open>relative_path_versions\<close> says when it does.  The threads are a relation, whose runs have at most
  \<open>4 * (jobs + workers) + 1\<close> steps by \<open>runner_completes\<close>.

  \<^bold>\<open>Not modelled.\<close>  The C and C++ of the emulator (\<open>src/model\<close>, \<open>src/helper\<close>, \<open>src/netlink\<close>), its tests and
  examples, and shell scripts: another language.  The XML parser, thread and queue classes
  of Python's library: only what the code uses of them.  The timing of console output between threads, debug
  messages, and the closing of files.  The generated tables of declarations in \<open>src/bindings/python\<close>
  (\<open>modulegen__gcc_*.py\<close>), which are data.  Of \<open>ns3modulescan.py\<close> the function \<open>ns3_module_scan\<close>, which fails in
  Python 3 before it writes anything.  The functions \<open>options\<close> of the \<open>wscript\<close> files, which are tables for the parser of waf; the tasks for scanning the bindings, which no code
  of the repository makes.
  What the libraries pybindgen and waf do with the operations that are recorded here.
\<close>

section \<open>A whole run of the test runner\<close>

text \<open>The script from the command line to the exit code: the preparation, then every interleaving of
  the threads up to the state in which all of them are joined, then the collection of the
  answers over the files \<open>fs'\<close> that the processes left.  A run that returns no value (after
  \<open>--kinds\<close> or \<open>--list\<close>) exits with 0.\<close>

inductive run_tests :: "host \<Rightarrow> fs \<Rightarrow> fs \<Rightarrow> fs \<Rightarrow> options \<Rightarrow> environ \<Rightarrow> int \<Rightarrow> bool"
  for h fs0 fs fs' opts env0 where
  build_failed:
    "run_tests_prepare h fs0 fs opts env0 = Inr (Build_failed rc out) \<Longrightarrow> run_tests h fs0 fs fs' opts env0 rc"
| listed:
    "run_tests_prepare h fs0 fs opts env0 = Inr (Listed out) \<Longrightarrow> run_tests h fs0 fs fs' opts env0 0"
| ran:
    "run_tests_prepare h fs0 fs opts env0 = Inr (Go d) \<Longrightarrow>
     (runner_step opts (d_globals d))\<^sup>*\<^sup>* (runner_init 1 (d_jobs d)) s \<Longrightarrow> runner_final s \<Longrightarrow>
     finish_tests opts (d_globals d) fs' (d_output_dir d) (length (d_jobs d)) (s_collected s) = Inr w \<Longrightarrow>
     run_tests h fs0 fs fs' opts env0 (o_status w)"
| exited:
    "run_tests_prepare h fs0 fs opts env0 = Inl (SystemExit rc) \<Longrightarrow> run_tests h fs0 fs fs' opts env0 rc"

text \<open>\<open>main\<close>: a command line that is wrong or asks for help ends the script at once.\<close>

inductive test_main :: "host \<Rightarrow> fs \<Rightarrow> fs \<Rightarrow> fs \<Rightarrow> string list \<Rightarrow> environ \<Rightarrow> int \<Rightarrow> bool"
  for h fs0 fs fs' argv env0 where
  usage:
    "parse_test_options argv = Inl (SystemExit rc) \<Longrightarrow> test_main h fs0 fs fs' argv env0 rc"
| parsed:
    "parse_test_options argv = Inr opts \<Longrightarrow> run_tests h fs0 fs fs' opts env0 rc \<Longrightarrow> test_main h fs0 fs fs' argv env0 rc"

inductive_cases run_testsE: "run_tests h fs0 fs fs' opts env0 rc"

lemma prepare_not_break:
  assumes "run_tests_prepare h fs0 fs opts env0 = Inr (Go d)"
  shows "list_all (\<lambda>j. \<not> is_break j) (d_jobs d)"
  using prepare_jobs [OF assms] by (simp add: list_all_iff fresh_job_def)

text \<open>The temporary results files that the test suites promise to write.\<close>

definition results_written :: "fs \<Rightarrow> dispatched \<Rightarrow> bool" where
  "results_written fs' d \<longleftrightarrow>
     list_all (\<lambda>j. is_example j \<or> is_pyexample j \<or>
       (\<exists>x. read_file fs' (path_join (d_output_dir d) (tmp_file_name j)) = Inr x)) (d_jobs d)"

lemma job_key_fields:
  "job_key j = job_key j' \<Longrightarrow> is_example j = is_example j' \<and> is_pyexample j = is_pyexample j' \<and>
     tmp_file_name j = tmp_file_name j'"
  by (simp add: job_key_def)

lemma collected_xml:
  assumes "results_written fs' d" "map job_key js = map job_key (d_jobs d)" "j \<in> set js"
  shows "\<exists>x. job_xml fs' (d_output_dir d) j = Inr x"
proof -
  from assms(2,3) have "job_key j \<in> job_key ` set (d_jobs d)" by (metis image_eqI set_map)
  then obtain j0 where "j0 \<in> set (d_jobs d)" "job_key j = job_key j0" by auto
  with assms(1) job_key_fields [of j j0] show ?thesis
    by (auto simp: results_written_def list_all_iff job_xml_def is_any_example_def suite_xml_def)
qed

definition sample_dispatched :: dispatched where
  "sample_dispatched = (case run_tests_prepare (sample_host ''linux'') sample_tree sample_tree sample_run_options [] of
     Inr (Go d) \<Rightarrow> d | _ \<Rightarrow> undefined)"

lemma sample_dispatched_Go:
  "run_tests_prepare (sample_host ''linux'') sample_tree sample_tree sample_run_options [] = Inr (Go sample_dispatched)"
  using sample_prepare by (auto simp: sample_go_def sample_dispatched_def split: sum.splits prepared.splits)

definition sample_launchable :: bool where
  "sample_launchable = (case run_tests_prepare (sample_host ''linux'') sample_tree sample_tree sample_run_options [] of
     Inr (Go d) \<Rightarrow> list_all (launchable (d_globals d)) (d_jobs d) \<and> list_all is_pyexample (d_jobs d) | _ \<Rightarrow> False)"

lemma sample_launchable_holds: "sample_launchable"
  by code_simp

text \<open>A whole run always ends with an exit code.  When the preparation dispatched jobs that can be
  launched and the test suites wrote their results files, the threads have a run to the end and
  the collection over it succeeds.\<close>

lemma run_tests_returns:
  assumes "run_tests_prepare h fs0 fs opts env0 = Inr (Go d)"
    and "list_all (launchable (d_globals d)) (d_jobs d)" and "results_written fs' d"
  shows "\<exists>rc \<in> {0, 1}. run_tests h fs0 fs fs' opts env0 rc"
proof -
  note nb = prepare_not_break [OF assms(1)]
  obtain s where s: "(runner_step opts (d_globals d))\<^sup>*\<^sup>* (runner_init 1 (d_jobs d)) s" "runner_final s"
    using qm.reaches_final [OF runner_ok_init [OF nb assms(2) zero_less_one]] quiet_run_run by blast
  have keys: "map job_key (s_collected s) = map job_key (d_jobs d)"
    using single_worker_sequence [OF nb assms(2) s(1)] s(2) by blast
  obtain w where w: "finish_tests opts (d_globals d) fs' (d_output_dir d) (length (d_jobs d)) (s_collected s) = Inr w"
    using finish_total collected_xml [OF assms(3) keys] by metis
  have "o_status w \<in> {0, 1}" using finish_tests_outcome(4) [OF w] by simp
  then show ?thesis using run_tests.ran [OF assms(1) s w] by blast
qed

section \<open>Properties across components\<close>

text \<open>C7: the exit code of a whole run.  Whatever the processes and the scheduler did, once the
  threads are joined the collected answers are the dispatched jobs in order, and the script exits
  with 0 exactly when each of them was skipped or returned 0 and none was given up on an
  interrupt; without an interrupt the five counters account for every dispatched job.\<close>

theorem run_exit_status:
  assumes "run_tests_prepare h fs0 fs opts env0 = Inr (Go d)"
    and "list_all (launchable (d_globals d)) (d_jobs d)"
    and "(runner_step opts (d_globals d))\<^sup>*\<^sup>* (runner_init 1 (d_jobs d)) s" "runner_final s"
    and "finish_tests opts (d_globals d) fs' (d_output_dir d) (length (d_jobs d)) (s_collected s) = Inr w"
  shows "map job_key (s_collected s) = map job_key (d_jobs d) \<and>
    (o_status w = 0 \<longleftrightarrow> (\<forall>j \<in> set (s_collected s). \<not> is_break j \<and> (is_skip j \<or> returncode j = 0))) \<and>
    (\<not> s_thread_exit s \<longrightarrow>
       t_passed (o_tally w) + t_failed (o_tally w) + t_crashed (o_tally w) + t_valgrind (o_tally w) +
       t_skipped (o_tally w) = length (d_jobs d))"
proof -
  note nb = prepare_not_break [OF assms(1)]
  have keys: "map job_key (s_collected s) = map job_key (d_jobs d)"
    using single_worker_sequence [OF nb assms(2,3)] assms(4) by blast
  then have len: "length (s_collected s) = length (d_jobs d)" using map_eq_imp_length_eq by blast
  have st: "o_status w = 0 \<longleftrightarrow> (\<forall>j \<in> set (s_collected s). \<not> is_break j \<and> (is_skip j \<or> returncode j = 0))"
    using finish_status assms(5) len by metis
  have "tally_matches (s_collected s) (o_tally w)"
    using collect_jobs_matches finish_tests_outcome(1) [OF assms(5)] by blast
  moreover have "real_answers (s_collected s) = s_collected s" if "\<not> s_thread_exit s"
    using collected_answers [OF nb assms(2) zero_less_one assms(3,4)] that
    by (auto simp: real_answers_def filter_id_conv)
  ultimately show ?thesis
    using keys st len count_status_sum [of "s_collected s"] by (auto simp: tally_matches_def)
qed

theorem run_exit_status_witness:
  "\<exists>s w. runner_final s \<and>
     finish_tests sample_run_options (d_globals sample_dispatched) no_files (d_output_dir sample_dispatched)
       (length (d_jobs sample_dispatched)) (s_collected s) = Inr w \<and>
     map job_key (s_collected s) = map job_key (d_jobs sample_dispatched)"
proof -
  let ?d = "sample_dispatched"
  note go = sample_dispatched_Go
  have l: "list_all (launchable (d_globals ?d)) (d_jobs ?d)" and ex: "list_all is_pyexample (d_jobs ?d)"
    using sample_launchable_holds go by (simp_all add: sample_launchable_def)
  obtain s where s: "(runner_step sample_run_options (d_globals ?d))\<^sup>*\<^sup>* (runner_init 1 (d_jobs ?d)) s" "runner_final s"
    using qm.reaches_final [OF runner_ok_init [OF prepare_not_break [OF go] l zero_less_one]] quiet_run_run by blast
  have keys: "map job_key (s_collected s) = map job_key (d_jobs ?d)"
    using single_worker_sequence [OF prepare_not_break [OF go] l s(1)] s(2) by blast
  have "results_written no_files ?d" using ex by (simp add: results_written_def list_all_iff)
  then obtain w where w: "finish_tests sample_run_options (d_globals ?d) no_files (d_output_dir ?d)
      (length (d_jobs ?d)) (s_collected s) = Inr w"
    using finish_total collected_xml keys by metis
  show ?thesis using run_exit_status [OF go l s w] s w by blast
qed



end
